(* ===== verification/Prelude.thy ===== *)
theory Prelude
  imports Main "HOL-Library.Word" "HOL-Library.FSet" "HOL-Library.Finite_Map"
begin

unbundle bit_operations_syntax

section \<open>Shared vocabulary of the development\<close>

text \<open>
  What every component of the model uses: Rust's \<open>Result\<close> with an explicit value for a
  panic, bytes and big-endian integers, decimal rendering, the operations of
  \<open>std::collections::HashMap\<close> and \<open>HashSet\<close> on finite maps and finite sets, instants and
  durations in nanoseconds, and the generic lemmas and fact collections about them.
\<close>

named_theorems result_simps \<open>evaluation and inversion of results\<close>
named_theorems hash_simps \<open>lookups, sizes and key lists of hash maps\<close>

subsection \<open>Results, errors and panics\<close>

text \<open>
  \<open>Ok\<close> and \<open>Err\<close> are Rust's constructors. \<open>Panic\<close> is the outcome of a failed
  \<open>expect\<close>: no value is produced.
\<close>

datatype ('a, 'e) result = Ok 'a | Err 'e | Panic

text \<open>The \<open>?\<close> operator on a pure result, and on one whose state has been threaded through.\<close>

fun and_then :: "('a, 'e) result \<Rightarrow> ('a \<Rightarrow> ('b, 'e) result) \<Rightarrow> ('b, 'e) result" where
  "and_then (Ok x) f = f x"
| "and_then (Err e) f = Err e"
| "and_then Panic f = Panic"

fun try_st :: "('a, 'e) result \<times> 's \<Rightarrow> ('a \<Rightarrow> 's \<Rightarrow> ('b, 'e) result \<times> 's) \<Rightarrow> ('b, 'e) result \<times> 's" where
  "try_st (Ok x, s) f = f x s"
| "try_st (Err e, s) f = (Err e, s)"
| "try_st (Panic, s) f = (Panic, s)"

fun map_err :: "('e \<Rightarrow> 'd) \<Rightarrow> ('a, 'e) result \<Rightarrow> ('a, 'd) result" where
  "map_err g (Ok x) = Ok x"
| "map_err g (Err e) = Err (g e)"
| "map_err g Panic = Panic"

text \<open>\<open>Option::ok_or\<close>.\<close>

definition ok_or :: "'e \<Rightarrow> 'a option \<Rightarrow> ('a, 'e) result" where
  "ok_or e v = (case v of None \<Rightarrow> Err e | Some x \<Rightarrow> Ok x)"

lemma ok_or_simps [simp, result_simps]:
  "ok_or e (Some x) = Ok x"
  "ok_or e None = Err e"
  by (simp_all add: ok_or_def)

lemma ok_or_Ok_iff [simp, result_simps]: "ok_or e v = Ok x \<longleftrightarrow> v = Some x"
  by (cases v) simp_all

lemma ok_or_not_Panic [simp, result_simps]: "ok_or e v \<noteq> Panic"
  by (cases v) simp_all

lemma and_then_Ok_iff [result_simps]:
  "and_then m f = Ok y \<longleftrightarrow> (\<exists>x. m = Ok x \<and> f x = Ok y)"
  by (cases m) simp_all

lemma and_then_Err_iff [result_simps]:
  "and_then m f = Err e \<longleftrightarrow> m = Err e \<or> (\<exists>x. m = Ok x \<and> f x = Err e)"
  by (cases m) simp_all

lemma and_then_Panic_iff [result_simps]:
  "and_then m f = Panic \<longleftrightarrow> m = Panic \<or> (\<exists>x. m = Ok x \<and> f x = Panic)"
  by (cases m) simp_all

lemma and_then_not_Panic:
  "m \<noteq> Panic \<Longrightarrow> (\<And>x. f x \<noteq> Panic) \<Longrightarrow> and_then m f \<noteq> Panic"
  by (cases m) simp_all

lemma map_err_Ok_iff [simp, result_simps]: "map_err g m = Ok x \<longleftrightarrow> m = Ok x"
  by (cases m) simp_all

lemma map_err_Panic_iff [simp, result_simps]: "map_err g m = Panic \<longleftrightarrow> m = Panic"
  by (cases m) simp_all

text \<open>A state predicate that both halves of a \<open>?\<close> keep is kept by the whole.\<close>

lemma try_st_snd:
  assumes "P (snd p)"
    and "\<And>x. fst p = Ok x \<Longrightarrow> P (snd (f x (snd p)))"
  shows "P (snd (try_st p f))"
  using assms by (cases p; cases "fst p") auto

lemma try_st_not_Panic:
  assumes "fst p \<noteq> Panic"
    and "\<And>x. fst p = Ok x \<Longrightarrow> fst (f x (snd p)) \<noteq> Panic"
  shows "fst (try_st p f) \<noteq> Panic"
  using assms by (cases p; cases "fst p") auto

lemma try_st_Err_iff: "fst (try_st p f) = Err e \<longleftrightarrow> fst p = Err e \<or> (\<exists>x. fst p = Ok x \<and> fst (f x (snd p)) = Err e)"
  by (cases p; cases "fst p") auto

lemma try_st_Panic_iff: "fst (try_st p f) = Panic \<longleftrightarrow> fst p = Panic \<or> (\<exists>x. fst p = Ok x \<and> fst (f x (snd p)) = Panic)"
  by (cases p; cases "fst p") auto

subsection \<open>Bytes and big-endian integers\<close>

type_synonym byte = "8 word"
type_synonym u16 = "16 word"
type_synonym u32 = "32 word"
type_synonym u64 = "64 word"

text \<open>
  \<open>be_bytes n x\<close> is \<open>to_be_bytes\<close> of an \<open>n\<close>-byte unsigned integer with value \<open>x\<close>, and
  \<open>be_val\<close> is the value \<open>from_be_bytes\<close> reads.
\<close>

primrec be_bytes :: "nat \<Rightarrow> nat \<Rightarrow> byte list" where
  "be_bytes 0 x = []"
| "be_bytes (Suc n) x = be_bytes n (x div 256) @ [word_of_nat (x mod 256)]"

definition be_val :: "byte list \<Rightarrow> nat" where
  "be_val bs = foldl (\<lambda>acc b. acc * 256 + unat b) 0 bs"

lemma be_val_Nil [simp]: "be_val [] = 0"
  by (simp add: be_val_def)

lemma be_val_snoc [simp]: "be_val (bs @ [b]) = be_val bs * 256 + unat b"
  by (simp add: be_val_def)

lemma length_be_bytes [simp]: "length (be_bytes n x) = n"
  by (induction n arbitrary: x) simp_all

lemma unat_byte_less: "unat (b :: byte) < 256"
  using unsigned_less [of b] by simp

lemma unat_byte_of_nat [simp]: "unat (word_of_nat (x mod 256) :: byte) = x mod 256"
  by (simp add: unat_of_nat)

lemma byte_of_nat_unat_add [simp]: "(word_of_nat ((k * 256 + unat b) mod 256) :: byte) = b"
  using unat_byte_less [of b] by simp

lemma be_val_be_bytes: "be_val (be_bytes n x) = x mod 256 ^ n"
proof (induction n arbitrary: x)
  case 0
  then show ?case by simp
next
  case (Suc n)
  have "be_val (be_bytes (Suc n) x) = (x div 256) mod 256 ^ n * 256 + x mod 256"
    by (simp add: Suc.IH)
  also have "\<dots> = x mod (256 * 256 ^ n)"
    by (simp add: mod_mult2_eq)
  finally show ?case by simp
qed

lemma be_val_less: "be_val bs < 256 ^ length bs"
proof (induction bs rule: rev_induct)
  case Nil
  then show ?case by simp
next
  case (snoc b bs)
  then have "be_val bs * 256 + 256 \<le> 256 ^ length bs * 256"
    by (metis add.commute mult.commute mult_Suc_right mult_le_mono2 Suc_leI)
  then show ?case using unat_byte_less [of b] by simp
qed

lemma be_bytes_be_val: "be_bytes (length bs) (be_val bs) = bs"
proof (induction bs rule: rev_induct)
  case Nil
  then show ?case by simp
next
  case (snoc b bs)
  have "(be_val bs * 256 + unat b) div 256 = be_val bs"
    using unat_byte_less [of b] by simp
  with snoc show ?case by simp
qed

text \<open>The same on words: reading back what was written, and writing back what was read.\<close>

definition word_to_be :: "nat \<Rightarrow> 'w::len word \<Rightarrow> byte list" where
  "word_to_be n w = be_bytes n (unat w)"

definition word_from_be :: "byte list \<Rightarrow> 'w::len word" where
  "word_from_be bs = word_of_nat (be_val bs)"

lemma length_word_to_be [simp]: "length (word_to_be n w) = n"
  by (simp add: word_to_be_def)

lemma pow_256: "(256::nat) ^ n = 2 ^ (8 * n)"
  by (simp add: power_mult)

lemma word_from_to_be:
  assumes "LENGTH('w) = 8 * n"
  shows "(word_from_be (word_to_be n w) :: 'w::len word) = w"
proof -
  have "unat w < 256 ^ n"
    using unsigned_less [of w] by (simp add: assms pow_256)
  then show ?thesis
    by (simp add: word_from_be_def word_to_be_def be_val_be_bytes)
qed

lemma word_to_from_be:
  assumes "LENGTH('w) = 8 * length bs"
  shows "word_to_be (length bs) (word_from_be bs :: 'w::len word) = bs"
proof -
  have "unat (word_of_nat (be_val bs) :: 'w word) = be_val bs"
    using be_val_less [of bs] by (simp add: unat_of_nat assms pow_256)
  then show ?thesis
    by (simp add: word_from_be_def word_to_be_def be_bytes_be_val)
qed

text \<open>The widths in use, unrolled, so that closed byte strings evaluate.\<close>

lemma be_bytes_add: "be_bytes (m + n) x = be_bytes m (x div 256 ^ n) @ be_bytes n x"
  by (induction n arbitrary: x) (simp_all add: div_mult2_eq)

lemma be_bytes_2: "be_bytes 2 x = [word_of_nat (x div 256 mod 256), word_of_nat (x mod 256)]"
  by (simp add: numeral_2_eq_2)

lemma be_bytes_doubling:
  "be_bytes 4 x = be_bytes 2 (x div 65536) @ be_bytes 2 x"
  "be_bytes 8 x = be_bytes 4 (x div 4294967296) @ be_bytes 4 x"
  "be_bytes 16 x = be_bytes 8 (x div 18446744073709551616) @ be_bytes 8 x"
  using be_bytes_add [of 2 2 x] be_bytes_add [of 4 4 x] be_bytes_add [of 8 8 x]
  by simp_all

lemmas be_bytes_widths = be_bytes_2 be_bytes_doubling

text \<open>\<open>u64::saturating_add\<close>.\<close>

definition saturating_add :: "'w::len word \<Rightarrow> 'w word \<Rightarrow> 'w word" where
  "saturating_add a b = (if unat a + unat b < 2 ^ LENGTH('w) then a + b else - 1)"

lemma unat_saturating_add:
  "unat (saturating_add a b :: 'w::len word) = min (unat a + unat b) (2 ^ LENGTH('w) - 1)"
proof (cases "unat a + unat b < 2 ^ LENGTH('w)")
  case True
  then show ?thesis by (simp add: saturating_add_def unat_word_ariths)
next
  case False
  then show ?thesis by (simp add: saturating_add_def unsigned_minus_1_eq_mask mask_eq_exp_minus_1)
qed

subsection \<open>Decimal rendering\<close>

text \<open>\<open>Display\<close> of an unsigned integer: the decimal digits, most significant first.\<close>

fun dec_str :: "nat \<Rightarrow> string" where
  "dec_str n = (if n < 10 then [char_of (48 + n)] else dec_str (n div 10) @ [char_of (48 + n mod 10)])"

declare dec_str.simps [simp del]

subsection \<open>Hash maps and hash sets\<close>

text \<open>
  A \<open>HashMap<K, V>\<close> is a finite map: two maps are equal exactly when they hold the same
  entries, and nothing depends on the bucket order. A \<open>HashSet<T>\<close> is a finite set. Where
  the code iterates over a map or a set into a \<open>Vec\<close>, Rust leaves the order unspecified;
  the model takes ascending key order, and no property speaks of more than the elements of
  such a list and their being distinct.
\<close>

type_synonym ('k, 'v) hash_map = "('k, 'v) fmap"

abbreviation hget :: "('k, 'v) hash_map \<Rightarrow> 'k \<Rightarrow> 'v option" where
  "hget m k \<equiv> fmlookup m k"

abbreviation hinsert :: "'k \<Rightarrow> 'v \<Rightarrow> ('k, 'v) hash_map \<Rightarrow> ('k, 'v) hash_map" where
  "hinsert k v m \<equiv> fmupd k v m"

abbreviation hremove :: "'k \<Rightarrow> ('k, 'v) hash_map \<Rightarrow> ('k, 'v) hash_map" where
  "hremove k m \<equiv> fmdrop k m"

definition hcontains :: "'k \<Rightarrow> ('k, 'v) hash_map \<Rightarrow> bool" where
  "hcontains k m = (case hget m k of None \<Rightarrow> False | Some _ \<Rightarrow> True)"

definition hlen :: "('k, 'v) hash_map \<Rightarrow> nat" where
  "hlen m = fcard (fmdom m)"

text \<open>\<open>HashMap::retain\<close>.\<close>

definition hretain :: "('k \<Rightarrow> 'v \<Rightarrow> bool) \<Rightarrow> ('k, 'v) hash_map \<Rightarrow> ('k, 'v) hash_map" where
  "hretain P m = fmfilter (\<lambda>k. case hget m k of None \<Rightarrow> False | Some v \<Rightarrow> P k v) m"

text \<open>\<open>map.iter().filter_map(|(k, v)| P(k, v).then_some(k)).collect()\<close>.\<close>

definition hkeys_where :: "('k::linorder \<Rightarrow> 'v \<Rightarrow> bool) \<Rightarrow> ('k, 'v) hash_map \<Rightarrow> 'k list" where
  "hkeys_where P m = sorted_list_of_fset (fmdom (hretain P m))"

lemma hcontains_iff [simp, hash_simps]: "hcontains k m \<longleftrightarrow> hget m k \<noteq> None"
  by (simp add: hcontains_def split: option.splits)

lemma hlen_empty [simp, hash_simps]: "hlen fmempty = 0"
  by (simp add: hlen_def)

lemma hlen_insert [hash_simps]:
  "hlen (hinsert k v m) = (if hget m k = None then Suc (hlen m) else hlen m)"
  by (auto simp: hlen_def fcard_finsert_if fmlookup_dom_iff)

lemma fmdom_lookup_iff: "k |\<in>| fmdom m \<longleftrightarrow> hget m k \<noteq> None"
  by (simp add: fmlookup_dom_iff)

lemma hlen_remove [hash_simps]:
  "hlen (hremove k m) = (if hget m k = None then hlen m else hlen m - 1)"
  by (auto simp: hlen_def fcard.rep_eq fmdom_lookup_iff card_Diff_singleton_if)

lemma hlen_remove_le: "hlen (hremove k m) \<le> hlen m"
  by (simp add: hlen_remove)

lemma hget_retain [simp, hash_simps]:
  "hget (hretain P m) k = (case hget m k of None \<Rightarrow> None | Some v \<Rightarrow> if P k v then Some v else None)"
  by (simp add: hretain_def split: option.splits)

lemma hget_retain_iff: "hget (hretain P m) k = Some v \<longleftrightarrow> hget m k = Some v \<and> P k v"
  by (cases "hget m k") auto

lemma hlen_retain_le: "hlen (hretain P m) \<le> hlen m"
proof -
  have "fmdom (hretain P m) |\<subseteq>| fmdom m"
    by (auto simp: fmdom_lookup_iff split: option.splits if_splits)
  then show ?thesis
    by (simp add: hlen_def fcard_mono)
qed

lemma hretain_empty [simp, hash_simps]: "hretain P fmempty = fmempty"
  by (simp add: hretain_def)

lemma hretain_insert [hash_simps]:
  "hretain P (hinsert k v m) = (if P k v then hinsert k v (hretain P m) else hremove k (hretain P m))"
  by (rule fmap_ext) auto

lemma hretain_remove [hash_simps]: "hretain P (hremove k m) = hremove k (hretain P m)"
  by (rule fmap_ext) (auto split: option.splits)

lemma hretain_retain: "hretain P (hretain Q m) = hretain (\<lambda>k v. P k v \<and> Q k v) m"
  by (rule fmap_ext) (auto split: option.splits)

lemma set_hkeys_where [simp, hash_simps]:
  "set (hkeys_where P m) = {k. \<exists>v. hget m k = Some v \<and> P k v}"
  by (auto simp: hkeys_where_def fmdom_lookup_iff split: option.splits if_splits)

lemma distinct_hkeys_where [simp]: "distinct (hkeys_where P m)"
  by (simp add: hkeys_where_def sorted_list_of_fset.rep_eq)

lemma length_hkeys_where: "length (hkeys_where P m) = hlen (hretain P m)"
  by (simp add: hkeys_where_def hlen_def fcard.rep_eq sorted_list_of_fset.rep_eq)

lemma sorted_list_of_fset_empty [simp, hash_simps]: "sorted_list_of_fset {||} = []"
  by (simp add: sorted_list_of_fset.rep_eq)

lemma sorted_list_of_fset_insert [hash_simps]:
  "sorted_list_of_fset (finsert x A) = insort x (sorted_list_of_fset (A |-| {|x|}))"
  by (simp add: sorted_list_of_fset.rep_eq sorted_list_of_set_insert_remove)

lemma distinct_sorted_list_of_fset [simp]: "distinct (sorted_list_of_fset A)"
  by (simp add: sorted_list_of_fset.rep_eq)

lemma fmap_eqI: "(\<And>k. hget m k = hget n k) \<Longrightarrow> m = n"
  by (rule fmap_ext)

lemma hlen_eq_0 [simp]: "hlen m = 0 \<longleftrightarrow> m = fmempty"
proof
  assume "hlen m = 0"
  then have "fmdom m = {||}"
    by (simp add: hlen_def)
  then show "m = fmempty"
    by (intro fmap_eqI) (metis fempty_iff fmdom_notD fmempty_lookup)
qed simp

text \<open>Removing a list of keys one by one is dropping the set of them.\<close>

lemma hget_fold_remove:
  "hget (fold hremove ks m) k = (if k \<in> set ks then None else hget m k)"
  by (induction ks arbitrary: m) auto

lemma fold_remove_keys_where:
  "fold hremove (hkeys_where P m) m = hretain (\<lambda>k v. \<not> P k v) m"
  by (rule fmap_eqI) (auto simp: hget_fold_remove split: option.splits)

subsection \<open>Instants and durations\<close>

text \<open>
  \<open>Instant\<close> and \<open>Duration\<close> are counts of nanoseconds, an instant from an arbitrary
  origin. Subtraction on naturals stops at zero, as \<open>Instant::duration_since\<close> does.
\<close>

type_synonym instant = nat
type_synonym duration = nat

definition from_secs :: "nat \<Rightarrow> duration" where
  "from_secs n = n * 1000000000"

definition from_millis :: "nat \<Rightarrow> duration" where
  "from_millis n = n * 1000000"

definition duration_since :: "instant \<Rightarrow> instant \<Rightarrow> duration" where
  "duration_since now earlier = now - earlier"

subsection \<open>Runs of a step relation\<close>

text \<open>
  The components are event systems: a step relation \<open>step s e s'\<close> says that event \<open>e\<close> takes
  state \<open>s\<close> to \<open>s'\<close>. \<open>run step s es s'\<close> is a finite sequence of steps, and a component
  that shows each step to keep a predicate gets it for every run.
\<close>

inductive run :: "('s \<Rightarrow> 'e \<Rightarrow> 's \<Rightarrow> bool) \<Rightarrow> 's \<Rightarrow> 'e list \<Rightarrow> 's \<Rightarrow> bool" for step where
  run_Nil: "run step s [] s"
| run_Cons: "step s e s' \<Longrightarrow> run step s' es s'' \<Longrightarrow> run step s (e # es) s''"

inductive_simps run_Nil_iff [simp]: "run step s [] s'"
inductive_simps run_Cons_iff [simp]: "run step s (e # es) s'"

lemma run_append: "run step s (es @ fs) s'' \<longleftrightarrow> (\<exists>s'. run step s es s' \<and> run step s' fs s'')"
  by (induction es arbitrary: s) auto

locale step_invariant =
  fixes step :: "'s \<Rightarrow> 'e \<Rightarrow> 's \<Rightarrow> bool"
    and inv :: "'s \<Rightarrow> bool"
  assumes step_keeps: "step s e s' \<Longrightarrow> inv s \<Longrightarrow> inv s'"
begin

lemma run_keeps: "run step s es s' \<Longrightarrow> inv s \<Longrightarrow> inv s'"
  by (induction rule: run.induct) (auto intro: step_keeps)

text \<open>What holds of the first state holds of every state on the way.\<close>

lemma run_prefix_keeps: "run step s (es @ fs) s'' \<Longrightarrow> inv s \<Longrightarrow> \<exists>s'. run step s es s' \<and> inv s'"
  using run_keeps run_append by metis

end

text \<open>A machine that does, step by step, what an abstract one allows, as long as its own invariant holds.\<close>

locale simulation = step_invariant step inv
  for step :: "'s \<Rightarrow> 'e \<Rightarrow> 's \<Rightarrow> bool" and inv :: "'s \<Rightarrow> bool" +
  fixes abstract_step :: "'a \<Rightarrow> 'f \<Rightarrow> 'a \<Rightarrow> bool"
    and abstraction :: "'s \<Rightarrow> 'a"
    and corresponds :: "'e \<Rightarrow> 'f \<Rightarrow> bool"
  assumes step_simulated: "step s e s' \<Longrightarrow> inv s \<Longrightarrow> \<exists>f. corresponds e f \<and> abstract_step (abstraction s) f (abstraction s')"
begin

lemma run_simulated:
  assumes "run step s es s'" "inv s"
  shows "\<exists>fs. list_all2 corresponds es fs \<and> run abstract_step (abstraction s) fs (abstraction s')"
  using assms
proof (induction rule: run.induct)
  case (run_Cons s e s' es s'')
  from run_Cons.IH [OF step_keeps [OF run_Cons.hyps(1) run_Cons.prems]] step_simulated [OF run_Cons.hyps(1) run_Cons.prems]
  obtain f fs where "corresponds e f" "abstract_step (abstraction s) f (abstraction s')"
    "list_all2 corresponds es fs" "run abstract_step (abstraction s') fs (abstraction s'')" by blast
  then show ?case by (intro exI [of _ "f # fs"]) auto
qed simp

end

end
