(* ===== verification/Protocol.thy ===== *)
theory Protocol
  imports Prelude
begin

section \<open>Identifiers, room codes and Civ VI ports\<close>

text \<open>
  Models \<open>crates/protocol/src/lib.rs\<close>: the UUID newtypes, the room code with its parser and
  generator, the virtual address, and the UDP ports the bridge accepts. The lemmas give the
  parser's exact language, its normal form, and that a generated code is one the parser
  accepts. \<open>Uuid\<close> is the external crate's 128-bit value; a fresh \<open>Uuid::new_v4()\<close> is an
  argument of the operation that draws it.
\<close>

subsection \<open>Constants and ports\<close>

definition DISCOVERY_PORT_START :: u16 where "DISCOVERY_PORT_START = 62900"
definition DISCOVERY_PORT_END :: u16 where "DISCOVERY_PORT_END = 62999"
definition GAMEPLAY_PORT :: u16 where "GAMEPLAY_PORT = 62056"
definition MAX_CIV6_DATAGRAM_SIZE :: nat where "MAX_CIV6_DATAGRAM_SIZE = 4 * 1024"

definition is_discovery_port :: "u16 \<Rightarrow> bool" where
  "is_discovery_port port \<longleftrightarrow> DISCOVERY_PORT_START \<le> port \<and> port \<le> DISCOVERY_PORT_END"

definition is_civ6_port :: "u16 \<Rightarrow> bool" where
  "is_civ6_port port \<longleftrightarrow> is_discovery_port port \<or> port = GAMEPLAY_PORT"

datatype udp_port = Civ6UdpPort (port_num: u16)

datatype invalid_civ6_port = InvalidCiv6Port u16

definition validate_port :: "udp_port \<Rightarrow> (udp_port, invalid_civ6_port) result" where
  "validate_port p = (if is_civ6_port (port_num p) then Ok p else Err (InvalidCiv6Port (port_num p)))"

subsection \<open>UUID newtypes\<close>

type_synonym uuid = "128 word"

text \<open>A UUID's sixteen bytes, most significant first.\<close>

definition uuid_bytes :: "uuid \<Rightarrow> byte list" where
  "uuid_bytes u = word_to_be 16 u"

definition uuid_from_bytes :: "byte list \<Rightarrow> uuid" where
  "uuid_from_bytes bs = word_from_be bs"

datatype room_id = RoomId (room_uuid: uuid)
datatype peer_id = PeerId (peer_uuid: uuid)
datatype host_session_id = HostSessionId (host_uuid: uuid)
datatype discovery_request_id = DiscoveryRequestId (discovery_uuid: uuid)
datatype gameplay_session_id = GameplaySessionId (gameplay_uuid: uuid)

text \<open>The derived \<open>Ord\<close> of each newtype: the order of the wrapped value.\<close>

instantiation room_id :: linorder
begin
definition less_eq_room_id :: "room_id \<Rightarrow> room_id \<Rightarrow> bool" where
  "less_eq_room_id a b \<longleftrightarrow> room_uuid a \<le> room_uuid b"
definition less_room_id :: "room_id \<Rightarrow> room_id \<Rightarrow> bool" where
  "less_room_id a b \<longleftrightarrow> room_uuid a < room_uuid b"
instance
  by standard (auto simp: less_eq_room_id_def less_room_id_def room_id.expand)
end

instantiation peer_id :: linorder
begin
definition less_eq_peer_id :: "peer_id \<Rightarrow> peer_id \<Rightarrow> bool" where
  "less_eq_peer_id a b \<longleftrightarrow> peer_uuid a \<le> peer_uuid b"
definition less_peer_id :: "peer_id \<Rightarrow> peer_id \<Rightarrow> bool" where
  "less_peer_id a b \<longleftrightarrow> peer_uuid a < peer_uuid b"
instance
  by standard (auto simp: less_eq_peer_id_def less_peer_id_def peer_id.expand)
end

instantiation host_session_id :: linorder
begin
definition less_eq_host_session_id :: "host_session_id \<Rightarrow> host_session_id \<Rightarrow> bool" where
  "less_eq_host_session_id a b \<longleftrightarrow> host_uuid a \<le> host_uuid b"
definition less_host_session_id :: "host_session_id \<Rightarrow> host_session_id \<Rightarrow> bool" where
  "less_host_session_id a b \<longleftrightarrow> host_uuid a < host_uuid b"
instance
  by standard (auto simp: less_eq_host_session_id_def less_host_session_id_def host_session_id.expand)
end

instantiation discovery_request_id :: linorder
begin
definition less_eq_discovery_request_id :: "discovery_request_id \<Rightarrow> discovery_request_id \<Rightarrow> bool" where
  "less_eq_discovery_request_id a b \<longleftrightarrow> discovery_uuid a \<le> discovery_uuid b"
definition less_discovery_request_id :: "discovery_request_id \<Rightarrow> discovery_request_id \<Rightarrow> bool" where
  "less_discovery_request_id a b \<longleftrightarrow> discovery_uuid a < discovery_uuid b"
instance
  by standard
    (auto simp: less_eq_discovery_request_id_def less_discovery_request_id_def discovery_request_id.expand)
end

instantiation gameplay_session_id :: linorder
begin
definition less_eq_gameplay_session_id :: "gameplay_session_id \<Rightarrow> gameplay_session_id \<Rightarrow> bool" where
  "less_eq_gameplay_session_id a b \<longleftrightarrow> gameplay_uuid a \<le> gameplay_uuid b"
definition less_gameplay_session_id :: "gameplay_session_id \<Rightarrow> gameplay_session_id \<Rightarrow> bool" where
  "less_gameplay_session_id a b \<longleftrightarrow> gameplay_uuid a < gameplay_uuid b"
instance
  by standard
    (auto simp: less_eq_gameplay_session_id_def less_gameplay_session_id_def gameplay_session_id.expand)
end

lemmas id_order_defs =
  less_eq_room_id_def less_room_id_def less_eq_peer_id_def less_peer_id_def
  less_eq_host_session_id_def less_host_session_id_def
  less_eq_discovery_request_id_def less_discovery_request_id_def
  less_eq_gameplay_session_id_def less_gameplay_session_id_def

subsection \<open>Virtual addresses\<close>

text \<open>\<open>Ipv4Addr\<close> is its 32-bit value, the first octet most significant.\<close>

type_synonym ipv4 = u32

definition ipv4_new :: "byte \<Rightarrow> byte \<Rightarrow> byte \<Rightarrow> byte \<Rightarrow> ipv4" where
  "ipv4_new a b c d = word_from_be [a, b, c, d]"

definition octets :: "ipv4 \<Rightarrow> byte list" where
  "octets a = word_to_be 4 a"

text \<open>\<open>Ipv4Addr::to_string\<close>: four decimal numbers separated by dots.\<close>

fun join_dots :: "string list \<Rightarrow> string" where
  "join_dots [] = []"
| "join_dots [x] = x"
| "join_dots (x # y # xs) = x @ CHR ''.'' # join_dots (y # xs)"

definition ipv4_to_string :: "ipv4 \<Rightarrow> string" where
  "ipv4_to_string a = join_dots (map (\<lambda>b. dec_str (unat b)) (octets a))"

datatype virtual_ip = VirtualIp (address: ipv4)

lemma length_octets [simp]: "length (octets a) = 4"
  by (simp add: octets_def)

lemma octets_ipv4_new [simp]: "octets (ipv4_new a b c d) = [a, b, c, d]"
  using word_to_from_be [where bs = "[a, b, c, d]" and 'w = 32]
  by (simp add: octets_def ipv4_new_def numeral_eq_Suc)

lemma ipv4_from_octets: "word_from_be (octets a) = a"
  unfolding octets_def by (rule word_from_to_be) simp

lemma octets_inject: "octets a = octets b \<longleftrightarrow> a = b"
  by (metis ipv4_from_octets)

subsection \<open>Strings and room codes\<close>

text \<open>
  A Rust \<open>char\<close> is a Unicode scalar value, a \<open>String\<close> a sequence of them stored as UTF-8;
  \<open>str::len\<close> counts the bytes of that encoding.
\<close>

type_synonym rchar = nat
type_synonym rstring = "rchar list"

definition rstr :: "string \<Rightarrow> rstring" where
  "rstr s = map of_char s"

definition utf8_len :: "rchar \<Rightarrow> nat" where
  "utf8_len c = (if c < 128 then 1 else if c < 2048 then 2 else if c < 65536 then 3 else 4)"

definition str_len :: "rstring \<Rightarrow> nat" where
  "str_len s = sum_list (map utf8_len s)"

definition ascii_upper :: "rchar \<Rightarrow> rchar" where
  "ascii_upper c = (if 97 \<le> c \<and> c \<le> 122 then c - 32 else c)"

definition to_ascii_uppercase :: "rstring \<Rightarrow> rstring" where
  "to_ascii_uppercase s = map ascii_upper s"

definition room_alphabet :: rstring where
  "room_alphabet = rstr ''ABCDEFGHJKLMNPQRSTUVWXYZ23456789''"

definition CODE_MIN_LEN :: nat where "CODE_MIN_LEN = 6"
definition CODE_MAX_LEN :: nat where "CODE_MAX_LEN = 12"

datatype room_code = RoomCode (code_str: rstring)

datatype room_code_error = InvalidLength nat nat | InvalidCharacter rchar

definition parse_code :: "rstring \<Rightarrow> (room_code, room_code_error) result" where
  "parse_code input =
     (let value = to_ascii_uppercase input in
      if \<not> (CODE_MIN_LEN \<le> str_len value \<and> str_len value \<le> CODE_MAX_LEN)
      then Err (InvalidLength CODE_MIN_LEN CODE_MAX_LEN)
      else case find (\<lambda>c. c \<notin> set room_alphabet) value of
             Some c \<Rightarrow> Err (InvalidCharacter c)
           | None \<Rightarrow> Ok (RoomCode value))"

text \<open>\<open>RoomCode::random\<close>, given the UUID it draws.\<close>

definition random_code :: "uuid \<Rightarrow> room_code" where
  "random_code u =
     RoomCode (map (\<lambda>b. room_alphabet ! unat (b AND 31)) (take 8 (uuid_bytes u)))"

subsection \<open>The language the parser accepts\<close>

lemma room_alphabet_codes:
  "room_alphabet = [65, 66, 67, 68, 69, 70, 71, 72, 74, 75, 76, 77, 78, 80, 81, 82, 83, 84, 85,
     86, 87, 88, 89, 90, 50, 51, 52, 53, 54, 55, 56, 57]"
  by (simp add: room_alphabet_def rstr_def)

lemma length_room_alphabet: "length room_alphabet = 32"
  by (simp add: room_alphabet_codes)

lemma room_alphabet_char:
  assumes "c \<in> set room_alphabet"
  shows "utf8_len c = 1" and "ascii_upper c = c"
  using assms by (auto simp: room_alphabet_codes utf8_len_def ascii_upper_def)

lemma upper_idem [simp]: "ascii_upper (ascii_upper c) = ascii_upper c"
  by (auto simp: ascii_upper_def)

lemma to_ascii_uppercase_idem [simp]:
  "to_ascii_uppercase (to_ascii_uppercase s) = to_ascii_uppercase s"
  by (simp add: to_ascii_uppercase_def)

lemma utf8_len_upper [simp]: "utf8_len (ascii_upper c) = utf8_len c"
  by (auto simp: utf8_len_def ascii_upper_def)

lemma str_len_upper [simp]: "str_len (to_ascii_uppercase s) = str_len s"
  by (simp add: str_len_def to_ascii_uppercase_def o_def)

lemma str_len_alphabet: "set s \<subseteq> set room_alphabet \<Longrightarrow> str_len s = length s"
  by (induction s) (auto simp: str_len_def room_alphabet_char)

lemma upper_alphabet: "set s \<subseteq> set room_alphabet \<Longrightarrow> to_ascii_uppercase s = s"
  by (induction s) (auto simp: to_ascii_uppercase_def room_alphabet_char)

definition well_formed_code :: "room_code \<Rightarrow> bool" where
  "well_formed_code c \<longleftrightarrow>
     set (code_str c) \<subseteq> set room_alphabet \<and>
     CODE_MIN_LEN \<le> length (code_str c) \<and> length (code_str c) \<le> CODE_MAX_LEN"

lemma find_None_subset: "find (\<lambda>c. c \<notin> A) s = None \<longleftrightarrow> set s \<subseteq> A"
  by (auto simp: find_None_iff)

lemma parse_code_Ok_iff:
  "parse_code s = Ok c \<longleftrightarrow> c = RoomCode (to_ascii_uppercase s) \<and> well_formed_code c"
proof -
  let ?v = "to_ascii_uppercase s"
  have "parse_code s = Ok c \<longleftrightarrow>
      CODE_MIN_LEN \<le> str_len ?v \<and> str_len ?v \<le> CODE_MAX_LEN \<and> set ?v \<subseteq> set room_alphabet \<and> c = RoomCode ?v"
    by (auto simp: parse_code_def Let_def find_None_subset [symmetric] split: option.splits)
  then show ?thesis
    using str_len_alphabet [of ?v] by (auto simp: well_formed_code_def)
qed

lemma parse_code_not_Panic: "parse_code s \<noteq> Panic"
  by (simp add: parse_code_def Let_def split: option.splits)

lemma code_digit_less: "unat ((b :: byte) AND 31) < 32"
proof -
  have "unat (b AND 31) \<le> unat (31 :: byte)"
    by (rule word_and_le1 [THEN word_le_nat_alt [THEN iffD1]])
  then show ?thesis by simp
qed

lemma random_code_well_formed: "well_formed_code (random_code u)"
proof -
  have "set (code_str (random_code u)) \<subseteq> set room_alphabet"
    using code_digit_less by (auto simp: random_code_def length_room_alphabet)
  moreover have "length (code_str (random_code u)) = 8"
    by (simp add: random_code_def uuid_bytes_def)
  ultimately show ?thesis
    by (simp add: well_formed_code_def CODE_MIN_LEN_def CODE_MAX_LEN_def)
qed

lemma parse_well_formed: "well_formed_code c \<Longrightarrow> parse_code (code_str c) = Ok c"
  by (cases c) (simp add: parse_code_Ok_iff well_formed_code_def upper_alphabet)

text \<open>
  What \<open>RoomCode::parse\<close> accepts, exactly: the input whose ASCII upper-casing has 6 to 12
  characters, all of the 32-letter alphabet; the result is that upper-casing. Every other
  input is an error, and the length is checked before the characters.
\<close>

theorem room_code_parse_exact:
  "(parse_code s = Ok c \<longleftrightarrow> code_str c = to_ascii_uppercase s \<and> well_formed_code c) \<and>
   (parse_code s = Err (InvalidLength 6 12) \<longleftrightarrow> \<not> (6 \<le> str_len s \<and> str_len s \<le> 12)) \<and>
   (parse_code s = Err (InvalidCharacter b) \<longleftrightarrow>
      6 \<le> str_len s \<and> str_len s \<le> 12 \<and>
      find (\<lambda>d. d \<notin> set room_alphabet) (to_ascii_uppercase s) = Some b)"
proof (intro conjI)
  show "parse_code s = Ok c \<longleftrightarrow> code_str c = to_ascii_uppercase s \<and> well_formed_code c"
    by (cases c) (auto simp: parse_code_Ok_iff)
qed (auto simp: parse_code_def Let_def CODE_MIN_LEN_def CODE_MAX_LEN_def split: option.splits)

text \<open>
  A code drawn by \<open>RoomCode::random\<close> is one the parser accepts and leaves unchanged, and
  parsing any accepted code again (in either case) gives the same code.
\<close>

theorem random_code_roundtrip:
  "parse_code (code_str (random_code u)) = Ok (random_code u) \<and>
   (parse_code s = Ok c \<longrightarrow> parse_code (code_str c) = Ok c \<and> parse_code (to_ascii_uppercase s) = Ok c)"
  using random_code_well_formed parse_well_formed by (auto simp: parse_code_Ok_iff)

theorem random_code_roundtrip_witness:
  "parse_code (rstr ''ab2345'') = Ok (RoomCode (rstr ''AB2345'')) \<and>
   parse_code (rstr ''AB2345'') = Ok (RoomCode (rstr ''AB2345''))"
proof -
  have h: "parse_code (rstr ''ab2345'') = Ok (RoomCode (rstr ''AB2345''))"
    by (simp add: parse_code_Ok_iff well_formed_code_def to_ascii_uppercase_def ascii_upper_def rstr_def
        room_alphabet_codes CODE_MIN_LEN_def CODE_MAX_LEN_def)
  with random_code_roundtrip [of 0 "rstr ''ab2345''" "RoomCode (rstr ''AB2345'')"] show ?thesis
    by simp
qed

text \<open>
  The ports: a discovery port is one of 62900 to 62999, both ends included, and
  \<open>Civ6UdpPort::validate\<close> accepts exactly those and 62056, returning the port unchanged.
\<close>

theorem port_validation:
  "(is_discovery_port p \<longleftrightarrow> 62900 \<le> unat p \<and> unat p \<le> 62999) \<and>
   validate_port (Civ6UdpPort p) =
     (if (62900 \<le> unat p \<and> unat p \<le> 62999) \<or> unat p = 62056
      then Ok (Civ6UdpPort p) else Err (InvalidCiv6Port p)) \<and>
   \<not> is_discovery_port GAMEPLAY_PORT"
proof -
  have d: "is_discovery_port p \<longleftrightarrow> 62900 \<le> unat p \<and> unat p \<le> 62999" for p
    by (simp add: is_discovery_port_def DISCOVERY_PORT_START_def DISCOVERY_PORT_END_def word_le_nat_alt)
  have g: "p = GAMEPLAY_PORT \<longleftrightarrow> unat p = 62056"
    by (simp add: GAMEPLAY_PORT_def word_unat_eq_iff)
  show ?thesis
    by (simp add: validate_port_def is_civ6_port_def d g) (simp add: GAMEPLAY_PORT_def)
qed

end
