(* ===== verification/Relay_Codec.thy ===== *)
theory Relay_Codec
  imports Protocol
begin

section \<open>The relay envelope and its codec\<close>

text \<open>
  Models \<open>crates/protocol/src/relay.rs\<close>: the message kinds, the version 2 metadata, the writers
  and readers of the single fields, and \<open>encode_packet\<close> and \<open>decode_packet\<close> composed of them.
  A field's writer and reader satisfy one contract, the locale \<open>wire_field\<close>; the round trips
  of the whole envelope rest on its interpretations. A buffer is the list of bytes written so
  far; a reader takes the remaining input and returns the value and what is left.
\<close>

subsection \<open>Constants, messages and metadata\<close>

definition LEGACY_RELAY_PROTOCOL_VERSION :: byte where "LEGACY_RELAY_PROTOCOL_VERSION = 1"
definition RELAY_PROTOCOL_VERSION :: byte where "RELAY_PROTOCOL_VERSION = 2"
definition RELAY_HEADER_SIZE :: nat where "RELAY_HEADER_SIZE = 8"
definition MAX_RELAY_DATAGRAM_SIZE :: nat where
  "MAX_RELAY_DATAGRAM_SIZE = RELAY_HEADER_SIZE + MAX_CIV6_DATAGRAM_SIZE + 64"
definition DEFAULT_SAFE_RELAY_PAYLOAD_SIZE :: nat where "DEFAULT_SAFE_RELAY_PAYLOAD_SIZE = 1200"
definition WIREGUARD_UDP_PATH_ID :: byte where "WIREGUARD_UDP_PATH_ID = 1"
definition QUIC_DATAGRAM_PATH_ID :: byte where "QUIC_DATAGRAM_PATH_ID = 2"

definition MAGIC :: "byte list" where "MAGIC = [67, 54, 76, 66]" \<comment> \<open>\<open>C6LB\<close>\<close>

definition DISCOVERY_REQUEST :: byte where "DISCOVERY_REQUEST = 1"
definition DISCOVERY_TO_HOST :: byte where "DISCOVERY_TO_HOST = 2"
definition DISCOVERY_RESPONSE :: byte where "DISCOVERY_RESPONSE = 3"
definition DISCOVERY_TO_CLIENT :: byte where "DISCOVERY_TO_CLIENT = 4"
definition GAMEPLAY_PACKET :: byte where "GAMEPLAY_PACKET = 5"
definition GAMEPLAY_TO_PEER :: byte where "GAMEPLAY_TO_PEER = 6"
definition RELAY_PROBE :: byte where "RELAY_PROBE = 7"
definition RELAY_PROBE_ACK :: byte where "RELAY_PROBE_ACK = 8"

lemmas kind_defs =
  DISCOVERY_REQUEST_def DISCOVERY_TO_HOST_def DISCOVERY_RESPONSE_def DISCOVERY_TO_CLIENT_def
  GAMEPLAY_PACKET_def GAMEPLAY_TO_PEER_def RELAY_PROBE_def RELAY_PROBE_ACK_def

lemmas size_defs = MAX_RELAY_DATAGRAM_SIZE_def RELAY_HEADER_SIZE_def MAX_CIV6_DATAGRAM_SIZE_def

lemmas version_defs = LEGACY_RELAY_PROTOCOL_VERSION_def RELAY_PROTOCOL_VERSION_def

datatype relay_message =
    DiscoveryRequest discovery_request_id udp_port "byte list"
  | DiscoveryToHost discovery_request_id virtual_ip udp_port "byte list"
  | DiscoveryResponse discovery_request_id host_session_id udp_port "byte list"
  | DiscoveryToClient discovery_request_id virtual_ip udp_port "byte list"
  | GameplayPacket gameplay_session_id udp_port "byte list"
  | GameplayToPeer gameplay_session_id virtual_ip udp_port "byte list"
  | RelayProbe discovery_request_id
  | RelayProbeAck discovery_request_id

record relay_meta =
  meta_sequence :: u64
  meta_connection_epoch :: u64
  meta_sent_at_ms :: u64
  meta_path_id :: "byte option"

definition meta_default :: relay_meta where
  "meta_default = \<lparr>meta_sequence = 0, meta_connection_epoch = 0, meta_sent_at_ms = 0, meta_path_id = None\<rparr>"

datatype transport_path = WireGuardUdp | QuicDatagram

fun path_to_id :: "transport_path \<Rightarrow> byte" where
  "path_to_id WireGuardUdp = WIREGUARD_UDP_PATH_ID"
| "path_to_id QuicDatagram = QUIC_DATAGRAM_PATH_ID"

definition path_from_id :: "byte \<Rightarrow> transport_path option" where
  "path_from_id value =
     (if value = WIREGUARD_UDP_PATH_ID then Some WireGuardUdp
      else if value = QUIC_DATAGRAM_PATH_ID then Some QuicDatagram else None)"

record relay_envelope =
  env_meta :: relay_meta
  env_message :: relay_message

datatype relay_codec_error = InvalidPacket string | UnexpectedMessageKind byte

subsection \<open>Writers\<close>

definition write_id :: "byte list \<Rightarrow> uuid \<Rightarrow> byte list" where
  "write_id buffer value = buffer @ uuid_bytes value"

definition write_ip :: "byte list \<Rightarrow> virtual_ip \<Rightarrow> byte list" where
  "write_ip buffer value = buffer @ word_to_be 4 (address value)"

definition write_port :: "byte list \<Rightarrow> udp_port \<Rightarrow> byte list" where
  "write_port buffer value = buffer @ word_to_be 2 (port_num value)"

definition write_u64 :: "byte list \<Rightarrow> u64 \<Rightarrow> byte list" where
  "write_u64 buffer value = buffer @ word_to_be 8 value"

definition write_payload :: "byte list \<Rightarrow> byte list \<Rightarrow> (byte list, relay_codec_error) result" where
  "write_payload buffer payload =
     (if length payload > MAX_CIV6_DATAGRAM_SIZE
      then Err (InvalidPacket ''Civ VI payload exceeds the maximum datagram size'')
      else Ok (buffer @ payload))"

definition write_meta :: "byte list \<Rightarrow> relay_meta \<Rightarrow> byte list" where
  "write_meta buffer meta =
     (let buffer = write_u64 buffer (meta_sequence meta);
          buffer = write_u64 buffer (meta_connection_epoch meta);
          buffer = write_u64 buffer (meta_sent_at_ms meta)
      in case meta_path_id meta of
           Some path_id \<Rightarrow> buffer @ [1] @ [path_id]
         | None \<Rightarrow> buffer @ [0, 0])"

text \<open>The \<open>match\<close> of \<open>encode_packet\<close>: the kind byte and the body with the fields appended.\<close>

fun write_message :: "byte list \<Rightarrow> relay_message \<Rightarrow> (byte \<times> byte list, relay_codec_error) result" where
  "write_message body (DiscoveryRequest request_id destination_port payload) =
     and_then (write_payload (write_port (write_id body (discovery_uuid request_id)) destination_port) payload)
       (\<lambda>body. Ok (DISCOVERY_REQUEST, body))"
| "write_message body (DiscoveryToHost request_id source_virtual_ip destination_port payload) =
     and_then (write_payload (write_port (write_ip (write_id body (discovery_uuid request_id))
         source_virtual_ip) destination_port) payload)
       (\<lambda>body. Ok (DISCOVERY_TO_HOST, body))"
| "write_message body (DiscoveryResponse request_id host_session source_port payload) =
     and_then (write_payload (write_port (write_id (write_id body (discovery_uuid request_id))
         (host_uuid host_session)) source_port) payload)
       (\<lambda>body. Ok (DISCOVERY_RESPONSE, body))"
| "write_message body (DiscoveryToClient request_id host_virtual_ip source_port payload) =
     and_then (write_payload (write_port (write_ip (write_id body (discovery_uuid request_id))
         host_virtual_ip) source_port) payload)
       (\<lambda>body. Ok (DISCOVERY_TO_CLIENT, body))"
| "write_message body (GameplayPacket session_id source_port payload) =
     and_then (write_payload (write_port (write_id body (gameplay_uuid session_id)) source_port) payload)
       (\<lambda>body. Ok (GAMEPLAY_PACKET, body))"
| "write_message body (GameplayToPeer session_id source_virtual_ip destination_port payload) =
     and_then (write_payload (write_port (write_ip (write_id body (gameplay_uuid session_id))
         source_virtual_ip) destination_port) payload)
       (\<lambda>body. Ok (GAMEPLAY_TO_PEER, body))"
| "write_message body (RelayProbe request_id) =
     Ok (RELAY_PROBE, write_id body (discovery_uuid request_id))"
| "write_message body (RelayProbeAck request_id) =
     Ok (RELAY_PROBE_ACK, write_id body (discovery_uuid request_id))"

definition encode_packet ::
  "relay_message \<Rightarrow> relay_meta option \<Rightarrow> byte \<Rightarrow> (byte list, relay_codec_error) result" where
  "encode_packet message meta version =
     (let body = (case meta of Some m \<Rightarrow> write_meta [] m | None \<Rightarrow> []) in
      and_then (write_message body message) (\<lambda>(kind, body).
        if length body > 65535
        then Err (InvalidPacket ''relay envelope body is too large'')
        else Ok (MAGIC @ [version] @ [kind] @ word_to_be 2 (word_of_nat (length body) :: u16) @ body)))"

subsection \<open>Slices\<close>

text \<open>
  Indexing, slicing, \<open>split_at\<close> and \<open>copy_from_slice\<close> panic outside the bounds of the slice, and so does a
  subtraction of \<open>usize\<close> below zero in a build that checks overflows. The readers below go through these
  operations, so that their guards have something to guard.
\<close>

definition slice_index :: "'a list \<Rightarrow> nat \<Rightarrow> ('a, 'e) result" where
  "slice_index xs i = (if i < length xs then Ok (xs ! i) else Panic)"

definition slice_to :: "'a list \<Rightarrow> nat \<Rightarrow> ('a list, 'e) result" where
  "slice_to xs n = (if n \<le> length xs then Ok (take n xs) else Panic)"

definition slice_from :: "'a list \<Rightarrow> nat \<Rightarrow> ('a list, 'e) result" where
  "slice_from xs n = (if n \<le> length xs then Ok (drop n xs) else Panic)"

definition split_at :: "'a list \<Rightarrow> nat \<Rightarrow> ('a list \<times> 'a list, 'e) result" where
  "split_at xs n = (if n \<le> length xs then Ok (take n xs, drop n xs) else Panic)"

definition copy_from_slice :: "'a list \<Rightarrow> 'a list \<Rightarrow> ('a list, 'e) result" where
  "copy_from_slice target source = (if length target = length source then Ok source else Panic)"

definition usize_minus :: "nat \<Rightarrow> nat \<Rightarrow> (nat, 'e) result" where
  "usize_minus a b = (if b \<le> a then Ok (a - b) else Panic)"

lemma slice_in_bounds:
  "i < length xs \<Longrightarrow> slice_index xs i = Ok (xs ! i)"
  "n \<le> length xs \<Longrightarrow> slice_to xs n = Ok (take n xs)"
  "n \<le> length xs \<Longrightarrow> slice_from xs n = Ok (drop n xs)"
  "n \<le> length xs \<Longrightarrow> split_at xs n = Ok (take n xs, drop n xs)"
  "length target = length xs \<Longrightarrow> copy_from_slice target xs = Ok xs"
  "b \<le> a \<Longrightarrow> usize_minus a b = Ok (a - b)"
  by (simp_all add: slice_index_def slice_to_def slice_from_def split_at_def copy_from_slice_def usize_minus_def)

subsection \<open>Readers\<close>

definition read_exact :: "byte list \<Rightarrow> nat \<Rightarrow> (byte list \<times> byte list, relay_codec_error) result" where
  "read_exact input size' =
     (if length input < size' then Err (InvalidPacket ''relay envelope body is truncated'')
      else split_at input size')"

definition read_id :: "byte list \<Rightarrow> (uuid \<times> byte list, relay_codec_error) result" where
  "read_id input = and_then (read_exact input 16) (\<lambda>(slice, rest).
     and_then (copy_from_slice (replicate 16 0) slice) (\<lambda>bytes. Ok (uuid_from_bytes bytes, rest)))"

definition read_ip :: "byte list \<Rightarrow> (virtual_ip \<times> byte list, relay_codec_error) result" where
  "read_ip input = and_then (read_exact input 4) (\<lambda>(bytes, rest).
     and_then (slice_index bytes 0) (\<lambda>a. and_then (slice_index bytes 1) (\<lambda>b.
     and_then (slice_index bytes 2) (\<lambda>c. and_then (slice_index bytes 3) (\<lambda>d.
       Ok (VirtualIp (ipv4_new a b c d), rest))))))"

definition read_port :: "byte list \<Rightarrow> (udp_port \<times> byte list, relay_codec_error) result" where
  "read_port input = and_then (read_exact input 2) (\<lambda>(bytes, rest).
     and_then (slice_index bytes 0) (\<lambda>high. and_then (slice_index bytes 1) (\<lambda>low.
       Ok (Civ6UdpPort (word_from_be [high, low]), rest))))"

text \<open>\<open>u64::from_be_bytes(read_exact(input, 8)?.try_into().map_err(..)?)\<close>.\<close>

definition read_u64 :: "string \<Rightarrow> byte list \<Rightarrow> (u64 \<times> byte list, relay_codec_error) result" where
  "read_u64 what input = and_then (read_exact input 8) (\<lambda>(bytes, rest).
     if length bytes = 8 then Ok (word_from_be bytes, rest) else Err (InvalidPacket what))"

definition read_payload :: "byte list \<Rightarrow> (byte list \<times> byte list, relay_codec_error) result" where
  "read_payload input =
     (if length input > MAX_CIV6_DATAGRAM_SIZE
      then Err (InvalidPacket ''Civ VI payload exceeds the maximum datagram size'')
      else Ok (input, []))"

definition read_meta :: "byte list \<Rightarrow> (relay_meta \<times> byte list, relay_codec_error) result" where
  "read_meta input =
     and_then (read_u64 ''relay sequence is truncated'' input) (\<lambda>(sequence, input).
     and_then (read_u64 ''relay connection epoch is truncated'' input) (\<lambda>(connection_epoch, input).
     and_then (read_u64 ''relay timestamp is truncated'' input) (\<lambda>(sent_at_ms, input).
     and_then (read_exact input 1) (\<lambda>(marker, input). and_then (slice_index marker 0) (\<lambda>has_path.
     and_then (read_exact input 1) (\<lambda>(path, input). and_then (slice_index path 0) (\<lambda>path_id.
       if has_path = 0
       then Ok (\<lparr>meta_sequence = sequence, meta_connection_epoch = connection_epoch,
                 meta_sent_at_ms = sent_at_ms, meta_path_id = None\<rparr>, input)
       else if has_path = 1
       then Ok (\<lparr>meta_sequence = sequence, meta_connection_epoch = connection_epoch,
                 meta_sent_at_ms = sent_at_ms, meta_path_id = Some path_id\<rparr>, input)
       else Err (InvalidPacket (''invalid relay path marker '' @ dec_str (unat has_path))))))))))"

text \<open>The \<open>match kind\<close> of \<open>decode_packet\<close>; struct fields are evaluated in the order written.\<close>

definition read_message :: "byte \<Rightarrow> byte list \<Rightarrow> (relay_message \<times> byte list, relay_codec_error) result" where
  "read_message kind body =
     (if kind = DISCOVERY_REQUEST then
        and_then (read_id body) (\<lambda>(i, body). and_then (read_port body) (\<lambda>(p, body).
        and_then (read_payload body) (\<lambda>(d, body). Ok (DiscoveryRequest (DiscoveryRequestId i) p d, body))))
      else if kind = DISCOVERY_TO_HOST then
        and_then (read_id body) (\<lambda>(i, body). and_then (read_ip body) (\<lambda>(a, body).
        and_then (read_port body) (\<lambda>(p, body). and_then (read_payload body) (\<lambda>(d, body).
          Ok (DiscoveryToHost (DiscoveryRequestId i) a p d, body)))))
      else if kind = DISCOVERY_RESPONSE then
        and_then (read_id body) (\<lambda>(i, body). and_then (read_id body) (\<lambda>(h, body).
        and_then (read_port body) (\<lambda>(p, body). and_then (read_payload body) (\<lambda>(d, body).
          Ok (DiscoveryResponse (DiscoveryRequestId i) (HostSessionId h) p d, body)))))
      else if kind = DISCOVERY_TO_CLIENT then
        and_then (read_id body) (\<lambda>(i, body). and_then (read_ip body) (\<lambda>(a, body).
        and_then (read_port body) (\<lambda>(p, body). and_then (read_payload body) (\<lambda>(d, body).
          Ok (DiscoveryToClient (DiscoveryRequestId i) a p d, body)))))
      else if kind = GAMEPLAY_PACKET then
        and_then (read_id body) (\<lambda>(i, body). and_then (read_port body) (\<lambda>(p, body).
        and_then (read_payload body) (\<lambda>(d, body). Ok (GameplayPacket (GameplaySessionId i) p d, body))))
      else if kind = GAMEPLAY_TO_PEER then
        and_then (read_id body) (\<lambda>(i, body). and_then (read_ip body) (\<lambda>(a, body).
        and_then (read_port body) (\<lambda>(p, body). and_then (read_payload body) (\<lambda>(d, body).
          Ok (GameplayToPeer (GameplaySessionId i) a p d, body)))))
      else if kind = RELAY_PROBE then
        and_then (read_id body) (\<lambda>(i, body). Ok (RelayProbe (DiscoveryRequestId i), body))
      else if kind = RELAY_PROBE_ACK then
        and_then (read_id body) (\<lambda>(i, body). Ok (RelayProbeAck (DiscoveryRequestId i), body))
      else Err (UnexpectedMessageKind kind))"

definition decode_packet :: "byte list \<Rightarrow> (relay_envelope, relay_codec_error) result" where
  "decode_packet packet =
     (if length packet > MAX_RELAY_DATAGRAM_SIZE
      then Err (InvalidPacket ''relay envelope exceeds the maximum datagram size'')
      else if length packet < RELAY_HEADER_SIZE
      then Err (InvalidPacket ''relay envelope header is truncated'')
      else and_then (slice_to packet 4) (\<lambda>magic.
      if magic \<noteq> MAGIC
      then Err (InvalidPacket ''invalid relay magic'')
      else and_then (slice_index packet 4) (\<lambda>version.
      if version \<noteq> LEGACY_RELAY_PROTOCOL_VERSION \<and> version \<noteq> RELAY_PROTOCOL_VERSION
      then Err (InvalidPacket (''unsupported relay version '' @ dec_str (unat version)))
      else and_then (slice_index packet 6) (\<lambda>high. and_then (slice_index packet 7) (\<lambda>low.
        let declared_body_len = unat (word_from_be [high, low] :: u16) in
        and_then (usize_minus (length packet) RELAY_HEADER_SIZE) (\<lambda>body_len.
        if declared_body_len \<noteq> body_len
        then Err (InvalidPacket ''relay envelope length does not match its header'')
        else
          and_then (slice_index packet 5) (\<lambda>kind. and_then (slice_from packet RELAY_HEADER_SIZE) (\<lambda>body.
          and_then (if version = RELAY_PROTOCOL_VERSION then read_meta body else Ok (meta_default, body))
            (\<lambda>(meta, body). and_then (read_message kind body) (\<lambda>(message, body).
              if body \<noteq> [] then Err (InvalidPacket ''relay envelope contains trailing bytes'')
              else Ok \<lparr>env_meta = meta, env_message = message\<rparr>))))))))))"

subsection \<open>The public entry points\<close>

definition envelope_encode :: "relay_envelope \<Rightarrow> (byte list, relay_codec_error) result" where
  "envelope_encode e = encode_packet (env_message e) (Some (env_meta e)) RELAY_PROTOCOL_VERSION"

definition envelope_decode :: "byte list \<Rightarrow> (relay_envelope, relay_codec_error) result" where
  "envelope_decode packet = decode_packet packet"

definition message_encode :: "relay_message \<Rightarrow> (byte list, relay_codec_error) result" where
  "message_encode m = encode_packet m None LEGACY_RELAY_PROTOCOL_VERSION"

definition message_encode_with_meta ::
  "relay_message \<Rightarrow> relay_meta \<Rightarrow> (byte list, relay_codec_error) result" where
  "message_encode_with_meta m meta = encode_packet m (Some meta) RELAY_PROTOCOL_VERSION"

definition message_decode :: "byte list \<Rightarrow> (relay_message, relay_codec_error) result" where
  "message_decode packet = and_then (envelope_decode packet) (\<lambda>e. Ok (env_message e))"

text \<open>\<open>RelayEnvelopeMeta::new\<close>, with the clock reading as an argument.\<close>

definition meta_new :: "u64 \<Rightarrow> u64 \<Rightarrow> u64 \<Rightarrow> byte option \<Rightarrow> relay_meta" where
  "meta_new now_ms sequence connection_epoch path_id =
     \<lparr>meta_sequence = sequence, meta_connection_epoch = connection_epoch,
      meta_sent_at_ms = now_ms, meta_path_id = path_id\<rparr>"

subsection \<open>The guards keep every slice in bounds\<close>

lemma read_exact_eq:
  "read_exact input size' =
     (if length input < size' then Err (InvalidPacket ''relay envelope body is truncated'')
      else Ok (take size' input, drop size' input))"
  by (simp add: read_exact_def slice_in_bounds)

lemma read_id_eq:
  "read_id input = and_then (read_exact input 16) (\<lambda>(bytes, rest). Ok (uuid_from_bytes bytes, rest))"
  by (simp add: read_id_def read_exact_eq slice_in_bounds)

lemma read_ip_eq:
  "read_ip input = and_then (read_exact input 4) (\<lambda>(bytes, rest).
     Ok (VirtualIp (ipv4_new (bytes ! 0) (bytes ! 1) (bytes ! 2) (bytes ! 3)), rest))"
  by (simp add: read_ip_def read_exact_eq slice_in_bounds)

lemma read_port_eq:
  "read_port input = and_then (read_exact input 2) (\<lambda>(bytes, rest).
     Ok (Civ6UdpPort (word_from_be [bytes ! 0, bytes ! 1]), rest))"
  by (simp add: read_port_def read_exact_eq slice_in_bounds)

lemma read_byte_eq:
  "and_then (read_exact input 1) (\<lambda>(slice, rest). and_then (slice_index slice 0) (\<lambda>b. f b rest)) =
   and_then (read_exact input 1) (\<lambda>(slice, rest). f (slice ! 0) rest)"
  by (simp add: read_exact_eq slice_in_bounds)

lemma read_meta_eq:
  "read_meta input =
     and_then (read_u64 ''relay sequence is truncated'' input) (\<lambda>(sequence, input).
     and_then (read_u64 ''relay connection epoch is truncated'' input) (\<lambda>(connection_epoch, input).
     and_then (read_u64 ''relay timestamp is truncated'' input) (\<lambda>(sent_at_ms, input).
     and_then (read_exact input 1) (\<lambda>(has_path, input).
     and_then (read_exact input 1) (\<lambda>(path_id, input).
       if has_path ! 0 = 0
       then Ok (\<lparr>meta_sequence = sequence, meta_connection_epoch = connection_epoch,
                 meta_sent_at_ms = sent_at_ms, meta_path_id = None\<rparr>, input)
       else if has_path ! 0 = 1
       then Ok (\<lparr>meta_sequence = sequence, meta_connection_epoch = connection_epoch,
                 meta_sent_at_ms = sent_at_ms, meta_path_id = Some (path_id ! 0)\<rparr>, input)
       else Err (InvalidPacket (''invalid relay path marker '' @ dec_str (unat (has_path ! 0)))))))))"
  by (simp only: read_meta_def read_byte_eq)

lemma decode_packet_eq:
  "decode_packet packet =
     (if length packet > MAX_RELAY_DATAGRAM_SIZE
      then Err (InvalidPacket ''relay envelope exceeds the maximum datagram size'')
      else if length packet < RELAY_HEADER_SIZE
      then Err (InvalidPacket ''relay envelope header is truncated'')
      else if take 4 packet \<noteq> MAGIC
      then Err (InvalidPacket ''invalid relay magic'')
      else if packet ! 4 \<noteq> LEGACY_RELAY_PROTOCOL_VERSION \<and> packet ! 4 \<noteq> RELAY_PROTOCOL_VERSION
      then Err (InvalidPacket (''unsupported relay version '' @ dec_str (unat (packet ! 4))))
      else
        let declared_body_len = unat (word_from_be [packet ! 6, packet ! 7] :: u16) in
        if declared_body_len \<noteq> length packet - RELAY_HEADER_SIZE
        then Err (InvalidPacket ''relay envelope length does not match its header'')
        else
          let kind = packet ! 5; body = drop RELAY_HEADER_SIZE packet in
          and_then (if packet ! 4 = RELAY_PROTOCOL_VERSION then read_meta body else Ok (meta_default, body))
            (\<lambda>(meta, body). and_then (read_message kind body) (\<lambda>(message, body).
              if body \<noteq> [] then Err (InvalidPacket ''relay envelope contains trailing bytes'')
              else Ok \<lparr>env_meta = meta, env_message = message\<rparr>)))"
proof (cases "length packet < RELAY_HEADER_SIZE")
  case False
  then have "RELAY_HEADER_SIZE \<le> length packet" "4 \<le> length packet" "4 < length packet" "5 < length packet" "6 < length packet"
      "7 < length packet"
    by (simp_all add: RELAY_HEADER_SIZE_def)
  then show ?thesis by (simp add: decode_packet_def slice_in_bounds Let_def)
qed (simp add: decode_packet_def)

end
