(* ===== verification/Codec_Correct.thy ===== *)
theory Codec_Correct
  imports Relay_Codec
begin

section \<open>Correctness of the relay codec\<close>

text \<open>
  The contract of a fixed-width wire field as a locale, its interpretations on the identifier,
  address, port and 64-bit fields of the codec, and from them the round trips, the bounds and
  the error behaviour of the whole envelope.
\<close>

subsection \<open>The contract of a wire field\<close>

locale wire_field =
  fixes put :: "'a \<Rightarrow> byte list"
    and get :: "byte list \<Rightarrow> ('a \<times> byte list, relay_codec_error) result"
    and width :: nat
  assumes put_width: "length (put x) = width"
    and get_short: "length bs < width \<Longrightarrow> get bs = Err (InvalidPacket ''relay envelope body is truncated'')"
    and get_put: "get (put x @ rest) = Ok (x, rest)"
    and put_get: "width \<le> length bs \<Longrightarrow> \<exists>x. put x = take width bs"
begin

lemma get_Ok_iff: "get bs = Ok (x, rest) \<longleftrightarrow> bs = put x @ rest"
proof
  assume ok: "get bs = Ok (x, rest)"
  then have "width \<le> length bs"
    using get_short [of bs] by (cases "length bs < width") auto
  then obtain y where "put y = take width bs"
    using put_get by blast
  then have bs: "bs = put y @ drop width bs"
    by simp
  then have "get bs = Ok (y, drop width bs)"
    using get_put by metis
  with ok bs show "bs = put x @ rest" by simp
qed (simp add: get_put)

lemma get_cases:
  obtains (short) "length bs < width" "get bs = Err (InvalidPacket ''relay envelope body is truncated'')"
  | (full) x where "bs = put x @ drop width bs" "get bs = Ok (x, drop width bs)"
proof (cases "length bs < width")
  case True
  then show ?thesis using get_short short by blast
next
  case False
  then obtain x where "put x = take width bs"
    using put_get [of bs] by auto
  then have "bs = put x @ drop width bs" by simp
  moreover from this have "get bs = Ok (x, drop width bs)"
    using get_put by metis
  ultimately show ?thesis using full by blast
qed

lemma get_not_Panic: "get bs \<noteq> Panic"
  by (cases bs rule: get_cases) auto

lemma put_inject: "put x = put y \<longleftrightarrow> x = y"
  by (metis get_put result.inject(1) prod.inject)

end

subsection \<open>The fields of the codec satisfy it\<close>

abbreviation put_id :: "uuid \<Rightarrow> byte list" where "put_id u \<equiv> write_id [] u"
abbreviation put_ip :: "virtual_ip \<Rightarrow> byte list" where "put_ip a \<equiv> write_ip [] a"
abbreviation put_port :: "udp_port \<Rightarrow> byte list" where "put_port p \<equiv> write_port [] p"
abbreviation put_u64 :: "u64 \<Rightarrow> byte list" where "put_u64 w \<equiv> write_u64 [] w"

lemma word_field_take:
  assumes "LENGTH('w::len) = 8 * n" and "n \<le> length bs"
  shows "word_to_be n (word_from_be (take n bs) :: 'w word) = take n bs"
  using word_to_from_be [where 'w = 'w and bs = "take n bs"] assms by simp

lemma list_of_4: "length xs = 4 \<Longrightarrow> [xs ! 0, xs ! Suc 0, xs ! 2, xs ! 3] = xs"
  by (auto simp: numeral_eq_Suc length_Suc_conv)

lemma list_of_2: "length xs = 2 \<Longrightarrow> [xs ! 0, xs ! Suc 0] = xs"
  by (auto simp: numeral_eq_Suc length_Suc_conv)

lemma ipv4_new_word_to_be:
  "ipv4_new (word_to_be 4 a ! 0) (word_to_be 4 a ! Suc 0) (word_to_be 4 a ! 2) (word_to_be 4 a ! 3) = a"
  by (simp only: ipv4_new_def list_of_4 length_word_to_be) (rule word_from_to_be, simp)

lemma port_from_word_to_be: "(word_from_be [word_to_be 2 p ! 0, word_to_be 2 p ! Suc 0] :: u16) = p"
  by (simp only: list_of_2 length_word_to_be) (rule word_from_to_be, simp)

interpretation id_field: wire_field put_id read_id 16
proof (unfold_locales, goal_cases)
  case (4 bs)
  then have "put_id (word_from_be (take 16 bs)) = take 16 bs"
    by (simp add: write_id_def uuid_bytes_def word_field_take)
  then show ?case by blast
qed (simp_all add: write_id_def read_id_eq read_exact_eq uuid_bytes_def uuid_from_bytes_def
    word_from_to_be)

interpretation ip_field: wire_field put_ip read_ip 4
proof (unfold_locales, goal_cases)
  case (3 x rest)
  then show ?case
    by (cases x) (simp add: write_ip_def read_ip_eq read_exact_eq ipv4_new_word_to_be)
next
  case (4 bs)
  then have "put_ip (VirtualIp (word_from_be (take 4 bs))) = take 4 bs"
    by (simp add: write_ip_def word_field_take)
  then show ?case by blast
qed (simp_all add: write_ip_def read_ip_eq read_exact_eq)

interpretation port_field: wire_field put_port read_port 2
proof (unfold_locales, goal_cases)
  case (3 x rest)
  then show ?case
    by (cases x) (simp add: write_port_def read_port_eq read_exact_eq port_from_word_to_be)
next
  case (4 bs)
  then have "put_port (Civ6UdpPort (word_from_be (take 2 bs))) = take 2 bs"
    by (simp add: write_port_def word_field_take)
  then show ?case by blast
qed (simp_all add: write_port_def read_port_eq read_exact_eq)

interpretation u64_field: wire_field put_u64 "read_u64 what" 8 for what
proof (unfold_locales, goal_cases)
  case (4 bs)
  then have "put_u64 (word_from_be (take 8 bs)) = take 8 bs"
    by (simp add: write_u64_def word_field_take)
  then show ?case by blast
qed (simp_all add: write_u64_def read_u64_def read_exact_eq word_from_to_be)

subsection \<open>Metadata\<close>

lemmas field_reads [simp] = id_field.get_put ip_field.get_put port_field.get_put u64_field.get_put
lemmas field_widths [simp] = id_field.put_width ip_field.put_width port_field.put_width u64_field.put_width
lemmas field_reads_iff = id_field.get_Ok_iff ip_field.get_Ok_iff port_field.get_Ok_iff u64_field.get_Ok_iff

lemma read_exact_Ok_iff: "read_exact bs n = Ok (x, rest) \<longleftrightarrow> bs = x @ rest \<and> length x = n"
  by (auto simp: read_exact_eq split: if_splits)

lemma read_exact_Cons [simp]: "read_exact (b # bs) (Suc 0) = Ok ([b], bs)"
  by (simp add: read_exact_Ok_iff)

definition path_bytes :: "byte option \<Rightarrow> byte list" where
  "path_bytes v = (case v of None \<Rightarrow> [0, 0] | Some b \<Rightarrow> [1, b])"

lemma write_meta_eq:
  "write_meta b m = b @ put_u64 (meta_sequence m) @ put_u64 (meta_connection_epoch m)
     @ put_u64 (meta_sent_at_ms m) @ path_bytes (meta_path_id m)"
  by (simp add: write_meta_def write_u64_def path_bytes_def split: option.splits)

lemma length_write_meta [simp]: "length (write_meta b m) = length b + 26"
  by (simp add: write_meta_eq path_bytes_def split: option.splits)

lemma read_write_meta: "read_meta (write_meta [] m @ rest) = Ok (m, rest)"
  by (cases m; cases "meta_path_id m") (simp_all add: write_meta_eq read_meta_eq path_bytes_def)

text \<open>The reverse direction: the reader ignores the path byte when the marker is zero.\<close>

lemma read_meta_Ok:
  assumes "read_meta bs = Ok (m, rest)"
  obtains s e t f pb where "bs = put_u64 s @ put_u64 e @ put_u64 t @ [f, pb] @ rest"
    and "f = 0 \<or> f = 1"
    and "m = \<lparr>meta_sequence = s, meta_connection_epoch = e, meta_sent_at_ms = t,
              meta_path_id = (if f = 0 then None else Some pb)\<rparr>"
  using assms
  by (auto simp: read_meta_eq and_then_Ok_iff field_reads_iff read_exact_Ok_iff length_Suc_conv
      split: if_splits)

subsection \<open>Messages\<close>

fun message_payload :: "relay_message \<Rightarrow> byte list" where
  "message_payload (DiscoveryRequest _ _ d) = d"
| "message_payload (DiscoveryToHost _ _ _ d) = d"
| "message_payload (DiscoveryResponse _ _ _ d) = d"
| "message_payload (DiscoveryToClient _ _ _ d) = d"
| "message_payload (GameplayPacket _ _ d) = d"
| "message_payload (GameplayToPeer _ _ _ d) = d"
| "message_payload (RelayProbe _) = []"
| "message_payload (RelayProbeAck _) = []"

text \<open>The kind byte and the fixed fields of a message, in front of its payload.\<close>

fun message_kind :: "relay_message \<Rightarrow> byte" where
  "message_kind (DiscoveryRequest _ _ _) = DISCOVERY_REQUEST"
| "message_kind (DiscoveryToHost _ _ _ _) = DISCOVERY_TO_HOST"
| "message_kind (DiscoveryResponse _ _ _ _) = DISCOVERY_RESPONSE"
| "message_kind (DiscoveryToClient _ _ _ _) = DISCOVERY_TO_CLIENT"
| "message_kind (GameplayPacket _ _ _) = GAMEPLAY_PACKET"
| "message_kind (GameplayToPeer _ _ _ _) = GAMEPLAY_TO_PEER"
| "message_kind (RelayProbe _) = RELAY_PROBE"
| "message_kind (RelayProbeAck _) = RELAY_PROBE_ACK"

fun message_fields :: "relay_message \<Rightarrow> byte list" where
  "message_fields (DiscoveryRequest i p _) = put_id (discovery_uuid i) @ put_port p"
| "message_fields (DiscoveryToHost i a p _) = put_id (discovery_uuid i) @ put_ip a @ put_port p"
| "message_fields (DiscoveryResponse i h p _) = put_id (discovery_uuid i) @ put_id (host_uuid h) @ put_port p"
| "message_fields (DiscoveryToClient i a p _) = put_id (discovery_uuid i) @ put_ip a @ put_port p"
| "message_fields (GameplayPacket i p _) = put_id (gameplay_uuid i) @ put_port p"
| "message_fields (GameplayToPeer i a p _) = put_id (gameplay_uuid i) @ put_ip a @ put_port p"
| "message_fields (RelayProbe i) = put_id (discovery_uuid i)"
| "message_fields (RelayProbeAck i) = put_id (discovery_uuid i)"

lemma length_message_fields: "length (message_fields m) \<le> 34"
  by (cases m) simp_all

lemma write_payload_eq:
  "write_payload b d =
     (if length d \<le> MAX_CIV6_DATAGRAM_SIZE then Ok (b @ d)
      else Err (InvalidPacket ''Civ VI payload exceeds the maximum datagram size''))"
  by (simp add: write_payload_def)

lemma write_message_eq:
  "write_message b m =
     (if length (message_payload m) \<le> MAX_CIV6_DATAGRAM_SIZE
      then Ok (message_kind m, b @ message_fields m @ message_payload m)
      else Err (InvalidPacket ''Civ VI payload exceeds the maximum datagram size''))"
  by (cases m) (simp_all add: write_payload_eq write_id_def write_ip_def write_port_def)

lemma read_payload_Ok_iff:
  "read_payload bs = Ok (d, rest) \<longleftrightarrow> d = bs \<and> rest = [] \<and> length bs \<le> MAX_CIV6_DATAGRAM_SIZE"
  by (auto simp: read_payload_def)

lemma read_message_fields:
  "length (message_payload m) \<le> MAX_CIV6_DATAGRAM_SIZE \<Longrightarrow>
   read_message (message_kind m) (message_fields m @ message_payload m) = Ok (m, [])"
  by (cases m) (simp_all add: read_message_def kind_defs read_payload_def id_field.get_Ok_iff
      id_field.get_put [where rest = "[]", simplified])

lemma read_message_Ok:
  assumes "read_message k bs = Ok (m, [])"
  shows "k = message_kind m" and "bs = message_fields m @ message_payload m"
    and "length (message_payload m) \<le> MAX_CIV6_DATAGRAM_SIZE"
  using assms
  by (auto simp: read_message_def and_then_Ok_iff field_reads_iff read_payload_Ok_iff
      MAX_CIV6_DATAGRAM_SIZE_def split: if_splits)

subsection \<open>Frames\<close>

definition frame :: "byte \<Rightarrow> byte \<Rightarrow> byte list \<Rightarrow> byte list" where
  "frame v k b = MAGIC @ [v] @ [k] @ word_to_be 2 (word_of_nat (length b) :: u16) @ b"

definition meta_part :: "relay_meta option \<Rightarrow> byte list" where
  "meta_part v = (case v of Some m \<Rightarrow> write_meta [] m | None \<Rightarrow> [])"

lemma length_frame [simp]: "length (frame v k b) = length b + 8"
  by (simp add: frame_def MAGIC_def)

lemma length_meta_part: "length (meta_part v) \<le> 26"
  by (simp add: meta_part_def split: option.splits)

lemma frame_nth [simp]: "frame v k b ! 4 = v" "frame v k b ! 5 = k" "take 4 (frame v k b) = MAGIC"
  by (simp_all add: frame_def MAGIC_def)

lemma drop_frame [simp]: "drop 8 (frame v k b) = b"
  by (simp add: frame_def MAGIC_def)

lemma frame_declared_length:
  "length b \<le> 65535 \<Longrightarrow> unat (word_from_be [frame v k b ! 6, frame v k b ! 7] :: u16) = length b"
proof -
  assume len: "length b \<le> 65535"
  obtain x y where xy: "word_to_be 2 (word_of_nat (length b) :: u16) = [x, y]"
    by (metis length_word_to_be list_of_2)
  have "(word_from_be [x, y] :: u16) = word_of_nat (length b)"
    unfolding xy [symmetric] by (rule word_from_to_be) simp
  moreover have "frame v k b ! 6 = x" "frame v k b ! 7 = y"
    by (simp_all add: frame_def MAGIC_def xy)
  ultimately show ?thesis
    using len by (simp add: unat_of_nat)
qed

lemma encode_packet_eq:
  "encode_packet m meta v =
     (if length (message_payload m) \<le> MAX_CIV6_DATAGRAM_SIZE
      then Ok (frame v (message_kind m) (meta_part meta @ message_fields m @ message_payload m))
      else Err (InvalidPacket ''Civ VI payload exceeds the maximum datagram size''))"
  using length_meta_part [of meta] length_message_fields [of m]
  by (cases meta)
    (simp_all add: encode_packet_def write_message_eq frame_def meta_part_def MAX_CIV6_DATAGRAM_SIZE_def)

lemma body_bound:
  "length (message_payload m) \<le> MAX_CIV6_DATAGRAM_SIZE \<Longrightarrow>
   length (meta_part meta @ message_fields m @ message_payload m) \<le> 4156"
  using length_meta_part [of meta] length_message_fields [of m]
  by (simp add: MAX_CIV6_DATAGRAM_SIZE_def)

definition decode_body :: "byte \<Rightarrow> byte \<Rightarrow> byte list \<Rightarrow> (relay_envelope, relay_codec_error) result" where
  "decode_body v k body =
     and_then (if v = RELAY_PROTOCOL_VERSION then read_meta body else Ok (meta_default, body))
       (\<lambda>(meta, body). and_then (read_message k body) (\<lambda>(message, body).
         if body \<noteq> [] then Err (InvalidPacket ''relay envelope contains trailing bytes'')
         else Ok \<lparr>env_meta = meta, env_message = message\<rparr>))"

lemma decode_packet_frame:
  assumes "length b \<le> 4160" and "v = LEGACY_RELAY_PROTOCOL_VERSION \<or> v = RELAY_PROTOCOL_VERSION"
  shows "decode_packet (frame v k b) = decode_body v k b"
  using assms frame_declared_length [of b v k]
  by (auto simp: decode_packet_eq decode_body_def size_defs Let_def)

lemma decode_packet_Ok_frame:
  assumes "decode_packet p = Ok e"
  obtains v k b where "p = frame v k b" and "length b \<le> 4160"
    and "v = LEGACY_RELAY_PROTOCOL_VERSION \<or> v = RELAY_PROTOCOL_VERSION"
    and "decode_body v k b = Ok e"
proof -
  let ?v = "p ! 4" and ?k = "p ! 5" and ?b = "drop 8 p"
  from assms have len: "8 \<le> length p" "length p \<le> 4168" and magic: "take 4 p = MAGIC"
    and ver: "?v = LEGACY_RELAY_PROTOCOL_VERSION \<or> ?v = RELAY_PROTOCOL_VERSION"
    and decl: "unat (word_from_be [p ! 6, p ! 7] :: u16) = length p - 8"
    by (auto simp: decode_packet_eq size_defs Let_def split: if_splits)
  have "word_to_be 2 (word_of_nat (length ?b) :: u16) = [p ! 6, p ! 7]"
    using word_to_from_be [where 'w = 16 and bs = "[p ! 6, p ! 7]"]
    by (simp add: decl [symmetric] numeral_2_eq_2)
  moreover have "p = take 4 p @ [p ! 4] @ [p ! 5] @ [p ! 6, p ! 7] @ drop 8 p"
    using len(1) by (simp add: Cons_nth_drop_Suc append_eq_conv_conj numeral_eq_Suc)
  ultimately have p: "p = frame ?v ?k ?b"
    using magic by (simp add: frame_def)
  have b: "length ?b \<le> 4160" using len by simp
  from assms have "decode_packet (frame ?v ?k ?b) = Ok e" using p by simp
  then have "decode_body ?v ?k ?b = Ok e"
    by (simp only: decode_packet_frame [OF b ver])
  with that p b ver show thesis by blast
qed

lemma decode_body_encoded:
  assumes "length (message_payload m) \<le> MAX_CIV6_DATAGRAM_SIZE"
  shows "decode_body RELAY_PROTOCOL_VERSION (message_kind m)
           (write_meta [] meta @ message_fields m @ message_payload m) =
           Ok \<lparr>env_meta = meta, env_message = m\<rparr>"
    and "decode_body LEGACY_RELAY_PROTOCOL_VERSION (message_kind m) (message_fields m @ message_payload m) =
           Ok \<lparr>env_meta = meta_default, env_message = m\<rparr>"
  using assms by (simp_all add: decode_body_def read_write_meta read_message_fields version_defs)

lemma decode_body_Ok:
  assumes "decode_body v k b = Ok e"
  obtains body where "read_message k body = Ok (env_message e, [])"
    and "v = RELAY_PROTOCOL_VERSION \<Longrightarrow> read_meta b = Ok (env_meta e, body)"
    and "v \<noteq> RELAY_PROTOCOL_VERSION \<Longrightarrow> env_meta e = meta_default \<and> body = b"
  using assms by (auto simp: decode_body_def and_then_Ok_iff split: if_splits)

subsection \<open>The properties of the envelope\<close>

lemma encoded_envelope:
  assumes len: "length (message_payload (env_message e)) \<le> 4096"
  obtains p where "envelope_encode e = Ok p" "length p \<le> MAX_RELAY_DATAGRAM_SIZE" "envelope_decode p = Ok e"
proof -
  let ?m = "env_message e"
  let ?b = "write_meta [] (env_meta e) @ message_fields ?m @ message_payload ?m"
  let ?p = "frame RELAY_PROTOCOL_VERSION (message_kind ?m) ?b"
  from len have enc: "envelope_encode e = Ok ?p"
    by (simp add: envelope_encode_def encode_packet_eq MAX_CIV6_DATAGRAM_SIZE_def meta_part_def)
  have b: "length ?b \<le> 4156"
    using body_bound [of ?m "Some (env_meta e)"] len by (simp add: MAX_CIV6_DATAGRAM_SIZE_def meta_part_def)
  then have dec: "envelope_decode ?p = Ok e"
    using len by (simp add: envelope_decode_def decode_packet_frame decode_body_encoded MAX_CIV6_DATAGRAM_SIZE_def)
  from b have "length ?p \<le> MAX_RELAY_DATAGRAM_SIZE"
    by (simp add: size_defs)
  with enc dec show ?thesis using that by blast
qed

lemma decoded_payload:
  assumes "envelope_decode p = Ok e"
  shows "length (message_payload (env_message e)) \<le> 4096"
proof -
  obtain v k b where "decode_body v k b = Ok e"
    using assms unfolding envelope_decode_def by (rule decode_packet_Ok_frame)
  then obtain body where "read_message k body = Ok (env_message e, [])"
    by (rule decode_body_Ok) blast
  from read_message_Ok(3) [OF this] show ?thesis by (simp add: MAX_CIV6_DATAGRAM_SIZE_def)
qed

text \<open>
  C9. Round trip of the version 2 envelope: whenever the payload is within the Civ VI limit,
  encoding succeeds, the packet fits the relay's datagram limit, and decoding gives back the
  same metadata and message; a longer payload is refused. No other condition is needed.
\<close>

theorem envelope_roundtrip:
  "(length (message_payload (env_message e)) \<le> 4096 \<longrightarrow>
      (\<exists>p. envelope_encode e = Ok p \<and> length p \<le> MAX_RELAY_DATAGRAM_SIZE \<and>
           envelope_decode p = Ok e \<and> message_decode p = Ok (env_message e))) \<and>
   (4096 < length (message_payload (env_message e)) \<longrightarrow>
      envelope_encode e = Err (InvalidPacket ''Civ VI payload exceeds the maximum datagram size''))"
proof (intro conjI impI)
  assume "length (message_payload (env_message e)) \<le> 4096"
  then show "\<exists>p. envelope_encode e = Ok p \<and> length p \<le> MAX_RELAY_DATAGRAM_SIZE \<and>
      envelope_decode p = Ok e \<and> message_decode p = Ok (env_message e)"
    by (elim encoded_envelope) (auto simp: message_decode_def)
qed (simp add: envelope_encode_def encode_packet_eq MAX_CIV6_DATAGRAM_SIZE_def)

theorem envelope_roundtrip_witness:
  "\<exists>p. envelope_encode \<lparr>env_meta = meta_default, env_message = RelayProbe (DiscoveryRequestId 7)\<rparr> = Ok p \<and>
       envelope_decode p = Ok \<lparr>env_meta = meta_default, env_message = RelayProbe (DiscoveryRequestId 7)\<rparr>"
  using envelope_roundtrip [of "\<lparr>env_meta = meta_default, env_message = RelayProbe (DiscoveryRequestId 7)\<rparr>"]
  by auto

text \<open>
  Legacy packets: a message encoded without metadata decodes to the same message with the
  default metadata (sequence and epoch zero, no path), so version 1 senders stay accepted.
\<close>

theorem legacy_roundtrip:
  assumes "message_encode m = Ok p"
  shows "envelope_decode p = Ok \<lparr>env_meta = meta_default, env_message = m\<rparr> \<and>
         message_decode p = Ok m"
proof -
  from assms have len: "length (message_payload m) \<le> MAX_CIV6_DATAGRAM_SIZE"
    and p: "p = frame LEGACY_RELAY_PROTOCOL_VERSION (message_kind m) (message_fields m @ message_payload m)"
    by (auto simp: message_encode_def encode_packet_eq meta_part_def split: if_splits)
  have "length (message_fields m @ message_payload m) \<le> 4160"
    using body_bound [OF len, of None] by (simp add: meta_part_def)
  then have "envelope_decode p = Ok \<lparr>env_meta = meta_default, env_message = m\<rparr>"
    using len by (simp add: p envelope_decode_def decode_packet_frame decode_body_encoded)
  then show ?thesis
    by (simp add: message_decode_def)
qed

theorem legacy_roundtrip_witness:
  "\<exists>p. message_encode (RelayProbeAck (DiscoveryRequestId 9)) = Ok p \<and>
       message_decode p = Ok (RelayProbeAck (DiscoveryRequestId 9))"
proof -
  obtain p where p: "message_encode (RelayProbeAck (DiscoveryRequestId 9)) = Ok p"
    by (simp add: message_encode_def encode_packet_eq)
  with legacy_roundtrip [OF p] show ?thesis by blast
qed

text \<open>
  C11. Decoding loses nothing but one byte: an accepted version 1 packet is exactly the encoding
  of its message, and an accepted version 2 packet is exactly the encoding of its envelope once
  the path byte behind a zero path marker (offset 33) is cleared. So two different packets
  decode to the same envelope only if they differ in the version or in that ignored byte.
\<close>

theorem decode_then_encode:
  assumes "envelope_decode p = Ok e"
  shows "(p ! 4 = LEGACY_RELAY_PROTOCOL_VERSION \<longrightarrow> message_encode (env_message e) = Ok p) \<and>
         (p ! 4 = RELAY_PROTOCOL_VERSION \<longrightarrow>
           envelope_encode e = Ok (if p ! 32 = 0 then p[33 := 0] else p))"
proof (intro conjI impI)
  from assms obtain v k b where p: "p = frame v k b" and "length b \<le> 4160"
    and v: "v = LEGACY_RELAY_PROTOCOL_VERSION \<or> v = RELAY_PROTOCOL_VERSION"
    and dec: "decode_body v k b = Ok e"
    unfolding envelope_decode_def by (rule decode_packet_Ok_frame)
  from dec obtain body where msg: "read_message k body = Ok (env_message e, [])"
    and v2: "v = RELAY_PROTOCOL_VERSION \<Longrightarrow> read_meta b = Ok (env_meta e, body)"
    and v1: "v \<noteq> RELAY_PROTOCOL_VERSION \<Longrightarrow> env_meta e = meta_default \<and> body = b"
    by (rule decode_body_Ok) blast
  note m = read_message_Ok [OF msg]
  show "message_encode (env_message e) = Ok p" if "p ! 4 = LEGACY_RELAY_PROTOCOL_VERSION"
    using that v1 m by (simp add: p message_encode_def encode_packet_eq meta_part_def version_defs)
  show "envelope_encode e = Ok (if p ! 32 = 0 then p[33 := 0] else p)" if "p ! 4 = RELAY_PROTOCOL_VERSION"
  proof -
    from that v2 obtain s ep t f pb where b: "b = put_u64 s @ put_u64 ep @ put_u64 t @ [f, pb] @ body"
      and f: "f = 0 \<or> f = 1"
      and meta: "env_meta e = \<lparr>meta_sequence = s, meta_connection_epoch = ep, meta_sent_at_ms = t,
              meta_path_id = (if f = 0 then None else Some pb)\<rparr>"
      by (auto simp: p elim: read_meta_Ok)
    define q where "q = MAGIC @ [v] @ [k] @ word_to_be 2 (word_of_nat (length b) :: u16)
        @ put_u64 s @ put_u64 ep @ put_u64 t"
    have q: "length q = 32" "p = q @ f # pb # body"
      by (simp_all add: q_def p frame_def b MAGIC_def)
    have "envelope_encode e = Ok (frame v k (put_u64 s @ put_u64 ep @ put_u64 t
        @ [f, if f = 0 then 0 else pb] @ body))"
      using that m f by (auto simp: p envelope_encode_def encode_packet_eq meta_part_def write_meta_eq
          meta path_bytes_def)
    also have "frame v k (put_u64 s @ put_u64 ep @ put_u64 t @ [f, if f = 0 then 0 else pb] @ body)
        = q @ f # (if f = 0 then 0 else pb) # body"
      by (simp add: q_def frame_def b)
    finally show ?thesis
      by (simp add: q nth_append list_update_append)
  qed
qed

text \<open>A version 2 probe, byte by byte, as the witnesses use it.\<close>

definition probe_packet :: "byte list" where
  "probe_packet = frame RELAY_PROTOCOL_VERSION RELAY_PROBE (write_meta [] meta_default @ put_id 7)"

lemma probe_packet_decodes:
  "envelope_decode probe_packet = Ok \<lparr>env_meta = meta_default, env_message = RelayProbe (DiscoveryRequestId 7)\<rparr>"
  using decode_body_encoded(1) [of "RelayProbe (DiscoveryRequestId 7)" meta_default]
  by (simp add: probe_packet_def envelope_decode_def decode_packet_frame version_defs)

theorem decode_then_encode_witness:
  "envelope_decode probe_packet = Ok \<lparr>env_meta = meta_default, env_message = RelayProbe (DiscoveryRequestId 7)\<rparr> \<and>
   envelope_encode \<lparr>env_meta = meta_default, env_message = RelayProbe (DiscoveryRequestId 7)\<rparr>
     = Ok (if probe_packet ! 32 = 0 then probe_packet[33 := 0] else probe_packet)"
proof -
  have "probe_packet ! 4 = RELAY_PROTOCOL_VERSION"
    by (simp add: probe_packet_def)
  with decode_then_encode [OF probe_packet_decodes] probe_packet_decodes show ?thesis
    by (simp only: simp_thms)
qed

lemma field_not_Panic [simp]:
  "read_id b \<noteq> Panic" "read_ip b \<noteq> Panic" "read_port b \<noteq> Panic" "read_u64 what b \<noteq> Panic"
  "read_payload b \<noteq> Panic" "read_exact b n \<noteq> Panic"
  by (simp_all add: id_field.get_not_Panic ip_field.get_not_Panic port_field.get_not_Panic
      u64_field.get_not_Panic read_payload_def read_exact_eq)

lemma read_message_not_Panic [simp]: "read_message k b \<noteq> Panic"
  unfolding read_message_def by (simp add: and_then_not_Panic split: prod.split)

lemma read_meta_not_Panic [simp]: "read_meta b \<noteq> Panic"
  unfolding read_meta_eq by (simp add: and_then_not_Panic split: prod.split)

lemma decode_packet_not_Panic: "decode_packet p \<noteq> Panic"
  unfolding decode_packet_eq Let_def by (simp add: and_then_not_Panic split: prod.split)

text \<open>
  C10. What the decoder lets through: it never panics on any input, and an accepted packet has
  the magic, version 1 or 2, the kind byte of its message (1 to 8), a length field equal to the
  number of bytes behind the 8-byte header, at most 4168 bytes in all, and a payload of at most
  4096 bytes.
\<close>

theorem decode_accepts_only:
  "envelope_decode p \<noteq> Panic \<and>
   (envelope_decode p = Ok e \<longrightarrow>
      8 \<le> length p \<and> length p \<le> 4168 \<and> take 4 p = [0x43, 0x36, 0x4C, 0x42] \<and>
      (p ! 4 = 1 \<or> p ! 4 = 2) \<and> p ! 5 = message_kind (env_message e) \<and>
      unat (word_from_be [p ! 6, p ! 7] :: u16) = length p - 8 \<and>
      length (message_payload (env_message e)) \<le> 4096)"
proof (intro conjI impI)
  show "envelope_decode p \<noteq> Panic"
    by (simp add: envelope_decode_def decode_packet_not_Panic)
  assume "envelope_decode p = Ok e"
  then obtain v k b where p: "p = frame v k b" and len: "length b \<le> 4160"
    and v: "v = LEGACY_RELAY_PROTOCOL_VERSION \<or> v = RELAY_PROTOCOL_VERSION"
    and dec: "decode_body v k b = Ok e"
    unfolding envelope_decode_def by (rule decode_packet_Ok_frame)
  from dec obtain body where "read_message k body = Ok (env_message e, [])"
    by (rule decode_body_Ok) blast
  note m = read_message_Ok [OF this]
  show "8 \<le> length p" "length p \<le> 4168" using len by (simp_all add: p)
  show "take 4 p = [0x43, 0x36, 0x4C, 0x42]" by (simp add: p MAGIC_def)
  show "p ! 4 = 1 \<or> p ! 4 = 2" using v by (auto simp: p version_defs)
  show "p ! 5 = message_kind (env_message e)" using m(1) by (simp add: p)
  show "unat (word_from_be [p ! 6, p ! 7] :: u16) = length p - 8"
    using len by (simp add: p frame_declared_length)
  show "length (message_payload (env_message e)) \<le> 4096"
    using decoded_payload [OF \<open>envelope_decode p = Ok e\<close>] .
qed

theorem decode_accepts_only_witness:
  "envelope_decode probe_packet = Ok \<lparr>env_meta = meta_default, env_message = RelayProbe (DiscoveryRequestId 7)\<rparr> \<and>
   probe_packet ! 5 = RELAY_PROBE"
  using decode_accepts_only [of probe_packet "\<lparr>env_meta = meta_default, env_message = RelayProbe (DiscoveryRequestId 7)\<rparr>"]
  by (simp add: probe_packet_decodes)

text \<open>
  Packet boundaries: no proper extension of an accepted packet is accepted, so neither
  trailing bytes nor a truncated packet ever decode.
\<close>

theorem accepted_packets_prefix_free:
  assumes "envelope_decode p = Ok e" and "envelope_decode (p @ r) = Ok e'"
  shows "r = []"
proof -
  have p: "8 \<le> length p" "unat (word_from_be [p ! 6, p ! 7] :: u16) = length p - 8"
    using assms(1) by (auto simp: envelope_decode_def decode_packet_eq size_defs Let_def split: if_splits)
  have "unat (word_from_be [(p @ r) ! 6, (p @ r) ! 7] :: u16) = length (p @ r) - 8"
    using assms(2) by (auto simp: envelope_decode_def decode_packet_eq size_defs Let_def split: if_splits)
  with p have "length p - 8 = length p + length r - 8"
    by (simp add: nth_append)
  with p(1) have "length r = 0" by arith
  then show ?thesis by simp
qed

theorem accepted_packets_prefix_free_witness:
  "envelope_decode probe_packet \<noteq> Panic \<and> \<not> (\<exists>e'. envelope_decode (probe_packet @ [0]) = Ok e')"
  using accepted_packets_prefix_free [OF probe_packet_decodes, of "[0]"] probe_packet_decodes by auto

text \<open>
  Transport path identifiers: \<open>from_id\<close> inverts \<open>id\<close>, the two paths have different
  identifiers, and every byte other than 1 and 2 is no path.
\<close>

theorem transport_path_ids:
  "path_from_id (path_to_id t) = Some t \<and>
   (path_from_id b = Some t \<longleftrightarrow> b = path_to_id t) \<and>
   (path_from_id b = None \<longleftrightarrow> b \<noteq> 1 \<and> b \<noteq> 2)"
  by (cases t) (auto simp: path_from_id_def WIREGUARD_UDP_PATH_ID_def QUIC_DATAGRAM_PATH_ID_def)

end
