(* ===== verification/Router.thy ===== *)
theory Router
  imports Relay_Codec
begin

section \<open>The room router\<close>

text \<open>
  Models \<open>crates/router/src/lib.rs\<close>, the in-memory state machine that decides where a datagram
  may go: its configuration, error values, tables and every operation of \<open>impl RoomRouter\<close>.
  An operation takes the state and returns its \<open>Result\<close> with the new state, on the error paths
  too, because some of them change the state first. A failing \<open>expect\<close> is \<open>Panic\<close>. Fresh
  identifiers and clock readings are arguments.
\<close>

subsection \<open>Configuration and errors\<close>

record router_config =
  host_ttl :: duration
  discovery_ttl :: duration
  gameplay_idle_ttl :: duration
  peer_ttl :: duration
  peer_grace_ttl :: duration
  safe_payload_size :: nat
  max_rooms :: nat
  max_peers_per_room :: nat
  max_total_peers :: nat
  max_hosts_per_room :: nat
  max_gameplay_sessions :: nat

definition default_config :: router_config where
  "default_config = \<lparr>
     host_ttl = from_secs 15,
     discovery_ttl = from_secs 5,
     gameplay_idle_ttl = from_secs 30,
     peer_ttl = from_secs 15,
     peer_grace_ttl = from_secs 45,
     safe_payload_size = DEFAULT_SAFE_RELAY_PAYLOAD_SIZE,
     max_rooms = 1024,
     max_peers_per_room = 64,
     max_total_peers = 4096,
     max_hosts_per_room = 64,
     max_gameplay_sessions = 4096\<rparr>"

datatype router_error =
    RoomNotFound room_id
  | DuplicateRoomCode room_code
  | DuplicateRoomId room_id
  | RoomNotEmpty room_id
  | RoomLimitReached
  | RoomPeerLimitReached room_id
  | PeerLimitReached
  | PeerAlreadyInRoom peer_id
  | PeerNotInRoom peer_id room_id
  | PeerNotFound peer_id
  | VirtualIpInUse virtual_ip
  | HostNotFound host_session_id
  | HostNotInRoom host_session_id room_id
  | HostExpired host_session_id
  | HostLimitReached room_id
  | PeerDisconnected peer_id
  | PeerGraceExpired peer_id
  | DiscoveryNotFound discovery_request_id
  | DiscoveryExpired discovery_request_id
  | DiscoveryRequestConflict discovery_request_id
  | GameplayNotFound gameplay_session_id
  | UnauthorizedGameplayPeer peer_id gameplay_session_id
  | GameplayLimitReached
  | InvalidDiscoveryPort u16
  | InvalidGameplayPort u16
  | DatagramTooLarge nat

subsection \<open>Snapshots, ingress and actions\<close>

record discovery_target =
  target_host_session_id :: host_session_id
  target_host_peer_id :: peer_id
  target_host_virtual_ip :: virtual_ip

record room_snapshot =
  rsnap_room_id :: room_id
  rsnap_code :: room_code
  rsnap_member_count :: nat
  rsnap_host_count :: nat

record host_snapshot =
  hsnap_host_session_id :: host_session_id
  hsnap_room_id :: room_id
  hsnap_peer_id :: peer_id
  hsnap_virtual_ip :: virtual_ip

record peer_snapshot =
  psnap_room_id :: room_id
  psnap_peer_id :: peer_id
  psnap_virtual_ip :: virtual_ip
  psnap_connection_epoch :: u64

record gameplay_snapshot =
  gsnap_session_id :: gameplay_session_id
  gsnap_room_id :: room_id
  gsnap_client_peer_id :: peer_id
  gsnap_host_peer_id :: peer_id
  gsnap_client_virtual_ip :: virtual_ip
  gsnap_host_virtual_ip :: virtual_ip

record gameplay_route =
  route_session_id :: gameplay_session_id
  route_room_id :: room_id
  route_source_peer_id :: peer_id
  route_destination_peer_id :: peer_id
  route_destination_virtual_ip :: virtual_ip

text \<open>\<open>RelayIngress\<close> and \<open>RelayAction\<close>, fields in the order declared.\<close>

datatype relay_ingress =
    IngressDiscovery peer_id discovery_request_id udp_port "byte list" instant
  | IngressDiscoveryResponse host_session_id discovery_request_id udp_port "byte list" instant
  | IngressGameplay gameplay_session_id peer_id udp_port "byte list" instant

datatype relay_action =
    DiscoveryFanout discovery_request_id peer_id udp_port "discovery_target list" "byte list"
  | DiscoveryUnicast discovery_request_id peer_id virtual_ip udp_port "byte list"
  | GameplayUnicast gameplay_route udp_port "byte list"

record expiration_report =
  expired_hosts :: nat
  expired_discoveries :: nat
  expired_gameplay_sessions :: nat

record router_stats =
  active_rooms :: nat
  active_peers :: nat
  suspended_peers :: nat
  active_hosts :: nat
  active_gameplay_sessions :: nat

subsection \<open>The tables\<close>

record room_state =
  rs_code :: room_code
  rs_members :: "peer_id fset"
  rs_host_sessions :: "host_session_id fset"

record peer_state =
  ps_room_id :: room_id
  ps_virtual_ip :: virtual_ip
  ps_last_seen :: instant
  ps_disconnected_at :: "instant option"
  ps_connection_epoch :: u64

record host_state =
  hs_room_id :: room_id
  hs_peer_id :: peer_id
  hs_virtual_ip :: virtual_ip
  hs_last_heartbeat :: instant
  hs_expires_at :: instant

record discovery_state =
  ds_room_id :: room_id
  ds_client_peer_id :: peer_id
  ds_destination_port :: udp_port
  ds_expires_at :: instant

record gameplay_state =
  gs_room_id :: room_id
  gs_client_peer_id :: peer_id
  gs_host_peer_id :: peer_id
  gs_host_virtual_ip :: virtual_ip
  gs_client_virtual_ip :: virtual_ip
  gs_last_activity :: instant
  gs_expires_at :: instant

record room_router =
  config :: router_config
  rooms :: "(room_id, room_state) hash_map"
  rooms_by_code :: "(room_code, room_id) hash_map"
  peers :: "(peer_id, peer_state) hash_map"
  virtual_ips :: "(virtual_ip, peer_id) hash_map"
  hosts :: "(host_session_id, host_state) hash_map"
  host_by_peer :: "(room_id \<times> peer_id, host_session_id) hash_map"
  discoveries :: "(discovery_request_id, discovery_state) hash_map"
  gameplay :: "(gameplay_session_id, gameplay_state) hash_map"

definition router_new :: "router_config \<Rightarrow> room_router" where
  "router_new c = \<lparr>config = c, rooms = fmempty, rooms_by_code = fmempty, peers = fmempty,
     virtual_ips = fmempty, hosts = fmempty, host_by_peer = fmempty, discoveries = fmempty,
     gameplay = fmempty\<rparr>"

subsection \<open>Rooms\<close>

definition create_room_with_id ::
  "room_id \<Rightarrow> room_code \<Rightarrow> room_router \<Rightarrow> (unit, router_error) result \<times> room_router" where
  "create_room_with_id rid code r =
     (if max_rooms (config r) \<le> hlen (rooms r) then (Err RoomLimitReached, r)
      else if hcontains code (rooms_by_code r) then (Err (DuplicateRoomCode code), r)
      else if hcontains rid (rooms r) then (Err (DuplicateRoomId rid), r)
      else
        let r = r\<lparr>rooms := hinsert rid
              \<lparr>rs_code = code, rs_members = {||}, rs_host_sessions = {||}\<rparr> (rooms r)\<rparr>;
            r = r\<lparr>rooms_by_code := hinsert code rid (rooms_by_code r)\<rparr>
        in (Ok (), r))"

definition create_room ::
  "room_id \<Rightarrow> room_code \<Rightarrow> room_router \<Rightarrow> (room_id, router_error) result \<times> room_router" where
  "create_room new_id code r =
     try_st (create_room_with_id new_id code r) (\<lambda>_ r. (Ok new_id, r))"

definition remove_empty_room :: "room_id \<Rightarrow> room_router \<Rightarrow> (unit, router_error) result \<times> room_router" where
  "remove_empty_room rid r =
     (case hget (rooms r) rid of
        None \<Rightarrow> (Err (RoomNotFound rid), r)
      | Some room \<Rightarrow>
          if rs_members room \<noteq> {||} \<or> rs_host_sessions room \<noteq> {||} then (Err (RoomNotEmpty rid), r)
          else
            let code = rs_code room;
                r = r\<lparr>rooms := hremove rid (rooms r)\<rparr>;
                r = r\<lparr>rooms_by_code := hremove code (rooms_by_code r)\<rparr>
            in (Ok (), r))"

definition room_id_for_code :: "room_router \<Rightarrow> room_code \<Rightarrow> room_id option" where
  "room_id_for_code r code = hget (rooms_by_code r) code"

definition room_code_of :: "room_router \<Rightarrow> room_id \<Rightarrow> (room_code, router_error) result" where
  "room_code_of r rid = ok_or (RoomNotFound rid) (map_option rs_code (hget (rooms r) rid))"

definition room_snapshot_of :: "room_router \<Rightarrow> room_id \<Rightarrow> (room_snapshot, router_error) result" where
  "room_snapshot_of r rid =
     and_then (ok_or (RoomNotFound rid) (hget (rooms r) rid)) (\<lambda>room.
       Ok \<lparr>rsnap_room_id = rid, rsnap_code = rs_code room,
           rsnap_member_count = fcard (rs_members room),
           rsnap_host_count = fcard (rs_host_sessions room)\<rparr>)"

definition host_count :: "room_router \<Rightarrow> room_id \<Rightarrow> (nat, router_error) result" where
  "host_count r rid =
     and_then (ok_or (RoomNotFound rid) (hget (rooms r) rid)) (\<lambda>room. Ok (fcard (rs_host_sessions room)))"

subsection \<open>Peers\<close>

definition room_for_peer :: "room_router \<Rightarrow> peer_id \<Rightarrow> room_id option" where
  "room_for_peer r p = map_option ps_room_id (hget (peers r) p)"

definition peer_virtual_ip :: "room_router \<Rightarrow> peer_id \<Rightarrow> virtual_ip option" where
  "peer_virtual_ip r p = map_option ps_virtual_ip (hget (peers r) p)"

definition peer_for_virtual_ip :: "room_router \<Rightarrow> virtual_ip \<Rightarrow> peer_id option" where
  "peer_for_virtual_ip r ip = hget (virtual_ips r) ip"

definition is_virtual_ip_available :: "room_router \<Rightarrow> virtual_ip \<Rightarrow> bool" where
  "is_virtual_ip_available r ip \<longleftrightarrow> \<not> hcontains ip (virtual_ips r)"

definition join_room ::
  "room_id \<Rightarrow> peer_id \<Rightarrow> virtual_ip \<Rightarrow> instant \<Rightarrow> room_router \<Rightarrow> (unit, router_error) result \<times> room_router"
where
  "join_room rid p ip now r =
     (case hget (rooms r) rid of
        None \<Rightarrow> (Err (RoomNotFound rid), r)
      | Some room \<Rightarrow>
          if max_peers_per_room (config r) \<le> fcard (rs_members room)
          then (Err (RoomPeerLimitReached rid), r)
          else if max_total_peers (config r) \<le> hlen (peers r) then (Err PeerLimitReached, r)
          else if \<not> hcontains rid (rooms r) then (Err (RoomNotFound rid), r)
          else if hcontains p (peers r) then (Err (PeerAlreadyInRoom p), r)
          else if hcontains ip (virtual_ips r) then (Err (VirtualIpInUse ip), r)
          else
            case hget (rooms r) rid of
              None \<Rightarrow> (Panic, r)
            | Some room \<Rightarrow>
                let r = r\<lparr>rooms := hinsert rid (room\<lparr>rs_members := finsert p (rs_members room)\<rparr>) (rooms r)\<rparr>;
                    r = r\<lparr>peers := hinsert p
                          \<lparr>ps_room_id = rid, ps_virtual_ip = ip, ps_last_seen = now,
                           ps_disconnected_at = None, ps_connection_epoch = 1\<rparr> (peers r)\<rparr>;
                    r = r\<lparr>virtual_ips := hinsert ip p (virtual_ips r)\<rparr>
                in (Ok (), r))"

definition restore_peer ::
  "room_id \<Rightarrow> peer_id \<Rightarrow> virtual_ip \<Rightarrow> instant \<Rightarrow> room_router \<Rightarrow> (unit, router_error) result \<times> room_router"
where
  "restore_peer rid p ip now r = join_room rid p ip now r"

definition mark_peer_seen ::
  "peer_id \<Rightarrow> instant \<Rightarrow> room_router \<Rightarrow> (unit, router_error) result \<times> room_router" where
  "mark_peer_seen p now r =
     (case hget (peers r) p of
        None \<Rightarrow> (Err (PeerNotFound p), r)
      | Some peer \<Rightarrow>
          if ps_disconnected_at peer \<noteq> None then (Err (PeerDisconnected p), r)
          else (Ok (), r\<lparr>peers := hinsert p (peer\<lparr>ps_last_seen := now\<rparr>) (peers r)\<rparr>))"

definition peer_connection_epoch :: "room_router \<Rightarrow> peer_id \<Rightarrow> (u64, router_error) result" where
  "peer_connection_epoch r p =
     ok_or (PeerNotFound p) (map_option ps_connection_epoch (hget (peers r) p))"

definition snapshot_of_peer :: "peer_id \<Rightarrow> peer_state \<Rightarrow> peer_snapshot" where
  "snapshot_of_peer p peer =
     \<lparr>psnap_room_id = ps_room_id peer, psnap_peer_id = p,
      psnap_virtual_ip = ps_virtual_ip peer, psnap_connection_epoch = ps_connection_epoch peer\<rparr>"

definition peer_snapshot_of :: "room_router \<Rightarrow> peer_id \<Rightarrow> (peer_snapshot, router_error) result" where
  "peer_snapshot_of r p =
     and_then (ok_or (PeerNotFound p) (hget (peers r) p)) (\<lambda>peer. Ok (snapshot_of_peer p peer))"

definition resume_peer ::
  "room_id \<Rightarrow> peer_id \<Rightarrow> instant \<Rightarrow> room_router \<Rightarrow> (peer_snapshot, router_error) result \<times> room_router"
where
  "resume_peer rid p now r =
     (case hget (peers r) p of
        None \<Rightarrow> (Err (PeerNotFound p), r)
      | Some peer \<Rightarrow>
          if ps_room_id peer \<noteq> rid then (Err (PeerNotInRoom p rid), r)
          else
            let finish = (\<lambda>peer. let peer = peer\<lparr>ps_last_seen := now\<rparr> in
                  (Ok (snapshot_of_peer p peer), r\<lparr>peers := hinsert p peer (peers r)\<rparr>))
            in case ps_disconnected_at peer of
                 None \<Rightarrow> finish peer
               | Some disconnected_at \<Rightarrow>
                   if disconnected_at + peer_grace_ttl (config r) \<le> now
                   then (Err (PeerGraceExpired p), r)
                   else finish (peer\<lparr>
                     ps_connection_epoch := max (saturating_add (ps_connection_epoch peer) 1) 1,
                     ps_disconnected_at := None\<rparr>))"

end
