(* ===== verification/Router_Sessions.thy ===== *)
theory Router_Sessions
  imports Router
begin

section \<open>Host, discovery and gameplay sessions of the router\<close>

text \<open>
  The rest of \<open>impl RoomRouter\<close> in \<open>crates/router/src/lib.rs\<close>: host sessions and their
  heartbeat, discovery fan-out and its responses, gameplay sessions and their routes, the
  private helpers \<open>member_state\<close>, \<open>validate_payload\<close>, \<open>disconnect_peer\<close> and \<open>remove_host\<close>,
  leaving a room, expiry, statistics, and \<open>dispatch\<close>.
\<close>

subsection \<open>Private helpers\<close>

definition member_state :: "room_router \<Rightarrow> room_id \<Rightarrow> peer_id \<Rightarrow> (peer_state, router_error) result" where
  "member_state r rid p =
     (case hget (rooms r) rid of
        None \<Rightarrow> Err (RoomNotFound rid)
      | Some room \<Rightarrow>
          if p |\<notin>| rs_members room then Err (PeerNotInRoom p rid)
          else case hget (peers r) p of
                 None \<Rightarrow> Err (PeerNotInRoom p rid)
               | Some peer \<Rightarrow>
                   if ps_room_id peer \<noteq> rid then Err (PeerNotInRoom p rid) else Ok peer)"

definition validate_payload :: "room_router \<Rightarrow> byte list \<Rightarrow> (unit, router_error) result" where
  "validate_payload r payload =
     (if MAX_CIV6_DATAGRAM_SIZE < length payload \<or> safe_payload_size (config r) < length payload
      then Err (DatagramTooLarge (length payload)) else Ok ())"

definition remove_host :: "host_session_id \<Rightarrow> room_router \<Rightarrow> room_router" where
  "remove_host h r =
     (case hget (hosts r) h of
        None \<Rightarrow> r
      | Some host \<Rightarrow>
          let r = r\<lparr>hosts := hremove h (hosts r)\<rparr>;
              r = r\<lparr>host_by_peer := hremove (hs_room_id host, hs_peer_id host) (host_by_peer r)\<rparr>;
              r = (case hget (rooms r) (hs_room_id host) of
                     None \<Rightarrow> r
                   | Some room \<Rightarrow> r\<lparr>rooms := hinsert (hs_room_id host)
                       (room\<lparr>rs_host_sessions := rs_host_sessions room |-| {|h|}\<rparr>) (rooms r)\<rparr>)
          in r\<lparr>gameplay := hretain (\<lambda>_ s. gs_host_peer_id s \<noteq> hs_peer_id host \<or>
                 gs_room_id s \<noteq> hs_room_id host) (gameplay r)\<rparr>)"

definition disconnect_peer :: "peer_id \<Rightarrow> instant \<Rightarrow> room_router \<Rightarrow> room_router" where
  "disconnect_peer p now r =
     (case hget (peers r) p of
        None \<Rightarrow> r
      | Some peer \<Rightarrow>
          let r = r\<lparr>peers := hinsert p (peer\<lparr>ps_disconnected_at := Some now\<rparr>) (peers r)\<rparr>;
              host_ids = hkeys_where (\<lambda>_ host. hs_peer_id host = p) (hosts r);
              r = fold remove_host host_ids r;
              r = r\<lparr>gameplay := hretain (\<lambda>_ s. gs_client_peer_id s \<noteq> p \<and> gs_host_peer_id s \<noteq> p) (gameplay r)\<rparr>
          in r\<lparr>discoveries := hretain (\<lambda>_ d. ds_client_peer_id d \<noteq> p) (discoveries r)\<rparr>)"

subsection \<open>Leaving a room\<close>

definition leave_room ::
  "room_id \<Rightarrow> peer_id \<Rightarrow> room_router \<Rightarrow> (unit, router_error) result \<times> room_router" where
  "leave_room rid p r =
     (case hget (rooms r) rid of
        None \<Rightarrow> (Err (RoomNotFound rid), r)
      | Some room \<Rightarrow>
          if p |\<notin>| rs_members room then (Err (PeerNotInRoom p rid), r)
          else
            let host_ids = hkeys_where (\<lambda>_ host. hs_room_id host = rid \<and> hs_peer_id host = p) (hosts r);
                r = fold remove_host host_ids r;
                gameplay_ids = hkeys_where (\<lambda>_ s. gs_room_id s = rid \<and>
                  (gs_client_peer_id s = p \<or> gs_host_peer_id s = p)) (gameplay r);
                r = r\<lparr>gameplay := fold hremove gameplay_ids (gameplay r)\<rparr>;
                discovery_ids = hkeys_where (\<lambda>_ d. ds_room_id d = rid \<and> ds_client_peer_id d = p) (discoveries r);
                r = r\<lparr>discoveries := fold hremove discovery_ids (discoveries r)\<rparr>
            in case hget (rooms r) rid of
                 None \<Rightarrow> (Panic, r)
               | Some room \<Rightarrow>
                   let r = r\<lparr>rooms := hinsert rid (room\<lparr>rs_members := rs_members room |-| {|p|}\<rparr>) (rooms r)\<rparr>
                   in case hget (peers r) p of
                        None \<Rightarrow> (Panic, r)
                      | Some peer \<Rightarrow>
                          let r = r\<lparr>peers := hremove p (peers r)\<rparr>;
                              r = r\<lparr>virtual_ips := hremove (ps_virtual_ip peer) (virtual_ips r)\<rparr>
                          in (Ok (), r))"

subsection \<open>Host sessions\<close>

text \<open>The second half of \<open>register_host\<close>: the capacity check and the new session.\<close>

definition insert_new_host ::
  "room_id \<Rightarrow> peer_id \<Rightarrow> peer_state \<Rightarrow> instant \<Rightarrow> host_session_id \<Rightarrow> room_router \<Rightarrow>
   (host_session_id, router_error) result \<times> room_router" where
  "insert_new_host rid p peer now new_id r =
     (case hget (rooms r) rid of
        None \<Rightarrow> (Panic, r)
      | Some room \<Rightarrow>
          if max_hosts_per_room (config r) \<le> fcard (rs_host_sessions room) then (Err (HostLimitReached rid), r)
          else
            let r = r\<lparr>hosts := hinsert new_id
                  \<lparr>hs_room_id = rid, hs_peer_id = p, hs_virtual_ip = ps_virtual_ip peer,
                   hs_last_heartbeat = now, hs_expires_at = now + host_ttl (config r)\<rparr> (hosts r)\<rparr>;
                r = r\<lparr>host_by_peer := hinsert (rid, p) new_id (host_by_peer r)\<rparr>
            in case hget (rooms r) rid of
                 None \<Rightarrow> (Panic, r)
               | Some room \<Rightarrow>
                   (Ok new_id, r\<lparr>rooms := hinsert rid
                     (room\<lparr>rs_host_sessions := finsert new_id (rs_host_sessions room)\<rparr>) (rooms r)\<rparr>))"

definition register_host ::
  "room_id \<Rightarrow> peer_id \<Rightarrow> instant \<Rightarrow> host_session_id \<Rightarrow> room_router \<Rightarrow>
   (host_session_id, router_error) result \<times> room_router" where
  "register_host rid p now new_id r =
     try_st (member_state r rid p, r) (\<lambda>peer r.
       case hget (host_by_peer r) (rid, p) of
         None \<Rightarrow> insert_new_host rid p peer now new_id r
       | Some existing_id \<Rightarrow>
           (case hget (hosts r) existing_id of
              None \<Rightarrow> insert_new_host rid p peer now new_id (remove_host existing_id r)
            | Some existing \<Rightarrow>
                if now < hs_expires_at existing
                then (Ok existing_id, r\<lparr>hosts := hinsert existing_id
                       (existing\<lparr>hs_last_heartbeat := now, hs_expires_at := now + host_ttl (config r)\<rparr>) (hosts r)\<rparr>)
                else insert_new_host rid p peer now new_id (remove_host existing_id r)))"

definition heartbeat_host ::
  "host_session_id \<Rightarrow> instant \<Rightarrow> room_router \<Rightarrow> (unit, router_error) result \<times> room_router" where
  "heartbeat_host h now r =
     (case hget (hosts r) h of
        None \<Rightarrow> (Err (HostNotFound h), r)
      | Some host \<Rightarrow>
          if hs_expires_at host \<le> now then (Err (HostExpired h), r)
          else (Ok (), r\<lparr>hosts := hinsert h
                 (host\<lparr>hs_last_heartbeat := now, hs_expires_at := now + host_ttl (config r)\<rparr>) (hosts r)\<rparr>))"

definition heartbeat_host_for_room ::
  "room_id \<Rightarrow> peer_id \<Rightarrow> host_session_id \<Rightarrow> instant \<Rightarrow> room_router \<Rightarrow>
   (unit, router_error) result \<times> room_router" where
  "heartbeat_host_for_room rid p h now r =
     (case hget (hosts r) h of
        None \<Rightarrow> (Err (HostNotFound h), r)
      | Some host \<Rightarrow>
          if hs_room_id host \<noteq> rid \<or> hs_peer_id host \<noteq> p then (Err (HostNotInRoom h rid), r)
          else heartbeat_host h now r)"

definition host_snapshot_of :: "room_router \<Rightarrow> host_session_id \<Rightarrow> (host_snapshot, router_error) result" where
  "host_snapshot_of r h =
     and_then (ok_or (HostNotFound h) (hget (hosts r) h)) (\<lambda>host.
       Ok \<lparr>hsnap_host_session_id = h, hsnap_room_id = hs_room_id host,
           hsnap_peer_id = hs_peer_id host, hsnap_virtual_ip = hs_virtual_ip host\<rparr>)"

definition unregister_host ::
  "host_session_id \<Rightarrow> room_router \<Rightarrow> (unit, router_error) result \<times> room_router" where
  "unregister_host h r =
     (if \<not> hcontains h (hosts r) then (Err (HostNotFound h), r) else (Ok (), remove_host h r))"

subsection \<open>Discovery\<close>

text \<open>The iterator chain that builds the fan-out targets of a room.\<close>

definition live_targets :: "room_router \<Rightarrow> room_state \<Rightarrow> instant \<Rightarrow> discovery_target list" where
  "live_targets r room now =
     map (\<lambda>(h, host). \<lparr>target_host_session_id = h, target_host_peer_id = hs_peer_id host,
                         target_host_virtual_ip = hs_virtual_ip host\<rparr>)
       (filter (\<lambda>(_, host). now < hs_expires_at host)
         (List.map_filter (\<lambda>h. map_option (Pair h) (hget (hosts r) h))
           (sorted_list_of_fset (rs_host_sessions room))))"

definition begin_discovery ::
  "room_id \<Rightarrow> peer_id \<Rightarrow> discovery_request_id \<Rightarrow> udp_port \<Rightarrow> instant \<Rightarrow> room_router \<Rightarrow>
   (discovery_target list, router_error) result \<times> room_router" where
  "begin_discovery rid client request destination_port now r =
     (if \<not> is_discovery_port (port_num destination_port)
      then (Err (InvalidDiscoveryPort (port_num destination_port)), r)
      else try_st (member_state r rid client, r) (\<lambda>_ r.
        let finish = (\<lambda>r. case hget (rooms r) rid of
              None \<Rightarrow> (Panic, r)
            | Some room \<Rightarrow> (Ok (live_targets r room now), r))
        in case hget (discoveries r) request of
             Some existing \<Rightarrow>
               if ds_room_id existing \<noteq> rid \<or> ds_client_peer_id existing \<noteq> client \<or>
                  ds_destination_port existing \<noteq> destination_port
               then (Err (DiscoveryRequestConflict request), r)
               else finish (r\<lparr>discoveries := hinsert request
                      (existing\<lparr>ds_expires_at := now + discovery_ttl (config r)\<rparr>) (discoveries r)\<rparr>)
           | None \<Rightarrow>
               finish (r\<lparr>discoveries := hinsert request
                 \<lparr>ds_room_id = rid, ds_client_peer_id = client, ds_destination_port = destination_port,
                  ds_expires_at = now + discovery_ttl (config r)\<rparr> (discoveries r)\<rparr>)))"

definition route_discovery_response ::
  "room_router \<Rightarrow> discovery_request_id \<Rightarrow> host_session_id \<Rightarrow> instant \<Rightarrow> (peer_id, router_error) result"
where
  "route_discovery_response r request h now =
     (case hget (discoveries r) request of
        None \<Rightarrow> Err (DiscoveryNotFound request)
      | Some discovery \<Rightarrow>
          if ds_expires_at discovery \<le> now then Err (DiscoveryExpired request)
          else case hget (hosts r) h of
                 None \<Rightarrow> Err (HostNotFound h)
               | Some host \<Rightarrow>
                   if hs_expires_at host \<le> now then Err (HostExpired h)
                   else if hs_room_id host \<noteq> ds_room_id discovery
                   then Err (HostNotInRoom h (ds_room_id discovery))
                   else Ok (ds_client_peer_id discovery))"

subsection \<open>Gameplay sessions\<close>

definition select_host ::
  "room_id \<Rightarrow> peer_id \<Rightarrow> host_session_id \<Rightarrow> instant \<Rightarrow> gameplay_session_id \<Rightarrow> room_router \<Rightarrow>
   (gameplay_session_id, router_error) result \<times> room_router" where
  "select_host rid client_id h now new_id r =
     try_st (member_state r rid client_id, r) (\<lambda>client r.
       case hget (hosts r) h of
         None \<Rightarrow> (Err (HostNotFound h), r)
       | Some host \<Rightarrow>
           if hs_room_id host \<noteq> rid then (Err (HostNotInRoom h rid), r)
           else if hs_expires_at host \<le> now then (Err (HostExpired h), r)
           else if max_gameplay_sessions (config r) \<le> hlen (gameplay r) then (Err GameplayLimitReached, r)
           else (Ok new_id, r\<lparr>gameplay := hinsert new_id
                  \<lparr>gs_room_id = rid, gs_client_peer_id = client_id, gs_host_peer_id = hs_peer_id host,
                   gs_host_virtual_ip = hs_virtual_ip host, gs_client_virtual_ip = ps_virtual_ip client,
                   gs_last_activity = now, gs_expires_at = now + gameplay_idle_ttl (config r)\<rparr> (gameplay r)\<rparr>))"

definition route_gameplay_datagram ::
  "gameplay_session_id \<Rightarrow> peer_id \<Rightarrow> instant \<Rightarrow> room_router \<Rightarrow>
   (gameplay_route, router_error) result \<times> room_router" where
  "route_gameplay_datagram g source now r =
     (case hget (gameplay r) g of
        None \<Rightarrow> (Err (GameplayNotFound g), r)
      | Some session \<Rightarrow>
          if gs_expires_at session \<le> now then (Err (GameplayNotFound g), r)
          else
            let route = (\<lambda>(destination_id, destination_ip).
                  (Ok \<lparr>route_session_id = g, route_room_id = gs_room_id session,
                       route_source_peer_id = source, route_destination_peer_id = destination_id,
                       route_destination_virtual_ip = destination_ip\<rparr>,
                   r\<lparr>gameplay := hinsert g
                      (session\<lparr>gs_last_activity := now,
                               gs_expires_at := now + gameplay_idle_ttl (config r)\<rparr>) (gameplay r)\<rparr>))
            in if source = gs_client_peer_id session
               then route (gs_host_peer_id session, gs_host_virtual_ip session)
               else if source = gs_host_peer_id session
               then route (gs_client_peer_id session, gs_client_virtual_ip session)
               else (Err (UnauthorizedGameplayPeer source g), r))"

definition gameplay_snapshot_of ::
  "room_router \<Rightarrow> gameplay_session_id \<Rightarrow> (gameplay_snapshot, router_error) result" where
  "gameplay_snapshot_of r g =
     and_then (ok_or (GameplayNotFound g) (hget (gameplay r) g)) (\<lambda>session.
       Ok \<lparr>gsnap_session_id = g, gsnap_room_id = gs_room_id session,
           gsnap_client_peer_id = gs_client_peer_id session, gsnap_host_peer_id = gs_host_peer_id session,
           gsnap_client_virtual_ip = gs_client_virtual_ip session,
           gsnap_host_virtual_ip = gs_host_virtual_ip session\<rparr>)"

definition remove_gameplay_session ::
  "gameplay_session_id \<Rightarrow> room_router \<Rightarrow> (unit, router_error) result \<times> room_router" where
  "remove_gameplay_session g r =
     (case hget (gameplay r) g of
        Some _ \<Rightarrow> (Ok (), r\<lparr>gameplay := hremove g (gameplay r)\<rparr>)
      | None \<Rightarrow> (Err (GameplayNotFound g), r))"

subsection \<open>Expiry and statistics\<close>

text \<open>The last loop of \<open>expire\<close>: its errors are ignored, a panic would propagate.\<close>

fun expire_peers :: "peer_id list \<Rightarrow> room_router \<Rightarrow> (unit, router_error) result \<times> room_router" where
  "expire_peers [] r = (Ok (), r)"
| "expire_peers (p # ps) r =
     (case hget (peers r) p of
        None \<Rightarrow> expire_peers ps r
      | Some peer \<Rightarrow>
          (case leave_room (ps_room_id peer) p r of
             (Panic, r) \<Rightarrow> (Panic, r)
           | (_, r) \<Rightarrow> expire_peers ps r))"

definition expire ::
  "instant \<Rightarrow> room_router \<Rightarrow> (expiration_report, router_error) result \<times> room_router" where
  "expire now r =
     (let host_ids = hkeys_where (\<lambda>_ host. hs_expires_at host \<le> now) (hosts r);
          r = fold remove_host host_ids r;
          discovery_ids = hkeys_where (\<lambda>_ d. ds_expires_at d \<le> now) (discoveries r);
          r = r\<lparr>discoveries := fold hremove discovery_ids (discoveries r)\<rparr>;
          gameplay_ids = hkeys_where (\<lambda>_ s. gs_expires_at s \<le> now) (gameplay r);
          r = r\<lparr>gameplay := fold hremove gameplay_ids (gameplay r)\<rparr>;
          disconnected = hkeys_where (\<lambda>_ peer. ps_disconnected_at peer = None \<and>
            ps_last_seen peer + peer_ttl (config r) \<le> now) (peers r);
          r = fold (\<lambda>p. disconnect_peer p now) disconnected r;
          expired = hkeys_where (\<lambda>_ peer. case ps_disconnected_at peer of
              None \<Rightarrow> False
            | Some disconnected_at \<Rightarrow> disconnected_at + peer_grace_ttl (config r) \<le> now) (peers r)
      in try_st (expire_peers expired r) (\<lambda>_ r.
           (Ok \<lparr>expired_hosts = length host_ids, expired_discoveries = length discovery_ids,
                expired_gameplay_sessions = length gameplay_ids\<rparr>, r)))"

definition router_stats_of :: "room_router \<Rightarrow> router_stats" where
  "router_stats_of r = \<lparr>
     active_rooms = hlen (rooms r),
     active_peers = hlen (peers r),
     suspended_peers = length (hkeys_where (\<lambda>_ peer. ps_disconnected_at peer \<noteq> None) (peers r)),
     active_hosts = hlen (hosts r),
     active_gameplay_sessions = hlen (gameplay r)\<rparr>"

subsection \<open>Dispatch\<close>

fun dispatch :: "relay_ingress \<Rightarrow> room_router \<Rightarrow> (relay_action, router_error) result \<times> room_router" where
  "dispatch (IngressDiscovery source request destination_port payload now) r =
     try_st (validate_payload r payload, r) (\<lambda>_ r.
     try_st (ok_or (PeerNotFound source) (room_for_peer r source), r) (\<lambda>rid r.
     try_st (begin_discovery rid source request destination_port now r) (\<lambda>targets r.
       (Ok (DiscoveryFanout request source destination_port targets payload), r))))"
| "dispatch (IngressDiscoveryResponse h request source_port payload now) r =
     try_st (validate_payload r payload, r) (\<lambda>_ r.
       if \<not> is_discovery_port (port_num source_port)
       then (Err (InvalidDiscoveryPort (port_num source_port)), r)
       else
         try_st (route_discovery_response r request h now, r) (\<lambda>destination r.
         try_st (ok_or (HostNotFound h) (hget (hosts r) h), r) (\<lambda>host r.
           (Ok (DiscoveryUnicast request destination (hs_virtual_ip host) source_port payload), r))))"
| "dispatch (IngressGameplay g source source_port payload now) r =
     try_st (validate_payload r payload, r) (\<lambda>_ r.
       if port_num source_port \<noteq> GAMEPLAY_PORT
       then (Err (InvalidGameplayPort (port_num source_port)), r)
       else
         try_st (route_gameplay_datagram g source now r) (\<lambda>route r.
           (Ok (GameplayUnicast route source_port payload), r)))"

end
