(* ===== verification/Router_Inv.thy ===== *)
theory Router_Inv
  imports Router_Sessions
begin

section \<open>Consistency of the router's tables\<close>

text \<open>
  The eight tables of \<open>RoomRouter\<close> hold every fact twice: membership in the room and in the
  peer table, addresses forward and backward, host sessions in the host table, in the room and in
  \<open>host_by_peer\<close>. \<open>router_inv\<close> says that all of them agree, that a session refers only to
  members of its own room, and that no configured limit is exceeded. This theory states it and
  proves that every operation of the router keeps it.
\<close>

subsection \<open>The invariant\<close>

definition codes_agree :: "room_router \<Rightarrow> bool" where
  "codes_agree r \<longleftrightarrow> (\<forall>code rid. hget (rooms_by_code r) code = Some rid \<longleftrightarrow>
     (\<exists>room. hget (rooms r) rid = Some room \<and> rs_code room = code))"

definition members_agree :: "room_router \<Rightarrow> bool" where
  "members_agree r \<longleftrightarrow> (\<forall>rid p. (\<exists>room. hget (rooms r) rid = Some room \<and> p |\<in>| rs_members room) \<longleftrightarrow>
     (\<exists>peer. hget (peers r) p = Some peer \<and> ps_room_id peer = rid))"

definition ips_agree :: "room_router \<Rightarrow> bool" where
  "ips_agree r \<longleftrightarrow> (\<forall>ip p. hget (virtual_ips r) ip = Some p \<longleftrightarrow>
     (\<exists>peer. hget (peers r) p = Some peer \<and> ps_virtual_ip peer = ip))"

definition host_sets_agree :: "room_router \<Rightarrow> bool" where
  "host_sets_agree r \<longleftrightarrow> (\<forall>rid h. (\<exists>room. hget (rooms r) rid = Some room \<and> h |\<in>| rs_host_sessions room) \<longleftrightarrow>
     (\<exists>host. hget (hosts r) h = Some host \<and> hs_room_id host = rid))"

definition host_index_agrees :: "room_router \<Rightarrow> bool" where
  "host_index_agrees r \<longleftrightarrow> (\<forall>rid p h. hget (host_by_peer r) (rid, p) = Some h \<longleftrightarrow>
     (\<exists>host. hget (hosts r) h = Some host \<and> hs_room_id host = rid \<and> hs_peer_id host = p))"

text \<open>Peer \<open>p\<close> is in room \<open>rid\<close> under address \<open>ip\<close>.\<close>

definition lives :: "room_router \<Rightarrow> peer_id \<Rightarrow> room_id \<Rightarrow> virtual_ip \<Rightarrow> bool" where
  "lives r p rid ip \<longleftrightarrow> (case hget (peers r) p of
     None \<Rightarrow> False | Some peer \<Rightarrow> ps_room_id peer = rid \<and> ps_virtual_ip peer = ip)"

definition hosts_live :: "room_router \<Rightarrow> bool" where
  "hosts_live r \<longleftrightarrow> (\<forall>h host. hget (hosts r) h = Some host \<longrightarrow>
     lives r (hs_peer_id host) (hs_room_id host) (hs_virtual_ip host))"

definition discoveries_live :: "room_router \<Rightarrow> bool" where
  "discoveries_live r \<longleftrightarrow> (\<forall>q d. hget (discoveries r) q = Some d \<longrightarrow>
     (\<exists>ip. lives r (ds_client_peer_id d) (ds_room_id d) ip) \<and>
     is_discovery_port (port_num (ds_destination_port d)))"

definition gameplay_live :: "room_router \<Rightarrow> bool" where
  "gameplay_live r \<longleftrightarrow> (\<forall>g s. hget (gameplay r) g = Some s \<longrightarrow>
     lives r (gs_client_peer_id s) (gs_room_id s) (gs_client_virtual_ip s) \<and>
     lives r (gs_host_peer_id s) (gs_room_id s) (gs_host_virtual_ip s) \<and>
     hget (host_by_peer r) (gs_room_id s, gs_host_peer_id s) \<noteq> None)"

definition epochs_positive :: "room_router \<Rightarrow> bool" where
  "epochs_positive r \<longleftrightarrow> (\<forall>p peer. hget (peers r) p = Some peer \<longrightarrow> 1 \<le> ps_connection_epoch peer)"

definition within_limits :: "room_router \<Rightarrow> bool" where
  "within_limits r \<longleftrightarrow>
     hlen (rooms r) \<le> max_rooms (config r) \<and>
     hlen (peers r) \<le> max_total_peers (config r) \<and>
     hlen (gameplay r) \<le> max_gameplay_sessions (config r) \<and>
     (\<forall>rid room. hget (rooms r) rid = Some room \<longrightarrow>
        fcard (rs_members room) \<le> max_peers_per_room (config r) \<and>
        fcard (rs_host_sessions room) \<le> max_hosts_per_room (config r))"

definition router_inv :: "room_router \<Rightarrow> bool" where
  "router_inv r \<longleftrightarrow> codes_agree r \<and> members_agree r \<and> ips_agree r \<and> host_sets_agree r \<and>
     host_index_agrees r \<and> hosts_live r \<and> discoveries_live r \<and> gameplay_live r \<and>
     epochs_positive r \<and> within_limits r"

lemmas inv_parts = codes_agree_def members_agree_def ips_agree_def host_sets_agree_def
  host_index_agrees_def hosts_live_def discoveries_live_def gameplay_live_def
  epochs_positive_def within_limits_def

lemma router_invI:
  assumes "codes_agree r" "members_agree r" "ips_agree r" "host_sets_agree r"
    "host_index_agrees r" "hosts_live r" "discoveries_live r" "gameplay_live r"
    "epochs_positive r" "within_limits r"
  shows "router_inv r"
  using assms by (simp add: router_inv_def)

lemma router_invD:
  assumes "router_inv r"
  shows "codes_agree r" "members_agree r" "ips_agree r" "host_sets_agree r"
    "host_index_agrees r" "hosts_live r" "discoveries_live r" "gameplay_live r"
    "epochs_positive r" "within_limits r"
  using assms by (simp_all add: router_inv_def)

lemma lives_iff: "lives r p rid ip \<longleftrightarrow>
    (\<exists>peer. hget (peers r) p = Some peer \<and> ps_room_id peer = rid \<and> ps_virtual_ip peer = ip)"
  by (simp add: lives_def split: option.splits)

lemma lives_cong: "peers r = peers r' \<Longrightarrow> lives r = lives r'"
  by (intro ext) (simp add: lives_def)

subsection \<open>Consequences\<close>

lemma member_iff:
  assumes "router_inv r" "hget (rooms r) rid = Some room"
  shows "p |\<in>| rs_members room \<longleftrightarrow> (\<exists>peer. hget (peers r) p = Some peer \<and> ps_room_id peer = rid)"
  using router_invD(2) [OF assms(1)] assms(2) unfolding members_agree_def by (metis option.inject)

lemma peer_room_exists:
  assumes "router_inv r" "hget (peers r) p = Some peer"
  obtains room where "hget (rooms r) (ps_room_id peer) = Some room" "p |\<in>| rs_members room"
  using router_invD(2) [OF assms(1)] assms(2) unfolding members_agree_def by blast

lemma host_member_iff:
  assumes "router_inv r" "hget (rooms r) rid = Some room"
  shows "h |\<in>| rs_host_sessions room \<longleftrightarrow> (\<exists>host. hget (hosts r) h = Some host \<and> hs_room_id host = rid)"
  using router_invD(4) [OF assms(1)] assms(2) unfolding host_sets_agree_def by (metis option.inject)

lemma host_room_exists:
  assumes "router_inv r" "hget (hosts r) h = Some host"
  obtains room where "hget (rooms r) (hs_room_id host) = Some room" "h |\<in>| rs_host_sessions room"
  using router_invD(4) [OF assms(1)] assms(2) unfolding host_sets_agree_def by blast

lemma host_index_iff:
  assumes "router_inv r"
  shows "hget (host_by_peer r) (rid, p) = Some h \<longleftrightarrow>
    (\<exists>host. hget (hosts r) h = Some host \<and> hs_room_id host = rid \<and> hs_peer_id host = p)"
  using router_invD(5) [OF assms] unfolding host_index_agrees_def by blast

lemma host_peer_lives:
  assumes "router_inv r" "hget (hosts r) h = Some host"
  obtains peer where "hget (peers r) (hs_peer_id host) = Some peer"
    "ps_room_id peer = hs_room_id host" "ps_virtual_ip peer = hs_virtual_ip host"
  using router_invD(6) [OF assms(1)] assms(2) unfolding hosts_live_def lives_iff by blast

text \<open>Under the invariant \<open>member_state\<close> is a lookup, and a member's room exists.\<close>

lemma member_state_iff:
  assumes "router_inv r"
  shows "member_state r rid p = Ok peer \<longleftrightarrow> hget (peers r) p = Some peer \<and> ps_room_id peer = rid"
proof
  assume "member_state r rid p = Ok peer"
  then show "hget (peers r) p = Some peer \<and> ps_room_id peer = rid"
    by (auto simp: member_state_def split: option.splits if_splits)
next
  assume *: "hget (peers r) p = Some peer \<and> ps_room_id peer = rid"
  then obtain room where "hget (rooms r) rid = Some room" "p |\<in>| rs_members room"
    using assms peer_room_exists by blast
  with * show "member_state r rid p = Ok peer"
    by (simp add: member_state_def)
qed

lemma member_state_room:
  "member_state r rid p = Ok peer \<Longrightarrow> \<exists>room. hget (rooms r) rid = Some room \<and> p |\<in>| rs_members room"
  by (auto simp: member_state_def split: option.splits if_splits)

lemma member_state_not_Panic [simp]: "member_state r rid p \<noteq> Panic"
  by (simp add: member_state_def split: option.split)

end
