(* ===== verification/Router_Preserve.thy ===== *)
theory Router_Preserve
  imports Router_Inv
begin

section \<open>Every router operation keeps the tables consistent\<close>

text \<open>
  The invariant of \<open>Router_Inv\<close> under the updates the operations of \<open>crates/router/src/lib.rs\<close> are made of, and from
  them under creating and removing rooms, joining, resuming, leaving and registering: one lemma per update or operation.
\<close>

subsection \<open>Updates that keep a table's relations\<close>

lemma inv_update_peer:
  assumes inv: "router_inv r" and old: "hget (peers r) p = Some old"
    and new: "ps_room_id new = ps_room_id old" "ps_virtual_ip new = ps_virtual_ip old"
      "1 \<le> ps_connection_epoch new"
  shows "router_inv (r\<lparr>peers := hinsert p new (peers r)\<rparr>)"
proof -
  let ?r = "r\<lparr>peers := hinsert p new (peers r)\<rparr>"
  have lives: "lives ?r = lives r"
    using old new by (intro ext) (auto simp: lives_iff)
  show ?thesis
  proof (rule router_invI)
    show "members_agree ?r"
      using router_invD(2) [OF inv] old new by (simp add: members_agree_def)
    show "ips_agree ?r"
      using router_invD(3) [OF inv] old new by (simp add: ips_agree_def)
    show "within_limits ?r"
      using router_invD(10) [OF inv] old by (auto simp: within_limits_def hlen_insert)
  qed (use router_invD [OF inv] new lives in \<open>auto simp: codes_agree_def host_sets_agree_def
       host_index_agrees_def hosts_live_def discoveries_live_def gameplay_live_def epochs_positive_def\<close>)
qed

lemma inv_update_host:
  assumes inv: "router_inv r" and old: "hget (hosts r) h = Some old"
    and new: "hs_room_id new = hs_room_id old" "hs_peer_id new = hs_peer_id old"
      "hs_virtual_ip new = hs_virtual_ip old"
  shows "router_inv (r\<lparr>hosts := hinsert h new (hosts r)\<rparr>)"
proof -
  let ?r = "r\<lparr>hosts := hinsert h new (hosts r)\<rparr>"
  have lives: "lives ?r = lives r"
    by (rule lives_cong) simp
  show ?thesis
  proof (rule router_invI)
    show "host_sets_agree ?r"
      using router_invD(4) [OF inv] old new by (simp add: host_sets_agree_def)
    show "host_index_agrees ?r"
      using router_invD(5) [OF inv] old new by (simp add: host_index_agrees_def)
    show "hosts_live ?r"
      using router_invD(6) [OF inv] old new lives by (simp add: hosts_live_def)
  qed (use router_invD [OF inv] lives in \<open>auto simp: codes_agree_def members_agree_def ips_agree_def
       discoveries_live_def gameplay_live_def epochs_positive_def within_limits_def\<close>)
qed

lemma inv_insert_discovery:
  assumes inv: "router_inv r"
    and new: "lives r (ds_client_peer_id d) (ds_room_id d) ip"
      "is_discovery_port (port_num (ds_destination_port d))"
  shows "router_inv (r\<lparr>discoveries := hinsert q d (discoveries r)\<rparr>)"
proof -
  let ?r = "r\<lparr>discoveries := hinsert q d (discoveries r)\<rparr>"
  have lives: "lives ?r = lives r"
    by (rule lives_cong) simp
  show ?thesis
  proof (rule router_invI)
    show "discoveries_live ?r"
      using router_invD(7) [OF inv] new lives by (auto simp: discoveries_live_def)
  qed (use router_invD [OF inv] lives in \<open>auto simp: codes_agree_def members_agree_def ips_agree_def
       host_sets_agree_def host_index_agrees_def hosts_live_def gameplay_live_def epochs_positive_def
       within_limits_def\<close>)
qed

lemma inv_insert_gameplay:
  assumes inv: "router_inv r"
    and new: "lives r (gs_client_peer_id s) (gs_room_id s) (gs_client_virtual_ip s)"
      "lives r (gs_host_peer_id s) (gs_room_id s) (gs_host_virtual_ip s)"
      "hget (host_by_peer r) (gs_room_id s, gs_host_peer_id s) \<noteq> None"
    and room: "hget (gameplay r) g \<noteq> None \<or> hlen (gameplay r) < max_gameplay_sessions (config r)"
  shows "router_inv (r\<lparr>gameplay := hinsert g s (gameplay r)\<rparr>)"
proof -
  let ?r = "r\<lparr>gameplay := hinsert g s (gameplay r)\<rparr>"
  have lives: "lives ?r = lives r"
    by (rule lives_cong) simp
  show ?thesis
  proof (rule router_invI)
    show "gameplay_live ?r"
      using router_invD(8) [OF inv] new lives by (auto simp: gameplay_live_def)
    show "within_limits ?r"
      using router_invD(10) [OF inv] room by (auto simp: within_limits_def hlen_insert)
  qed (use router_invD [OF inv] lives in \<open>auto simp: codes_agree_def members_agree_def ips_agree_def
       host_sets_agree_def host_index_agrees_def hosts_live_def discoveries_live_def epochs_positive_def\<close>)
qed

text \<open>Dropping discovery requests and gameplay sessions is always safe.\<close>

lemma inv_drop_sessions:
  assumes inv: "router_inv r"
    and ds: "\<And>q d. hget ds q = Some d \<Longrightarrow> hget (discoveries r) q = Some d"
    and gs: "\<And>g s. hget gs g = Some s \<Longrightarrow> hget (gameplay r) g = Some s"
    and len: "hlen gs \<le> hlen (gameplay r)"
  shows "router_inv (r\<lparr>discoveries := ds, gameplay := gs\<rparr>)"
proof -
  let ?r = "r\<lparr>discoveries := ds, gameplay := gs\<rparr>"
  have lives: "lives ?r = lives r"
    by (rule lives_cong) simp
  show ?thesis
  proof (rule router_invI)
    show "discoveries_live ?r"
      using router_invD(7) [OF inv] lives by (auto simp: discoveries_live_def dest: ds)
    show "gameplay_live ?r"
      using router_invD(8) [OF inv] lives by (auto simp: gameplay_live_def dest: gs)
    show "within_limits ?r"
      using router_invD(10) [OF inv] len by (auto simp: within_limits_def)
  qed (use router_invD [OF inv] lives in \<open>auto simp: codes_agree_def members_agree_def ips_agree_def
       host_sets_agree_def host_index_agrees_def hosts_live_def epochs_positive_def\<close>)
qed

lemma inv_retain_gameplay:
  assumes "router_inv r"
  shows "router_inv (r\<lparr>gameplay := hretain P (gameplay r)\<rparr>)"
proof -
  have "router_inv (r\<lparr>discoveries := discoveries r, gameplay := hretain P (gameplay r)\<rparr>)"
    by (rule inv_drop_sessions [OF assms]) (simp_all add: hget_retain_iff hlen_retain_le del: hget_retain)
  then show ?thesis by simp
qed

lemma inv_retain_discoveries:
  assumes "router_inv r"
  shows "router_inv (r\<lparr>discoveries := hretain P (discoveries r)\<rparr>)"
proof -
  have "router_inv (r\<lparr>discoveries := hretain P (discoveries r), gameplay := gameplay r\<rparr>)"
    by (rule inv_drop_sessions [OF assms]) (simp_all add: hget_retain_iff del: hget_retain)
  then show ?thesis by simp
qed

lemma inv_retain_sessions:
  assumes "router_inv r" "ds = discoveries r"
  shows "router_inv (r\<lparr>gameplay := hretain P (gameplay r), discoveries := hretain Q ds\<rparr>)"
  using inv_retain_discoveries [OF inv_retain_gameplay [OF assms(1)]] assms(2) by simp

subsection \<open>Rooms and members\<close>

lemma fcard_empty [simp]: "fcard {||} = 0"
  by (simp add: fcard.rep_eq)

lemma inv_new: "router_inv (router_new c)"
  by (rule router_invI) (simp_all add: router_new_def inv_parts lives_def)

lemma inv_create_room_with_id:
  assumes inv: "router_inv r"
  shows "router_inv (snd (create_room_with_id rid code r))"
proof (cases "max_rooms (config r) \<le> hlen (rooms r) \<or> hget (rooms_by_code r) code \<noteq> None \<or> hget (rooms r) rid \<noteq> None")
  case True
  then show ?thesis using inv by (auto simp: create_room_with_id_def)
next
  case False
  let ?room = "\<lparr>rs_code = code, rs_members = {||}, rs_host_sessions = {||}\<rparr>"
  let ?r = "r\<lparr>rooms := hinsert rid ?room (rooms r), rooms_by_code := hinsert code rid (rooms_by_code r)\<rparr>"
  have eq: "snd (create_room_with_id rid code r) = ?r"
    using False by (simp add: create_room_with_id_def)
  have lives: "lives ?r = lives r"
    by (rule lives_cong) simp
  have "router_inv ?r"
  proof (rule router_invI)
    show "codes_agree ?r"
      using router_invD(1) [OF inv] False by (auto simp: codes_agree_def)
    show "members_agree ?r"
      using router_invD(2) [OF inv] False unfolding members_agree_def by (simp, metis option.distinct(1))
    show "host_sets_agree ?r"
      using router_invD(4) [OF inv] False unfolding host_sets_agree_def by (simp, metis option.distinct(1))
    show "within_limits ?r"
      using router_invD(10) [OF inv] False by (auto simp: within_limits_def hlen_insert)
  qed (use router_invD [OF inv] lives in \<open>auto simp: ips_agree_def host_index_agrees_def hosts_live_def
       discoveries_live_def gameplay_live_def epochs_positive_def\<close>)
  then show ?thesis by (simp add: eq)
qed

lemma inv_remove_empty_room:
  assumes inv: "router_inv r"
  shows "router_inv (snd (remove_empty_room rid r))"
proof (cases "\<exists>room. hget (rooms r) rid = Some room \<and> rs_members room = {||} \<and> rs_host_sessions room = {||}")
  case False
  then show ?thesis using inv by (auto simp: remove_empty_room_def split: option.splits)
next
  case True
  then obtain room where room: "hget (rooms r) rid = Some room" "rs_members room = {||}" "rs_host_sessions room = {||}"
    by blast
  let ?r = "r\<lparr>rooms := hremove rid (rooms r), rooms_by_code := hremove (rs_code room) (rooms_by_code r)\<rparr>"
  have eq: "snd (remove_empty_room rid r) = ?r"
    using room by (simp add: remove_empty_room_def)
  have lives: "lives ?r = lives r"
    by (rule lives_cong) simp
  have "router_inv ?r"
  proof (rule router_invI)
    show "codes_agree ?r"
      using router_invD(1) [OF inv] room unfolding codes_agree_def by (simp, metis option.inject)
    show "members_agree ?r"
      using router_invD(2) [OF inv] room unfolding members_agree_def by (simp, metis fempty_iff option.inject)
    show "host_sets_agree ?r"
      using router_invD(4) [OF inv] room unfolding host_sets_agree_def by (simp, metis fempty_iff option.inject)
    show "within_limits ?r"
      using router_invD(10) [OF inv] hlen_remove_le [of rid "rooms r"] by (auto simp: within_limits_def)
  qed (use router_invD [OF inv] lives in \<open>auto simp: ips_agree_def host_index_agrees_def hosts_live_def
       discoveries_live_def gameplay_live_def epochs_positive_def\<close>)
  then show ?thesis by (simp add: eq)
qed

text \<open>What a successful join does, and that nothing else changes anything.\<close>

lemma join_room_cases:
  obtains (err) e where "join_room rid p ip now r = (Err e, r)"
  | (ok) room where "hget (rooms r) rid = Some room" "hget (peers r) p = None" "hget (virtual_ips r) ip = None"
      "fcard (rs_members room) < max_peers_per_room (config r)" "hlen (peers r) < max_total_peers (config r)"
      "join_room rid p ip now r = (Ok (), r\<lparr>
         rooms := hinsert rid (room\<lparr>rs_members := finsert p (rs_members room)\<rparr>) (rooms r),
         peers := hinsert p \<lparr>ps_room_id = rid, ps_virtual_ip = ip, ps_last_seen = now,
           ps_disconnected_at = None, ps_connection_epoch = 1\<rparr> (peers r),
         virtual_ips := hinsert ip p (virtual_ips r)\<rparr>)"
proof (cases "\<exists>e. join_room rid p ip now r = (Err e, r)")
  case False
  then obtain room where "hget (rooms r) rid = Some room" "hget (peers r) p = None" "hget (virtual_ips r) ip = None"
      "fcard (rs_members room) < max_peers_per_room (config r)" "hlen (peers r) < max_total_peers (config r)"
    by (auto simp: join_room_def split: option.splits if_splits)
  then show ?thesis by (intro ok) (simp_all add: join_room_def)
qed (use err in blast)

lemma fcard_finsert_le: "fcard (finsert x A) \<le> Suc (fcard A)"
  by (simp add: fcard_finsert_if)

lemma inv_join_room:
  assumes inv: "router_inv r"
  shows "router_inv (snd (join_room rid p ip now r))"
proof (cases rule: join_room_cases [of rid p ip now r])
  case err
  then show ?thesis using inv by simp
next
  case (ok room)
  let ?peer = "\<lparr>ps_room_id = rid, ps_virtual_ip = ip, ps_last_seen = now, ps_disconnected_at = None, ps_connection_epoch = 1\<rparr>"
  let ?r = "r\<lparr>rooms := hinsert rid (room\<lparr>rs_members := finsert p (rs_members room)\<rparr>) (rooms r),
     peers := hinsert p ?peer (peers r), virtual_ips := hinsert ip p (virtual_ips r)\<rparr>"
  have lives: "lives r p' rid' ip' \<Longrightarrow> lives ?r p' rid' ip'" for p' rid' ip'
    using ok(2) by (auto simp: lives_iff)
  have "router_inv ?r"
  proof (rule router_invI)
    show "codes_agree ?r"
      using router_invD(1) [OF inv] ok(1) by (auto simp: codes_agree_def)
    show "members_agree ?r"
      using router_invD(2) [OF inv] ok(1,2) unfolding members_agree_def by (simp, metis option.distinct(1) option.inject)
    show "ips_agree ?r"
      using router_invD(3) [OF inv] ok(2,3) unfolding ips_agree_def by (simp, metis option.distinct(1))
    show "host_sets_agree ?r"
      using router_invD(4) [OF inv] ok(1) unfolding host_sets_agree_def by (simp, metis option.inject)
    show "within_limits ?r"
      using router_invD(10) [OF inv] ok fcard_finsert_le [of p "rs_members room"]
      by (auto simp: within_limits_def hlen_insert)
    show "discoveries_live ?r"
      using router_invD(7) [OF inv] lives unfolding discoveries_live_def by (simp, blast)
  qed (use router_invD [OF inv] lives in \<open>auto simp: host_index_agrees_def hosts_live_def
       gameplay_live_def epochs_positive_def\<close>)
  then show ?thesis by (simp add: ok(6))
qed

lemma inv_mark_peer_seen:
  assumes "router_inv r"
  shows "router_inv (snd (mark_peer_seen p now r))"
  using assms router_invD(9) [OF assms]
  by (auto simp: mark_peer_seen_def epochs_positive_def split: option.splits intro: inv_update_peer)

lemma next_epoch_positive: "1 \<le> max (saturating_add e 1) (1 :: u64)"
  by simp

lemma inv_resume_peer:
  assumes "router_inv r"
  shows "router_inv (snd (resume_peer rid p now r))"
  using assms router_invD(9) [OF assms]
  by (auto simp: resume_peer_def Let_def epochs_positive_def split: option.splits intro!: inv_update_peer)

subsection \<open>Removing host sessions\<close>

lemma remove_host_frame [simp]:
  "config (remove_host h r) = config r"
  "peers (remove_host h r) = peers r"
  "virtual_ips (remove_host h r) = virtual_ips r"
  "rooms_by_code (remove_host h r) = rooms_by_code r"
  "discoveries (remove_host h r) = discoveries r"
  "hosts (remove_host h r) = hremove h (hosts r)"
  by (auto simp: remove_host_def Let_def intro!: fmap_eqI split: option.split)

lemma remove_host_rooms:
  "hget (rooms (remove_host h r)) rid =
     (case hget (hosts r) h of
        None \<Rightarrow> hget (rooms r) rid
      | Some host \<Rightarrow> map_option (\<lambda>room. if hs_room_id host = rid
          then room\<lparr>rs_host_sessions := rs_host_sessions room |-| {|h|}\<rparr> else room) (hget (rooms r) rid))"
  by (cases "hget (rooms r) rid") (auto simp: remove_host_def Let_def split: option.split)

lemma remove_host_members [simp]:
  "map_option rs_members (hget (rooms (remove_host h r)) rid) = map_option rs_members (hget (rooms r) rid)"
  "map_option rs_code (hget (rooms (remove_host h r)) rid) = map_option rs_code (hget (rooms r) rid)"
  by (cases "hget (rooms r) rid"; simp add: remove_host_rooms split: option.split)+

lemma inv_remove_host:
  assumes inv: "router_inv r"
  shows "router_inv (remove_host h r)"
proof (cases "hget (hosts r) h")
  case None
  then show ?thesis using inv by (simp add: remove_host_def)
next
  case (Some host)
  let ?rid = "hs_room_id host"
  obtain room where room: "hget (rooms r) ?rid = Some room" "h |\<in>| rs_host_sessions room"
    using host_room_exists [OF inv Some] by blast
  let ?room = "room\<lparr>rs_host_sessions := rs_host_sessions room |-| {|h|}\<rparr>"
  let ?r = "r\<lparr>hosts := hremove h (hosts r), host_by_peer := hremove (?rid, hs_peer_id host) (host_by_peer r),
     rooms := hinsert ?rid ?room (rooms r),
     gameplay := hretain (\<lambda>_ s. gs_host_peer_id s \<noteq> hs_peer_id host \<or> gs_room_id s \<noteq> ?rid) (gameplay r)\<rparr>"
  have eq: "remove_host h r = ?r"
    using Some room by (simp add: remove_host_def)
  have lives: "lives ?r = lives r"
    by (rule lives_cong) simp
  have "router_inv ?r"
  proof (rule router_invI)
    show "codes_agree ?r"
      using router_invD(1) [OF inv] room by (auto simp: codes_agree_def)
    show "members_agree ?r"
      using router_invD(2) [OF inv] room unfolding members_agree_def by (simp, metis option.inject)
    show "host_sets_agree ?r"
      using router_invD(4) [OF inv] room Some unfolding host_sets_agree_def
      by (simp, metis fminus_iff fsingleton_iff option.distinct(1) option.inject)
    show "host_index_agrees ?r"
      using router_invD(5) [OF inv] Some unfolding host_index_agrees_def by (simp, metis option.inject)
    show "gameplay_live ?r"
      using router_invD(8) [OF inv] lives
      by (auto simp: gameplay_live_def hget_retain_iff simp del: hget_retain)
    show "within_limits ?r"
      using router_invD(10) [OF inv] room fcard_mono [of "rs_host_sessions room |-| {|h|}" "rs_host_sessions room"]
        hlen_retain_le [of "\<lambda>_ s. gs_host_peer_id s \<noteq> hs_peer_id host \<or> gs_room_id s \<noteq> ?rid" "gameplay r"]
      by (fastforce simp: within_limits_def hlen_insert)
  qed (use router_invD [OF inv] lives in \<open>auto simp: ips_agree_def hosts_live_def
       discoveries_live_def epochs_positive_def\<close>)
  then show ?thesis by (simp add: eq)
qed

lemma fold_remove_host_frame [simp]:
  "config (fold remove_host hs r) = config r"
  "peers (fold remove_host hs r) = peers r"
  "virtual_ips (fold remove_host hs r) = virtual_ips r"
  "rooms_by_code (fold remove_host hs r) = rooms_by_code r"
  "discoveries (fold remove_host hs r) = discoveries r"
  "hosts (fold remove_host hs r) = fold hremove hs (hosts r)"
  "map_option rs_members (hget (rooms (fold remove_host hs r)) rid) = map_option rs_members (hget (rooms r) rid)"
  "map_option rs_code (hget (rooms (fold remove_host hs r)) rid) = map_option rs_code (hget (rooms r) rid)"
  by (induction hs arbitrary: r) simp_all

lemma inv_fold_remove_host: "router_inv r \<Longrightarrow> router_inv (fold remove_host hs r)"
  by (induction hs arbitrary: r) (simp_all add: inv_remove_host)

text \<open>The gameplay sessions that survive: those whose host keeps its session.\<close>

lemma fold_remove_host_gameplay:
  "gameplay (fold remove_host hs r) = hretain (\<lambda>_ s. \<forall>h\<in>set hs. \<forall>host. hget (hosts r) h = Some host \<longrightarrow>
     gs_host_peer_id s \<noteq> hs_peer_id host \<or> gs_room_id s \<noteq> hs_room_id host) (gameplay r)"
proof (induction hs arbitrary: r)
  case Nil
  then show ?case by (auto intro!: fmap_eqI split: option.split)
next
  case (Cons h hs)
  have "gameplay (remove_host h r) = hretain (\<lambda>_ s. \<forall>host. hget (hosts r) h = Some host \<longrightarrow>
     gs_host_peer_id s \<noteq> hs_peer_id host \<or> gs_room_id s \<noteq> hs_room_id host) (gameplay r)"
    by (auto simp: remove_host_def Let_def intro!: fmap_eqI split: option.split)
  then show ?case
    by (simp add: Cons.IH hretain_retain) (rule arg_cong [where f = "\<lambda>P. hretain P (gameplay r)"], fastforce)
qed

lemma inv_disconnect_peer:
  assumes inv: "router_inv r"
  shows "router_inv (disconnect_peer p now r)"
proof (cases "hget (peers r) p")
  case None
  then show ?thesis using inv by (simp add: disconnect_peer_def)
next
  case (Some peer)
  then have "router_inv (r\<lparr>peers := hinsert p (peer\<lparr>ps_disconnected_at := Some now\<rparr>) (peers r)\<rparr>)"
    using router_invD(9) [OF inv] by (intro inv_update_peer [OF inv]) (auto simp: epochs_positive_def)
  then show ?thesis
    using Some by (simp add: disconnect_peer_def Let_def inv_fold_remove_host inv_retain_sessions)
qed

subsection \<open>Leaving a room\<close>

lemma inv_remove_member:
  assumes inv: "router_inv r" and room: "hget (rooms r) rid = Some room"
    and peer: "hget (peers r) p = Some peer" "ps_room_id peer = rid"
    and hosts: "\<And>h host. hget (hosts r) h = Some host \<Longrightarrow> hs_peer_id host \<noteq> p"
    and ds: "\<And>q d. hget (discoveries r) q = Some d \<Longrightarrow> ds_client_peer_id d \<noteq> p"
    and gs: "\<And>g s. hget (gameplay r) g = Some s \<Longrightarrow> gs_client_peer_id s \<noteq> p \<and> gs_host_peer_id s \<noteq> p"
  shows "router_inv (r\<lparr>rooms := hinsert rid (room\<lparr>rs_members := rs_members room |-| {|p|}\<rparr>) (rooms r),
     peers := hremove p (peers r), virtual_ips := hremove (ps_virtual_ip peer) (virtual_ips r)\<rparr>)" (is "router_inv ?r")
proof -
  have lives: "lives ?r p' = (if p' = p then (\<lambda>_ _. False) else lives r p')" for p'
    by (intro ext) (simp add: lives_iff)
  show ?thesis
  proof (rule router_invI)
    show "codes_agree ?r"
      using router_invD(1) [OF inv] room by (auto simp: codes_agree_def)
    show "members_agree ?r"
      using router_invD(2) [OF inv] room peer unfolding members_agree_def
      by (simp, metis fminus_iff fsingleton_iff option.inject)
    show "ips_agree ?r"
      using router_invD(3) [OF inv] peer unfolding ips_agree_def by (simp, metis option.inject)
    show "host_sets_agree ?r"
      using router_invD(4) [OF inv] room unfolding host_sets_agree_def by (simp, metis option.inject)
    show "hosts_live ?r"
      using router_invD(6) [OF inv] by (auto simp: hosts_live_def lives dest: hosts)
    show "discoveries_live ?r"
      using router_invD(7) [OF inv] by (auto simp: discoveries_live_def lives dest: ds)
    show "gameplay_live ?r"
      using router_invD(8) [OF inv] by (auto simp: gameplay_live_def lives dest: gs)
    show "within_limits ?r"
      using router_invD(10) [OF inv] room hlen_remove_le [of p "peers r"]
        fcard_mono [of "rs_members room |-| {|p|}" "rs_members room"]
      by (fastforce simp: within_limits_def hlen_insert)
  qed (use router_invD [OF inv] in \<open>auto simp: host_index_agrees_def epochs_positive_def\<close>)
qed

text \<open>The state \<open>leave_room\<close> reaches before it touches the member set.\<close>

definition drop_sessions_of :: "room_id \<Rightarrow> peer_id \<Rightarrow> room_router \<Rightarrow> room_router" where
  "drop_sessions_of rid p r =
     (let r' = fold remove_host (hkeys_where (\<lambda>_ host. hs_room_id host = rid \<and> hs_peer_id host = p) (hosts r)) r
      in r'\<lparr>gameplay := hretain (\<lambda>_ s. \<not> (gs_room_id s = rid \<and> (gs_client_peer_id s = p \<or> gs_host_peer_id s = p))) (gameplay r'),
            discoveries := hretain (\<lambda>_ d. \<not> (ds_room_id d = rid \<and> ds_client_peer_id d = p)) (discoveries r)\<rparr>)"

lemma inv_drop_sessions_of: "router_inv r \<Longrightarrow> router_inv (drop_sessions_of rid p r)"
  by (simp add: drop_sessions_of_def Let_def inv_fold_remove_host inv_retain_sessions)

lemma drop_sessions_of_frame [simp]:
  "config (drop_sessions_of rid p r) = config r"
  "peers (drop_sessions_of rid p r) = peers r"
  "virtual_ips (drop_sessions_of rid p r) = virtual_ips r"
  "rooms_by_code (drop_sessions_of rid p r) = rooms_by_code r"
  "map_option rs_members (hget (rooms (drop_sessions_of rid p r)) rid') = map_option rs_members (hget (rooms r) rid')"
  "map_option rs_code (hget (rooms (drop_sessions_of rid p r)) rid') = map_option rs_code (hget (rooms r) rid')"
  "hosts (drop_sessions_of rid p r) = hretain (\<lambda>_ host. \<not> (hs_room_id host = rid \<and> hs_peer_id host = p)) (hosts r)"
  by (simp_all add: drop_sessions_of_def Let_def fold_remove_keys_where)

lemma leave_room_cases:
  assumes inv: "router_inv r"
  obtains (err) e where "leave_room rid p r = (Err e, r)"
      "(hget (rooms r) rid = None \<and> e = RoomNotFound rid) \<or>
       (hget (rooms r) rid \<noteq> None \<and> e = PeerNotInRoom p rid \<and> (\<forall>peer. hget (peers r) p = Some peer \<longrightarrow> ps_room_id peer \<noteq> rid))"
  | (ok) room peer where "hget (peers r) p = Some peer" "ps_room_id peer = rid"
      "hget (rooms (drop_sessions_of rid p r)) rid = Some room"
      "leave_room rid p r = (Ok (), (drop_sessions_of rid p r)\<lparr>
         rooms := hinsert rid (room\<lparr>rs_members := rs_members room |-| {|p|}\<rparr>) (rooms (drop_sessions_of rid p r)),
         peers := hremove p (peers r), virtual_ips := hremove (ps_virtual_ip peer) (virtual_ips r)\<rparr>)"
proof (cases "\<exists>room0. hget (rooms r) rid = Some room0 \<and> p |\<in>| rs_members room0")
  case False
  show ?thesis
  proof (cases "hget (rooms r) rid")
    case None
    then show ?thesis by (intro err [of "RoomNotFound rid"]) (simp_all add: leave_room_def)
  next
    case (Some room)
    with False have "p |\<notin>| rs_members room" by simp
    with Some member_iff [OF inv Some, of p] show ?thesis
      by (intro err [of "PeerNotInRoom p rid"]) (auto simp: leave_room_def)
  qed
next
  case True
  then obtain room0 peer where *: "hget (rooms r) rid = Some room0" "p |\<in>| rs_members room0"
      "hget (peers r) p = Some peer" "ps_room_id peer = rid"
    using member_iff [OF inv] by blast
  then obtain room where room: "hget (rooms (drop_sessions_of rid p r)) rid = Some room"
    using drop_sessions_of_frame(5) [of rid p r rid]
    by (cases "hget (rooms (drop_sessions_of rid p r)) rid") (simp_all del: drop_sessions_of_frame)
  have "leave_room rid p r = (Ok (), (drop_sessions_of rid p r)\<lparr>
         rooms := hinsert rid (room\<lparr>rs_members := rs_members room |-| {|p|}\<rparr>) (rooms (drop_sessions_of rid p r)),
         peers := hremove p (peers r), virtual_ips := hremove (ps_virtual_ip peer) (virtual_ips r)\<rparr>)"
    using * room by (simp add: leave_room_def drop_sessions_of_def Let_def fold_remove_keys_where)
  then show ?thesis using ok * room by blast
qed

lemma host_of_peer_room:
  assumes "router_inv r" "hget (hosts r) h = Some host" "hget (peers r) (hs_peer_id host) = Some peer"
  shows "hs_room_id host = ps_room_id peer"
  using host_peer_lives [OF assms(1,2)] assms(3) by force

lemma inv_leave_room:
  assumes inv: "router_inv r"
  shows "router_inv (snd (leave_room rid p r))"
  using inv
proof (cases rule: leave_room_cases [where rid = rid and p = p])
  case err
  then show ?thesis using inv by simp
next
  case (ok room peer)
  let ?d = "drop_sessions_of rid p r"
  have inv': "router_inv ?d" by (rule inv_drop_sessions_of [OF inv])
  have hosts: "hs_peer_id host \<noteq> p" if "hget (hosts ?d) h = Some host" for h host
    using that host_of_peer_room [OF inv, of h host peer] ok(1,2) by (auto simp: hget_retain_iff simp del: hget_retain)
  have ds: "ds_client_peer_id d \<noteq> p" if "hget (discoveries ?d) q = Some d" for q d
    using that router_invD(7) [OF inv] ok(1,2)
    by (fastforce simp: drop_sessions_of_def Let_def hget_retain_iff discoveries_live_def lives_iff simp del: hget_retain)
  have gs: "gs_client_peer_id s \<noteq> p \<and> gs_host_peer_id s \<noteq> p" if "hget (gameplay ?d) g = Some s" for g s
  proof -
    have "lives ?d (gs_client_peer_id s) (gs_room_id s) (gs_client_virtual_ip s)"
      "lives ?d (gs_host_peer_id s) (gs_room_id s) (gs_host_virtual_ip s)"
      using router_invD(8) [OF inv'] that by (auto simp: gameplay_live_def)
    moreover have "\<not> (gs_room_id s = rid \<and> (gs_client_peer_id s = p \<or> gs_host_peer_id s = p))"
      using that by (auto simp: drop_sessions_of_def Let_def hget_retain_iff simp del: hget_retain)
    ultimately show ?thesis using ok(1,2) by (auto simp: lives_iff)
  qed
  have "router_inv (?d\<lparr>rooms := hinsert rid (room\<lparr>rs_members := rs_members room |-| {|p|}\<rparr>) (rooms ?d),
      peers := hremove p (peers ?d), virtual_ips := hremove (ps_virtual_ip peer) (virtual_ips ?d)\<rparr>)"
    by (rule inv_remove_member [OF inv' ok(3) _ ok(2) hosts ds gs]) (simp_all add: ok(1))
  then show ?thesis by (simp add: ok(4))
qed

subsection \<open>Host sessions\<close>

lemma insert_new_host_cases:
  assumes "hget (rooms r) rid = Some room"
  obtains (err) "max_hosts_per_room (config r) \<le> fcard (rs_host_sessions room)"
      "insert_new_host rid p peer now new_id r = (Err (HostLimitReached rid), r)"
  | (ok) "fcard (rs_host_sessions room) < max_hosts_per_room (config r)"
      "insert_new_host rid p peer now new_id r = (Ok new_id, r\<lparr>
         hosts := hinsert new_id \<lparr>hs_room_id = rid, hs_peer_id = p, hs_virtual_ip = ps_virtual_ip peer,
           hs_last_heartbeat = now, hs_expires_at = now + host_ttl (config r)\<rparr> (hosts r),
         host_by_peer := hinsert (rid, p) new_id (host_by_peer r),
         rooms := hinsert rid (room\<lparr>rs_host_sessions := finsert new_id (rs_host_sessions room)\<rparr>) (rooms r)\<rparr>)"
  using assms by (cases "max_hosts_per_room (config r) \<le> fcard (rs_host_sessions room)")
    (simp_all add: insert_new_host_def)

lemma inv_insert_new_host:
  assumes inv: "router_inv r" and peer: "hget (peers r) p = Some peer" "ps_room_id peer = rid"
    and fresh: "hget (hosts r) new_id = None" and none: "hget (host_by_peer r) (rid, p) = None"
  shows "router_inv (snd (insert_new_host rid p peer now new_id r))"
proof -
  obtain room where room: "hget (rooms r) rid = Some room"
    using peer_room_exists [OF inv peer(1)] peer(2) by blast
  from room show ?thesis
  proof (cases rule: insert_new_host_cases [where p = p and peer = peer and now = now and new_id = new_id])
    case err
    then show ?thesis using inv by simp
  next
    case ok
    let ?host = "\<lparr>hs_room_id = rid, hs_peer_id = p, hs_virtual_ip = ps_virtual_ip peer,
           hs_last_heartbeat = now, hs_expires_at = now + host_ttl (config r)\<rparr>"
    let ?r = "r\<lparr>hosts := hinsert new_id ?host (hosts r),
         host_by_peer := hinsert (rid, p) new_id (host_by_peer r),
         rooms := hinsert rid (room\<lparr>rs_host_sessions := finsert new_id (rs_host_sessions room)\<rparr>) (rooms r)\<rparr>"
    have lives: "lives ?r = lives r"
      by (rule lives_cong) simp
    have "router_inv ?r"
    proof (rule router_invI)
      show "codes_agree ?r"
        using router_invD(1) [OF inv] room by (auto simp: codes_agree_def)
      show "members_agree ?r"
        using router_invD(2) [OF inv] room unfolding members_agree_def by (simp, metis option.inject)
      show "host_sets_agree ?r"
        using router_invD(4) [OF inv] room fresh unfolding host_sets_agree_def
        by (simp, metis option.distinct(1) option.inject)
      show "host_index_agrees ?r"
        using router_invD(5) [OF inv] fresh none unfolding host_index_agrees_def
        by (simp, metis option.distinct(1))
      show "hosts_live ?r"
        using router_invD(6) [OF inv] peer lives by (auto simp: hosts_live_def lives_iff)
      show "gameplay_live ?r"
        using router_invD(8) [OF inv] lives by (auto simp: gameplay_live_def)
      show "within_limits ?r"
        using router_invD(10) [OF inv] ok(1) room fcard_finsert_le [of new_id "rs_host_sessions room"]
        by (fastforce simp: within_limits_def hlen_insert)
    qed (use router_invD [OF inv] lives in \<open>auto simp: ips_agree_def discoveries_live_def epochs_positive_def\<close>)
    then show ?thesis by (simp add: ok(2))
  qed
qed

end
