(* ===== verification/Router_Steps.thy ===== *)
theory Router_Steps
  imports Router_Preserve
begin

section \<open>Runs of the router\<close>

text \<open>
  The remaining operations of \<open>crates/router/src/lib.rs\<close> keep the invariant, and the step relation over all of them:
  a router event with its result, runs of events, and the invariant of every run from a new router.
\<close>

subsection \<open>Session operations keep the invariant\<close>

lemma host_by_peer_remove_host:
  "hget (hosts r) h = Some host \<Longrightarrow>
     host_by_peer (remove_host h r) = hremove (hs_room_id host, hs_peer_id host) (host_by_peer r)"
  by (simp add: remove_host_def Let_def split: option.split)

text \<open>Registration by a member: the three ways it can go.\<close>

lemma register_host_cases:
  assumes inv: "router_inv r"
  obtains (err) e where "member_state r rid p = Err e" "register_host rid p now new_id r = (Err e, r)"
  | (first) peer where "hget (peers r) p = Some peer" "ps_room_id peer = rid"
      "hget (host_by_peer r) (rid, p) = None"
      "register_host rid p now new_id r = insert_new_host rid p peer now new_id r"
  | (again) peer h host where "hget (peers r) p = Some peer" "ps_room_id peer = rid"
      "hget (hosts r) h = Some host" "hs_room_id host = rid" "hs_peer_id host = p" "now < hs_expires_at host"
      "register_host rid p now new_id r = (Ok h, r\<lparr>hosts := hinsert h
         (host\<lparr>hs_last_heartbeat := now, hs_expires_at := now + host_ttl (config r)\<rparr>) (hosts r)\<rparr>)"
  | (stale) peer h host where "hget (peers r) p = Some peer" "ps_room_id peer = rid"
      "hget (hosts r) h = Some host" "hs_room_id host = rid" "hs_peer_id host = p" "hs_expires_at host \<le> now"
      "register_host rid p now new_id r = insert_new_host rid p peer now new_id (remove_host h r)"
proof (cases "member_state r rid p")
  case (Ok peer)
  then have peer: "hget (peers r) p = Some peer" "ps_room_id peer = rid"
    using member_state_iff [OF inv] by simp_all
  show ?thesis
  proof (cases "hget (host_by_peer r) (rid, p)")
    case None
    then show ?thesis using first [OF peer] Ok by (simp add: register_host_def)
  next
    case (Some h)
    then obtain host where "hget (hosts r) h = Some host" "hs_room_id host = rid" "hs_peer_id host = p"
      using host_index_iff [OF inv] by blast
    with Some Ok show ?thesis
      using again [OF peer, of h host] stale [OF peer, of h host]
      by (cases "now < hs_expires_at host") (simp_all add: register_host_def)
  qed
next
  case (Err e)
  then show ?thesis using err by (simp add: register_host_def)
next
  case Panic
  then show ?thesis by simp
qed

lemma inv_register_host:
  assumes inv: "router_inv r" and fresh: "hget (hosts r) new_id = None"
  shows "router_inv (snd (register_host rid p now new_id r))"
  using inv
proof (cases rule: register_host_cases [where rid = rid and p = p and now = now and new_id = new_id])
  case err
  then show ?thesis using inv by simp
next
  case (first peer)
  then show ?thesis using inv_insert_new_host [OF inv _ _ fresh] by simp
next
  case (again peer h host)
  then show ?thesis using inv_update_host [OF inv] by simp
next
  case (stale peer h host)
  have "hget (host_by_peer (remove_host h r)) (rid, p) = None"
    using stale by (simp add: host_by_peer_remove_host)
  moreover have "hget (hosts (remove_host h r)) new_id = None"
    using fresh by simp
  ultimately show ?thesis
    using inv_insert_new_host [OF inv_remove_host [OF inv]] stale by simp
qed

lemma inv_heartbeat_host: "router_inv r \<Longrightarrow> router_inv (snd (heartbeat_host h now r))"
  by (auto simp: heartbeat_host_def split: option.split intro: inv_update_host)

lemma inv_heartbeat_host_for_room:
  "router_inv r \<Longrightarrow> router_inv (snd (heartbeat_host_for_room rid p h now r))"
  by (auto simp: heartbeat_host_for_room_def inv_heartbeat_host split: option.split)

lemma inv_unregister_host: "router_inv r \<Longrightarrow> router_inv (snd (unregister_host h r))"
  by (simp add: unregister_host_def inv_remove_host)

lemma member_state_lives:
  assumes "router_inv r" "member_state r rid p = Ok peer"
  shows "lives r p rid (ps_virtual_ip peer)"
  using assms member_state_iff by (auto simp: lives_iff)

lemma begin_discovery_rejects:
  "\<not> is_discovery_port (port_num port) \<Longrightarrow>
     begin_discovery rid client q port now r = (Err (InvalidDiscoveryPort (port_num port)), r)"
  "is_discovery_port (port_num port) \<Longrightarrow> member_state r rid client = Err e \<Longrightarrow>
     begin_discovery rid client q port now r = (Err e, r)"
  by (simp_all add: begin_discovery_def)

lemma begin_discovery_cases:
  assumes inv: "router_inv r"
  obtains (err) e where "begin_discovery rid client q port now r = (Err e, r)"
  | (ok) peer room d where "hget (peers r) client = Some peer" "ps_room_id peer = rid"
      "hget (rooms r) rid = Some room" "is_discovery_port (port_num port)"
      "d = \<lparr>ds_room_id = rid, ds_client_peer_id = client, ds_destination_port = port,
            ds_expires_at = now + discovery_ttl (config r)\<rparr>"
      "case hget (discoveries r) q of None \<Rightarrow> True
       | Some old \<Rightarrow> ds_room_id old = rid \<and> ds_client_peer_id old = client \<and> ds_destination_port old = port"
      "begin_discovery rid client q port now r =
         (Ok (live_targets (r\<lparr>discoveries := hinsert q d (discoveries r)\<rparr>) room now),
          r\<lparr>discoveries := hinsert q d (discoveries r)\<rparr>)"
proof (cases "\<exists>e. begin_discovery rid client q port now r = (Err e, r)")
  case False
  then have port: "is_discovery_port (port_num port)"
    using begin_discovery_rejects(1) by blast
  from False obtain peer where peer: "member_state r rid client = Ok peer"
    using begin_discovery_rejects(2) [OF port] by (cases "member_state r rid client") auto
  obtain room where room: "hget (rooms r) rid = Some room"
    using member_state_room [OF peer] by blast
  let ?d = "\<lparr>ds_room_id = rid, ds_client_peer_id = client, ds_destination_port = port,
            ds_expires_at = now + discovery_ttl (config r)\<rparr>"
  show ?thesis
  proof (cases "hget (discoveries r) q")
    case None
    with peer room port show ?thesis
      using member_state_iff [OF inv, THEN iffD1, OF peer]
      by (intro ok [of peer room ?d]) (simp_all add: begin_discovery_def)
  next
    case (Some old)
    with False peer port have old: "ds_room_id old = rid" "ds_client_peer_id old = client" "ds_destination_port old = port"
      by (auto simp: begin_discovery_def split: if_splits)
    with Some peer room port show ?thesis
      using member_state_iff [OF inv, THEN iffD1, OF peer]
      by (intro ok [of peer room "old\<lparr>ds_expires_at := now + discovery_ttl (config r)\<rparr>"])
        (simp_all add: begin_discovery_def)
  qed
qed (use err in blast)

lemma inv_begin_discovery:
  assumes inv: "router_inv r"
  shows "router_inv (snd (begin_discovery rid client q port now r))"
  using inv
proof (cases rule: begin_discovery_cases [where rid = rid and client = client and q = q and port = port and now = now])
  case err
  then show ?thesis using inv by simp
next
  case (ok peer room d)
  then have "lives r client rid (ps_virtual_ip peer)" by (simp add: lives_iff)
  with ok show ?thesis by (auto intro: inv_insert_discovery [OF inv])
qed

lemma inv_select_host:
  assumes inv: "router_inv r"
  shows "router_inv (snd (select_host rid client h now new_id r))"
  unfolding select_host_def
proof (rule try_st_snd)
  fix peer
  assume "fst (member_state r rid client, r) = Ok peer"
  then have "lives r client rid (ps_virtual_ip peer)"
    using member_state_lives [OF inv] by simp
  moreover have "lives r (hs_peer_id host) (hs_room_id host) (hs_virtual_ip host)"
    "hget (host_by_peer r) (hs_room_id host, hs_peer_id host) \<noteq> None"
    if "hget (hosts r) h = Some host" for host
    using that router_invD(6) [OF inv] host_index_iff [OF inv] by (auto simp: hosts_live_def)
  ultimately show "router_inv (snd ((\<lambda>client_state r.
       case hget (hosts r) h of
         None \<Rightarrow> (Err (HostNotFound h), r)
       | Some host \<Rightarrow>
           if hs_room_id host \<noteq> rid then (Err (HostNotInRoom h rid), r)
           else if hs_expires_at host \<le> now then (Err (HostExpired h), r)
           else if max_gameplay_sessions (config r) \<le> hlen (gameplay r) then (Err GameplayLimitReached, r)
           else (Ok new_id, r\<lparr>gameplay := hinsert new_id
                  \<lparr>gs_room_id = rid, gs_client_peer_id = client, gs_host_peer_id = hs_peer_id host,
                   gs_host_virtual_ip = hs_virtual_ip host, gs_client_virtual_ip = ps_virtual_ip client_state,
                   gs_last_activity = now, gs_expires_at = now + gameplay_idle_ttl (config r)\<rparr> (gameplay r)\<rparr>))
      peer (snd (member_state r rid client, r))))"
    using inv by (auto intro!: inv_insert_gameplay split: option.split)
qed (simp add: inv)

lemma inv_route_gameplay_datagram:
  assumes inv: "router_inv r"
  shows "router_inv (snd (route_gameplay_datagram g source now r))"
  using inv router_invD(8) [OF inv]
  by (auto simp: route_gameplay_datagram_def Let_def gameplay_live_def split: option.split intro!: inv_insert_gameplay)

lemma inv_remove_gameplay_session:
  assumes inv: "router_inv r"
  shows "router_inv (snd (remove_gameplay_session g r))"
proof -
  have "router_inv (r\<lparr>discoveries := discoveries r, gameplay := hremove g (gameplay r)\<rparr>)"
    by (rule inv_drop_sessions [OF inv]) (auto simp: hlen_remove_le split: if_splits)
  then show ?thesis using inv by (simp add: remove_gameplay_session_def split: option.split)
qed

subsection \<open>Expiry\<close>

lemma leave_room_not_Panic:
  assumes inv: "router_inv r"
  shows "fst (leave_room rid p r) \<noteq> Panic"
  using inv by (cases rule: leave_room_cases [where rid = rid and p = p]) simp_all

lemma expire_peers_inv:
  "router_inv r \<Longrightarrow> fst (expire_peers ps r) = Ok () \<and> router_inv (snd (expire_peers ps r))"
proof (induction ps arbitrary: r)
  case (Cons p ps)
  show ?case
  proof (cases "hget (peers r) p")
    case (Some peer)
    obtain x r' where lr: "leave_room (ps_room_id peer) p r = (x, r')" by fastforce
    then have "x \<noteq> Panic" "router_inv r'"
      using leave_room_not_Panic [OF Cons.prems] inv_leave_room [OF Cons.prems] by (metis fst_conv, metis snd_conv)
    then show ?thesis
      using Some lr Cons.IH [of r'] by (cases x) simp_all
  qed (use Cons in simp)
qed simp

lemma inv_fold_disconnect: "router_inv r \<Longrightarrow> router_inv (fold (\<lambda>p. disconnect_peer p now) ps r)"
  by (induction ps arbitrary: r) (simp_all add: inv_disconnect_peer)

text \<open>The states \<open>expire\<close> goes through: expired sessions dropped, then silent peers suspended.\<close>

definition drop_expired :: "instant \<Rightarrow> room_router \<Rightarrow> room_router" where
  "drop_expired now r =
     (let r' = fold remove_host (hkeys_where (\<lambda>_ host. hs_expires_at host \<le> now) (hosts r)) r
      in r'\<lparr>discoveries := hretain (\<lambda>_ d. \<not> ds_expires_at d \<le> now) (discoveries r),
            gameplay := hretain (\<lambda>_ s. \<not> gs_expires_at s \<le> now) (gameplay r')\<rparr>)"

definition silent_peers :: "instant \<Rightarrow> room_router \<Rightarrow> peer_id list" where
  "silent_peers now r = hkeys_where (\<lambda>_ peer. ps_disconnected_at peer = None \<and>
     ps_last_seen peer + peer_ttl (config r) \<le> now) (peers r)"

definition suspend_silent :: "instant \<Rightarrow> room_router \<Rightarrow> room_router" where
  "suspend_silent now r = fold (\<lambda>p. disconnect_peer p now) (silent_peers now r) (drop_expired now r)"

definition lapsed_peers :: "instant \<Rightarrow> room_router \<Rightarrow> peer_id list" where
  "lapsed_peers now r = hkeys_where (\<lambda>_ peer. case ps_disconnected_at peer of
     None \<Rightarrow> False | Some disconnected_at \<Rightarrow> disconnected_at + peer_grace_ttl (config r) \<le> now) (peers r)"

lemma drop_expired_frame [simp]:
  "config (drop_expired now r) = config r" "peers (drop_expired now r) = peers r"
  by (simp_all add: drop_expired_def Let_def)

lemma inv_drop_expired: "router_inv r \<Longrightarrow> router_inv (drop_expired now r)"
  unfolding drop_expired_def Let_def
  by (rule inv_drop_sessions) (simp_all add: inv_fold_remove_host hget_retain_iff hlen_retain_le del: hget_retain)

lemma inv_suspend_silent: "router_inv r \<Longrightarrow> router_inv (suspend_silent now r)"
  by (simp add: suspend_silent_def inv_fold_disconnect inv_drop_expired)

lemma expire_eq:
  "expire now r = try_st (expire_peers (lapsed_peers now (suspend_silent now r)) (suspend_silent now r)) (\<lambda>_ r'. (Ok
       \<lparr>expired_hosts = length (hkeys_where (\<lambda>_ host. hs_expires_at host \<le> now) (hosts r)),
        expired_discoveries = length (hkeys_where (\<lambda>_ d. ds_expires_at d \<le> now) (discoveries r)),
        expired_gameplay_sessions = length (hkeys_where (\<lambda>_ s. gs_expires_at s \<le> now)
          (gameplay (fold remove_host (hkeys_where (\<lambda>_ host. hs_expires_at host \<le> now) (hosts r)) r)))\<rparr>, r'))"
  unfolding expire_def suspend_silent_def silent_peers_def lapsed_peers_def drop_expired_def Let_def
    fold_remove_keys_where
  by (simp cong: option.case_cong)

lemma inv_expire:
  assumes "router_inv r"
  shows "router_inv (snd (expire now r))"
  unfolding expire_eq
  by (rule try_st_snd) (simp_all add: expire_peers_inv [OF inv_suspend_silent [OF assms]])

lemma expire_not_Panic:
  assumes "router_inv r"
  shows "fst (expire now r) \<noteq> Panic"
  unfolding expire_eq
  by (rule try_st_not_Panic) (simp_all add: expire_peers_inv [OF inv_suspend_silent [OF assms]])

text \<open>A dispatched datagram changes the router only through discovery and gameplay routing.\<close>

lemma dispatch_state:
  "snd (dispatch (IngressDiscovery source q port payload now) r) = r \<or>
   (\<exists>rid. snd (dispatch (IngressDiscovery source q port payload now) r) = snd (begin_discovery rid source q port now r))"
  "snd (dispatch (IngressDiscoveryResponse h q port payload now) r) = r"
  "snd (dispatch (IngressGameplay g source port payload now) r) = r \<or>
   snd (dispatch (IngressGameplay g source port payload now) r) = snd (route_gameplay_datagram g source now r)"
proof -
  have keep: "snd (try_st p (\<lambda>x r. (f x, r))) = snd p" for p :: "('a, 'e) result \<times> 's" and f :: "'a \<Rightarrow> ('b, 'e) result"
    by (cases p; cases "fst p") auto
  show "snd (dispatch (IngressDiscovery source q port payload now) r) = r \<or>
   (\<exists>rid. snd (dispatch (IngressDiscovery source q port payload now) r) = snd (begin_discovery rid source q port now r))"
    by (cases "validate_payload r payload"; cases "room_for_peer r source") (auto simp: keep)
  show "snd (dispatch (IngressDiscoveryResponse h q port payload now) r) = r"
    by (cases "validate_payload r payload"; cases "route_discovery_response r q h now"; cases "hget (hosts r) h") auto
  show "snd (dispatch (IngressGameplay g source port payload now) r) = r \<or>
   snd (dispatch (IngressGameplay g source port payload now) r) = snd (route_gameplay_datagram g source now r)"
    by (cases "validate_payload r payload") (auto simp: keep)
qed

lemma inv_dispatch:
  assumes inv: "router_inv r"
  shows "router_inv (snd (dispatch i r))"
proof (cases i)
  case (IngressDiscovery source q port payload now)
  then show ?thesis
    using inv inv_begin_discovery [OF inv] dispatch_state(1) [of source q port payload now r] by metis
next
  case IngressDiscoveryResponse
  then show ?thesis using inv dispatch_state(2) by simp
next
  case (IngressGameplay g source port payload now)
  then show ?thesis
    using inv inv_route_gameplay_datagram [OF inv] dispatch_state(3) [of g source port payload now r] by metis
qed

subsection \<open>Events and runs\<close>

text \<open>
  One event per state-changing method of \<open>impl RoomRouter\<close>. The identifier a method draws is
  part of the event; \<open>fresh_event\<close> asks of it what a random UUID gives: it is not yet in use.
\<close>

datatype router_event =
    CreateRoom room_id room_code
  | RemoveEmptyRoom room_id
  | JoinRoom room_id peer_id virtual_ip instant
  | MarkPeerSeen peer_id instant
  | ResumePeer room_id peer_id instant
  | LeaveRoom room_id peer_id
  | RegisterHost room_id peer_id instant host_session_id
  | HeartbeatHost host_session_id instant
  | HeartbeatHostForRoom room_id peer_id host_session_id instant
  | UnregisterHost host_session_id
  | BeginDiscovery room_id peer_id discovery_request_id udp_port instant
  | SelectHost room_id peer_id host_session_id instant gameplay_session_id
  | RouteGameplay gameplay_session_id peer_id instant
  | RemoveGameplay gameplay_session_id
  | Expire instant
  | Dispatch relay_ingress

text \<open>The outcome of an event, without the value it returns.\<close>

definition outcome :: "('a, 'e) result \<times> 's \<Rightarrow> (unit, 'e) result \<times> 's" where
  "outcome p = (and_then (fst p) (\<lambda>_. Ok ()), snd p)"

fun apply_event :: "router_event \<Rightarrow> room_router \<Rightarrow> (unit, router_error) result \<times> room_router" where
  "apply_event (CreateRoom rid code) r = outcome (create_room rid code r)"
| "apply_event (RemoveEmptyRoom rid) r = remove_empty_room rid r"
| "apply_event (JoinRoom rid p ip now) r = join_room rid p ip now r"
| "apply_event (MarkPeerSeen p now) r = mark_peer_seen p now r"
| "apply_event (ResumePeer rid p now) r = outcome (resume_peer rid p now r)"
| "apply_event (LeaveRoom rid p) r = leave_room rid p r"
| "apply_event (RegisterHost rid p now h) r = outcome (register_host rid p now h r)"
| "apply_event (HeartbeatHost h now) r = heartbeat_host h now r"
| "apply_event (HeartbeatHostForRoom rid p h now) r = heartbeat_host_for_room rid p h now r"
| "apply_event (UnregisterHost h) r = unregister_host h r"
| "apply_event (BeginDiscovery rid p q port now) r = outcome (begin_discovery rid p q port now r)"
| "apply_event (SelectHost rid p h now g) r = outcome (select_host rid p h now g r)"
| "apply_event (RouteGameplay g p now) r = outcome (route_gameplay_datagram g p now r)"
| "apply_event (RemoveGameplay g) r = remove_gameplay_session g r"
| "apply_event (Expire now) r = outcome (expire now r)"
| "apply_event (Dispatch i) r = outcome (dispatch i r)"

fun fresh_event :: "room_router \<Rightarrow> router_event \<Rightarrow> bool" where
  "fresh_event r (RegisterHost rid p now h) = (hget (hosts r) h = None)"
| "fresh_event r (SelectHost rid p h now g) = (hget (gameplay r) g = None)"
| "fresh_event r e = True"

inductive router_step :: "room_router \<Rightarrow> router_event \<Rightarrow> room_router \<Rightarrow> bool" where
  "fresh_event r e \<Longrightarrow> router_step r e (snd (apply_event e r))"

inductive_simps router_step_iff: "router_step r e r'"
inductive_cases router_stepE: "router_step r e r'"

lemma outcome_simps [simp]:
  "snd (outcome p) = snd p"
  "fst (outcome p) = Panic \<longleftrightarrow> fst p = Panic"
  "fst (outcome p) = Ok () \<longleftrightarrow> (\<exists>x. fst p = Ok x)"
  "fst (outcome p) = Err e \<longleftrightarrow> fst p = Err e"
  by (cases p; cases "fst p"; simp add: outcome_def)+

lemma inv_create_room: "router_inv r \<Longrightarrow> router_inv (snd (create_room rid code r))"
  unfolding create_room_def by (rule try_st_snd) (simp_all add: inv_create_room_with_id)

lemmas operation_invs = inv_create_room inv_remove_empty_room inv_join_room inv_mark_peer_seen
  inv_resume_peer inv_leave_room inv_heartbeat_host inv_heartbeat_host_for_room
  inv_unregister_host inv_begin_discovery inv_select_host inv_route_gameplay_datagram
  inv_remove_gameplay_session inv_expire inv_dispatch

lemma inv_apply_event: "router_inv r \<Longrightarrow> fresh_event r e \<Longrightarrow> router_inv (snd (apply_event e r))"
  by (cases e) (simp_all add: operation_invs inv_register_host)

interpretation router_run: step_invariant router_step router_inv
  by unfold_locales (auto elim!: router_stepE intro: inv_apply_event)

end
