(* ===== verification/Router_Safety.thy ===== *)
theory Router_Safety
  imports Router_Steps
begin

section \<open>Safety of the router\<close>

text \<open>
  What holds of every run: no \<open>expect\<close> fails, an error leaves the state alone, and datagrams
  stay inside one room.
\<close>

subsection \<open>No panic\<close>

lemma begin_discovery_not_Panic:
  assumes "router_inv r"
  shows "fst (begin_discovery rid client q port now r) \<noteq> Panic"
  using assms
  by (cases rule: begin_discovery_cases [where rid = rid and client = client and q = q and port = port and now = now])
    simp_all

lemma insert_new_host_not_Panic:
  assumes "hget (rooms r) rid = Some room"
  shows "fst (insert_new_host rid p peer now h r) \<noteq> Panic"
  using assms
  by (cases rule: insert_new_host_cases [where p = p and peer = peer and now = now and new_id = h]) simp_all

lemma register_host_not_Panic:
  assumes inv: "router_inv r"
  shows "fst (register_host rid p now new_id r) \<noteq> Panic"
  using inv
proof (cases rule: register_host_cases [where rid = rid and p = p and now = now and new_id = new_id])
  case (first peer)
  then show ?thesis using peer_room_exists [OF inv first(1)] insert_new_host_not_Panic by metis
next
  case (stale peer h host)
  have "hget (peers (remove_host h r)) p = Some peer" using stale by simp
  then obtain room where "hget (rooms (remove_host h r)) rid = Some room"
    using peer_room_exists [OF inv_remove_host [OF inv]] stale(2) by metis
  then show ?thesis using stale insert_new_host_not_Panic by simp
qed simp_all

lemma route_gameplay_not_Panic: "fst (route_gameplay_datagram g source now r) \<noteq> Panic"
  by (simp add: route_gameplay_datagram_def Let_def split: option.split)

lemma route_response_not_Panic: "route_discovery_response r q h now \<noteq> Panic"
  by (simp add: route_discovery_response_def split: option.split)

lemma validate_payload_not_Panic: "validate_payload r payload \<noteq> Panic"
  by (simp add: validate_payload_def)

lemma dispatch_not_Panic:
  assumes inv: "router_inv r"
  shows "fst (dispatch i r) \<noteq> Panic"
proof (cases i)
  case IngressDiscovery
  then show ?thesis
    by (simp del: not_None_eq) (intro try_st_not_Panic;
      simp add: validate_payload_not_Panic begin_discovery_not_Panic [OF inv])
next
  case IngressDiscoveryResponse
  then show ?thesis
    by simp (intro try_st_not_Panic; simp add: validate_payload_not_Panic;
      intro impI try_st_not_Panic; simp add: route_response_not_Panic)
next
  case IngressGameplay
  then show ?thesis
    by simp (intro try_st_not_Panic; simp add: validate_payload_not_Panic;
      intro impI try_st_not_Panic; simp add: route_gameplay_not_Panic)
qed

lemma join_room_not_Panic: "fst (join_room rid p ip now r) \<noteq> Panic"
  by (cases rule: join_room_cases [of rid p ip now r]) simp_all

lemma select_host_not_Panic: "fst (select_host rid p h now g r) \<noteq> Panic"
  unfolding select_host_def by (rule try_st_not_Panic) (simp_all split: option.split)

lemma simple_not_Panic:
  "fst (create_room rid code r) \<noteq> Panic"
  "fst (remove_empty_room rid r) \<noteq> Panic"
  "fst (mark_peer_seen p now r) \<noteq> Panic"
  "fst (resume_peer rid p now r) \<noteq> Panic"
  "fst (heartbeat_host h now r) \<noteq> Panic"
  "fst (heartbeat_host_for_room rid p h now r) \<noteq> Panic"
  "fst (unregister_host h r) \<noteq> Panic"
  "fst (remove_gameplay_session g r) \<noteq> Panic"
  by (auto simp: create_room_def create_room_with_id_def remove_empty_room_def mark_peer_seen_def resume_peer_def
      heartbeat_host_def heartbeat_host_for_room_def unregister_host_def remove_gameplay_session_def Let_def
      split: option.split)

lemmas operations_not_Panic = simple_not_Panic join_room_not_Panic leave_room_not_Panic register_host_not_Panic
  begin_discovery_not_Panic select_host_not_Panic route_gameplay_not_Panic expire_not_Panic dispatch_not_Panic

lemma apply_event_not_Panic: "router_inv r \<Longrightarrow> fst (apply_event e r) \<noteq> Panic"
  by (cases e) (simp_all add: operations_not_Panic)

subsection \<open>An error changes nothing\<close>

text \<open>The operations that only test before they write.\<close>

lemma simple_error_keeps:
  "fst (create_room rid code r) = Err x \<Longrightarrow> snd (create_room rid code r) = r"
  "fst (remove_empty_room rid r) = Err x \<Longrightarrow> snd (remove_empty_room rid r) = r"
  "fst (mark_peer_seen p now r) = Err x \<Longrightarrow> snd (mark_peer_seen p now r) = r"
  "fst (resume_peer rid p now r) = Err x \<Longrightarrow> snd (resume_peer rid p now r) = r"
  "fst (heartbeat_host h now r) = Err x \<Longrightarrow> snd (heartbeat_host h now r) = r"
  "fst (heartbeat_host_for_room rid p h now r) = Err x \<Longrightarrow> snd (heartbeat_host_for_room rid p h now r) = r"
  "fst (unregister_host h r) = Err x \<Longrightarrow> snd (unregister_host h r) = r"
  "fst (remove_gameplay_session g r) = Err x \<Longrightarrow> snd (remove_gameplay_session g r) = r"
  "fst (route_gameplay_datagram g p now r) = Err x \<Longrightarrow> snd (route_gameplay_datagram g p now r) = r"
  by (auto simp: create_room_def create_room_with_id_def remove_empty_room_def mark_peer_seen_def resume_peer_def
      heartbeat_host_def heartbeat_host_for_room_def unregister_host_def remove_gameplay_session_def
      route_gameplay_datagram_def Let_def split: option.splits if_splits)

lemma select_host_error_keeps:
  "fst (select_host rid p h now g r) = Err x \<Longrightarrow> snd (select_host rid p h now g r) = r"
  by (cases "member_state r rid p") (auto simp: select_host_def split: option.splits if_splits)

lemma begin_discovery_error_keeps:
  assumes "router_inv r" "fst (begin_discovery rid client q port now r) = Err x"
  shows "snd (begin_discovery rid client q port now r) = r"
  using assms(1)
  by (cases rule: begin_discovery_cases [where rid = rid and client = client and q = q and port = port and now = now])
    (use assms(2) in auto)

lemma join_room_error_keeps: "fst (join_room rid p ip now r) = Err x \<Longrightarrow> snd (join_room rid p ip now r) = r"
  by (cases rule: join_room_cases [of rid p ip now r]) simp_all

lemma leave_room_error_keeps:
  assumes "router_inv r" "fst (leave_room rid p r) = Err x"
  shows "snd (leave_room rid p r) = r"
  using assms(1) by (cases rule: leave_room_cases [where rid = rid and p = p]) (use assms(2) in auto)

lemma expire_never_errs:
  assumes "router_inv r"
  shows "fst (expire now r) \<noteq> Err x"
proof -
  have "fst (expire_peers (lapsed_peers now (suspend_silent now r)) (suspend_silent now r)) = Ok ()"
    using expire_peers_inv [OF inv_suspend_silent [OF assms]] by blast
  then show ?thesis
    unfolding expire_eq
    by (cases "expire_peers (lapsed_peers now (suspend_silent now r)) (suspend_silent now r)") simp
qed

lemma try_st_value:
  "fst (try_st p (\<lambda>x r. (Ok (f x), r))) = Err e \<longleftrightarrow> fst p = Err e"
  "snd (try_st p (\<lambda>x r. (Ok (f x), r))) = snd p"
  by (cases p; cases "fst p"; simp)+

lemma dispatch_error_keeps:
  assumes inv: "router_inv r" and err: "fst (dispatch i r) = Err x"
  shows "snd (dispatch i r) = r"
proof (cases i)
  case (IngressDiscovery source q port payload now)
  then show ?thesis
    using err begin_discovery_error_keeps [OF inv]
    by (cases "validate_payload r payload"; cases "room_for_peer r source") (simp_all add: try_st_value)
next
  case IngressDiscoveryResponse
  then show ?thesis using dispatch_state(2) by simp
next
  case (IngressGameplay g source port payload now)
  then show ?thesis
    using err simple_error_keeps(9)
    by (cases "validate_payload r payload") (auto simp: try_st_value split: if_splits)
qed

lemmas errors_keep = simple_error_keeps join_room_error_keeps select_host_error_keeps

text \<open>The one operation that may write before it fails: it clears the caller's lapsed session.\<close>

lemma register_host_error:
  assumes inv: "router_inv r" and err: "fst (register_host rid p now new_id r) = Err x"
  shows "snd (register_host rid p now new_id r) = r \<or>
    (\<exists>h host. hget (hosts r) h = Some host \<and> hs_room_id host = rid \<and> hs_peer_id host = p \<and>
       hs_expires_at host \<le> now \<and> x = HostLimitReached rid \<and>
       snd (register_host rid p now new_id r) = remove_host h r)"
  using inv
proof (cases rule: register_host_cases [where rid = rid and p = p and now = now and new_id = new_id])
  case (first peer)
  obtain room where "hget (rooms r) rid = Some room"
    using peer_room_exists [OF inv first(1)] first(2) by metis
  then show ?thesis
    using err first
    by (cases rule: insert_new_host_cases [where p = p and peer = peer and now = now and new_id = new_id]) simp_all
next
  case (stale peer h host)
  have "hget (peers (remove_host h r)) p = Some peer" using stale by simp
  then obtain room where "hget (rooms (remove_host h r)) rid = Some room"
    using peer_room_exists [OF inv_remove_host [OF inv]] stale(2) by metis
  then show ?thesis
    using err stale
    by (cases rule: insert_new_host_cases [where p = p and peer = peer and now = now and new_id = new_id])
      (auto simp del: remove_host_frame)
qed (use err in simp_all)

subsection \<open>A router to try the theorems on\<close>

text \<open>Two rooms; the first with a client and a host, the second with a host of its own.\<close>

definition demo_config :: router_config where
  "demo_config = \<lparr>host_ttl = 15, discovery_ttl = 5, gameplay_idle_ttl = 30, peer_ttl = 15, peer_grace_ttl = 45,
     safe_payload_size = 1200, max_rooms = 8, max_peers_per_room = 4, max_total_peers = 16,
     max_hosts_per_room = 1, max_gameplay_sessions = 4\<rparr>"

definition demo_events :: "router_event list" where
  "demo_events =
    [CreateRoom (RoomId 1) (RoomCode [65]), CreateRoom (RoomId 2) (RoomCode [66]),
     JoinRoom (RoomId 1) (PeerId 1) (VirtualIp 1) 0, JoinRoom (RoomId 1) (PeerId 2) (VirtualIp 2) 0,
     JoinRoom (RoomId 2) (PeerId 3) (VirtualIp 3) 0,
     RegisterHost (RoomId 1) (PeerId 2) 0 (HostSessionId 7),
     RegisterHost (RoomId 2) (PeerId 3) 0 (HostSessionId 8)]"

fun apply_events :: "router_event list \<Rightarrow> room_router \<Rightarrow> room_router" where
  "apply_events [] r = r"
| "apply_events (e # es) r = apply_events es (snd (apply_event e r))"

fun all_fresh :: "router_event list \<Rightarrow> room_router \<Rightarrow> bool" where
  "all_fresh [] r = True"
| "all_fresh (e # es) r = (fresh_event r e \<and> all_fresh es (snd (apply_event e r)))"

lemma run_apply_events: "all_fresh es r \<Longrightarrow> run router_step r es (apply_events es r)"
  by (induction es arbitrary: r) (auto simp: router_step_iff)

definition demo_router :: room_router where
  "demo_router = apply_events demo_events (router_new demo_config)"

lemmas router_eval = router_new_def create_room_def create_room_with_id_def remove_empty_room_def
  join_room_def mark_peer_seen_def resume_peer_def member_state_def register_host_def insert_new_host_def
  begin_discovery_def select_host_def route_gameplay_datagram_def outcome_def hlen_insert hlen_remove
  fcard_finsert_if snapshot_of_peer_def

lemmas demo_eval = demo_router_def demo_events_def demo_config_def router_eval

lemma demo_run: "run router_step (router_new demo_config) demo_events demo_router"
  unfolding demo_router_def
  by (rule run_apply_events) (simp add: demo_events_def demo_config_def router_eval)

lemma inv_run: "run router_step (router_new c) es r \<Longrightarrow> router_inv r"
  using router_run.run_keeps inv_new by blast

lemma demo_inv: "router_inv demo_router"
  using demo_run by (rule inv_run)

subsection \<open>Properties\<close>

text \<open>C2. Every state the router can reach from an empty one, by any sequence of its operations
  with fresh identifiers, has consistent tables: room codes and rooms, members and peers, addresses
  and peers, host sessions in all three places agree, sessions refer to members of their room, and
  all capacity limits hold.\<close>

theorem router_runs_stay_consistent:
  assumes "run router_step (router_new c) es r"
  shows "router_inv r"
  using assms by (rule inv_run)

theorem router_runs_stay_consistent_witness: "router_inv demo_router"
  by (rule router_runs_stay_consistent [OF demo_run])

text \<open>C3. No operation panics in a reachable state: every \<open>expect\<close> of the router finds what it
  looks up.\<close>

theorem router_never_panics:
  assumes "run router_step (router_new c) es r"
  shows "fst (apply_event e r) \<noteq> Panic"
  using inv_run [OF assms] by (rule apply_event_not_Panic)

theorem router_never_panics_witness:
  "fst (apply_event (LeaveRoom (RoomId 1) (PeerId 2)) demo_router) \<noteq> Panic"
  by (rule router_never_panics [OF demo_run])

text \<open>C12. An operation that returns an error has changed nothing, with one exception:
  \<open>register_host\<close> refused for capacity has already dropped the caller's own lapsed session.\<close>

theorem errors_change_nothing:
  assumes "run router_step (router_new c) es r" and "fst (apply_event e r) = Err x"
  shows "snd (apply_event e r) = r \<or>
    (\<exists>rid p now new_id h host. e = RegisterHost rid p now new_id \<and> x = HostLimitReached rid \<and>
       hget (hosts r) h = Some host \<and> hs_room_id host = rid \<and> hs_peer_id host = p \<and>
       hs_expires_at host \<le> now \<and> snd (apply_event e r) = remove_host h r)"
proof -
  note inv = inv_run [OF assms(1)]
  show ?thesis
  proof (cases e)
    case (RegisterHost rid p now new_id)
    then show ?thesis
      using register_host_error [OF inv, of rid p now new_id x] assms(2) by simp metis
  qed (use assms(2) errors_keep begin_discovery_error_keeps [OF inv] leave_room_error_keeps [OF inv]
        expire_never_errs [OF inv] dispatch_error_keeps [OF inv] in simp_all)
qed

theorem errors_change_nothing_witness:
  "snd (apply_event (JoinRoom (RoomId 2) (PeerId 1) (VirtualIp 9) 3) demo_router) = demo_router"
proof -
  let ?e = "JoinRoom (RoomId 2) (PeerId 1) (VirtualIp 9) 3"
  have "fst (apply_event ?e demo_router) = Err (PeerAlreadyInRoom (PeerId 1))"
    by (simp add: demo_eval)
  from errors_change_nothing [OF demo_run this] show ?thesis by simp
qed

subsection \<open>Work done by router operations only\<close>

lemma router_step_of: "fresh_event r e \<Longrightarrow> r' = snd (apply_event e r) \<Longrightarrow> run router_step r [e] r'"
  by (auto intro: run.intros router_step.intros)

lemma run_trans: "run step s es s' \<Longrightarrow> run step s' fs s'' \<Longrightarrow> run step s (es @ fs) s''"
  by (auto simp: run_append)

definition router_work :: "room_router \<Rightarrow> room_router \<Rightarrow> bool" where
  "router_work r r' \<longleftrightarrow> (\<exists>es. run router_step r es r')"

lemma router_work_refl [simp]: "router_work r r"
  unfolding router_work_def by (blast intro: run.intros)

lemma router_work_trans: "router_work r r' \<Longrightarrow> router_work r' r'' \<Longrightarrow> router_work r r''"
  unfolding router_work_def by (blast intro: run_trans)

lemma router_work_apply: "fresh_event r e \<Longrightarrow> router_work r (snd (apply_event e r))"
  unfolding router_work_def using router_step_of [of r e, OF _ refl] by blast

end
