(* ===== verification/Router_Routing.thy ===== *)
theory Router_Routing
  imports Router_Safety
begin

section \<open>Where datagrams may go\<close>

text \<open>
  The routing decisions of the router: the exact fan-out of a discovery request, the exact
  conditions for a discovery response and for a gameplay datagram, and the isolation of rooms
  for every datagram \<open>dispatch\<close> lets through.
\<close>

subsection \<open>The targets of a fan-out\<close>

abbreviation target_of :: "host_session_id \<Rightarrow> host_state \<Rightarrow> discovery_target" where
  "target_of h host \<equiv> \<lparr>target_host_session_id = h, target_host_peer_id = hs_peer_id host,
     target_host_virtual_ip = hs_virtual_ip host\<rparr>"

lemma set_live_targets:
  "set (live_targets r room now) =
     {target_of h host |h host. h |\<in>| rs_host_sessions room \<and> hget (hosts r) h = Some host \<and> now < hs_expires_at host}"
  by (force simp: live_targets_def List.map_filter_def sorted_list_of_fset.rep_eq)

lemma distinct_live_targets: "distinct (map target_host_session_id (live_targets r room now))"
proof -
  let ?hs = "sorted_list_of_fset (rs_host_sessions room)"
  let ?ps = "List.map_filter (\<lambda>h. map_option (Pair h) (hget (hosts r) h)) ?hs"
  have "map fst (List.map_filter (\<lambda>h. map_option (Pair h) (hget (hosts r) h)) hs) =
      filter (\<lambda>h. hget (hosts r) h \<noteq> None) hs" for hs
    by (induction hs) (auto simp: List.map_filter_simps)
  then have "distinct (map fst ?ps)" by simp
  then have "distinct (map fst (filter (\<lambda>(_, host). now < hs_expires_at host) ?ps))"
    by (rule distinct_map_filter)
  then show ?thesis by (simp add: live_targets_def comp_def split_beta)
qed

lemma live_targets_discoveries [simp]: "live_targets (r\<lparr>discoveries := ds\<rparr>) room now = live_targets r room now"
  by (simp add: live_targets_def)

lemma fanout_targets:
  assumes inv: "router_inv r" and ok: "begin_discovery rid client q port now r = (Ok targets, r')"
  shows "set targets = {target_of h host |h host. hget (hosts r) h = Some host \<and> hs_room_id host = rid \<and>
      now < hs_expires_at host}"
    and "distinct (map target_host_session_id targets)"
    and "\<exists>peer. hget (peers r) client = Some peer \<and> ps_room_id peer = rid"
    and "r' = r\<lparr>discoveries := hinsert q \<lparr>ds_room_id = rid, ds_client_peer_id = client, ds_destination_port = port,
            ds_expires_at = now + discovery_ttl (config r)\<rparr> (discoveries r)\<rparr>"
    and "is_discovery_port (port_num port)"
  using inv
  by (cases rule: begin_discovery_cases [where rid = rid and client = client and q = q and port = port and now = now];
      use ok in \<open>auto simp: set_live_targets distinct_live_targets host_member_iff [OF inv]\<close>)+

text \<open>C7. Discovery fan-out is complete and confined: the targets returned for a request in a room are
  exactly the unexpired host sessions of that room, each once and with the peer and address it was
  registered with; the client is a member of the room, and the request is remembered for
  \<open>discovery_ttl\<close>.\<close>

theorem discovery_fanout_exact:
  assumes "run router_step (router_new c) es r"
    and "begin_discovery rid client q port now r = (Ok targets, r')"
  shows "set targets = {\<lparr>target_host_session_id = h, target_host_peer_id = hs_peer_id host,
        target_host_virtual_ip = hs_virtual_ip host\<rparr> |h host.
        hget (hosts r) h = Some host \<and> hs_room_id host = rid \<and> now < hs_expires_at host} \<and>
    distinct (map target_host_session_id targets) \<and>
    room_for_peer r client = Some rid \<and>
    hget (discoveries r') q = Some \<lparr>ds_room_id = rid, ds_client_peer_id = client, ds_destination_port = port,
      ds_expires_at = now + discovery_ttl (config r)\<rparr>"
  using fanout_targets [OF inv_run [OF assms(1)] assms(2)] by (auto simp: room_for_peer_def)

lemma demo_discovery:
  "\<exists>r'. begin_discovery (RoomId 1) (PeerId 1) (DiscoveryRequestId 5) (Civ6UdpPort 62900) 3 demo_router =
     (Ok [\<lparr>target_host_session_id = HostSessionId 7, target_host_peer_id = PeerId 2,
           target_host_virtual_ip = VirtualIp 2\<rparr>], r')"
  by (simp add: demo_eval is_discovery_port_def DISCOVERY_PORT_START_def DISCOVERY_PORT_END_def live_targets_def
      sorted_list_of_fset_insert List.map_filter_simps word_le_nat_alt)

theorem discovery_fanout_exact_witness:
  "\<exists>targets r'. begin_discovery (RoomId 1) (PeerId 1) (DiscoveryRequestId 5) (Civ6UdpPort 62900) 3 demo_router =
      (Ok targets, r') \<and> distinct (map target_host_session_id targets) \<and> room_for_peer demo_router (PeerId 1) = Some (RoomId 1)"
  using demo_discovery discovery_fanout_exact [OF demo_run] by blast

subsection \<open>Responses\<close>

lemma route_response_Ok_iff:
  "route_discovery_response r q h now = Ok client \<longleftrightarrow>
     (\<exists>d host. hget (discoveries r) q = Some d \<and> now < ds_expires_at d \<and> hget (hosts r) h = Some host \<and>
        now < hs_expires_at host \<and> hs_room_id host = ds_room_id d \<and> ds_client_peer_id d = client)"
  by (auto simp: route_discovery_response_def split: option.split)

lemma response_in_room:
  assumes inv: "router_inv r" and ok: "route_discovery_response r q h now = Ok client"
  obtains host where "hget (hosts r) h = Some host" "now < hs_expires_at host"
    "room_for_peer r client = Some (hs_room_id host)"
    "room_for_peer r (hs_peer_id host) = Some (hs_room_id host)"
    "peer_virtual_ip r (hs_peer_id host) = Some (hs_virtual_ip host)"
proof -
  obtain d host where *: "hget (discoveries r) q = Some d" "hget (hosts r) h = Some host" "now < hs_expires_at host"
      "hs_room_id host = ds_room_id d" "ds_client_peer_id d = client"
    using ok route_response_Ok_iff by blast
  moreover have "room_for_peer r client = Some (hs_room_id host)"
    using router_invD(7) [OF inv] * by (auto simp: discoveries_live_def lives_iff room_for_peer_def)
  moreover obtain peer where "hget (peers r) (hs_peer_id host) = Some peer" "ps_room_id peer = hs_room_id host"
      "ps_virtual_ip peer = hs_virtual_ip host"
    using host_peer_lives [OF inv *(2)] by blast
  ultimately show ?thesis using that [of host] by (simp add: room_for_peer_def peer_virtual_ip_def)
qed

text \<open>C8. A discovery response reaches a client only if that client asked: it is routed exactly when the
  request is pending, the answering host session is live and belongs to the room of the request, and
  then to the peer that made the request, which is a member of that room.\<close>

theorem discovery_response_routing:
  assumes "run router_step (router_new c) es r"
  shows "(route_discovery_response r q h now = Ok client \<longleftrightarrow>
      (\<exists>d host. hget (discoveries r) q = Some d \<and> now < ds_expires_at d \<and> hget (hosts r) h = Some host \<and>
        now < hs_expires_at host \<and> hs_room_id host = ds_room_id d \<and> ds_client_peer_id d = client)) \<and>
    (\<forall>d. hget (discoveries r) q = Some d \<longrightarrow> room_for_peer r (ds_client_peer_id d) = Some (ds_room_id d))"
  using router_invD(7) [OF inv_run [OF assms]] route_response_Ok_iff
  by (auto simp: discoveries_live_def lives_iff room_for_peer_def)

text \<open>The demo router after a discovery request and the selection of the host.\<close>

definition demo_play_events :: "router_event list" where
  "demo_play_events = demo_events @
    [BeginDiscovery (RoomId 1) (PeerId 1) (DiscoveryRequestId 5) (Civ6UdpPort 62900) 3,
     SelectHost (RoomId 1) (PeerId 1) (HostSessionId 7) 4 (GameplaySessionId 9)]"

definition demo_play :: room_router where
  "demo_play = apply_events demo_play_events (router_new demo_config)"

lemma demo_play_run: "run router_step (router_new demo_config) demo_play_events demo_play"
  unfolding demo_play_def
  by (rule run_apply_events) (simp add: demo_play_events_def demo_events_def demo_config_def router_eval
      is_discovery_port_def DISCOVERY_PORT_START_def DISCOVERY_PORT_END_def word_le_nat_alt)

lemmas demo_play_inv = inv_run [OF demo_play_run]

lemmas demo_play_eval = demo_play_def demo_play_events_def demo_events_def demo_config_def router_eval
  is_discovery_port_def DISCOVERY_PORT_START_def DISCOVERY_PORT_END_def word_le_nat_alt

lemma demo_play_tables:
  "hget (discoveries demo_play) (DiscoveryRequestId 5) = Some \<lparr>ds_room_id = RoomId 1, ds_client_peer_id = PeerId 1,
     ds_destination_port = Civ6UdpPort 62900, ds_expires_at = 8\<rparr>"
  "hget (hosts demo_play) (HostSessionId 7) = Some \<lparr>hs_room_id = RoomId 1, hs_peer_id = PeerId 2,
     hs_virtual_ip = VirtualIp 2, hs_last_heartbeat = 0, hs_expires_at = 15\<rparr>"
  "hget (gameplay demo_play) (GameplaySessionId 9) = Some \<lparr>gs_room_id = RoomId 1, gs_client_peer_id = PeerId 1,
     gs_host_peer_id = PeerId 2, gs_host_virtual_ip = VirtualIp 2, gs_client_virtual_ip = VirtualIp 1,
     gs_last_activity = 4, gs_expires_at = 34\<rparr>"
  "config demo_play = demo_config"
  by (simp_all add: demo_play_eval)

theorem discovery_response_routing_witness:
  "route_discovery_response demo_play (DiscoveryRequestId 5) (HostSessionId 7) 6 = Ok (PeerId 1)"
  using discovery_response_routing [OF demo_play_run, of "DiscoveryRequestId 5" "HostSessionId 7" 6 "PeerId 1"]
  by (simp add: demo_play_tables)

subsection \<open>Gameplay\<close>

text \<open>The peer and address a session leads to from one of its two ends.\<close>

definition other_end :: "gameplay_state \<Rightarrow> peer_id \<Rightarrow> (peer_id \<times> virtual_ip) option" where
  "other_end s p =
     (if p = gs_client_peer_id s then Some (gs_host_peer_id s, gs_host_virtual_ip s)
      else if p = gs_host_peer_id s then Some (gs_client_peer_id s, gs_client_virtual_ip s)
      else None)"

lemma route_gameplay_Ok:
  assumes "hget (gameplay r) g = Some s" "now < gs_expires_at s" "other_end s source = Some (dest, ip)"
  shows "route_gameplay_datagram g source now r =
     (Ok \<lparr>route_session_id = g, route_room_id = gs_room_id s, route_source_peer_id = source,
          route_destination_peer_id = dest, route_destination_virtual_ip = ip\<rparr>,
      r\<lparr>gameplay := hinsert g (s\<lparr>gs_last_activity := now,
        gs_expires_at := now + gameplay_idle_ttl (config r)\<rparr>) (gameplay r)\<rparr>)"
  using assms by (simp add: route_gameplay_datagram_def other_end_def split: if_splits)

lemma route_gameplay_Err:
  "hget (gameplay r) g = Some s \<Longrightarrow> now < gs_expires_at s \<Longrightarrow> other_end s source = None \<Longrightarrow>
     route_gameplay_datagram g source now r = (Err (UnauthorizedGameplayPeer source g), r)"
  by (simp add: route_gameplay_datagram_def other_end_def Let_def split: if_splits)

lemma route_gameplay_cases:
  obtains (err) e where "route_gameplay_datagram g source now r = (Err e, r)"
  | (ok) s dest ip where "hget (gameplay r) g = Some s" "now < gs_expires_at s" "other_end s source = Some (dest, ip)"
proof (cases "hget (gameplay r) g")
  case None
  then show ?thesis using err by (simp add: route_gameplay_datagram_def)
next
  case (Some s)
  show ?thesis
  proof (cases "now < gs_expires_at s")
    case True
    with Some show ?thesis
      using ok err route_gameplay_Err [OF Some True] by (cases "other_end s source") auto
  qed (use Some err in \<open>simp add: route_gameplay_datagram_def\<close>)
qed

lemma session_ends_live:
  assumes inv: "router_inv r" and s: "hget (gameplay r) g = Some s" and e: "other_end s source = Some (dest, ip)"
  shows "room_for_peer r source = Some (gs_room_id s)" "room_for_peer r dest = Some (gs_room_id s)"
    "peer_virtual_ip r dest = Some ip"
  using router_invD(8) [OF inv] s e
  by (auto simp: gameplay_live_def lives_iff other_end_def room_for_peer_def peer_virtual_ip_def split: if_splits)

text \<open>C6. A gameplay session is a closed two-way channel: in a live session a datagram of the client goes
  to the host and one of the host to the client, both at the address the destination holds and inside
  the room of the session; a datagram of any third peer is refused and changes nothing; and every
  datagram that passes extends the session by the idle time.\<close>

theorem gameplay_channel:
  assumes "run router_step (router_new c) es r"
    and "hget (gameplay r) g = Some s" and "now < gs_expires_at s"
  shows "(case other_end s source of
      None \<Rightarrow> source \<noteq> gs_client_peer_id s \<and> source \<noteq> gs_host_peer_id s \<and>
        route_gameplay_datagram g source now r = (Err (UnauthorizedGameplayPeer source g), r)
    | Some (dest, ip) \<Rightarrow>
        {source, dest} = {gs_client_peer_id s, gs_host_peer_id s} \<and>
        room_for_peer r source = Some (gs_room_id s) \<and> room_for_peer r dest = Some (gs_room_id s) \<and>
        peer_virtual_ip r dest = Some ip \<and>
        route_gameplay_datagram g source now r =
          (Ok \<lparr>route_session_id = g, route_room_id = gs_room_id s, route_source_peer_id = source,
               route_destination_peer_id = dest, route_destination_virtual_ip = ip\<rparr>,
           r\<lparr>gameplay := hinsert g (s\<lparr>gs_last_activity := now,
             gs_expires_at := now + gameplay_idle_ttl (config r)\<rparr>) (gameplay r)\<rparr>))"
proof (cases "other_end s source")
  case None
  then show ?thesis
    using route_gameplay_Err [OF assms(2,3)] by (auto simp: other_end_def split: if_splits)
next
  case (Some e)
  obtain dest ip where e: "e = (dest, ip)" by fastforce
  have "{source, dest} = {gs_client_peer_id s, gs_host_peer_id s}"
    using Some e by (auto simp: other_end_def split: if_splits)
  then show ?thesis
    using Some e assms(2,3) session_ends_live [OF inv_run [OF assms(1)] assms(2)]
      route_gameplay_Ok [OF assms(2,3), of source dest ip] by simp
qed

theorem gameplay_channel_witness:
  "fst (route_gameplay_datagram (GameplaySessionId 9) (PeerId 2) 5 demo_play) =
     Ok \<lparr>route_session_id = GameplaySessionId 9, route_room_id = RoomId 1, route_source_peer_id = PeerId 2,
         route_destination_peer_id = PeerId 1, route_destination_virtual_ip = VirtualIp 1\<rparr>"
  using gameplay_channel [OF demo_play_run demo_play_tables(3), of 5 "PeerId 2"] by (simp add: other_end_def)

text \<open>Selecting a host opens the channel: it succeeds exactly for a member of the room, a live host
  session of the same room and a free slot in the session table, and then both directions between
  the selecting peer and the host's peer are routed at once.\<close>

theorem select_host_opens_channel:
  assumes "run router_step (router_new c) es r" and "0 < gameplay_idle_ttl (config r)"
  shows "(fst (select_host rid client h now g r) = Ok g \<longleftrightarrow>
      (\<exists>host. room_for_peer r client = Some rid \<and> hget (hosts r) h = Some host \<and> hs_room_id host = rid \<and>
         now < hs_expires_at host \<and> hlen (gameplay r) < max_gameplay_sessions (config r))) \<and>
    (fst (select_host rid client h now g r) = Ok g \<longrightarrow>
      (\<exists>host route back. hget (hosts r) h = Some host \<and>
         fst (route_gameplay_datagram g client now (snd (select_host rid client h now g r))) = Ok route \<and>
         route_destination_peer_id route = hs_peer_id host \<and>
         route_destination_virtual_ip route = hs_virtual_ip host \<and>
         fst (route_gameplay_datagram g (hs_peer_id host) now (snd (select_host rid client h now g r))) = Ok back \<and>
         (hs_peer_id host \<noteq> client \<longrightarrow> route_destination_peer_id back = client \<and>
            Some (route_destination_virtual_ip back) = peer_virtual_ip r client)))"
proof -
  note inv = inv_run [OF assms(1)]
  show ?thesis
  proof (cases "member_state r rid client")
    case (Ok peer)
    then have "hget (peers r) client = Some peer" "ps_room_id peer = rid"
      using member_state_iff [OF inv] by simp_all
    with Ok assms(2) show ?thesis
      by (auto simp: select_host_def route_gameplay_datagram_def room_for_peer_def peer_virtual_ip_def Let_def
          split: option.split)
  next
    case (Err e)
    then have "room_for_peer r client \<noteq> Some rid"
      using member_state_iff [OF inv, of rid client] by (auto simp: room_for_peer_def)
    with Err show ?thesis by (simp add: select_host_def)
  qed simp
qed

theorem select_host_opens_channel_witness:
  "fst (select_host (RoomId 1) (PeerId 1) (HostSessionId 7) 4 (GameplaySessionId 9) demo_router) =
     Ok (GameplaySessionId 9)"
proof -
  have "0 < gameplay_idle_ttl (config demo_router)" by (simp add: demo_eval)
  from select_host_opens_channel [OF demo_run this, of "RoomId 1" "PeerId 1" "HostSessionId 7" 4 "GameplaySessionId 9"]
  show ?thesis by (simp add: demo_eval room_for_peer_def)
qed

subsection \<open>Everything dispatch lets through\<close>

text \<open>
  Who sends an action (for a response the peer behind the host's address) and whom it reaches,
  with the payload and the port it carries.
\<close>

fun action_source :: "room_router \<Rightarrow> relay_action \<Rightarrow> peer_id option" where
  "action_source r (DiscoveryFanout q source port targets payload) = Some source"
| "action_source r (DiscoveryUnicast q dest ip port payload) = peer_for_virtual_ip r ip"
| "action_source r (GameplayUnicast route port payload) = Some (route_source_peer_id route)"

fun action_destinations :: "relay_action \<Rightarrow> peer_id list" where
  "action_destinations (DiscoveryFanout q source port targets payload) = map target_host_peer_id targets"
| "action_destinations (DiscoveryUnicast q dest ip port payload) = [dest]"
| "action_destinations (GameplayUnicast route port payload) = [route_destination_peer_id route]"

fun action_payload :: "relay_action \<Rightarrow> udp_port \<times> byte list" where
  "action_payload (DiscoveryFanout q source port targets payload) = (port, payload)"
| "action_payload (DiscoveryUnicast q dest ip port payload) = (port, payload)"
| "action_payload (GameplayUnicast route port payload) = (port, payload)"

fun ingress_payload :: "relay_ingress \<Rightarrow> udp_port \<times> byte list" where
  "ingress_payload (IngressDiscovery source q port payload now) = (port, payload)"
| "ingress_payload (IngressDiscoveryResponse h q port payload now) = (port, payload)"
| "ingress_payload (IngressGameplay g source port payload now) = (port, payload)"

fun ingress_port_ok :: "relay_ingress \<Rightarrow> bool" where
  "ingress_port_ok (IngressDiscovery source q port payload now) = is_discovery_port (port_num port)"
| "ingress_port_ok (IngressDiscoveryResponse h q port payload now) = is_discovery_port (port_num port)"
| "ingress_port_ok (IngressGameplay g source port payload now) = (port_num port = GAMEPLAY_PORT)"

lemma validate_payload_Ok_iff:
  "validate_payload r payload = Ok () \<longleftrightarrow>
     length payload \<le> MAX_CIV6_DATAGRAM_SIZE \<and> length payload \<le> safe_payload_size (config r)"
  by (auto simp: validate_payload_def)

lemma try_st_Ok_iff:
  "try_st p f = (Ok y, s') \<longleftrightarrow> (\<exists>x s. p = (Ok x, s) \<and> f x s = (Ok y, s'))"
  by (cases p; cases "fst p") auto

text \<open>The three kinds of successful dispatch.\<close>

lemma dispatch_Ok_cases:
  assumes "dispatch i r = (Ok a, r')"
  obtains (discovery) source q port payload now rid targets where
      "i = IngressDiscovery source q port payload now" "a = DiscoveryFanout q source port targets payload"
      "room_for_peer r source = Some rid" "begin_discovery rid source q port now r = (Ok targets, r')"
      "validate_payload r payload = Ok ()"
  | (response) h q port payload now client host where
      "i = IngressDiscoveryResponse h q port payload now" "a = DiscoveryUnicast q client (hs_virtual_ip host) port payload"
      "r' = r" "route_discovery_response r q h now = Ok client" "hget (hosts r) h = Some host"
      "is_discovery_port (port_num port)" "validate_payload r payload = Ok ()"
  | (gameplay) g source port payload now route where
      "i = IngressGameplay g source port payload now" "a = GameplayUnicast route port payload"
      "route_gameplay_datagram g source now r = (Ok route, r')"
      "port_num port = GAMEPLAY_PORT" "validate_payload r payload = Ok ()"
proof (cases i)
  case (IngressDiscovery source q port payload now)
  then show ?thesis using assms discovery by (auto simp: try_st_Ok_iff)
next
  case (IngressDiscoveryResponse h q port payload now)
  then show ?thesis using assms response by (auto simp: try_st_Ok_iff split: if_splits)
next
  case (IngressGameplay g source port payload now)
  then show ?thesis using assms gameplay by (auto simp: try_st_Ok_iff split: if_splits)
qed

lemma gameplay_route_ends:
  assumes inv: "router_inv r" and ok: "route_gameplay_datagram g source now r = (Ok route, r')"
  shows "route_source_peer_id route = source"
    "room_for_peer r source = Some (route_room_id route)"
    "room_for_peer r (route_destination_peer_id route) = Some (route_room_id route)"
    "peer_virtual_ip r (route_destination_peer_id route) = Some (route_destination_virtual_ip route)"
proof -
  show "route_source_peer_id route = source"
    "room_for_peer r source = Some (route_room_id route)"
    "room_for_peer r (route_destination_peer_id route) = Some (route_room_id route)"
    "peer_virtual_ip r (route_destination_peer_id route) = Some (route_destination_virtual_ip route)"
    using ok
    by (cases rule: route_gameplay_cases [of g source now r];
        auto simp: route_gameplay_Ok session_ends_live [OF inv])+
qed

lemma fanout_target_room:
  assumes inv: "router_inv r" and ok: "begin_discovery rid client q port now r = (Ok targets, r')"
    and t: "t \<in> set targets"
  shows "room_for_peer r (target_host_peer_id t) = Some rid"
    "peer_virtual_ip r (target_host_peer_id t) = Some (target_host_virtual_ip t)"
proof -
  obtain h host where *: "hget (hosts r) h = Some host" "hs_room_id host = rid" "t = target_of h host"
    using fanout_targets(1) [OF inv ok] t by auto
  then show "room_for_peer r (target_host_peer_id t) = Some rid"
    "peer_virtual_ip r (target_host_peer_id t) = Some (target_host_virtual_ip t)"
    using host_peer_lives [OF inv *(1)] by (auto simp: room_for_peer_def peer_virtual_ip_def)
qed

lemma dispatch_room:
  assumes inv: "router_inv r" and ok: "dispatch i r = (Ok a, r')"
  shows "\<exists>source rid. action_source r a = Some source \<and> room_for_peer r source = Some rid \<and>
     (\<forall>dest\<in>set (action_destinations a). room_for_peer r dest = Some rid)"
  using ok
proof (cases rule: dispatch_Ok_cases)
  case discovery
  then show ?thesis using fanout_target_room(1) [OF inv] by auto
next
  case (response h q port payload now client host)
  obtain peer where peer: "hget (peers r) (hs_peer_id host) = Some peer" "ps_room_id peer = hs_room_id host"
      "ps_virtual_ip peer = hs_virtual_ip host"
    using host_peer_lives [OF inv response(5)] by blast
  then have "peer_for_virtual_ip r (hs_virtual_ip host) = Some (hs_peer_id host)"
    using router_invD(3) [OF inv] by (auto simp: peer_for_virtual_ip_def ips_agree_def)
  then show ?thesis
    using response response_in_room [OF inv response(4)] by auto
next
  case (gameplay g source port payload now route)
  then show ?thesis using gameplay_route_ends [OF inv gameplay(3)] by simp
qed

text \<open>C1. Rooms are isolated: whatever datagram \<open>dispatch\<close> lets through, the peer it comes from is a member
  of a room and every peer it reaches is a member of the same room.\<close>

theorem dispatch_stays_in_room:
  assumes "run router_step (router_new c) es r" and "dispatch i r = (Ok a, r')"
  shows "\<exists>source rid. action_source r a = Some source \<and> room_for_peer r source = Some rid \<and>
     (\<forall>dest\<in>set (action_destinations a). room_for_peer r dest = Some rid)"
  using inv_run [OF assms(1)] assms(2) by (rule dispatch_room)

lemma demo_dispatch:
  "dispatch (IngressGameplay (GameplaySessionId 9) (PeerId 1) (Civ6UdpPort 62056) [1, 2] 5) demo_play =
     (Ok (GameplayUnicast \<lparr>route_session_id = GameplaySessionId 9, route_room_id = RoomId 1,
        route_source_peer_id = PeerId 1, route_destination_peer_id = PeerId 2,
        route_destination_virtual_ip = VirtualIp 2\<rparr> (Civ6UdpPort 62056) [1, 2]),
      demo_play\<lparr>gameplay := hinsert (GameplaySessionId 9) \<lparr>gs_room_id = RoomId 1, gs_client_peer_id = PeerId 1,
        gs_host_peer_id = PeerId 2, gs_host_virtual_ip = VirtualIp 2, gs_client_virtual_ip = VirtualIp 1,
        gs_last_activity = 5, gs_expires_at = 35\<rparr> (gameplay demo_play)\<rparr>)"
  by (simp add: route_gameplay_datagram_def demo_play_tables validate_payload_def GAMEPLAY_PORT_def
      MAX_CIV6_DATAGRAM_SIZE_def) (simp add: demo_config_def)

theorem dispatch_stays_in_room_witness:
  "room_for_peer demo_play (PeerId 1) = room_for_peer demo_play (PeerId 2)"
  using dispatch_stays_in_room [OF demo_play_run demo_dispatch] by auto

text \<open>C14. Dispatch forwards payloads untouched and bounded: a datagram passes only with at most 4096 bytes and
  at most the configured safe size, on a port of its class, and the action carries exactly its port
  and its bytes; a larger one is refused with its length and changes nothing.\<close>

theorem dispatch_payload_bounds:
  "(case dispatch i r of (res, r') \<Rightarrow>
      (if length (snd (ingress_payload i)) \<le> MAX_CIV6_DATAGRAM_SIZE \<and>
          length (snd (ingress_payload i)) \<le> safe_payload_size (config r)
       then (case res of Ok a \<Rightarrow> action_payload a = ingress_payload i \<and> ingress_port_ok i | _ \<Rightarrow> True)
       else res = Err (DatagramTooLarge (length (snd (ingress_payload i)))) \<and> r' = r))"
proof (cases "length (snd (ingress_payload i)) \<le> MAX_CIV6_DATAGRAM_SIZE \<and>
    length (snd (ingress_payload i)) \<le> safe_payload_size (config r)")
  case True
  obtain res r' where d: "dispatch i r = (res, r')" by fastforce
  show ?thesis
  proof (cases res)
    case (Ok a)
    with d have "dispatch i r = (Ok a, r')" by simp
    then have "action_payload a = ingress_payload i \<and> ingress_port_ok i"
    proof (cases rule: dispatch_Ok_cases)
      case (discovery source q port payload now rid targets)
      then show ?thesis using begin_discovery_rejects(1) by fastforce
    qed simp_all
    with d Ok True show ?thesis by simp
  qed (use d True in simp_all)
next
  case False
  then have "validate_payload r (snd (ingress_payload i)) = Err (DatagramTooLarge (length (snd (ingress_payload i))))"
    by (auto simp: validate_payload_def)
  with False show ?thesis by (cases i) (auto split: if_splits)
qed

end
