(* ===== verification/Router_Lifecycle.thy ===== *)
theory Router_Lifecycle
  imports Router_Routing
begin

section \<open>Joining, suspending, resuming, expiring\<close>

text \<open>
  The life of a peer in a room: joining and leaving are inverse, resuming keeps the identity and
  rotates the epoch, and \<open>expire\<close> does exactly what the configured times say, table by table.
\<close>

subsection \<open>Joining and leaving\<close>

lemma hretain_all: "(\<And>k v. hget m k = Some v \<Longrightarrow> P k v) \<Longrightarrow> hretain P m = m"
  by (rule fmap_eqI) (auto split: option.split)

lemma hkeys_where_none: "(\<And>k v. hget m k = Some v \<Longrightarrow> \<not> P k v) \<Longrightarrow> hkeys_where P m = []"
proof -
  assume "\<And>k v. hget m k = Some v \<Longrightarrow> \<not> P k v"
  then have "set (hkeys_where P m) = {}" by auto
  then show "hkeys_where P m = []" by (simp only: set_empty)
qed

lemma no_sessions_without_peer:
  assumes inv: "router_inv r" and none: "hget (peers r) p = None"
  shows "hget (hosts r) h = Some host \<Longrightarrow> hs_peer_id host \<noteq> p"
    and "hget (discoveries r) q = Some d \<Longrightarrow> ds_client_peer_id d \<noteq> p"
    and "hget (gameplay r) g = Some s \<Longrightarrow> gs_client_peer_id s \<noteq> p \<and> gs_host_peer_id s \<noteq> p"
  using router_invD(6,7,8) [OF inv] none
  unfolding hosts_live_def discoveries_live_def gameplay_live_def lives_iff by (metis option.distinct(1))+

lemma leave_after_join:
  assumes inv: "router_inv r" and ok: "join_room rid p ip now r = (Ok (), r')"
  shows "leave_room rid p r' = (Ok (), r)"
proof -
  obtain room where room: "hget (rooms r) rid = Some room" and p: "hget (peers r) p = None"
    and ip: "hget (virtual_ips r) ip = None"
    and r': "r' = r\<lparr>rooms := hinsert rid (room\<lparr>rs_members := finsert p (rs_members room)\<rparr>) (rooms r),
         peers := hinsert p \<lparr>ps_room_id = rid, ps_virtual_ip = ip, ps_last_seen = now,
           ps_disconnected_at = None, ps_connection_epoch = 1\<rparr> (peers r),
         virtual_ips := hinsert ip p (virtual_ips r)\<rparr>"
    using ok by (cases rule: join_room_cases [of rid p ip now r]) auto
  note none = no_sessions_without_peer [OF inv p]
  have members: "p |\<notin>| rs_members room"
    using member_iff [OF inv room] p by simp
  have keys: "hkeys_where (\<lambda>_ host. hs_room_id host = rid \<and> hs_peer_id host = p) (hosts r) = []"
    "hkeys_where (\<lambda>_ s. gs_room_id s = rid \<and> (gs_client_peer_id s = p \<or> gs_host_peer_id s = p)) (gameplay r) = []"
    "hkeys_where (\<lambda>_ d. ds_room_id d = rid \<and> ds_client_peer_id d = p) (discoveries r) = []"
    using none by (intro hkeys_where_none; blast)+
  have "finsert p (rs_members room) |-| {|p|} = rs_members room"
    using members by auto
  then have rooms: "hinsert rid (room\<lparr>rs_members := finsert p (rs_members room) |-| {|p|}\<rparr>)
      (hinsert rid (room\<lparr>rs_members := finsert p (rs_members room)\<rparr>) (rooms r)) = rooms r"
    using room by (intro fmap_eqI) (rename_tac k, case_tac "k = rid", simp_all)
  have maps: "hremove p (hinsert p x (peers r)) = peers r" "hremove ip (hinsert ip p (virtual_ips r)) = virtual_ips r" for x
    using p ip by (auto intro!: fmap_eqI)
  show ?thesis
    using rooms by (simp add: leave_room_def r' keys maps)
qed

text \<open>Leaving undoes joining: after a successful join, \<open>leave_room\<close> succeeds and gives back exactly the
  router from before, every table included.\<close>

theorem leave_undoes_join:
  assumes "run router_step (router_new c) es r" and "join_room rid p ip now r = (Ok (), r')"
  shows "leave_room rid p r' = (Ok (), r)"
  using inv_run [OF assms(1)] assms(2) by (rule leave_after_join)

theorem leave_undoes_join_witness:
  "leave_room (RoomId 2) (PeerId 4) (snd (join_room (RoomId 2) (PeerId 4) (VirtualIp 4) 9 demo_router)) = (Ok (), demo_router)"
proof -
  have "fst (join_room (RoomId 2) (PeerId 4) (VirtualIp 4) 9 demo_router) = Ok ()"
    by (simp add: demo_eval)
  then have "join_room (RoomId 2) (PeerId 4) (VirtualIp 4) 9 demo_router =
      (Ok (), snd (join_room (RoomId 2) (PeerId 4) (VirtualIp 4) 9 demo_router))"
    by (simp add: prod_eq_iff)
  from leave_undoes_join [OF demo_run this] show ?thesis .
qed

text \<open>Admission to a room is decided by the tables alone: a join succeeds exactly when the room exists, room
  and server have a free place, and neither the peer nor the address is already in use, and then the peer
  is a member of that room under that address with epoch 1.\<close>

theorem join_admission:
  "(fst (join_room rid p ip now r) = Ok () \<longleftrightarrow>
      (\<exists>room. hget (rooms r) rid = Some room \<and> fcard (rs_members room) < max_peers_per_room (config r)) \<and>
      hlen (peers r) < max_total_peers (config r) \<and> room_for_peer r p = None \<and> is_virtual_ip_available r ip) \<and>
    (fst (join_room rid p ip now r) = Ok () \<longrightarrow>
      peer_snapshot_of (snd (join_room rid p ip now r)) p =
        Ok \<lparr>psnap_room_id = rid, psnap_peer_id = p, psnap_virtual_ip = ip, psnap_connection_epoch = 1\<rparr> \<and>
      peer_for_virtual_ip (snd (join_room rid p ip now r)) ip = Some p)"
  by (auto simp: join_room_def room_for_peer_def is_virtual_ip_available_def peer_snapshot_of_def
      snapshot_of_peer_def peer_for_virtual_ip_def split: option.split)

theorem join_admission_witness:
  "peer_for_virtual_ip (snd (join_room (RoomId 2) (PeerId 4) (VirtualIp 4) 9 demo_router)) (VirtualIp 4) = Some (PeerId 4)"
  using join_admission [of "RoomId 2" "PeerId 4" "VirtualIp 4" 9 demo_router]
  by (simp add: demo_eval room_for_peer_def is_virtual_ip_available_def)

subsection \<open>Expiry, table by table\<close>

lemma hretain_cong: "(\<And>k v. hget m k = Some v \<Longrightarrow> P k v = Q k v) \<Longrightarrow> hretain P m = hretain Q m"
  by (rule fmap_eqI) (auto split: option.split)

lemma disconnect_peer_peers:
  "hget (peers (disconnect_peer p now r)) k =
     (if k = p then map_option (\<lambda>peer. peer\<lparr>ps_disconnected_at := Some now\<rparr>) (hget (peers r) k) else hget (peers r) k)"
  by (auto simp: disconnect_peer_def Let_def split: option.split)

lemma disconnect_peer_config [simp]: "config (disconnect_peer p now r) = config r"
  by (simp add: disconnect_peer_def Let_def split: option.split)

text \<open>Under the invariant, suspending a peer drops exactly what belongs to it.\<close>

lemma disconnect_peer_sessions:
  assumes inv: "router_inv r"
  shows "hosts (disconnect_peer p now r) = hretain (\<lambda>_ host. hs_peer_id host \<noteq> p) (hosts r)"
    and "discoveries (disconnect_peer p now r) = hretain (\<lambda>_ d. ds_client_peer_id d \<noteq> p) (discoveries r)"
    and "gameplay (disconnect_peer p now r) =
      hretain (\<lambda>_ s. gs_client_peer_id s \<noteq> p \<and> gs_host_peer_id s \<noteq> p) (gameplay r)"
proof -
  note none = no_sessions_without_peer [OF inv, of p]
  show "hosts (disconnect_peer p now r) = hretain (\<lambda>_ host. hs_peer_id host \<noteq> p) (hosts r)"
  proof (cases "hget (peers r) p")
    case None
    then show ?thesis using hretain_all [of "hosts r"] none(1) by (simp add: disconnect_peer_def)
  qed (simp add: disconnect_peer_def Let_def fold_remove_keys_where)
  show "discoveries (disconnect_peer p now r) = hretain (\<lambda>_ d. ds_client_peer_id d \<noteq> p) (discoveries r)"
  proof (cases "hget (peers r) p")
    case None
    then show ?thesis using hretain_all [of "discoveries r"] none(2) by (simp add: disconnect_peer_def)
  qed (simp add: disconnect_peer_def Let_def)
  show "gameplay (disconnect_peer p now r) =
      hretain (\<lambda>_ s. gs_client_peer_id s \<noteq> p \<and> gs_host_peer_id s \<noteq> p) (gameplay r)"
  proof (cases "hget (peers r) p")
    case None
    then show ?thesis using hretain_all [of "gameplay r"] none(3) by (simp add: disconnect_peer_def)
  next
    case (Some peer)
    let ?r = "r\<lparr>peers := hinsert p (peer\<lparr>ps_disconnected_at := Some now\<rparr>) (peers r)\<rparr>"
    have "gameplay (disconnect_peer p now r) = hretain (\<lambda>_ s. gs_client_peer_id s \<noteq> p \<and> gs_host_peer_id s \<noteq> p)
        (gameplay (fold remove_host (hkeys_where (\<lambda>_ host. hs_peer_id host = p) (hosts r)) ?r))"
      using Some by (simp add: disconnect_peer_def Let_def)
    also have "\<dots> = hretain (\<lambda>_ s. gs_client_peer_id s \<noteq> p \<and> gs_host_peer_id s \<noteq> p) (gameplay r)"
      by (auto simp: fold_remove_host_gameplay hretain_retain intro!: hretain_cong)
    finally show ?thesis .
  qed
qed

lemma fold_disconnect:
  assumes "router_inv r"
  shows "hget (peers (fold (\<lambda>p. disconnect_peer p now) ps r)) k =
      (if k \<in> set ps then map_option (\<lambda>peer. peer\<lparr>ps_disconnected_at := Some now\<rparr>) (hget (peers r) k) else hget (peers r) k)"
    and "hosts (fold (\<lambda>p. disconnect_peer p now) ps r) = hretain (\<lambda>_ host. hs_peer_id host \<notin> set ps) (hosts r)"
    and "discoveries (fold (\<lambda>p. disconnect_peer p now) ps r) = hretain (\<lambda>_ d. ds_client_peer_id d \<notin> set ps) (discoveries r)"
    and "gameplay (fold (\<lambda>p. disconnect_peer p now) ps r) =
      hretain (\<lambda>_ s. gs_client_peer_id s \<notin> set ps \<and> gs_host_peer_id s \<notin> set ps) (gameplay r)"
    and "config (fold (\<lambda>p. disconnect_peer p now) ps r) = config r"
  using assms
proof (induction ps arbitrary: r)
  case Nil
  { case 1 then show ?case by simp next
    case 2 then show ?case by (simp add: hretain_all) next
    case 3 then show ?case by (simp add: hretain_all) next
    case 4 then show ?case by (simp add: hretain_all) next
    case 5 then show ?case by simp }
next
  case (Cons p ps)
  { case 1 then show ?case
      using Cons.IH(1) [OF inv_disconnect_peer] by (auto simp: disconnect_peer_peers option.map_comp o_def)
  next
    case 2 then show ?case
      using Cons.IH(2) [OF inv_disconnect_peer] by (auto simp: disconnect_peer_sessions hretain_retain intro!: hretain_cong)
  next
    case 3 then show ?case
      using Cons.IH(3) [OF inv_disconnect_peer] by (auto simp: disconnect_peer_sessions hretain_retain intro!: hretain_cong)
  next
    case 4 then show ?case
      using Cons.IH(4) [OF inv_disconnect_peer] by (auto simp: disconnect_peer_sessions hretain_retain intro!: hretain_cong)
  next
    case 5 then show ?case
      using Cons.IH(5) [OF inv_disconnect_peer] by simp
  }
qed

text \<open>Removing a peer from its own room drops exactly what belongs to it, and the peer.\<close>

lemma leave_own_room:
  assumes inv: "router_inv r" and peer: "hget (peers r) p = Some peer"
  shows "fst (leave_room (ps_room_id peer) p r) = Ok ()"
    and "peers (snd (leave_room (ps_room_id peer) p r)) = hremove p (peers r)"
    and "hosts (snd (leave_room (ps_room_id peer) p r)) = hretain (\<lambda>_ host. hs_peer_id host \<noteq> p) (hosts r)"
    and "discoveries (snd (leave_room (ps_room_id peer) p r)) = hretain (\<lambda>_ d. ds_client_peer_id d \<noteq> p) (discoveries r)"
    and "gameplay (snd (leave_room (ps_room_id peer) p r)) =
      hretain (\<lambda>_ s. gs_client_peer_id s \<noteq> p \<and> gs_host_peer_id s \<noteq> p) (gameplay r)"
proof -
  let ?rid = "ps_room_id peer"
  let ?d = "drop_sessions_of ?rid p r"
  obtain room where ok: "leave_room ?rid p r = (Ok (), ?d\<lparr>
         rooms := hinsert ?rid (room\<lparr>rs_members := rs_members room |-| {|p|}\<rparr>) (rooms ?d),
         peers := hremove p (peers r), virtual_ips := hremove (ps_virtual_ip peer) (virtual_ips r)\<rparr>)"
    using inv peer member_iff [OF inv] peer_room_exists [OF inv peer]
    by (cases rule: leave_room_cases [where rid = ?rid and p = p]) auto
  have rooms: "hget (hosts r) h = Some host \<Longrightarrow> hs_peer_id host = p \<Longrightarrow> hs_room_id host = ?rid"
      "hget (discoveries r) q = Some d \<Longrightarrow> ds_client_peer_id d = p \<Longrightarrow> ds_room_id d = ?rid"
      "hget (gameplay r) g = Some s \<Longrightarrow> gs_client_peer_id s = p \<or> gs_host_peer_id s = p \<Longrightarrow> gs_room_id s = ?rid"
    for h host q d g s
    using router_invD(6,7,8) [OF inv] peer
    by (fastforce simp: hosts_live_def discoveries_live_def gameplay_live_def lives_iff)+
  show "fst (leave_room ?rid p r) = Ok ()" "peers (snd (leave_room ?rid p r)) = hremove p (peers r)"
    by (simp_all add: ok)
  show "hosts (snd (leave_room ?rid p r)) = hretain (\<lambda>_ host. hs_peer_id host \<noteq> p) (hosts r)"
    using rooms(1) by (auto simp: ok intro!: hretain_cong)
  show "discoveries (snd (leave_room ?rid p r)) = hretain (\<lambda>_ d. ds_client_peer_id d \<noteq> p) (discoveries r)"
    using rooms(2) by (auto simp: ok drop_sessions_of_def Let_def intro!: hretain_cong)
  show "gameplay (snd (leave_room ?rid p r)) =
      hretain (\<lambda>_ s. gs_client_peer_id s \<noteq> p \<and> gs_host_peer_id s \<noteq> p) (gameplay r)"
    using rooms(3)
    by (auto simp: ok drop_sessions_of_def Let_def fold_remove_host_gameplay hretain_retain intro!: hretain_cong)
qed

lemma expire_peers_tables:
  assumes "router_inv r"
  shows "hget (peers (snd (expire_peers ps r))) k = (if k \<in> set ps then None else hget (peers r) k)"
    and "hosts (snd (expire_peers ps r)) = hretain (\<lambda>_ host. hs_peer_id host \<notin> set ps) (hosts r)"
    and "discoveries (snd (expire_peers ps r)) = hretain (\<lambda>_ d. ds_client_peer_id d \<notin> set ps) (discoveries r)"
    and "gameplay (snd (expire_peers ps r)) =
      hretain (\<lambda>_ s. gs_client_peer_id s \<notin> set ps \<and> gs_host_peer_id s \<notin> set ps) (gameplay r)"
  using assms
proof (induction ps arbitrary: r)
  case Nil
  { case 1 then show ?case by simp next
    case 2 then show ?case by (simp add: hretain_all) next
    case 3 then show ?case by (simp add: hretain_all) next
    case 4 then show ?case by (simp add: hretain_all) }
next
  case (Cons p ps)
  have step: "expire_peers (p # ps) r = (if hget (peers r) p = None then expire_peers ps r
      else expire_peers ps (snd (leave_room (ps_room_id (the (hget (peers r) p))) p r)))" if "router_inv r" for r
  proof (cases "hget (peers r) p")
    case (Some peer)
    obtain x r' where lr: "leave_room (ps_room_id peer) p r = (x, r')" by fastforce
    with leave_own_room(1) [OF that Some] have "x = Ok ()" by simp
    with Some lr show ?thesis by simp
  qed simp
  { case 1
    then show ?case
      using Cons.IH(1) [of r] Cons.IH(1) [OF inv_leave_room, of r]
      by (cases "hget (peers r) p") (auto simp: step leave_own_room simp del: expire_peers.simps)
  next
    case 2
    then show ?case
      using Cons.IH(2) [of r] Cons.IH(2) [OF inv_leave_room, of r] no_sessions_without_peer(1) [of r p]
      by (cases "hget (peers r) p")
        (auto simp: step leave_own_room hretain_retain simp del: expire_peers.simps intro!: hretain_cong)
  next
    case 3
    then show ?case
      using Cons.IH(3) [of r] Cons.IH(3) [OF inv_leave_room, of r] no_sessions_without_peer(2) [of r p]
      by (cases "hget (peers r) p")
        (auto simp: step leave_own_room hretain_retain simp del: expire_peers.simps intro!: hretain_cong)
  next
    case 4
    then show ?case
      using Cons.IH(4) [of r] Cons.IH(4) [OF inv_leave_room, of r] no_sessions_without_peer(3) [of r p]
      by (cases "hget (peers r) p")
        (auto simp: step leave_own_room hretain_retain simp del: expire_peers.simps intro!: hretain_cong)
  }
qed

text \<open>
  What the code does with one peer at time \<open>now\<close>: a silent one is suspended, and one whose
  suspension (new or old) has lasted the grace time is removed. A peer is \<open>untouched\<close> when neither happens.
\<close>

definition peer_after :: "router_config \<Rightarrow> instant \<Rightarrow> peer_state \<Rightarrow> peer_state option" where
  "peer_after c now peer =
     (let peer = (if ps_disconnected_at peer = None \<and> ps_last_seen peer + peer_ttl c \<le> now
                  then peer\<lparr>ps_disconnected_at := Some now\<rparr> else peer)
      in case ps_disconnected_at peer of
           None \<Rightarrow> Some peer
         | Some t \<Rightarrow> if t + peer_grace_ttl c \<le> now then None else Some peer)"

definition untouched :: "room_router \<Rightarrow> instant \<Rightarrow> peer_id \<Rightarrow> bool" where
  "untouched r now p \<longleftrightarrow> (case hget (peers r) p of
     None \<Rightarrow> False | Some peer \<Rightarrow> peer_after (config r) now peer = Some peer)"

lemma suspend_silent_tables:
  assumes inv: "router_inv r"
  shows "hget (peers (suspend_silent now r)) k = (if k \<in> set (silent_peers now r)
      then map_option (\<lambda>peer. peer\<lparr>ps_disconnected_at := Some now\<rparr>) (hget (peers r) k) else hget (peers r) k)"
    and "config (suspend_silent now r) = config r"
  using fold_disconnect(1,5) [OF inv_drop_expired [OF inv]] by (simp_all add: suspend_silent_def)

lemma expire_tables:
  assumes inv: "router_inv r"
  shows "hget (peers (snd (expire now r))) k = Option.bind (hget (peers r) k) (peer_after (config r) now)"
    and "hosts (snd (expire now r)) = hretain (\<lambda>_ host. now < hs_expires_at host \<and> untouched r now (hs_peer_id host)) (hosts r)"
    and "discoveries (snd (expire now r)) = hretain (\<lambda>_ d. now < ds_expires_at d \<and> untouched r now (ds_client_peer_id d)) (discoveries r)"
    and "gameplay (snd (expire now r)) = hretain (\<lambda>_ s. now < gs_expires_at s \<and>
      untouched r now (gs_client_peer_id s) \<and> untouched r now (gs_host_peer_id s) \<and>
      (\<exists>h host. hget (hosts r) h = Some host \<and> hs_room_id host = gs_room_id s \<and>
         hs_peer_id host = gs_host_peer_id s \<and> now < hs_expires_at host)) (gameplay r)"
proof -
  let ?s = "suspend_silent now r"
  let ?lapsed = "lapsed_peers now ?s"
  have inv_s: "router_inv ?s" by (rule inv_suspend_silent [OF inv])
  have snd: "snd (expire now r) = snd (expire_peers ?lapsed ?s)"
    unfolding expire_eq by (simp add: try_st_value)
  have lapsed: "k \<in> set ?lapsed \<longleftrightarrow> (\<exists>peer. hget (peers r) k = Some peer \<and> peer_after (config r) now peer = None)" for k
  proof (cases "hget (peers r) k")
    case (Some peer)
    then show ?thesis
      by (cases "ps_disconnected_at peer")
        (simp_all add: lapsed_peers_def suspend_silent_tables [OF inv] silent_peers_def peer_after_def)
  qed (simp add: lapsed_peers_def suspend_silent_tables [OF inv])
  have touched: "untouched r now k \<longleftrightarrow> k \<notin> set (silent_peers now r) \<and> k \<notin> set ?lapsed" if k: "hget (peers r) k \<noteq> None" for k
  proof -
    obtain peer where "hget (peers r) k = Some peer" using k by (cases "hget (peers r) k") simp_all
    then show ?thesis
      by (cases "ps_disconnected_at peer"; cases peer)
        (simp_all add: lapsed untouched_def silent_peers_def peer_after_def)
  qed
  let ?kept = "\<lambda>p. p \<notin> set (silent_peers now r) \<and> p \<notin> set ?lapsed"
  have in_sessions: "hget (hosts r) h = Some host \<Longrightarrow> untouched r now (hs_peer_id host) \<longleftrightarrow> ?kept (hs_peer_id host)"
      "hget (discoveries r) q = Some d \<Longrightarrow> untouched r now (ds_client_peer_id d) \<longleftrightarrow> ?kept (ds_client_peer_id d)"
      "hget (gameplay r) g = Some s \<Longrightarrow> untouched r now (gs_client_peer_id s) \<longleftrightarrow> ?kept (gs_client_peer_id s)"
      "hget (gameplay r) g = Some s \<Longrightarrow> untouched r now (gs_host_peer_id s) \<longleftrightarrow> ?kept (gs_host_peer_id s)"
    for h host q d g s
    using touched no_sessions_without_peer [OF inv] by blast+
  show "hget (peers (snd (expire now r))) k = Option.bind (hget (peers r) k) (peer_after (config r) now)"
    unfolding snd expire_peers_tables(1) [OF inv_s] lapsed suspend_silent_tables [OF inv]
  proof (cases "hget (peers r) k")
    case (Some peer)
    then show "(if \<exists>peer. hget (peers r) k = Some peer \<and> peer_after (config r) now peer = None then None
        else if k \<in> set (silent_peers now r) then map_option (\<lambda>peer. peer\<lparr>ps_disconnected_at := Some now\<rparr>) (hget (peers r) k)
        else hget (peers r) k) = Option.bind (hget (peers r) k) (peer_after (config r) now)"
      by (cases "ps_disconnected_at peer") (simp_all add: silent_peers_def peer_after_def)
  qed simp
  have "hosts ?s = hretain (\<lambda>_ host. hs_peer_id host \<notin> set (silent_peers now r)) (hretain (\<lambda>_ host. \<not> hs_expires_at host \<le> now) (hosts r))"
    unfolding suspend_silent_def fold_disconnect(2) [OF inv_drop_expired [OF inv]]
    by (simp add: drop_expired_def Let_def fold_remove_keys_where)
  then show "hosts (snd (expire now r)) = hretain (\<lambda>_ host. now < hs_expires_at host \<and> untouched r now (hs_peer_id host)) (hosts r)"
    unfolding snd expire_peers_tables(2) [OF inv_s]
    by (auto simp: hretain_retain in_sessions intro!: hretain_cong)
  have "discoveries ?s = hretain (\<lambda>_ d. ds_client_peer_id d \<notin> set (silent_peers now r)) (hretain (\<lambda>_ d. \<not> ds_expires_at d \<le> now) (discoveries r))"
    unfolding suspend_silent_def fold_disconnect(3) [OF inv_drop_expired [OF inv]]
    by (simp add: drop_expired_def Let_def)
  then show "discoveries (snd (expire now r)) = hretain (\<lambda>_ d. now < ds_expires_at d \<and> untouched r now (ds_client_peer_id d)) (discoveries r)"
    unfolding snd expire_peers_tables(3) [OF inv_s]
    by (auto simp: hretain_retain in_sessions intro!: hretain_cong)
  have kept: "(\<forall>h\<in>set (hkeys_where (\<lambda>_ host. hs_expires_at host \<le> now) (hosts r)). \<forall>host. hget (hosts r) h = Some host \<longrightarrow>
        gs_host_peer_id s \<noteq> hs_peer_id host \<or> gs_room_id s \<noteq> hs_room_id host) \<longleftrightarrow>
      (\<exists>h host. hget (hosts r) h = Some host \<and> hs_room_id host = gs_room_id s \<and>
         hs_peer_id host = gs_host_peer_id s \<and> now < hs_expires_at host)" if s: "hget (gameplay r) g = Some s" for g s
  proof -
    have "hget (host_by_peer r) (gs_room_id s, gs_host_peer_id s) \<noteq> None"
      using router_invD(8) [OF inv] s by (simp add: gameplay_live_def)
    then obtain h where h: "hget (host_by_peer r) (gs_room_id s, gs_host_peer_id s) = Some h" by blast
    then obtain host where "hget (hosts r) h = Some host" "hs_room_id host = gs_room_id s" "hs_peer_id host = gs_host_peer_id s"
      using host_index_iff [OF inv] by blast
    moreover have "h' = h" if "hget (hosts r) h' = Some host'" "hs_room_id host' = gs_room_id s" "hs_peer_id host' = gs_host_peer_id s"
      for h' host'
      using that h host_index_iff [OF inv, of "gs_room_id s" "gs_host_peer_id s" h'] by auto
    ultimately show ?thesis
      by (auto simp: not_le) (metis not_le option.inject)+
  qed
  have gameplay: "gameplay ?s = hretain (\<lambda>_ s. gs_client_peer_id s \<notin> set (silent_peers now r) \<and> gs_host_peer_id s \<notin> set (silent_peers now r))
      (hretain (\<lambda>_ s. \<not> gs_expires_at s \<le> now)
        (gameplay (fold remove_host (hkeys_where (\<lambda>_ host. hs_expires_at host \<le> now) (hosts r)) r)))"
    unfolding suspend_silent_def fold_disconnect(4) [OF inv_drop_expired [OF inv]]
    by (simp add: drop_expired_def Let_def)
  show "gameplay (snd (expire now r)) = hretain (\<lambda>_ s. now < gs_expires_at s \<and>
      untouched r now (gs_client_peer_id s) \<and> untouched r now (gs_host_peer_id s) \<and>
      (\<exists>h host. hget (hosts r) h = Some host \<and> hs_room_id host = gs_room_id s \<and>
         hs_peer_id host = gs_host_peer_id s \<and> now < hs_expires_at host)) (gameplay r)"
    unfolding snd expire_peers_tables(4) [OF inv_s] gameplay fold_remove_host_gameplay hretain_retain
    by (rule hretain_cong) (simp only: kept in_sessions not_le, blast)
qed

text \<open>C5. \<open>expire\<close> does exactly what the configured times say: a host session or discovery request survives
  precisely when it has not run out and its peer is neither newly silent nor past its grace time; a
  gameplay session moreover needs both its ends and a host session that has not run out; and every
  peer is kept, suspended or removed as \<open>peer_after\<close> says.\<close>

theorem expire_exact:
  assumes "run router_step (router_new c) es r"
  shows "fst (expire now r) \<noteq> Panic \<and>
    (case snd (expire now r) of r' \<Rightarrow>
      (\<forall>p. hget (peers r') p = Option.bind (hget (peers r) p) (peer_after (config r) now)) \<and>
      hosts r' = hretain (\<lambda>_ host. now < hs_expires_at host \<and> untouched r now (hs_peer_id host)) (hosts r) \<and>
      discoveries r' = hretain (\<lambda>_ d. now < ds_expires_at d \<and> untouched r now (ds_client_peer_id d)) (discoveries r) \<and>
      gameplay r' = hretain (\<lambda>_ s. now < gs_expires_at s \<and>
        untouched r now (gs_client_peer_id s) \<and> untouched r now (gs_host_peer_id s) \<and>
        (\<exists>h host. hget (hosts r) h = Some host \<and> hs_room_id host = gs_room_id s \<and>
           hs_peer_id host = gs_host_peer_id s \<and> now < hs_expires_at host)) (gameplay r))"
  using expire_tables [OF inv_run [OF assms]] expire_not_Panic [OF inv_run [OF assms]] by simp

theorem expire_exact_witness:
  "hget (peers (snd (expire 20 demo_play))) (PeerId 1) = Some \<lparr>ps_room_id = RoomId 1, ps_virtual_ip = VirtualIp 1,
     ps_last_seen = 0, ps_disconnected_at = Some 20, ps_connection_epoch = 1\<rparr>"
proof -
  have "hget (peers demo_play) (PeerId 1) = Some \<lparr>ps_room_id = RoomId 1, ps_virtual_ip = VirtualIp 1,
     ps_last_seen = 0, ps_disconnected_at = None, ps_connection_epoch = 1\<rparr>"
    by (simp add: demo_play_eval)
  then show ?thesis
    using expire_exact [OF demo_play_run, of 20] by (simp add: peer_after_def demo_play_tables(4)) (simp add: demo_config_def)
qed

subsection \<open>Identity and epochs\<close>

lemma unat_next_epoch: "unat (max (saturating_add e 1) (1 :: u64)) = min (unat e + 1) (2 ^ 64 - 1)"
proof -
  have "unat (saturating_add e (1 :: u64)) = min (unat e + 1) (2 ^ 64 - 1)"
    by (simp add: unat_saturating_add)
  moreover then have "1 \<le> saturating_add e (1 :: u64)"
    by (simp add: word_le_nat_alt)
  ultimately show ?thesis by (simp add: max_def)
qed

text \<open>C13. Resuming is for suspended peers and keeps who they are: within the grace time a suspended peer gets back
  the same room, peer identity and address under the next epoch (saturating at the top of 64 bits)
  and counts as seen again, before it resumes it cannot be marked as seen, and after the grace time
  it is refused; nothing else in the router changes.\<close>

theorem resume_keeps_identity:
  assumes "hget (peers r) p = Some peer" and "ps_disconnected_at peer = Some t"
  shows "mark_peer_seen p now r = (Err (PeerDisconnected p), r) \<and>
    (if now < t + peer_grace_ttl (config r)
     then (case resume_peer (ps_room_id peer) p now r of
             (Ok snap, r') \<Rightarrow>
                psnap_room_id snap = ps_room_id peer \<and> psnap_peer_id snap = p \<and>
                psnap_virtual_ip snap = ps_virtual_ip peer \<and>
                unat (psnap_connection_epoch snap) = min (unat (ps_connection_epoch peer) + 1) (2 ^ 64 - 1) \<and>
                peer_snapshot_of r' p = Ok snap \<and> fst (mark_peer_seen p now r') = Ok () \<and>
                r' = r\<lparr>peers := hinsert p \<lparr>ps_room_id = ps_room_id peer, ps_virtual_ip = ps_virtual_ip peer,
                  ps_last_seen = now, ps_disconnected_at = None,
                  ps_connection_epoch = psnap_connection_epoch snap\<rparr> (peers r)\<rparr>
           | _ \<Rightarrow> False)
     else resume_peer (ps_room_id peer) p now r = (Err (PeerGraceExpired p), r))"
  using assms
  by (cases peer) (simp add: mark_peer_seen_def resume_peer_def Let_def snapshot_of_peer_def peer_snapshot_of_def unat_next_epoch)

lemma demo_suspended:
  "hget (peers (disconnect_peer (PeerId 1) 20 demo_router)) (PeerId 1) =
     Some \<lparr>ps_room_id = RoomId 1, ps_virtual_ip = VirtualIp 1, ps_last_seen = 0,
       ps_disconnected_at = Some 20, ps_connection_epoch = 1\<rparr>"
  by (simp add: disconnect_peer_peers) (simp add: demo_eval)

theorem resume_keeps_identity_witness:
  "mark_peer_seen (PeerId 1) 30 (disconnect_peer (PeerId 1) 20 demo_router) =
      (Err (PeerDisconnected (PeerId 1)), disconnect_peer (PeerId 1) 20 demo_router) \<and>
   resume_peer (RoomId 1) (PeerId 1) 70 (disconnect_peer (PeerId 1) 20 demo_router) =
      (Err (PeerGraceExpired (PeerId 1)), disconnect_peer (PeerId 1) 20 demo_router)"
proof -
  have "peer_grace_ttl (config (disconnect_peer (PeerId 1) 20 demo_router)) = 45"
    by (simp add: demo_eval)
  then show ?thesis
    using resume_keeps_identity [OF demo_suspended, of 20 30] resume_keeps_identity [OF demo_suspended, of 20 70] by simp
qed

text \<open>Which operations touch a peer's entry, and how.\<close>

lemma next_epoch_ge: "(e :: u64) \<le> max (saturating_add e 1) 1"
proof -
  have "unat e < 2 ^ 64" using unsigned_less [of e] by simp
  then show ?thesis by (simp only: word_le_nat_alt unat_next_epoch)
qed

definition same_identity :: "peer_state \<Rightarrow> peer_state \<Rightarrow> bool" where
  "same_identity a b \<longleftrightarrow> ps_room_id a = ps_room_id b \<and> ps_virtual_ip a = ps_virtual_ip b \<and>
     ps_connection_epoch a \<le> ps_connection_epoch b"

lemma same_identity_refl [simp]: "same_identity a a"
  by (simp add: same_identity_def)

lemma peer_after_identity: "peer_after c now peer = Some peer' \<Longrightarrow> same_identity peer peer'"
  by (auto simp: peer_after_def same_identity_def Let_def split: option.splits if_splits)

lemma insert_new_host_peers [simp]: "peers (snd (insert_new_host rid p peer now h r)) = peers r"
  by (simp add: insert_new_host_def split: option.split)

lemma session_operations_peers:
  "peers (snd (remove_empty_room rid r)) = peers r"
  "peers (snd (heartbeat_host h now r)) = peers r"
  "peers (snd (heartbeat_host_for_room rid p h now r)) = peers r"
  "peers (snd (unregister_host h r)) = peers r"
  "peers (snd (route_gameplay_datagram g p now r)) = peers r"
  "peers (snd (remove_gameplay_session g r)) = peers r"
  by (simp_all add: remove_empty_room_def heartbeat_host_def heartbeat_host_for_room_def unregister_host_def
      route_gameplay_datagram_def remove_gameplay_session_def Let_def split: option.split)

lemma create_room_peers: "peers (snd (create_room rid code r)) = peers r"
  unfolding create_room_def by (rule try_st_snd) (simp_all add: create_room_with_id_def)

lemma register_host_peers: "peers (snd (register_host rid p now h r)) = peers r"
  unfolding register_host_def by (rule try_st_snd) (simp_all split: option.split)

lemma select_host_peers: "peers (snd (select_host rid p h now g r)) = peers r"
  unfolding select_host_def by (rule try_st_snd) (simp_all split: option.split)

lemma begin_discovery_peers [simp]: "peers (snd (begin_discovery rid p q port now r)) = peers r"
  by (cases "member_state r rid p") (auto simp: begin_discovery_def Let_def split: option.split)

lemma dispatch_peers: "peers (snd (dispatch i r)) = peers r"
  using dispatch_state session_operations_peers(5) begin_discovery_peers by (cases i) metis+

lemma apply_event_identity:
  assumes inv: "router_inv r" and a: "hget (peers r) p = Some a"
    and b: "hget (peers (snd (apply_event e r))) p = Some b"
  shows "same_identity a b"
proof (cases e)
  case (JoinRoom rid q ip now)
  then show ?thesis
    using a b by (cases rule: join_room_cases [of rid q ip now r]) (auto split: if_splits)
next
  case (MarkPeerSeen q now)
  then show ?thesis
    using a b by (auto simp: mark_peer_seen_def same_identity_def split: option.splits if_splits)
next
  case (ResumePeer rid q now)
  then show ?thesis
    using a b next_epoch_ge
    by (auto simp: resume_peer_def Let_def same_identity_def split: option.splits if_splits)
next
  case (LeaveRoom rid q)
  from inv show ?thesis
    using LeaveRoom a b by (cases rule: leave_room_cases [where rid = rid and p = q]) (auto split: if_splits)
next
  case (Expire now)
  then show ?thesis
    using a b expire_tables(1) [OF inv, of now p] peer_after_identity by simp
qed (use a b in \<open>simp_all add: session_operations_peers create_room_peers register_host_peers
       select_host_peers dispatch_peers\<close>)

text \<open>A member's identity is stable: as long as a peer stays in the router, no operation moves it to another
  room, gives it another address or lowers its connection epoch.\<close>

theorem peer_identity_stable:
  assumes "run router_step (router_new c) es r" and "router_step r e r'"
    and "hget (peers r) p = Some a" and "hget (peers r') p = Some b"
  shows "ps_room_id b = ps_room_id a \<and> ps_virtual_ip b = ps_virtual_ip a \<and>
    ps_connection_epoch a \<le> ps_connection_epoch b"
  using apply_event_identity [OF inv_run [OF assms(1)] assms(3), of e b] assms(2,4)
  by (auto simp: router_step_iff same_identity_def)

theorem peer_identity_stable_witness:
  "ps_virtual_ip (the (hget (peers (snd (expire 20 demo_play))) (PeerId 1))) = VirtualIp 1"
proof -
  have p: "hget (peers demo_play) (PeerId 1) = Some \<lparr>ps_room_id = RoomId 1, ps_virtual_ip = VirtualIp 1,
     ps_last_seen = 0, ps_disconnected_at = None, ps_connection_epoch = 1\<rparr>"
    by (simp add: demo_play_eval)
  have step: "router_step demo_play (Expire 20) (snd (expire 20 demo_play))"
    by (simp add: router_step_iff)
  have "hget (peers (snd (expire 20 demo_play))) (PeerId 1) = Some (the (hget (peers (snd (expire 20 demo_play))) (PeerId 1)))"
    using expire_tables(1) [OF demo_play_inv, of 20 "PeerId 1"] p
    by (simp add: peer_after_def demo_play_tables(4)) (simp add: demo_config_def)
  from peer_identity_stable [OF demo_play_run step p this] show ?thesis by simp
qed

subsection \<open>Repeating a request\<close>

lemma insert_new_host_Ok:
  assumes room: "hget (rooms r) rid = Some room" and ok: "insert_new_host rid p peer now h r = (Ok h', r')"
  shows "h' = h" "config r' = config r"
    "hget (hosts r') h = Some \<lparr>hs_room_id = rid, hs_peer_id = p, hs_virtual_ip = ps_virtual_ip peer,
       hs_last_heartbeat = now, hs_expires_at = now + host_ttl (config r)\<rparr>"
    "hget (host_by_peer r') (rid, p) = Some h"
  using room
  by (cases rule: insert_new_host_cases [where p = p and peer = peer and now = now and new_id = h];
      use ok in auto)+

lemma register_host_new:
  assumes inv: "router_inv r" and ok: "register_host rid p t h r = (Ok h, r')" and fresh: "hget (hosts r) h = None"
  obtains peer where "hget (peers r) p = Some peer" "ps_room_id peer = rid" "config r' = config r"
    "hget (hosts r') h = Some \<lparr>hs_room_id = rid, hs_peer_id = p, hs_virtual_ip = ps_virtual_ip peer,
       hs_last_heartbeat = t, hs_expires_at = t + host_ttl (config r)\<rparr>"
    "hget (host_by_peer r') (rid, p) = Some h"
  using inv
proof (cases rule: register_host_cases [where rid = rid and p = p and now = t and new_id = h])
  case (first peer)
  then obtain room where "hget (rooms r) rid = Some room"
    using peer_room_exists [OF inv] by metis
  from insert_new_host_Ok [OF this, of p peer t h h r'] show ?thesis
    using that [of peer] ok first by simp
next
  case (stale peer h0 host)
  then have "hget (peers (remove_host h0 r)) p = Some peer" by simp
  then obtain room where "hget (rooms (remove_host h0 r)) rid = Some room"
    using peer_room_exists [OF inv_remove_host [OF inv]] stale(2) by metis
  from insert_new_host_Ok [OF this, of p peer t h h r'] show ?thesis
    using that [of peer] ok stale by simp
qed (use ok fresh in auto)

text \<open>Registering is idempotent while the session lives: a second registration by the same peer before the
  session runs out returns the same identifier, creates no second session and only moves the expiry to
  \<open>host_ttl\<close> from now.\<close>

theorem register_host_idempotent:
  assumes "run router_step (router_new c) es r" and "register_host rid p t h r = (Ok h, r')"
    and "hget (hosts r) h = None" and "now < t + host_ttl (config r)"
  shows "fst (register_host rid p now h' r') = Ok h \<and>
    snd (register_host rid p now h' r') =
      r'\<lparr>hosts := hinsert h \<lparr>hs_room_id = rid, hs_peer_id = p,
         hs_virtual_ip = the (peer_virtual_ip r p), hs_last_heartbeat = now,
         hs_expires_at = now + host_ttl (config r)\<rparr> (hosts r')\<rparr>"
proof -
  note inv = inv_run [OF assms(1)]
  have inv': "router_inv r'"
    using inv_register_host [OF inv assms(3), of rid p t] assms(2) by simp
  obtain peer where peer: "hget (peers r) p = Some peer" "ps_room_id peer = rid" "config r' = config r"
    "hget (hosts r') h = Some \<lparr>hs_room_id = rid, hs_peer_id = p, hs_virtual_ip = ps_virtual_ip peer,
       hs_last_heartbeat = t, hs_expires_at = t + host_ttl (config r)\<rparr>"
    "hget (host_by_peer r') (rid, p) = Some h"
    using register_host_new [OF inv assms(2,3)] by blast
  have "peers r' = peers r"
    using register_host_peers [of rid p t h r] assms(2) by simp
  then have "member_state r' rid p = Ok peer"
    using member_state_iff [OF inv'] peer by simp
  then show ?thesis
    using peer assms(4) by (simp add: register_host_def peer_virtual_ip_def)
qed

theorem register_host_idempotent_witness:
  "fst (register_host (RoomId 1) (PeerId 2) 9 (HostSessionId 77)
     (snd (register_host (RoomId 1) (PeerId 2) 0 (HostSessionId 7) (apply_events (take 5 demo_events) (router_new demo_config))))) =
   Ok (HostSessionId 7)"
proof -
  let ?r = "apply_events (take 5 demo_events) (router_new demo_config)"
  have run: "run router_step (router_new demo_config) (take 5 demo_events) ?r"
    by (rule run_apply_events) (simp add: demo_eval)
  have "fst (register_host (RoomId 1) (PeerId 2) 0 (HostSessionId 7) ?r) = Ok (HostSessionId 7)"
    "hget (hosts ?r) (HostSessionId 7) = None" "9 < 0 + host_ttl (config ?r)"
    by (simp_all add: demo_eval)
  then show ?thesis
    using register_host_idempotent [OF run, of "RoomId 1" "PeerId 2" 0 "HostSessionId 7" _ 9 "HostSessionId 77"]
    by (simp add: prod_eq_iff)
qed

text \<open>A retried discovery request is one request: repeating it with the same room, client and port is
  accepted, replaces the single entry by one that expires later and leaves the others alone, while the
  same identifier with another room, client or port is refused as a conflict.\<close>

theorem discovery_retry:
  assumes "run router_step (router_new c) es r"
    and "begin_discovery rid client q port t r = (Ok targets, r')"
  shows "(\<exists>targets'. begin_discovery rid client q port now r' = (Ok targets',
        r'\<lparr>discoveries := hinsert q \<lparr>ds_room_id = rid, ds_client_peer_id = client, ds_destination_port = port,
          ds_expires_at = now + discovery_ttl (config r)\<rparr> (discoveries r')\<rparr>)) \<and>
    hlen (discoveries (snd (begin_discovery rid client q port now r'))) = hlen (discoveries r') \<and>
    (room_for_peer r' other = Some rid' \<and> is_discovery_port (port_num port') \<and> (rid', other, port') \<noteq> (rid, client, port) \<longrightarrow>
       begin_discovery rid' other q port' now r' = (Err (DiscoveryRequestConflict q), r'))"
proof -
  note inv = inv_run [OF assms(1)]
  have inv': "router_inv r'"
    using inv_begin_discovery [OF inv, of rid client q port t] assms(2) by simp
  note ok = fanout_targets(3-5) [OF inv assms(2)]
  then obtain peer where peer: "hget (peers r') client = Some peer" "ps_room_id peer = rid"
    by auto
  then have member: "member_state r' rid client = Ok peer"
    using member_state_iff [OF inv'] by simp
  then obtain room where room: "hget (rooms r') rid = Some room"
    using member_state_room by blast
  have q: "hget (discoveries r') q = Some \<lparr>ds_room_id = rid, ds_client_peer_id = client, ds_destination_port = port,
      ds_expires_at = t + discovery_ttl (config r)\<rparr>" and c: "config r' = config r"
    using ok(2) by simp_all
  have again: "begin_discovery rid client q port now r' = (Ok (live_targets r' room now),
      r'\<lparr>discoveries := hinsert q \<lparr>ds_room_id = rid, ds_client_peer_id = client, ds_destination_port = port,
          ds_expires_at = now + discovery_ttl (config r)\<rparr> (discoveries r')\<rparr>)"
    using ok(3) member room q c by (simp add: begin_discovery_def)
  have "begin_discovery rid' other q port' now r' = (Err (DiscoveryRequestConflict q), r')"
    if room: "room_for_peer r' other = Some rid'"
      and rest: "is_discovery_port (port_num port')" "(rid', other, port') \<noteq> (rid, client, port)"
  proof -
    obtain peer' where "member_state r' rid' other = Ok peer'"
      using room member_state_iff [OF inv'] by (auto simp: room_for_peer_def)
    then show ?thesis using rest q by (auto simp: begin_discovery_def)
  qed
  with again q show ?thesis by (simp add: hlen_insert)
qed

theorem discovery_retry_witness:
  "\<exists>r'. fst (begin_discovery (RoomId 2) (PeerId 3) (DiscoveryRequestId 5) (Civ6UdpPort 62900) 4 r') =
     Err (DiscoveryRequestConflict (DiscoveryRequestId 5))"
proof -
  obtain r' where r': "begin_discovery (RoomId 1) (PeerId 1) (DiscoveryRequestId 5) (Civ6UdpPort 62900) 3 demo_router =
     (Ok [\<lparr>target_host_session_id = HostSessionId 7, target_host_peer_id = PeerId 2,
           target_host_virtual_ip = VirtualIp 2\<rparr>], r')"
    using demo_discovery by blast
  then have "room_for_peer r' (PeerId 3) = Some (RoomId 2)"
    using fanout_targets(4) [OF demo_inv r'] by (simp add: room_for_peer_def) (simp add: demo_eval)
  moreover have "is_discovery_port (port_num (Civ6UdpPort 62900))"
    by (simp add: is_discovery_port_def DISCOVERY_PORT_START_def DISCOVERY_PORT_END_def word_le_nat_alt)
  ultimately have "begin_discovery (RoomId 2) (PeerId 3) (DiscoveryRequestId 5) (Civ6UdpPort 62900) 4 r' =
      (Err (DiscoveryRequestConflict (DiscoveryRequestId 5)), r')"
    using discovery_retry [OF demo_run r', of 4 "PeerId 3" "RoomId 2" "Civ6UdpPort 62900"] by auto
  then show ?thesis by (intro exI [of _ r']) simp
qed

end
