(* ===== verification/Router_Spec.thy ===== *)
theory Router_Spec
  imports Router_Lifecycle
begin

section \<open>What the router promises, without its indexes\<close>

text \<open>
  The abstract router keeps only the facts that are not derived from others: the code of each room
  and the tables of peers, host sessions, discovery requests and gameplay sessions. Membership,
  address lookup, the hosts of a room and the session of a member are computed from them, leaving
  and expiry are one restriction of each table instead of loops. The router refines it: on consistent
  tables every operation gives the result of the abstract one and the state it describes.
\<close>

subsection \<open>The abstract router\<close>

record router_spec =
  sp_config :: router_config
  sp_codes :: "(room_id, room_code) hash_map"
  sp_peers :: "(peer_id, peer_state) hash_map"
  sp_hosts :: "(host_session_id, host_state) hash_map"
  sp_discoveries :: "(discovery_request_id, discovery_state) hash_map"
  sp_gameplay :: "(gameplay_session_id, gameplay_state) hash_map"

definition abs_router :: "room_router \<Rightarrow> router_spec" where
  "abs_router r = \<lparr>sp_config = config r, sp_codes = fmmap rs_code (rooms r), sp_peers = peers r,
     sp_hosts = hosts r, sp_discoveries = discoveries r, sp_gameplay = gameplay r\<rparr>"

definition spec_members :: "router_spec \<Rightarrow> room_id \<Rightarrow> (peer_id, peer_state) hash_map" where
  "spec_members s rid = hretain (\<lambda>_ peer. ps_room_id peer = rid) (sp_peers s)"

definition spec_hosts :: "router_spec \<Rightarrow> room_id \<Rightarrow> (host_session_id, host_state) hash_map" where
  "spec_hosts s rid = hretain (\<lambda>_ host. hs_room_id host = rid) (sp_hosts s)"

definition spec_session :: "router_spec \<Rightarrow> room_id \<Rightarrow> peer_id \<Rightarrow> host_session_id option" where
  "spec_session s rid p =
     (case hkeys_where (\<lambda>_ host. hs_room_id host = rid \<and> hs_peer_id host = p) (sp_hosts s) of
        [] \<Rightarrow> None | h # _ \<Rightarrow> Some h)"

definition spec_member :: "router_spec \<Rightarrow> room_id \<Rightarrow> peer_id \<Rightarrow> (peer_state, router_error) result" where
  "spec_member s rid p =
     (if hget (sp_codes s) rid = None then Err (RoomNotFound rid)
      else ok_or (PeerNotInRoom p rid) (hget (spec_members s rid) p))"

definition spec_drop_host :: "host_session_id \<Rightarrow> router_spec \<Rightarrow> router_spec" where
  "spec_drop_host h s =
     (case hget (sp_hosts s) h of
        None \<Rightarrow> s
      | Some host \<Rightarrow> s\<lparr>sp_hosts := hremove h (sp_hosts s),
          sp_gameplay := hretain (\<lambda>_ g. gs_host_peer_id g \<noteq> hs_peer_id host \<or> gs_room_id g \<noteq> hs_room_id host) (sp_gameplay s)\<rparr>)"

definition spec_create :: "room_id \<Rightarrow> room_code \<Rightarrow> router_spec \<Rightarrow> (room_id, router_error) result \<times> router_spec" where
  "spec_create rid code s =
     (if max_rooms (sp_config s) \<le> hlen (sp_codes s) then (Err RoomLimitReached, s)
      else if code |\<in>| fmran (sp_codes s) then (Err (DuplicateRoomCode code), s)
      else if hget (sp_codes s) rid \<noteq> None then (Err (DuplicateRoomId rid), s)
      else (Ok rid, s\<lparr>sp_codes := hinsert rid code (sp_codes s)\<rparr>))"

definition spec_remove_room :: "room_id \<Rightarrow> router_spec \<Rightarrow> (unit, router_error) result \<times> router_spec" where
  "spec_remove_room rid s =
     (if hget (sp_codes s) rid = None then (Err (RoomNotFound rid), s)
      else if spec_members s rid \<noteq> fmempty \<or> spec_hosts s rid \<noteq> fmempty then (Err (RoomNotEmpty rid), s)
      else (Ok (), s\<lparr>sp_codes := hremove rid (sp_codes s)\<rparr>))"

definition spec_join ::
  "room_id \<Rightarrow> peer_id \<Rightarrow> virtual_ip \<Rightarrow> instant \<Rightarrow> router_spec \<Rightarrow> (unit, router_error) result \<times> router_spec" where
  "spec_join rid p ip now s =
     (if hget (sp_codes s) rid = None then (Err (RoomNotFound rid), s)
      else if max_peers_per_room (sp_config s) \<le> hlen (spec_members s rid) then (Err (RoomPeerLimitReached rid), s)
      else if max_total_peers (sp_config s) \<le> hlen (sp_peers s) then (Err PeerLimitReached, s)
      else if hget (sp_peers s) p \<noteq> None then (Err (PeerAlreadyInRoom p), s)
      else if hretain (\<lambda>_ peer. ps_virtual_ip peer = ip) (sp_peers s) \<noteq> fmempty then (Err (VirtualIpInUse ip), s)
      else (Ok (), s\<lparr>sp_peers := hinsert p \<lparr>ps_room_id = rid, ps_virtual_ip = ip, ps_last_seen = now,
             ps_disconnected_at = None, ps_connection_epoch = 1\<rparr> (sp_peers s)\<rparr>))"

text \<open>A peer leaves with everything that refers to it.\<close>

definition spec_leave :: "room_id \<Rightarrow> peer_id \<Rightarrow> router_spec \<Rightarrow> (unit, router_error) result \<times> router_spec" where
  "spec_leave rid p s =
     (if hget (sp_codes s) rid = None then (Err (RoomNotFound rid), s)
      else if hget (spec_members s rid) p = None then (Err (PeerNotInRoom p rid), s)
      else (Ok (), s\<lparr>sp_peers := hremove p (sp_peers s),
             sp_hosts := hretain (\<lambda>_ host. hs_peer_id host \<noteq> p) (sp_hosts s),
             sp_discoveries := hretain (\<lambda>_ d. ds_client_peer_id d \<noteq> p) (sp_discoveries s),
             sp_gameplay := hretain (\<lambda>_ g. gs_client_peer_id g \<noteq> p \<and> gs_host_peer_id g \<noteq> p) (sp_gameplay s)\<rparr>))"

definition spec_register ::
  "room_id \<Rightarrow> peer_id \<Rightarrow> instant \<Rightarrow> host_session_id \<Rightarrow> router_spec \<Rightarrow> (host_session_id, router_error) result \<times> router_spec" where
  "spec_register rid p now new_id s =
     (let add = (\<lambda>peer s. if max_hosts_per_room (sp_config s) \<le> hlen (spec_hosts s rid) then (Err (HostLimitReached rid), s)
            else (Ok new_id, s\<lparr>sp_hosts := hinsert new_id \<lparr>hs_room_id = rid, hs_peer_id = p, hs_virtual_ip = ps_virtual_ip peer,
                   hs_last_heartbeat = now, hs_expires_at = now + host_ttl (sp_config s)\<rparr> (sp_hosts s)\<rparr>))
      in try_st (spec_member s rid p, s) (\<lambda>peer s.
        case spec_session s rid p of
          None \<Rightarrow> add peer s
        | Some h \<Rightarrow> (case hget (sp_hosts s) h of
             None \<Rightarrow> add peer s
           | Some host \<Rightarrow>
               if now < hs_expires_at host
               then (Ok h, s\<lparr>sp_hosts := hinsert h (host\<lparr>hs_last_heartbeat := now,
                      hs_expires_at := now + host_ttl (sp_config s)\<rparr>) (sp_hosts s)\<rparr>)
               else add peer (spec_drop_host h s))))"

definition spec_targets :: "router_spec \<Rightarrow> room_id \<Rightarrow> instant \<Rightarrow> discovery_target list" where
  "spec_targets s rid now =
     map (\<lambda>h. target_of h (the (hget (sp_hosts s) h)))
       (hkeys_where (\<lambda>_ host. hs_room_id host = rid \<and> now < hs_expires_at host) (sp_hosts s))"

definition spec_discovery ::
  "room_id \<Rightarrow> peer_id \<Rightarrow> discovery_request_id \<Rightarrow> udp_port \<Rightarrow> instant \<Rightarrow> router_spec \<Rightarrow>
   (discovery_target list, router_error) result \<times> router_spec" where
  "spec_discovery rid client q port now s =
     (if \<not> is_discovery_port (port_num port) then (Err (InvalidDiscoveryPort (port_num port)), s)
      else try_st (spec_member s rid client, s) (\<lambda>_ s.
        if (case hget (sp_discoveries s) q of None \<Rightarrow> False | Some d \<Rightarrow>
              (ds_room_id d, ds_client_peer_id d, ds_destination_port d) \<noteq> (rid, client, port))
        then (Err (DiscoveryRequestConflict q), s)
        else (Ok (spec_targets s rid now), s\<lparr>sp_discoveries := hinsert q
          \<lparr>ds_room_id = rid, ds_client_peer_id = client, ds_destination_port = port,
           ds_expires_at = now + discovery_ttl (sp_config s)\<rparr> (sp_discoveries s)\<rparr>)))"

text \<open>Expiry as one restriction of every table.\<close>

definition spec_untouched :: "router_spec \<Rightarrow> instant \<Rightarrow> peer_id \<Rightarrow> bool" where
  "spec_untouched s now p \<longleftrightarrow> (case hget (sp_peers s) p of
     None \<Rightarrow> False | Some peer \<Rightarrow> peer_after (sp_config s) now peer = Some peer)"

definition spec_expire :: "instant \<Rightarrow> router_spec \<Rightarrow> router_spec" where
  "spec_expire now s = s\<lparr>
     sp_peers := fmmap (\<lambda>peer. the (peer_after (sp_config s) now peer))
       (hretain (\<lambda>_ peer. peer_after (sp_config s) now peer \<noteq> None) (sp_peers s)),
     sp_hosts := hretain (\<lambda>_ host. now < hs_expires_at host \<and> spec_untouched s now (hs_peer_id host)) (sp_hosts s),
     sp_discoveries := hretain (\<lambda>_ d. now < ds_expires_at d \<and> spec_untouched s now (ds_client_peer_id d)) (sp_discoveries s),
     sp_gameplay := hretain (\<lambda>_ g. now < gs_expires_at g \<and> spec_untouched s now (gs_client_peer_id g) \<and>
       spec_untouched s now (gs_host_peer_id g) \<and>
       hretain (\<lambda>_ host. hs_room_id host = gs_room_id g \<and> hs_peer_id host = gs_host_peer_id g \<and>
         now < hs_expires_at host) (sp_hosts s) \<noteq> fmempty) (sp_gameplay s)\<rparr>"

subsection \<open>The indexes are what the abstract router computes\<close>

lemma abs_simps [simp]:
  "sp_config (abs_router r) = config r" "sp_peers (abs_router r) = peers r" "sp_hosts (abs_router r) = hosts r"
  "sp_discoveries (abs_router r) = discoveries r" "sp_gameplay (abs_router r) = gameplay r"
  "hget (sp_codes (abs_router r)) rid = map_option rs_code (hget (rooms r) rid)"
  "hlen (sp_codes (abs_router r)) = hlen (rooms r)"
  by (simp_all add: abs_router_def hlen_def)

lemma abs_eqI:
  assumes "config r = sp_config s" "peers r = sp_peers s" "hosts r = sp_hosts s" "discoveries r = sp_discoveries s"
    "gameplay r = sp_gameplay s" "\<And>rid. map_option rs_code (hget (rooms r) rid) = hget (sp_codes s) rid"
  shows "abs_router r = s"
  using assms by (intro router_spec.equality) (simp_all add: abs_router_def fmap_eqI)

lemma code_in_use:
  assumes inv: "router_inv r"
  shows "code |\<in>| fmran (sp_codes (abs_router r)) \<longleftrightarrow> hget (rooms_by_code r) code \<noteq> None"
proof -
  have "code |\<in>| fmran (sp_codes (abs_router r)) \<longleftrightarrow> (\<exists>rid room. hget (rooms r) rid = Some room \<and> rs_code room = code)"
    by (auto simp: fmlookup_ran_iff)
  then show ?thesis
    using router_invD(1) [OF inv] unfolding codes_agree_def by (metis not_None_eq)
qed

lemma hretain_nonempty: "hretain P m \<noteq> fmempty \<longleftrightarrow> (\<exists>k v. hget m k = Some v \<and> P k v)"
proof
  assume "hretain P m \<noteq> fmempty"
  then obtain k where "hget (hretain P m) k \<noteq> None"
    by (metis fmap_eqI fmempty_lookup)
  then show "\<exists>k v. hget m k = Some v \<and> P k v"
    by (auto split: option.splits if_splits)
next
  assume "\<exists>k v. hget m k = Some v \<and> P k v"
  then obtain k v where "hget (hretain P m) k = Some v" by (auto simp: hget_retain_iff simp del: hget_retain)
  then show "hretain P m \<noteq> fmempty" by (metis fmempty_lookup option.distinct(1))
qed

lemma address_in_use:
  assumes inv: "router_inv r"
  shows "hretain (\<lambda>_ peer. ps_virtual_ip peer = ip) (peers r) \<noteq> fmempty \<longleftrightarrow> hget (virtual_ips r) ip \<noteq> None"
  using router_invD(3) [OF inv] unfolding ips_agree_def hretain_nonempty by (metis not_None_eq)

lemma members_computed:
  assumes inv: "router_inv r" and room: "hget (rooms r) rid = Some room"
  shows "rs_members room = fmdom (spec_members (abs_router r) rid)"
  using member_iff [OF inv room]
  by (intro fset_eqI) (simp add: fmdom_lookup_iff spec_members_def hget_retain_iff del: hget_retain not_None_eq flip: ex_simps,
      auto simp: hget_retain_iff split: option.split)

lemma hosts_computed:
  assumes inv: "router_inv r" and room: "hget (rooms r) rid = Some room"
  shows "rs_host_sessions room = fmdom (spec_hosts (abs_router r) rid)"
  using host_member_iff [OF inv room]
  by (intro fset_eqI) (auto simp: fmdom_lookup_iff spec_hosts_def split: option.split)

lemma counts_computed:
  assumes "router_inv r" "hget (rooms r) rid = Some room"
  shows "fcard (rs_members room) = hlen (spec_members (abs_router r) rid)"
    and "fcard (rs_host_sessions room) = hlen (spec_hosts (abs_router r) rid)"
    and "rs_members room = {||} \<longleftrightarrow> spec_members (abs_router r) rid = fmempty"
    and "rs_host_sessions room = {||} \<longleftrightarrow> spec_hosts (abs_router r) rid = fmempty"
  using members_computed [OF assms] hosts_computed [OF assms] hlen_eq_0
  by (simp_all add: hlen_def)

lemma session_computed:
  assumes inv: "router_inv r"
  shows "spec_session (abs_router r) rid p = hget (host_by_peer r) (rid, p)"
proof -
  let ?hs = "hkeys_where (\<lambda>_ host. hs_room_id host = rid \<and> hs_peer_id host = p) (hosts r)"
  have set: "set ?hs = {h. hget (host_by_peer r) (rid, p) = Some h}"
    using host_index_iff [OF inv] by auto
  show ?thesis
  proof (cases ?hs)
    case Nil
    with set have "hget (host_by_peer r) (rid, p) = None" by (cases "hget (host_by_peer r) (rid, p)") auto
    with Nil show ?thesis by (simp add: spec_session_def)
  next
    case (Cons h hs)
    with set have "hget (host_by_peer r) (rid, p) = Some h" by (metis (mono_tags) list.set_intros(1) mem_Collect_eq)
    with Cons show ?thesis by (simp add: spec_session_def)
  qed
qed

lemma member_computed:
  assumes inv: "router_inv r"
  shows "spec_member (abs_router r) rid p = member_state r rid p"
proof (cases "hget (rooms r) rid")
  case None
  then show ?thesis by (simp add: spec_member_def member_state_def)
next
  case (Some room)
  show ?thesis
  proof (cases "\<exists>peer. hget (peers r) p = Some peer \<and> ps_room_id peer = rid")
    case True
    then obtain peer where "hget (peers r) p = Some peer" "ps_room_id peer = rid" by blast
    then show ?thesis
      using Some member_iff [OF inv Some, of p] by (simp add: spec_member_def member_state_def spec_members_def)
  next
    case False
    then have "p |\<notin>| rs_members room" using member_iff [OF inv Some] by simp
    then show ?thesis
      using Some False by (auto simp: spec_member_def member_state_def spec_members_def split: option.split)
  qed
qed

lemma targets_computed:
  assumes inv: "router_inv r" and room: "hget (rooms r) rid = Some room"
  shows "live_targets r room now = spec_targets (abs_router r) rid now"
proof -
  let ?live = "\<lambda>h. case hget (hosts r) h of None \<Rightarrow> False | Some host \<Rightarrow> now < hs_expires_at host"
  have "live_targets r room now = map (\<lambda>h. target_of h (the (hget (hosts r) h)))
      (filter ?live (sorted_list_of_fset (rs_host_sessions room)))"
  proof -
    have "map (\<lambda>(h, host). target_of h host) (filter (\<lambda>(_, host). now < hs_expires_at host)
        (List.map_filter (\<lambda>h. map_option (Pair h) (hget (hosts r) h)) hs)) =
      map (\<lambda>h. target_of h (the (hget (hosts r) h))) (filter ?live hs)" for hs
      by (induction hs) (auto simp: List.map_filter_simps split: option.split)
    then show ?thesis by (simp add: live_targets_def)
  qed
  also have "filter ?live (sorted_list_of_fset (rs_host_sessions room)) =
      hkeys_where (\<lambda>_ host. hs_room_id host = rid \<and> now < hs_expires_at host) (hosts r)"
  proof (rule sorted_distinct_set_unique)
    show "set (filter ?live (sorted_list_of_fset (rs_host_sessions room))) =
        set (hkeys_where (\<lambda>_ host. hs_room_id host = rid \<and> now < hs_expires_at host) (hosts r))"
      using host_member_iff [OF inv room] by (auto simp: sorted_list_of_fset.rep_eq split: option.splits)
  qed (simp_all add: hkeys_where_def sorted_list_of_fset.rep_eq sorted_wrt_filter)
  finally show ?thesis by (simp add: spec_targets_def)
qed

subsection \<open>Refinement\<close>

text \<open>What an operation does, seen from the abstract router.\<close>

abbreviation refined :: "('a, router_error) result \<times> room_router \<Rightarrow> ('a, router_error) result \<times> router_spec" where
  "refined p \<equiv> (fst p, abs_router (snd p))"

lemma refine_create:
  assumes inv: "router_inv r"
  shows "refined (create_room rid code r) = spec_create rid code (abs_router r)"
  using code_in_use [OF inv, of code]
  by (auto simp: create_room_def create_room_with_id_def spec_create_def intro!: abs_eqI split: option.splits)

lemma refine_remove_room:
  assumes inv: "router_inv r"
  shows "refined (remove_empty_room rid r) = spec_remove_room rid (abs_router r)"
proof (cases "hget (rooms r) rid")
  case (Some room)
  then show ?thesis
    using counts_computed(3,4) [OF inv Some]
    by (auto simp: remove_empty_room_def spec_remove_room_def Let_def intro!: abs_eqI)
qed (simp add: remove_empty_room_def spec_remove_room_def)

lemma refine_join:
  assumes inv: "router_inv r"
  shows "refined (join_room rid p ip now r) = spec_join rid p ip now (abs_router r)"
proof (cases "hget (rooms r) rid")
  case (Some room)
  then show ?thesis
    using counts_computed(1) [OF inv Some] address_in_use [OF inv, of ip]
    by (auto simp: join_room_def spec_join_def Let_def intro!: abs_eqI split: option.splits)
qed (simp add: join_room_def spec_join_def)

lemma refine_leave:
  assumes inv: "router_inv r"
  shows "refined (leave_room rid p r) = spec_leave rid p (abs_router r)"
  using inv
proof (cases rule: leave_room_cases [where rid = rid and p = p])
  case (err e)
  then show ?thesis
    by (cases "hget (peers r) p") (auto simp: spec_leave_def spec_members_def)
next
  case (ok room peer)
  note own = leave_own_room [OF inv ok(1), unfolded ok(2)]
  obtain room0 where "hget (rooms r) rid = Some room0"
    using peer_room_exists [OF inv ok(1)] ok(2) by metis
  moreover have "abs_router (snd (leave_room rid p r)) = (abs_router r)\<lparr>sp_peers := hremove p (peers r),
      sp_hosts := hretain (\<lambda>_ host. hs_peer_id host \<noteq> p) (hosts r),
      sp_discoveries := hretain (\<lambda>_ d. ds_client_peer_id d \<noteq> p) (discoveries r),
      sp_gameplay := hretain (\<lambda>_ g. gs_client_peer_id g \<noteq> p \<and> gs_host_peer_id g \<noteq> p) (gameplay r)\<rparr>"
  proof (rule abs_eqI)
    fix rid'
    have "map_option rs_code (hget (rooms r) rid) = Some (rs_code room)"
      using drop_sessions_of_frame(6) [of rid p r rid] ok(3) by (simp del: drop_sessions_of_frame)
    then show "map_option rs_code (hget (rooms (snd (leave_room rid p r))) rid') =
        hget (sp_codes ((abs_router r)\<lparr>sp_peers := hremove p (peers r),
          sp_hosts := hretain (\<lambda>_ host. hs_peer_id host \<noteq> p) (hosts r),
          sp_discoveries := hretain (\<lambda>_ d. ds_client_peer_id d \<noteq> p) (discoveries r),
          sp_gameplay := hretain (\<lambda>_ g. gs_client_peer_id g \<noteq> p \<and> gs_host_peer_id g \<noteq> p) (gameplay r)\<rparr>)) rid'"
      using ok(3,4) by (auto split: if_splits)
  qed (use own ok(4) in simp_all)
  ultimately show ?thesis
    using ok(1,2) own(1) by (simp add: spec_leave_def spec_members_def)
qed

lemma abs_remove_host: "abs_router (remove_host h r) = spec_drop_host h (abs_router r)"
proof -
  have "map_option rs_code (hget (rooms (remove_host h r)) rid) = map_option rs_code (hget (rooms r) rid)" for rid
    by simp
  then show ?thesis
    by (intro abs_eqI; cases "hget (hosts r) h")
      (auto simp: spec_drop_host_def remove_host_def Let_def split: option.split)
qed

lemma refine_insert_host:
  assumes inv: "router_inv r" and room: "hget (rooms r) rid = Some room"
  shows "refined (insert_new_host rid p peer now h r) =
    (if max_hosts_per_room (config r) \<le> hlen (spec_hosts (abs_router r) rid) then (Err (HostLimitReached rid), abs_router r)
     else (Ok h, (abs_router r)\<lparr>sp_hosts := hinsert h \<lparr>hs_room_id = rid, hs_peer_id = p, hs_virtual_ip = ps_virtual_ip peer,
        hs_last_heartbeat = now, hs_expires_at = now + host_ttl (config r)\<rparr> (hosts r)\<rparr>))"
  using room
proof (cases rule: insert_new_host_cases [where p = p and peer = peer and now = now and new_id = h])
  case err
  then show ?thesis using counts_computed(2) [OF inv room] by simp
next
  case ok
  then show ?thesis
    using counts_computed(2) [OF inv room] room by (auto intro!: abs_eqI)
qed

lemma refine_register:
  assumes inv: "router_inv r"
  shows "refined (register_host rid p now h r) = spec_register rid p now h (abs_router r)"
  using inv
proof (cases rule: register_host_cases [where rid = rid and p = p and now = now and new_id = h])
  case (err e)
  then show ?thesis by (simp add: spec_register_def member_computed [OF inv])
next
  case (first peer)
  then have "member_state r rid p = Ok peer" using member_state_iff [OF inv] by simp
  moreover obtain room where "hget (rooms r) rid = Some room"
    using peer_room_exists [OF inv first(1)] first(2) by metis
  ultimately show ?thesis
    using first refine_insert_host [OF inv, of rid room p peer now h]
    by (simp add: spec_register_def member_computed [OF inv] session_computed [OF inv] Let_def)
next
  case (again peer h0 host)
  then have "member_state r rid p = Ok peer" using member_state_iff [OF inv] by simp
  moreover have "hget (host_by_peer r) (rid, p) = Some h0" using again host_index_iff [OF inv] by blast
  ultimately show ?thesis
    using again by (auto simp: spec_register_def member_computed [OF inv] session_computed [OF inv] Let_def intro!: abs_eqI)
next
  case (stale peer h0 host)
  have "member_state r rid p = Ok peer" using stale member_state_iff [OF inv] by simp
  moreover have "hget (host_by_peer r) (rid, p) = Some h0" using stale host_index_iff [OF inv] by blast
  moreover have "hget (peers (remove_host h0 r)) p = Some peer" using stale by simp
  then obtain room where "hget (rooms (remove_host h0 r)) rid = Some room"
    using peer_room_exists [OF inv_remove_host [OF inv]] stale(2) by metis
  moreover note refine_insert_host [OF inv_remove_host [OF inv] this, of p peer now h]
  ultimately show ?thesis
    using stale
    by (simp add: spec_register_def member_computed [OF inv] session_computed [OF inv] Let_def abs_remove_host)
      (simp add: spec_drop_host_def)
qed

lemma refine_discovery:
  assumes inv: "router_inv r"
  shows "refined (begin_discovery rid client q port now r) = spec_discovery rid client q port now (abs_router r)"
proof (cases "is_discovery_port (port_num port)")
  case True
  show ?thesis
  proof (cases "member_state r rid client")
    case (Ok peer)
    then obtain room where room: "hget (rooms r) rid = Some room" using member_state_room by blast
    have abs: "abs_router (r\<lparr>discoveries := ds\<rparr>) = (abs_router r)\<lparr>sp_discoveries := ds\<rparr>" for ds
      by (simp add: abs_router_def)
    show ?thesis
    proof (cases "hget (discoveries r) q")
      case None
      then show ?thesis
        using True Ok room targets_computed [OF inv room]
        by (simp add: begin_discovery_def spec_discovery_def member_computed [OF inv] abs)
    next
      case (Some d)
      obtain rid0 client0 port0 t0 where "d = \<lparr>ds_room_id = rid0, ds_client_peer_id = client0,
          ds_destination_port = port0, ds_expires_at = t0\<rparr>"
        by (cases d)
      with Some show ?thesis
        using True Ok room targets_computed [OF inv room]
        by (auto simp: begin_discovery_def spec_discovery_def member_computed [OF inv] abs)
    qed
  qed (use True in \<open>simp_all add: begin_discovery_def spec_discovery_def member_computed [OF inv]\<close>)
qed (simp add: begin_discovery_def spec_discovery_def)

lemma expire_peers_codes:
  assumes "router_inv r"
  shows "map_option rs_code (hget (rooms (snd (expire_peers ps r))) rid) = map_option rs_code (hget (rooms r) rid)
    \<and> config (snd (expire_peers ps r)) = config r"
  using assms
proof (induction ps arbitrary: r)
  case (Cons p ps)
  show ?case
  proof (cases "hget (peers r) p")
    case (Some peer)
    obtain x r' where lr: "leave_room (ps_room_id peer) p r = (x, r')" by fastforce
    have x: "x = Ok ()" using leave_own_room(1) [OF Cons.prems Some] lr by simp
    have "refined (leave_room (ps_room_id peer) p r) = spec_leave (ps_room_id peer) p (abs_router r)"
      by (rule refine_leave [OF Cons.prems])
    then have "abs_router r' = (abs_router r)\<lparr>sp_peers := sp_peers (abs_router r'), sp_hosts := sp_hosts (abs_router r'),
        sp_discoveries := sp_discoveries (abs_router r'), sp_gameplay := sp_gameplay (abs_router r')\<rparr>"
      using lr x by (auto simp: spec_leave_def simp del: abs_simps split: if_splits)
    then have "sp_codes (abs_router r') = sp_codes (abs_router r)" "sp_config (abs_router r') = sp_config (abs_router r)"
      by (metis router_spec.ext_inject router_spec.surjective router_spec.update_convs(3-6))+
    then have "map_option rs_code (hget (rooms r') rid) = map_option rs_code (hget (rooms r) rid) \<and> config r' = config r"
      by (metis abs_simps(1,6))
    moreover have "router_inv r'" using inv_leave_room [OF Cons.prems] lr by (metis snd_conv)
    ultimately show ?thesis using Cons.IH [of r'] Some lr x by simp
  qed (use Cons in simp)
qed simp

lemma disconnect_peer_codes:
  "map_option rs_code (hget (rooms (disconnect_peer p now r)) rid) = map_option rs_code (hget (rooms r) rid)"
  by (simp add: disconnect_peer_def Let_def split: option.split)

lemma fold_disconnect_codes:
  "map_option rs_code (hget (rooms (fold (\<lambda>p. disconnect_peer p now) ps r)) rid) = map_option rs_code (hget (rooms r) rid)"
  by (induction ps arbitrary: r) (simp_all add: disconnect_peer_codes)

lemma refine_expire:
  assumes inv: "router_inv r"
  shows "abs_router (snd (expire now r)) = spec_expire now (abs_router r)"
proof -
  have snd: "snd (expire now r) = snd (expire_peers (lapsed_peers now (suspend_silent now r)) (suspend_silent now r))"
    unfolding expire_eq by (simp add: try_st_value)
  have frame: "map_option rs_code (hget (rooms (snd (expire now r))) rid) = map_option rs_code (hget (rooms r) rid)"
    "config (snd (expire now r)) = config r" for rid
    using expire_peers_codes [OF inv_suspend_silent [OF inv]]
    by (simp_all add: snd suspend_silent_def fold_disconnect_codes fold_disconnect(5) [OF inv_drop_expired [OF inv]])
      (simp add: drop_expired_def Let_def)
  have un: "spec_untouched (abs_router r) now = untouched r now"
    by (intro ext) (simp add: spec_untouched_def untouched_def cong: option.case_cong)
  show ?thesis
    using expire_tables [OF inv] frame
    by (intro abs_eqI fmap_eqI)
      (auto simp: spec_expire_def un hretain_nonempty conj_assoc split: option.split)
qed

text \<open>C4. The router refines its abstract specification: in every reachable state, creating and removing
  rooms, joining, leaving, registering a host, asking for hosts and expiring give exactly the result and
  the state the index-free specification gives, where leaving and expiry are a single restriction of
  each table and every limit, duplicate and membership test is computed from the tables of peers and hosts.\<close>

theorem router_refines_spec:
  assumes "run router_step (router_new c) es r"
  shows "(fst (create_room rid code r), abs_router (snd (create_room rid code r))) = spec_create rid code (abs_router r) \<and>
    (fst (remove_empty_room rid r), abs_router (snd (remove_empty_room rid r))) = spec_remove_room rid (abs_router r) \<and>
    (fst (join_room rid p ip now r), abs_router (snd (join_room rid p ip now r))) = spec_join rid p ip now (abs_router r) \<and>
    (fst (leave_room rid p r), abs_router (snd (leave_room rid p r))) = spec_leave rid p (abs_router r) \<and>
    (fst (register_host rid p now h r), abs_router (snd (register_host rid p now h r))) = spec_register rid p now h (abs_router r) \<and>
    (fst (begin_discovery rid p q port now r), abs_router (snd (begin_discovery rid p q port now r))) =
      spec_discovery rid p q port now (abs_router r) \<and>
    abs_router (snd (expire now r)) = spec_expire now (abs_router r)"
  using inv_run [OF assms] refine_create refine_remove_room refine_join refine_leave refine_register
    refine_discovery refine_expire by (intro conjI) blast+

theorem router_refines_spec_witness:
  "abs_router (snd (leave_room (RoomId 1) (PeerId 2) demo_play)) = snd (spec_leave (RoomId 1) (PeerId 2) (abs_router demo_play))"
  using router_refines_spec [OF demo_play_run, where rid = "RoomId 1" and p = "PeerId 2"] by (metis snd_conv)

text \<open>The indexes carry no information of their own: two reachable routers that agree on room codes, peers,
  host sessions, requests and gameplay sessions are equal, so member sets, the code and address lookups
  and the session index can never drift apart.\<close>

theorem indexes_determined:
  assumes "run router_step (router_new c) es r" and "run router_step (router_new c') es' r'"
    and "abs_router r = abs_router r'"
  shows "r = r'"
proof (rule room_router.equality)
  note inv = inv_run [OF assms(1)] and inv' = inv_run [OF assms(2)]
  show peers: "peers r = peers r'" and hosts: "hosts r = hosts r'" and "config r = config r'"
    and "discoveries r = discoveries r'" and "gameplay r = gameplay r'"
    using assms(3) by (metis abs_simps(1-5))+
  have codes: "map_option rs_code (hget (rooms r) rid) = map_option rs_code (hget (rooms r') rid)" for rid
    using assms(3) by (metis abs_simps(6))
  show rooms: "rooms r = rooms r'"
  proof (rule fmap_eqI)
    fix rid
    show "hget (rooms r) rid = hget (rooms r') rid"
    proof (cases "hget (rooms r) rid")
      case None
      then show ?thesis using codes [of rid] by (cases "hget (rooms r') rid") simp_all
    next
      case (Some room)
      then obtain room' where room': "hget (rooms r') rid = Some room'" "rs_code room = rs_code room'"
        using codes [of rid] by (cases "hget (rooms r') rid") simp_all
      have "rs_members room = rs_members room'" "rs_host_sessions room = rs_host_sessions room'"
        using members_computed [OF inv Some] members_computed [OF inv' room'(1)]
          hosts_computed [OF inv Some] hosts_computed [OF inv' room'(1)] assms(3) by simp_all
      with Some room' show ?thesis by simp
    qed
  qed
  show "rooms_by_code r = rooms_by_code r'"
  proof (rule fmap_eqI)
    fix code
    have "hget (rooms_by_code r) code = Some rid \<longleftrightarrow> hget (rooms_by_code r') code = Some rid" for rid
      using router_invD(1) [OF inv] router_invD(1) [OF inv'] rooms unfolding codes_agree_def by simp
    then show "hget (rooms_by_code r) code = hget (rooms_by_code r') code"
      by (metis not_None_eq)
  qed
  show "virtual_ips r = virtual_ips r'"
  proof (rule fmap_eqI)
    fix ip
    have "hget (virtual_ips r) ip = Some p \<longleftrightarrow> hget (virtual_ips r') ip = Some p" for p
      using router_invD(3) [OF inv] router_invD(3) [OF inv'] peers unfolding ips_agree_def by simp
    then show "hget (virtual_ips r) ip = hget (virtual_ips r') ip"
      by (metis not_None_eq)
  qed
  show "host_by_peer r = host_by_peer r'"
  proof (rule fmap_eqI)
    fix k
    show "hget (host_by_peer r) k = hget (host_by_peer r') k"
      using session_computed [OF inv, of "fst k" "snd k"] session_computed [OF inv', of "fst k" "snd k"] assms(3) by simp
  qed
qed simp

text \<open>The demo router again, with the rooms and the joins in another order.\<close>

definition demo_reordered :: "router_event list" where
  "demo_reordered =
    [CreateRoom (RoomId 2) (RoomCode [66]), JoinRoom (RoomId 2) (PeerId 3) (VirtualIp 3) 0,
     CreateRoom (RoomId 1) (RoomCode [65]), JoinRoom (RoomId 1) (PeerId 2) (VirtualIp 2) 0,
     RegisterHost (RoomId 2) (PeerId 3) 0 (HostSessionId 8),
     JoinRoom (RoomId 1) (PeerId 1) (VirtualIp 1) 0,
     RegisterHost (RoomId 1) (PeerId 2) 0 (HostSessionId 7)]"

theorem indexes_determined_witness: "apply_events demo_reordered (router_new demo_config) = demo_router"
proof (rule indexes_determined [OF _ demo_run])
  show "run router_step (router_new demo_config) demo_reordered (apply_events demo_reordered (router_new demo_config))"
    by (rule run_apply_events) (simp add: demo_reordered_def demo_config_def router_eval)
  show "abs_router (apply_events demo_reordered (router_new demo_config)) = abs_router demo_router"
    by (intro abs_eqI fmap_eqI) (auto simp: demo_reordered_def demo_eval)
qed

end
