(* ===== verification/Rate_Limiter.thy ===== *)
theory Rate_Limiter
  imports Protocol
begin

section \<open>The fixed-window rate limiter\<close>

text \<open>
  Models \<open>FixedWindowRateLimiter\<close> of \<open>server/src/state.rs\<close>, which guards the control API by client
  and the relay by source address. The clock reading of a call is an argument. The mutex is taken
  for the whole call, so a call is one step; its poisoned branch needs a panic inside the critical
  section, which has none.
\<close>

subsection \<open>The limiter\<close>

record rate_window =
  rw_started_at :: instant
  rw_count :: u64

record rate_limiter =
  rl_limit :: u64
  rl_window :: duration
  rl_entries :: "(rstring, rate_window) hash_map"

definition limiter_new :: "u64 \<Rightarrow> duration \<Rightarrow> rate_limiter" where
  "limiter_new limit window = \<lparr>rl_limit = limit, rl_window = window, rl_entries = fmempty\<rparr>"

definition allow :: "instant \<Rightarrow> rstring \<Rightarrow> rate_limiter \<Rightarrow> bool \<times> rate_limiter" where
  "allow now key l =
     (let entries = hretain (\<lambda>_ entry. duration_since now (rw_started_at entry) < rl_window l) (rl_entries l);
          entry = (case hget entries key of Some entry \<Rightarrow> entry | None \<Rightarrow> \<lparr>rw_started_at = now, rw_count = 0\<rparr>);
          entry = (if rl_window l \<le> duration_since now (rw_started_at entry)
                   then \<lparr>rw_started_at = now, rw_count = 0\<rparr> else entry)
      in if rl_limit l \<le> rw_count entry
         then (False, l\<lparr>rl_entries := hinsert key entry entries\<rparr>)
         else (True, l\<lparr>rl_entries := hinsert key (entry\<lparr>rw_count := rw_count entry + 1\<rparr>) entries\<rparr>))"

text \<open>A sequence of calls, each with its clock reading and key, and the answers.\<close>

fun allow_all :: "(instant \<times> rstring) list \<Rightarrow> rate_limiter \<Rightarrow> bool list" where
  "allow_all [] l = []"
| "allow_all ((now, key) # calls) l =
     (case allow now key l of (granted, l) \<Rightarrow> granted # allow_all calls l)"

subsection \<open>One key at a time\<close>

lemma limiter_frame [simp]:
  "rl_limit (snd (allow now key l)) = rl_limit l"
  "rl_window (snd (allow now key l)) = rl_window l"
  by (simp_all add: allow_def Let_def)

lemma unat_count_Suc: "\<not> limit \<le> (c :: u64) \<Longrightarrow> unat (c + 1) = unat c + 1"
  using unsigned_less [of limit, where 'a = nat] by (simp add: word_le_nat_alt unat_word_ariths(1))

text \<open>What a call makes of the entry of its own key: a live entry counts on, anything else starts afresh.\<close>

definition current_entry :: "rate_limiter \<Rightarrow> instant \<Rightarrow> rstring \<Rightarrow> rate_window" where
  "current_entry l now key = (case hget (rl_entries l) key of
     None \<Rightarrow> \<lparr>rw_started_at = now, rw_count = 0\<rparr>
   | Some entry \<Rightarrow> if duration_since now (rw_started_at entry) < rl_window l
       then entry else \<lparr>rw_started_at = now, rw_count = 0\<rparr>)"

lemma allow_own:
  "fst (allow now key l) \<longleftrightarrow> rw_count (current_entry l now key) < rl_limit l"
  "hget (rl_entries (snd (allow now key l))) key = Some (let entry = current_entry l now key in
     if rw_count entry < rl_limit l then entry\<lparr>rw_count := rw_count entry + 1\<rparr> else entry)"
  by (auto simp: allow_def current_entry_def Let_def not_le duration_since_def split: option.split)

lemma allow_other:
  "k \<noteq> key \<Longrightarrow> hget (rl_entries (snd (allow now key l))) k = (case hget (rl_entries l) k of
     None \<Rightarrow> None
   | Some entry \<Rightarrow> if duration_since now (rw_started_at entry) < rl_window l then Some entry else None)"
  by (simp add: allow_def Let_def split: option.split)

subsection \<open>How much a key gets\<close>

fun granted :: "rstring \<Rightarrow> (instant \<times> rstring) list \<Rightarrow> rate_limiter \<Rightarrow> nat" where
  "granted k [] l = 0"
| "granted k ((now, key) # calls) l =
     (if key = k \<and> fst (allow now key l) then 1 else 0) + granted k calls (snd (allow now key l))"

lemma granted_answers:
  "granted k calls l = length (filter (\<lambda>((now, key), answer). key = k \<and> answer) (zip calls (allow_all calls l)))"
  by (induction k calls l rule: granted.induct) (auto split: prod.split)

text \<open>What a key may still get before time \<open>t0 + window\<close>, given that it asks from \<open>t0\<close> on.\<close>

definition budget :: "rate_limiter \<Rightarrow> instant \<Rightarrow> rstring \<Rightarrow> nat" where
  "budget l t0 k = (case hget (rl_entries l) k of
     None \<Rightarrow> unat (rl_limit l)
   | Some entry \<Rightarrow> unat (rl_limit l) - unat (rw_count entry) + (if t0 \<le> rw_started_at entry then 0 else unat (rl_limit l)))"

lemma budget_step:
  assumes "t0 \<le> now" "now < t0 + rl_window l"
  shows "(if key = k \<and> fst (allow now key l) then 1 else 0) + budget (snd (allow now key l)) t0 k \<le> budget l t0 k"
proof (cases "key = k")
  case True
  have "unat c + 1 \<le> unat (rl_limit l) \<and> unat (c + 1) = unat c + 1" if "c < rl_limit l" for c
    using that unat_count_Suc [of "rl_limit l" c] by (simp add: word_less_nat_alt not_le)
  with assms True show ?thesis
    by (auto simp: budget_def allow_own current_entry_def Let_def duration_since_def word_less_nat_alt split: option.split)
next
  case False
  then show ?thesis
    using assms by (auto simp: budget_def allow_other duration_since_def split: option.split)
qed

lemma granted_le_budget:
  "\<forall>(now, key)\<in>set calls. t0 \<le> now \<and> now < t0 + rl_window l \<Longrightarrow> granted k calls l \<le> budget l t0 k"
proof (induction k calls l rule: granted.induct)
  case (2 k now key calls l)
  then have "granted k calls (snd (allow now key l)) \<le> budget (snd (allow now key l)) t0 k"
    by simp
  then show ?case using budget_step [of t0 now l key k] 2(2) by simp
qed simp

lemma budget_le: "budget l t0 k \<le> 2 * unat (rl_limit l)"
proof -
  have "unat (rl_limit l) - n \<le> unat (rl_limit l)" for n by simp
  then show ?thesis by (auto simp: budget_def split: option.split intro: le_trans)
qed

text \<open>Inside one window the answers are exact: the first calls are granted, up to the limit.\<close>

definition calls_of :: "rstring \<Rightarrow> (instant \<times> rstring) list \<Rightarrow> nat" where
  "calls_of k calls = length (filter (\<lambda>(_, key). key = k) calls)"

lemma calls_of_simps [simp]:
  "calls_of k [] = 0"
  "calls_of k ((now, key) # calls) = (if key = k then Suc (calls_of k calls) else calls_of k calls)"
  by (simp_all add: calls_of_def)

lemma granted_in_window:
  assumes "hget (rl_entries l) k = Some \<lparr>rw_started_at = s, rw_count = c\<rparr>" "c \<le> rl_limit l"
    and "\<forall>(now, key)\<in>set calls. duration_since now s < rl_window l"
  shows "granted k calls l = min (unat (rl_limit l) - unat c) (calls_of k calls)"
  using assms
proof (induction k calls l arbitrary: c rule: granted.induct)
  case (2 k now key calls l)
  have live: "duration_since now s < rl_window l"
    and rest: "\<forall>(t, _)\<in>set calls. duration_since t s < rl_window (snd (allow now key l))"
    using "2.prems"(3) by auto
  show ?case
  proof (cases "key = k \<and> c < rl_limit l")
    case True
    then have cur: "current_entry l now k = \<lparr>rw_started_at = s, rw_count = c\<rparr>"
      using "2.prems"(1) live by (simp add: current_entry_def)
    have c: "unat (c + 1) = unat c + 1" "c + 1 \<le> rl_limit l"
      using True unat_count_Suc [of "rl_limit l" c] by (auto simp: not_le word_le_nat_alt word_less_nat_alt)
    have "granted k calls (snd (allow now key l)) =
        min (unat (rl_limit (snd (allow now key l))) - unat (c + 1)) (calls_of k calls)"
      using True cur c(2) "2.prems"(3) by (intro "2.IH") (auto simp: allow_own Let_def)
    then show ?thesis
      using True cur c by (auto simp: allow_own word_less_nat_alt)
  next
    case False
    have "hget (rl_entries (snd (allow now key l))) k = Some \<lparr>rw_started_at = s, rw_count = c\<rparr>"
      using False "2.prems"(1) live by (cases "key = k") (auto simp: allow_own allow_other current_entry_def Let_def)
    then have "granted k calls (snd (allow now key l)) =
        min (unat (rl_limit (snd (allow now key l))) - unat c) (calls_of k calls)"
      using "2.prems"(2,3) by (intro "2.IH") auto
    moreover have "key = k \<Longrightarrow> \<not> fst (allow now key l) \<and> unat (rl_limit l) = unat c"
      using False "2.prems"(1,2) live by (auto simp: allow_own current_entry_def word_le_nat_alt word_less_nat_alt)
    ultimately show ?thesis by auto
  qed
qed simp

text \<open>An entry that is missing or has run out by \<open>t0\<close> opens a new window at the next call of its key.\<close>

definition lapsed :: "rate_limiter \<Rightarrow> instant \<Rightarrow> rstring \<Rightarrow> bool" where
  "lapsed l t0 k \<longleftrightarrow> (case hget (rl_entries l) k of
     None \<Rightarrow> True
   | Some entry \<Rightarrow> rl_window l \<le> duration_since t0 (rw_started_at entry))"

lemma lapsed_current: "lapsed l t0 k \<Longrightarrow> t0 \<le> now \<Longrightarrow> current_entry l now k = \<lparr>rw_started_at = now, rw_count = 0\<rparr>"
  by (auto simp: lapsed_def current_entry_def duration_since_def split: option.splits)

lemma lapsed_other: "lapsed l t0 k \<Longrightarrow> t0 \<le> now \<Longrightarrow> k \<noteq> key \<Longrightarrow> lapsed (snd (allow now key l)) t0 k"
  by (auto simp: lapsed_def allow_other duration_since_def split: option.splits)

lemma granted_lapsed:
  assumes "lapsed l t0 k"
    and "\<forall>(now, key)\<in>set calls. t0 \<le> now \<and> now < t0 + rl_window l"
  shows "granted k calls l = min (unat (rl_limit l)) (calls_of k calls)"
  using assms
proof (induction k calls l rule: granted.induct)
  case (2 k now key calls l)
  show ?case
  proof (cases "key = k")
    case False
    then show ?thesis using 2 by (auto simp: lapsed_other)
  next
    case True
    have cur: "current_entry l now k = \<lparr>rw_started_at = now, rw_count = 0\<rparr>"
      using "2.prems" by (auto intro: lapsed_current)
    have w: "\<forall>(t, _)\<in>set calls. duration_since t now < rl_window (snd (allow now key l))"
      using "2.prems"(2) by (auto simp: duration_since_def)
    show ?thesis
    proof (cases "rl_limit l = 0")
      case zero: True
      then have "hget (rl_entries (snd (allow now key l))) k = Some \<lparr>rw_started_at = now, rw_count = 0\<rparr>"
        using True cur by (simp add: allow_own)
      from granted_in_window [OF this _ w] show ?thesis
        using True zero cur by (auto simp: allow_own duration_since_def)
    next
      case False
      then have "hget (rl_entries (snd (allow now key l))) k = Some \<lparr>rw_started_at = now, rw_count = 1\<rparr>"
        using True cur by (simp add: allow_own word_neq_0_conv)
      from granted_in_window [OF this _ w] show ?thesis
        using True False cur word_neq_0_conv [of "rl_limit l"]
        by (auto simp: allow_own duration_since_def word_le_nat_alt word_less_nat_alt unat_eq_zero min_def)
    qed
  qed
qed simp

text \<open>C20. A fixed window: once the entry of a key has run out (or never was), the key is granted exactly the smaller
  of the limit and the number of its calls within a window length, whatever other keys do meanwhile, so a
  window that was used up opens again; while an entry lives, exactly what it has left. Windows start with
  a call, so an interval of one window length may touch two of them: in no such interval is a key granted
  more than twice the limit.\<close>

theorem rate_limiter_bounds:
  assumes "\<forall>(now, key)\<in>set calls. t0 \<le> now \<and> now < t0 + rl_window l"
  shows "length (filter (\<lambda>((now, key), answer). key = k \<and> answer) (zip calls (allow_all calls l))) \<le> 2 * unat (rl_limit l) \<and>
    (lapsed l t0 k \<longrightarrow>
      length (filter (\<lambda>((now, key), answer). key = k \<and> answer) (zip calls (allow_all calls l))) =
        min (unat (rl_limit l)) (length (filter (\<lambda>(_, key). key = k) calls))) \<and>
    (\<forall>entry. hget (rl_entries l) k = Some entry \<and> rw_count entry \<le> rl_limit l \<and>
        (\<forall>(now, _)\<in>set calls. now < rw_started_at entry + rl_window l) \<longrightarrow>
      length (filter (\<lambda>((now, key), answer). key = k \<and> answer) (zip calls (allow_all calls l))) =
        min (unat (rl_limit l) - unat (rw_count entry)) (length (filter (\<lambda>(_, key). key = k) calls)))"
  unfolding granted_answers [symmetric] calls_of_def [symmetric]
proof (intro conjI impI allI)
  show "granted k calls l \<le> 2 * unat (rl_limit l)"
    using granted_le_budget [OF assms, of k] budget_le [of l t0 k] by simp
  show "lapsed l t0 k \<Longrightarrow> granted k calls l = min (unat (rl_limit l)) (calls_of k calls)"
    by (rule granted_lapsed [OF _ assms])
next
  fix entry
  assume e: "hget (rl_entries l) k = Some entry \<and> rw_count entry \<le> rl_limit l \<and>
      (\<forall>(now, _)\<in>set calls. now < rw_started_at entry + rl_window l)"
  show "granted k calls l = min (unat (rl_limit l) - unat (rw_count entry)) (calls_of k calls)"
  proof (cases "rl_window l = 0")
    case True
    then have "calls = []" using assms by (cases calls) auto
    then show ?thesis by simp
  next
    case False
    then have "\<forall>(now, key)\<in>set calls. duration_since now (rw_started_at entry) < rl_window l"
      using e by (auto simp: duration_since_def)
    then show ?thesis using e by (cases entry) (intro granted_in_window, simp_all)
  qed
qed

definition demo_calls :: "(instant \<times> rstring) list" where
  "demo_calls = [(15, [49]), (16, [50]), (17, [49]), (18, [49])]"

definition demo_early :: "(instant \<times> rstring) list" where
  "demo_early = [(14, [49])]"

definition demo_limiter :: rate_limiter where
  "demo_limiter = (limiter_new 2 10)\<lparr>rl_entries := hinsert [49] \<lparr>rw_started_at = 5, rw_count = 2\<rparr> fmempty\<rparr>"

text \<open>A key that used up the window from 5 to 15 is refused at 14 and gets two more from 15 on.\<close>

theorem rate_limiter_bounds_witness:
  "length (filter (\<lambda>((now, key), answer). key = [49] \<and> answer) (zip demo_early (allow_all demo_early demo_limiter))) = 0 \<and>
   length (filter (\<lambda>((now, key), answer). key = [49] \<and> answer) (zip demo_calls (allow_all demo_calls demo_limiter))) = 2"
proof
  have "\<forall>(now, key)\<in>set demo_early. 14 \<le> now \<and> now < 14 + rl_window demo_limiter"
    by (simp add: demo_limiter_def limiter_new_def demo_early_def)
  from rate_limiter_bounds [OF this, of "[49]", THEN conjunct2, THEN conjunct2, rule_format,
      of "\<lparr>rw_started_at = 5, rw_count = 2\<rparr>"]
  have "length (filter (\<lambda>((now, key), answer). key = [49] \<and> answer) (zip demo_early (allow_all demo_early demo_limiter))) =
      min (unat (2 :: u64) - unat (2 :: u64)) 1"
    by (simp add: demo_limiter_def limiter_new_def demo_early_def del: allow_all.simps)
  then show "length (filter (\<lambda>((now, key), answer). key = [49] \<and> answer) (zip demo_early (allow_all demo_early demo_limiter))) = 0"
    by simp
  have "\<forall>(now, key)\<in>set demo_calls. 15 \<le> now \<and> now < 15 + rl_window demo_limiter"
    by (simp add: demo_limiter_def limiter_new_def demo_calls_def)
  moreover have "lapsed demo_limiter 15 [49]"
    by (simp add: lapsed_def demo_limiter_def limiter_new_def duration_since_def)
  ultimately have "length (filter (\<lambda>((now, key), answer). key = [49] \<and> answer) (zip demo_calls (allow_all demo_calls demo_limiter))) =
      min (unat (rl_limit demo_limiter)) (length (filter (\<lambda>(_, key). key = [49]) demo_calls))"
    using rate_limiter_bounds by blast
  also have "\<dots> = 2" by (simp add: demo_limiter_def limiter_new_def demo_calls_def)
  finally show "length (filter (\<lambda>((now, key), answer). key = [49] \<and> answer) (zip demo_calls (allow_all demo_calls demo_limiter))) = 2" .
qed

end
