(* ===== verification/Metrics.thy ===== *)
theory Metrics
  imports Router_Sessions
begin

section \<open>Relay metrics\<close>

text \<open>
  Models \<open>server/src/metrics.rs\<close>: the wrapping counters, the bounded cache of packet fingerprints and the
  bounded tracker of sequence numbers per peer. Each counter is an \<open>AtomicU64\<close> that only ever
  moves by \<open>fetch_add\<close>, which wraps, and each mutex is held for the whole update, so a method is
  one step. The fingerprint (\<open>DefaultHasher\<close>, whose algorithm the standard library leaves open), the
  clock and the Unix time are arguments.
\<close>

subsection \<open>State\<close>

definition MAX_SEEN_PACKETS :: nat where "MAX_SEEN_PACKETS = 65536"
definition MAX_SEQUENCE_TRACKERS :: nat where "MAX_SEQUENCE_TRACKERS = 65536"
definition SEEN_PACKET_TTL :: duration where "SEEN_PACKET_TTL = from_secs 60"
definition SEEN_PACKET_CLEANUP_INTERVAL :: duration where "SEEN_PACKET_CLEANUP_INTERVAL = from_secs 1"

record seen_packet_cache =
  sc_entries :: "(u64, instant) hash_map"
  sc_last_cleanup :: instant

datatype sequence_disposition = SeqLegacy | SeqNew | SeqDuplicate | SeqReordered

record relay_metrics =
  received_packets :: u64
  sent_packets :: u64
  dropped_packets :: u64
  duplicated_packets :: u64
  authentication_failures :: u64
  bytes_in :: u64
  bytes_out :: u64
  seen_packets :: seen_packet_cache
  last_seen :: "(peer_id, u64) hash_map"
  reordered_packets :: u64
  sequence_duplicates :: u64
  rate_limited_packets :: u64
  oversized_packets :: u64
  probe_successes :: u64
  probe_failures :: u64
  last_probe_at_ms :: u64

text \<open>\<open>RelayMetrics::default()\<close> at time \<open>now\<close>.\<close>

definition metrics_default :: "instant \<Rightarrow> relay_metrics" where
  "metrics_default now = \<lparr>received_packets = 0, sent_packets = 0, dropped_packets = 0, duplicated_packets = 0,
     authentication_failures = 0, bytes_in = 0, bytes_out = 0,
     seen_packets = \<lparr>sc_entries = fmempty, sc_last_cleanup = now\<rparr>, last_seen = fmempty,
     reordered_packets = 0, sequence_duplicates = 0, rate_limited_packets = 0, oversized_packets = 0,
     probe_successes = 0, probe_failures = 0, last_probe_at_ms = 0\<rparr>"

record relay_metrics_snapshot =
  snap_sent_packets :: u64
  snap_received_packets :: u64
  snap_dropped_packets :: u64
  snap_duplicated_packets :: u64
  snap_reordered_packets :: u64
  snap_sequence_duplicates :: u64
  snap_rate_limited_packets :: u64
  snap_oversized_packets :: u64
  snap_probe_successes :: u64
  snap_probe_failures :: u64
  snap_last_probe_at_ms :: u64
  snap_bytes_in :: u64
  snap_bytes_out :: u64
  snap_active_peers :: nat
  snap_suspended_peers :: nat
  snap_active_rooms :: nat
  snap_active_hosts :: nat
  snap_active_gameplay_sessions :: nat
  snap_authentication_failures :: u64

subsection \<open>Operations\<close>

text \<open>The closure run under the \<open>seen_packets\<close> mutex.\<close>

definition note_fingerprint :: "u64 \<Rightarrow> instant \<Rightarrow> seen_packet_cache \<Rightarrow> bool \<times> seen_packet_cache" where
  "note_fingerprint fingerprint now seen =
     (let seen = (if SEEN_PACKET_CLEANUP_INTERVAL \<le> duration_since now (sc_last_cleanup seen)
                  then \<lparr>sc_entries = hretain (\<lambda>_ timestamp. duration_since now timestamp \<le> SEEN_PACKET_TTL) (sc_entries seen),
                        sc_last_cleanup = now\<rparr>
                  else seen);
          duplicate = hcontains fingerprint (sc_entries seen);
          seen = (if \<not> duplicate \<and> MAX_SEEN_PACKETS \<le> hlen (sc_entries seen)
                  then seen\<lparr>sc_entries := fmempty\<rparr> else seen)
      in (duplicate, seen\<lparr>sc_entries := hinsert fingerprint now (sc_entries seen)\<rparr>))"

definition record_received :: "(byte list \<Rightarrow> u64) \<Rightarrow> instant \<Rightarrow> byte list \<Rightarrow> relay_metrics \<Rightarrow> relay_metrics" where
  "record_received fingerprint now packet m =
     (let m = m\<lparr>received_packets := received_packets m + 1\<rparr>;
          m = m\<lparr>bytes_in := bytes_in m + word_of_nat (length packet)\<rparr>;
          (duplicate, seen) = note_fingerprint (fingerprint packet) now (seen_packets m);
          m = m\<lparr>seen_packets := seen\<rparr>
      in if duplicate then m\<lparr>duplicated_packets := duplicated_packets m + 1\<rparr> else m)"

definition record_sent :: "nat \<Rightarrow> relay_metrics \<Rightarrow> relay_metrics" where
  "record_sent packet_len m =
     m\<lparr>sent_packets := sent_packets m + 1, bytes_out := bytes_out m + word_of_nat packet_len\<rparr>"

definition record_sequence :: "peer_id \<Rightarrow> u64 \<Rightarrow> relay_metrics \<Rightarrow> sequence_disposition \<times> relay_metrics" where
  "record_sequence p sequence m =
     (if sequence = 0 then (SeqLegacy, m)
      else case hget (last_seen m) p of
        None \<Rightarrow>
          let m = (if MAX_SEQUENCE_TRACKERS \<le> hlen (last_seen m) then m\<lparr>last_seen := fmempty\<rparr> else m)
          in (SeqNew, m\<lparr>last_seen := hinsert p sequence (last_seen m)\<rparr>)
      | Some previous \<Rightarrow>
          if sequence = previous
          then (SeqDuplicate, m\<lparr>sequence_duplicates := sequence_duplicates m + 1\<rparr>)
          else if sequence < previous
          then (SeqReordered, m\<lparr>reordered_packets := reordered_packets m + 1\<rparr>)
          else (SeqNew, m\<lparr>last_seen := hinsert p sequence (last_seen m)\<rparr>))"

definition record_rate_limited :: "relay_metrics \<Rightarrow> relay_metrics" where
  "record_rate_limited m = m\<lparr>rate_limited_packets := rate_limited_packets m + 1\<rparr>"

definition record_oversized :: "relay_metrics \<Rightarrow> relay_metrics" where
  "record_oversized m = m\<lparr>oversized_packets := oversized_packets m + 1\<rparr>"

definition record_probe :: "u64 \<Rightarrow> bool \<Rightarrow> relay_metrics \<Rightarrow> relay_metrics" where
  "record_probe unix_ms success m =
     (let m = (if success then m\<lparr>probe_successes := probe_successes m + 1\<rparr>
               else m\<lparr>probe_failures := probe_failures m + 1\<rparr>)
      in m\<lparr>last_probe_at_ms := unix_ms\<rparr>)"

definition record_authentication_failure :: "relay_metrics \<Rightarrow> relay_metrics" where
  "record_authentication_failure m = m\<lparr>authentication_failures := authentication_failures m + 1\<rparr>"

definition record_drop :: "bool \<Rightarrow> relay_metrics \<Rightarrow> relay_metrics" where
  "record_drop authentication_failure m =
     (let m = m\<lparr>dropped_packets := dropped_packets m + 1\<rparr>
      in if authentication_failure then record_authentication_failure m else m)"

definition metrics_snapshot :: "router_stats \<Rightarrow> relay_metrics \<Rightarrow> relay_metrics_snapshot" where
  "metrics_snapshot router m = \<lparr>
     snap_sent_packets = sent_packets m, snap_received_packets = received_packets m,
     snap_dropped_packets = dropped_packets m, snap_duplicated_packets = duplicated_packets m,
     snap_reordered_packets = reordered_packets m, snap_sequence_duplicates = sequence_duplicates m,
     snap_rate_limited_packets = rate_limited_packets m, snap_oversized_packets = oversized_packets m,
     snap_probe_successes = probe_successes m, snap_probe_failures = probe_failures m,
     snap_last_probe_at_ms = last_probe_at_ms m, snap_bytes_in = bytes_in m, snap_bytes_out = bytes_out m,
     snap_active_peers = active_peers router, snap_suspended_peers = suspended_peers router,
     snap_active_rooms = active_rooms router, snap_active_hosts = active_hosts router,
     snap_active_gameplay_sessions = active_gameplay_sessions router,
     snap_authentication_failures = authentication_failures m\<rparr>"

subsection \<open>Memory stays bounded\<close>

datatype metric_event =
    Received "byte list" instant
  | Sent nat
  | Sequence peer_id u64
  | RateLimited
  | Oversized
  | Probe u64 bool
  | Drop bool
  | AuthenticationFailure

fun apply_metric :: "(byte list \<Rightarrow> u64) \<Rightarrow> metric_event \<Rightarrow> relay_metrics \<Rightarrow> relay_metrics" where
  "apply_metric fp (Received packet now) m = record_received fp now packet m"
| "apply_metric fp (Sent n) m = record_sent n m"
| "apply_metric fp (Sequence p s) m = snd (record_sequence p s m)"
| "apply_metric fp RateLimited m = record_rate_limited m"
| "apply_metric fp Oversized m = record_oversized m"
| "apply_metric fp (Probe ms success) m = record_probe ms success m"
| "apply_metric fp (Drop auth) m = record_drop auth m"
| "apply_metric fp AuthenticationFailure m = record_authentication_failure m"

inductive metric_step :: "(byte list \<Rightarrow> u64) \<Rightarrow> relay_metrics \<Rightarrow> metric_event \<Rightarrow> relay_metrics \<Rightarrow> bool" for fp where
  "metric_step fp m e (apply_metric fp e m)"

inductive_cases metric_stepE: "metric_step fp m e m'"
inductive_simps metric_step_iff: "metric_step fp m e m'"

definition caches_bounded :: "relay_metrics \<Rightarrow> bool" where
  "caches_bounded m \<longleftrightarrow> hlen (sc_entries (seen_packets m)) \<le> MAX_SEEN_PACKETS \<and>
     hlen (last_seen m) \<le> MAX_SEQUENCE_TRACKERS"

lemma note_fingerprint_bounded:
  assumes "hlen (sc_entries seen) \<le> MAX_SEEN_PACKETS"
  shows "hlen (sc_entries (snd (note_fingerprint f now seen))) \<le> MAX_SEEN_PACKETS"
proof -
  have "hlen (hretain P m) \<le> MAX_SEEN_PACKETS" if "hlen m \<le> MAX_SEEN_PACKETS" for P and m :: "(u64, instant) hash_map"
    using hlen_retain_le [of P m] that by simp
  then show ?thesis
    using assms by (auto simp: note_fingerprint_def Let_def hlen_insert MAX_SEEN_PACKETS_def not_le Suc_le_eq simp del: hget_retain)
qed

lemma record_received_frame [simp]:
  "last_seen (record_received fp now packet m) = last_seen m"
  "seen_packets (record_received fp now packet m) = snd (note_fingerprint (fp packet) now (seen_packets m))"
  by (simp_all add: record_received_def Let_def split: prod.split)

lemma record_sequence_bounded:
  "hlen (last_seen m) \<le> MAX_SEQUENCE_TRACKERS \<Longrightarrow> hlen (last_seen (snd (record_sequence p s m))) \<le> MAX_SEQUENCE_TRACKERS"
  by (auto simp: record_sequence_def Let_def hlen_insert MAX_SEQUENCE_TRACKERS_def split: option.split)

lemma record_sequence_seen [simp]: "seen_packets (snd (record_sequence p s m)) = seen_packets m"
  by (simp add: record_sequence_def Let_def split: option.split)

lemma apply_metric_bounded: "caches_bounded m \<Longrightarrow> caches_bounded (apply_metric fp e m)"
  by (cases e) (simp_all add: caches_bounded_def note_fingerprint_bounded record_sequence_bounded record_sent_def
      record_rate_limited_def record_oversized_def record_probe_def record_drop_def record_authentication_failure_def Let_def)

interpretation metric_run: step_invariant "metric_step fp" caches_bounded for fp
  by unfold_locales (auto elim!: metric_stepE intro: apply_metric_bounded)

lemma caches_bounded_default: "caches_bounded (metrics_default now)"
  by (simp add: caches_bounded_def metrics_default_def)

text \<open>C19. Metrics never grow without bound: after any sequence of recordings the fingerprint cache holds at
  most 65536 entries and the sequence tracker at most 65536 peers, whatever the packets and peers are.\<close>

theorem metrics_bounded:
  assumes "run (metric_step fp) (metrics_default now) es m"
  shows "hlen (sc_entries (seen_packets m)) \<le> 65536 \<and> hlen (last_seen m) \<le> 65536"
  using metric_run.run_keeps [OF assms caches_bounded_default]
  by (simp add: caches_bounded_def MAX_SEEN_PACKETS_def MAX_SEQUENCE_TRACKERS_def)

theorem metrics_bounded_witness:
  "hlen (last_seen (snd (record_sequence (PeerId 1) 7 (metrics_default 0)))) \<le> 65536"
proof -
  have "run (metric_step (\<lambda>_. 0)) (metrics_default 0) [Sequence (PeerId 1) 7]
      (snd (record_sequence (PeerId 1) 7 (metrics_default 0)))"
    by (simp add: metric_step_iff)
  from metrics_bounded [OF this] show ?thesis by simp
qed

subsection \<open>Sequence numbers\<close>

text \<open>Recording the sequence numbers of a list of packets, and the highest a peer has used.\<close>

fun record_all :: "(peer_id \<times> u64) list \<Rightarrow> relay_metrics \<Rightarrow> relay_metrics" where
  "record_all [] m = m"
| "record_all ((p, s) # ps) m = record_all ps (snd (record_sequence p s m))"

lemma record_all_snoc: "record_all (ps @ [(p, s)]) m = snd (record_sequence p s (record_all ps m))"
  by (induction ps m rule: record_all.induct) simp_all

definition highest :: "peer_id \<Rightarrow> (peer_id \<times> u64) list \<Rightarrow> u64" where
  "highest p ps = fold (\<lambda>(q, s) h. if q = p then max h s else h) ps 0"

lemma highest_snoc [simp]: "highest p (ps @ [(q, s)]) = (if q = p then max (highest p ps) s else highest p ps)"
  by (simp add: highest_def)

lemma highest_Nil [simp]: "highest p [] = 0"
  by (simp add: highest_def)

lemma highest_below: "(p, s) \<in> set ps \<Longrightarrow> s \<le> highest p ps"
  by (induction ps rule: rev_induct) (auto simp: le_max_iff_disj)

lemma highest_attained: "highest p ps \<noteq> 0 \<Longrightarrow> (p, highest p ps) \<in> set ps"
  by (induction ps rule: rev_induct) (auto simp: max_def split: if_splits)

text \<open>
  The part of a history the tracker still knows: it is emptied when a peer it does not know numbers a packet while
  it holds as many peers as it may. Packets without a number (0) do not reach it.
\<close>

definition numbering_peers :: "(peer_id \<times> u64) list \<Rightarrow> peer_id set" where
  "numbering_peers ps = fst ` set (filter (\<lambda>(_, s). s \<noteq> 0) ps)"

definition keep :: "peer_id \<times> u64 \<Rightarrow> (peer_id \<times> u64) list \<Rightarrow> (peer_id \<times> u64) list" where
  "keep x kept =
     (if snd x \<noteq> 0 \<and> fst x \<notin> numbering_peers kept \<and> MAX_SEQUENCE_TRACKERS \<le> card (numbering_peers kept)
      then [x] else kept @ [x])"

definition remembered :: "(peer_id \<times> u64) list \<Rightarrow> (peer_id \<times> u64) list" where
  "remembered ps = fold keep ps []"

lemma remembered_simps [simp]: "remembered [] = []" "remembered (ps @ [x]) = keep x (remembered ps)"
  by (simp_all add: remembered_def)

lemma numbering_peers_simps [simp]:
  "numbering_peers [] = {}"
  "numbering_peers (ps @ [(p, s)]) = (if s = 0 then numbering_peers ps else insert p (numbering_peers ps))"
  by (simp_all add: numbering_peers_def)

lemma numbering_peers_one [simp]: "numbering_peers [(p, s)] = (if s = 0 then {} else {p})"
  by (simp add: numbering_peers_def)

lemma numbering_peers_finite [simp]: "finite (numbering_peers ps)"
  by (simp add: numbering_peers_def)

lemma highest_numbering: "highest p ps = 0 \<longleftrightarrow> p \<notin> numbering_peers ps"
proof (induction ps rule: rev_induct)
  case (snoc x ps)
  have "max a b = 0 \<longleftrightarrow> a = 0 \<and> b = 0" for a b :: u64
    by (auto simp: max_def)
  then show ?case using snoc by (cases x) auto
qed simp

lemma remembered_suffix: "\<exists>forgotten. ps = forgotten @ remembered ps"
proof (induction ps rule: rev_induct)
  case (snoc x ps)
  then obtain forgotten where "ps = forgotten @ remembered ps" by blast
  then have "ps @ [x] = forgotten @ remembered ps @ [x]" by simp
  then show ?case by (auto simp: keep_def)
qed simp

lemma remembered_all: "card (numbering_peers ps) \<le> MAX_SEQUENCE_TRACKERS \<Longrightarrow> remembered ps = ps"
proof (induction ps rule: rev_induct)
  case (snoc x ps)
  obtain p s where x: "x = (p, s)" by fastforce
  have "card (numbering_peers ps) \<le> card (numbering_peers (ps @ [x]))"
    by (rule card_mono) (auto simp: x)
  with snoc have "remembered ps = ps" by simp
  moreover have "card (numbering_peers ps) < MAX_SEQUENCE_TRACKERS" if "s \<noteq> 0" "p \<notin> numbering_peers ps"
    using snoc.prems that by (simp add: x)
  ultimately show ?case by (auto simp: x keep_def)
qed simp

text \<open>The tracker knows exactly the highest number of each peer in that part.\<close>

lemma tracker_exact:
  assumes "last_seen m = fmempty"
  shows "hget (last_seen (record_all ps m)) p =
      (if highest p (remembered ps) = 0 then None else Some (highest p (remembered ps)))"
proof (induction ps arbitrary: p rule: rev_induct)
  case Nil
  then show ?case using assms by simp
next
  case (snoc x ps)
  obtain q s where x: "x = (q, s)" by fastforce
  let ?m = "record_all ps m"
  have "fset (fmdom (last_seen ?m)) = numbering_peers (remembered ps)"
    using snoc.IH by (auto simp: fmdom_lookup_iff highest_numbering split: if_splits)
  then have full: "hlen (last_seen ?m) = card (numbering_peers (remembered ps))"
    by (simp add: hlen_def fcard.rep_eq)
  have "highest p [(q, s)] = (if p = q then s else 0)"
    using highest_snoc [of p "[]" q s] by simp
  then show ?case
    using snoc.IH [of p] snoc.IH [of q] highest_numbering [of q "remembered ps"]
    by (auto simp: x record_all_snoc record_sequence_def Let_def max_def word_neq_0_conv not_le keep_def full
        split: option.split if_splits)
qed

text \<open>C18. Sequence numbers are classified against the highest one remembered of the peer. After any history the
  next number of a peer is legacy if it is 0, new exactly if it exceeds every number of that peer in the
  remembered part of the history, a duplicate exactly if it equals the highest there, and otherwise reordered,
  so a copy of an older packet counts as reordered, not duplicate. The remembered part is the end of
  the history since the tracker was last emptied, and all of it as long as no more than 65536 peers have numbered packets.\<close>

theorem sequence_classification:
  "(\<exists>forgotten. ps = forgotten @ remembered ps) \<and>
   (card (numbering_peers ps) \<le> 65536 \<longrightarrow> remembered ps = ps) \<and>
   fst (record_sequence p s (record_all ps (metrics_default now))) =
    (if s = 0 then SeqLegacy
     else if \<forall>(q, s')\<in>set (remembered ps). q = p \<longrightarrow> s' < s then SeqNew
     else if (p, s) \<in> set (remembered ps) \<and> (\<forall>(q, s')\<in>set (remembered ps). q = p \<longrightarrow> s' \<le> s) then SeqDuplicate
     else SeqReordered)"
proof (intro conjI impI)
  show "\<exists>forgotten. ps = forgotten @ remembered ps" by (rule remembered_suffix)
  show "card (numbering_peers ps) \<le> 65536 \<Longrightarrow> remembered ps = ps"
    by (rule remembered_all) (simp add: MAX_SEQUENCE_TRACKERS_def)
  let ?h = "highest p (remembered ps)"
  have new: "(\<forall>(q, s')\<in>set (remembered ps). q = p \<longrightarrow> s' < s) \<longleftrightarrow> ?h < s" if "s \<noteq> 0"
    using highest_below [of p _ "remembered ps"] highest_attained [of p "remembered ps"] that
    by (cases "?h = 0") (auto simp: word_neq_0_conv intro: le_less_trans)
  have dup: "(p, s) \<in> set (remembered ps) \<and> (\<forall>(q, s')\<in>set (remembered ps). q = p \<longrightarrow> s' \<le> s) \<longleftrightarrow> s = ?h" if s: "s \<noteq> 0"
  proof
    assume *: "(p, s) \<in> set (remembered ps) \<and> (\<forall>(q, s')\<in>set (remembered ps). q = p \<longrightarrow> s' \<le> s)"
    then have le: "s \<le> ?h" using highest_below by auto
    with s have "?h \<noteq> 0" by auto
    then have "?h \<le> s" using highest_attained * by blast
    with le show "s = ?h" by simp
  next
    assume "s = ?h"
    then show "(p, s) \<in> set (remembered ps) \<and> (\<forall>(q, s')\<in>set (remembered ps). q = p \<longrightarrow> s' \<le> s)"
      using highest_below highest_attained s by auto
  qed
  have "last_seen (metrics_default now) = fmempty" by (simp add: metrics_default_def)
  from tracker_exact [OF this, of ps p] show "fst (record_sequence p s (record_all ps (metrics_default now))) =
    (if s = 0 then SeqLegacy
     else if \<forall>(q, s')\<in>set (remembered ps). q = p \<longrightarrow> s' < s then SeqNew
     else if (p, s) \<in> set (remembered ps) \<and> (\<forall>(q, s')\<in>set (remembered ps). q = p \<longrightarrow> s' \<le> s) then SeqDuplicate
     else SeqReordered)"
    using new dup by (auto simp: record_sequence_def Let_def word_neq_0_conv split: option.split)
qed

theorem sequence_classification_witness:
  "fst (record_sequence (PeerId 1) 5 (record_all [(PeerId 1, 5), (PeerId 2, 9), (PeerId 1, 7)] (metrics_default 0))) = SeqReordered"
proof -
  let ?ps = "[(PeerId 1, 5 :: u64), (PeerId 2, 9), (PeerId 1, 7)]"
  have "card (numbering_peers ?ps) \<le> 65536"
    by (simp add: numbering_peers_def card_insert_if)
  with sequence_classification [of ?ps "PeerId 1" 5 0] have "remembered ?ps = ?ps" by blast
  with sequence_classification [of ?ps "PeerId 1" 5 0] show ?thesis by simp
qed

end
