(* ===== verification/App_State.thy ===== *)
theory App_State
  imports Router_Spec Rate_Limiter Metrics
begin

section \<open>The shared state of the server\<close>

text \<open>
  Models \<open>server/src/state.rs\<close> (\<open>AppState\<close>, its constructors, the restoration of persisted rooms and
  peers, address allocation) and the data of \<open>server/src/db.rs\<close> and \<open>server/src/wireguard.rs\<close> that
  it uses, with the \<open>wg\<close> argument vectors. Every field behind an \<open>Arc<Mutex>\<close> or \<open>Arc<RwLock>\<close> is a field of
  the state. Postgres and the \<open>wg\<close> command are outside: whether a call succeeds is an argument.
\<close>

subsection \<open>WireGuard arguments\<close>

datatype wireguard_manager = WireGuardManager (wg_interface: rstring)

datatype wireguard_error =
    InvalidPublicKey
  | CommandFailed rstring
  | WgIo
  | InvalidOutput

definition PERSISTENT_KEEPALIVE_SECONDS :: u16 where "PERSISTENT_KEEPALIVE_SECONDS = 25"

text \<open>Base64 decoding is the \<open>base64\<close> crate's: an argument.\<close>

definition validate_public_key :: "(rstring \<Rightarrow> byte list option) \<Rightarrow> rstring \<Rightarrow> (unit, wireguard_error) result" where
  "validate_public_key decode public_key =
     and_then (ok_or InvalidPublicKey (decode public_key)) (\<lambda>decoded.
       if length decoded = 32 then Ok () else Err InvalidPublicKey)"

definition virtual_ip_cidr :: "virtual_ip \<Rightarrow> rstring" where
  "virtual_ip_cidr ip = rstr (ipv4_to_string (address ip) @ ''/32'')"

definition add_peer_args :: "wireguard_manager \<Rightarrow> rstring \<Rightarrow> virtual_ip \<Rightarrow> rstring list" where
  "add_peer_args m public_key ip =
     [rstr ''set'', wg_interface m, rstr ''peer'', public_key, rstr ''allowed-ips'',
      rstr (ipv4_to_string (address ip) @ ''/32''), rstr ''persistent-keepalive'',
      rstr (dec_str (unat PERSISTENT_KEEPALIVE_SECONDS))]"

definition remove_peer_args :: "wireguard_manager \<Rightarrow> rstring \<Rightarrow> rstring list" where
  "remove_peer_args m public_key =
     [rstr ''set'', wg_interface m, rstr ''peer'', public_key, rstr ''remove'']"

text \<open>\<open>wg\<close> stands for running the command with an argument vector.\<close>

definition add_peer ::
  "(rstring \<Rightarrow> byte list option) \<Rightarrow> (rstring list \<Rightarrow> (unit, wireguard_error) result) \<Rightarrow>
   wireguard_manager \<Rightarrow> rstring \<Rightarrow> virtual_ip \<Rightarrow> (unit, wireguard_error) result" where
  "add_peer decode wg m public_key ip =
     and_then (validate_public_key decode public_key) (\<lambda>_. wg (add_peer_args m public_key ip))"

definition remove_peer ::
  "(rstring \<Rightarrow> byte list option) \<Rightarrow> (rstring list \<Rightarrow> (unit, wireguard_error) result) \<Rightarrow>
   wireguard_manager \<Rightarrow> rstring \<Rightarrow> (unit, wireguard_error) result" where
  "remove_peer decode wg m public_key =
     and_then (validate_public_key decode public_key) (\<lambda>_. wg (remove_peer_args m public_key))"

subsection \<open>Application state\<close>

definition API_REQUESTS_PER_SECOND :: u64 where "API_REQUESTS_PER_SECOND = 120"
definition UDP_PACKETS_PER_SECOND :: u64 where "UDP_PACKETS_PER_SECOND = 2000"
definition CLIENT_SESSION_TTL :: duration where "CLIENT_SESSION_TTL = from_secs (30 * 24 * 60 * 60)"

datatype user_account = UserAccount (password_hash: rstring)
datatype client_session = ClientSession (session_expires_at: instant)

record app_state =
  router :: room_router
  bearer_token :: rstring
  has_database :: bool
  wireguard :: "wireguard_manager option"
  peer_keys :: "(peer_id, rstring) hash_map"
  users :: "(rstring, user_account) hash_map"
  client_sessions :: "(rstring, client_session) hash_map"
  metrics :: relay_metrics
  api_rate_limiter :: rate_limiter
  udp_rate_limiter :: rate_limiter
  virtual_ip_prefix :: "byte \<times> byte \<times> byte"

definition app_new :: "instant \<Rightarrow> rstring \<Rightarrow> app_state" where
  "app_new now token = \<lparr>router = router_new default_config, bearer_token = token, has_database = False,
     wireguard = None, peer_keys = fmempty, users = fmempty, client_sessions = fmempty,
     metrics = metrics_default now,
     api_rate_limiter = limiter_new API_REQUESTS_PER_SECOND (from_secs 1),
     udp_rate_limiter = limiter_new UDP_PACKETS_PER_SECOND (from_secs 1),
     virtual_ip_prefix = (10, 240, 0)\<rparr>"

definition with_database :: "app_state \<Rightarrow> app_state" where
  "with_database a = a\<lparr>has_database := True\<rparr>"

definition with_wireguard :: "wireguard_manager \<Rightarrow> app_state \<Rightarrow> app_state" where
  "with_wireguard m a = a\<lparr>wireguard := Some m\<rparr>"

definition with_virtual_ip_prefix :: "byte \<times> byte \<times> byte \<Rightarrow> app_state \<Rightarrow> app_state" where
  "with_virtual_ip_prefix prefix a = a\<lparr>virtual_ip_prefix := prefix\<rparr>"

subsection \<open>Restoring what the database kept\<close>

record persisted_room =
  pr_room_id :: room_id
  pr_room_code :: room_code

record persisted_peer =
  pp_room_id :: room_id
  pp_peer_id :: peer_id
  pp_virtual_ip :: virtual_ip
  pp_wireguard_public_key :: rstring

record persisted_state =
  pst_rooms :: "persisted_room list"
  pst_peers :: "persisted_peer list"

fun restore_rooms :: "persisted_room list \<Rightarrow> app_state \<Rightarrow> (unit, router_error) result \<times> app_state" where
  "restore_rooms [] a = (Ok (), a)"
| "restore_rooms (room # rest) a =
     (case create_room_with_id (pr_room_id room) (pr_room_code room) (router a) of
        (res, r) \<Rightarrow> try_st (res, a\<lparr>router := r\<rparr>) (\<lambda>_ a. restore_rooms rest a))"

fun restore_peers :: "instant \<Rightarrow> persisted_peer list \<Rightarrow> app_state \<Rightarrow> (unit, router_error) result \<times> app_state" where
  "restore_peers now [] a = (Ok (), a)"
| "restore_peers now (peer # rest) a =
     (case restore_peer (pp_room_id peer) (pp_peer_id peer) (pp_virtual_ip peer) now (router a) of
        (res, r) \<Rightarrow> try_st (res, a\<lparr>router := r\<rparr>) (\<lambda>_ a.
          restore_peers now rest (a\<lparr>peer_keys := hinsert (pp_peer_id peer) (pp_wireguard_public_key peer) (peer_keys a)\<rparr>)))"

definition restore_persisted_state ::
  "instant \<Rightarrow> persisted_state \<Rightarrow> app_state \<Rightarrow> (unit, router_error) result \<times> app_state" where
  "restore_persisted_state now persisted a =
     try_st (restore_rooms (pst_rooms persisted) a) (\<lambda>_ a. restore_peers now (pst_peers persisted) a)"

text \<open>Re-adding the restored peers to WireGuard, stopping at the first failure.\<close>

fun restore_wireguard_loop ::
  "(rstring \<Rightarrow> byte list option) \<Rightarrow> (rstring list \<Rightarrow> (unit, wireguard_error) result) \<Rightarrow>
   wireguard_manager \<Rightarrow> room_router \<Rightarrow> (peer_id \<times> rstring) list \<Rightarrow> nat \<Rightarrow> (nat, wireguard_error) result" where
  "restore_wireguard_loop decode wg m r [] restored = Ok restored"
| "restore_wireguard_loop decode wg m r ((p, public_key) # keys) restored =
     (case peer_virtual_ip r p of
        Some ip \<Rightarrow> and_then (add_peer decode wg m public_key ip) (\<lambda>_.
          restore_wireguard_loop decode wg m r keys (restored + 1))
      | None \<Rightarrow> restore_wireguard_loop decode wg m r keys restored)"

definition restore_wireguard_peers ::
  "(rstring \<Rightarrow> byte list option) \<Rightarrow> (rstring list \<Rightarrow> (unit, wireguard_error) result) \<Rightarrow>
   app_state \<Rightarrow> (nat, wireguard_error) result" where
  "restore_wireguard_peers decode wg a =
     (case wireguard a of
        None \<Rightarrow> Ok 0
      | Some m \<Rightarrow> restore_wireguard_loop decode wg m (router a)
          (map (\<lambda>p. (p, the (hget (peer_keys a) p))) (sorted_list_of_fset (fmdom (peer_keys a)))) 0)"

subsection \<open>Address allocation\<close>

definition allocate_virtual_ip :: "room_router \<Rightarrow> byte \<times> byte \<times> byte \<Rightarrow> virtual_ip option" where
  "allocate_virtual_ip r prefix = (case prefix of (a, b, c) \<Rightarrow>
     find (is_virtual_ip_available r)
       (map (\<lambda>last_octet. VirtualIp (ipv4_new a b c (word_of_nat last_octet))) [2..<255]))"

definition parse_room_code :: "rstring \<Rightarrow> (room_code, room_code_error) result" where
  "parse_room_code value = parse_code value"

subsection \<open>What allocation guarantees\<close>

lemma find_map_upt_Some:
  "find P (map f [i..<j]) = Some y \<longleftrightarrow>
     (\<exists>n. i \<le> n \<and> n < j \<and> P (f n) \<and> y = f n \<and> (\<forall>m. i \<le> m \<and> m < n \<longrightarrow> \<not> P (f m)))" (is "?l \<longleftrightarrow> ?r")
proof
  assume ?l
  then obtain k where "k < j - i" "P (f (i + k))" "y = f (i + k)" "\<forall>m<k. \<not> P (f (i + m))"
    unfolding find_Some_iff by auto
  then show ?r
    by (intro exI [of _ "i + k"]) (auto simp: le_iff_add)
next
  assume ?r
  then obtain n where "i \<le> n" "n < j" "P (f n)" "y = f n" "\<forall>m. i \<le> m \<and> m < n \<longrightarrow> \<not> P (f m)" by blast
  then show ?l
    unfolding find_Some_iff by (intro exI [of _ "n - i"]) auto
qed

lemma find_map_upt_None: "find P (map f [i..<j]) = None \<longleftrightarrow> (\<forall>m. i \<le> m \<and> m < j \<longrightarrow> \<not> P (f m))"
  unfolding find_None_iff by auto

text \<open>Allocation hands out the lowest free address of the configured /24: the result is available in the
  router, lies in the subnet with a last octet from 2 to 254, and every lower one from 2 on is taken;
  it fails only when all 253 addresses are taken.\<close>

theorem allocation_lowest_free:
  "case allocate_virtual_ip r (a, b, c) of
     Some ip \<Rightarrow> is_virtual_ip_available r ip \<and>
       (\<exists>n. 2 \<le> n \<and> n \<le> 254 \<and> ip = VirtualIp (ipv4_new a b c (word_of_nat n)) \<and>
          (\<forall>m. 2 \<le> m \<and> m < n \<longrightarrow> \<not> is_virtual_ip_available r (VirtualIp (ipv4_new a b c (word_of_nat m)))))
   | None \<Rightarrow> (\<forall>m. 2 \<le> m \<and> m \<le> 254 \<longrightarrow>
       \<not> is_virtual_ip_available r (VirtualIp (ipv4_new a b c (word_of_nat m))))"
proof -
  have le: "(m \<le> 254) = (m < 255)" for m :: nat by auto
  show ?thesis
    unfolding le
    using find_map_upt_Some [of "is_virtual_ip_available r" "\<lambda>n. VirtualIp (ipv4_new a b c (word_of_nat n))" 2 255]
      find_map_upt_None [of "is_virtual_ip_available r" "\<lambda>n. VirtualIp (ipv4_new a b c (word_of_nat n))" 2 255]
    by (auto simp: allocate_virtual_ip_def simp del: upt_rec_numeral split: option.split)
qed

lemma demo_addresses:
  "is_virtual_ip_available demo_router (VirtualIp (ipv4_new 0 0 0 (word_of_nat n))) \<longleftrightarrow> n \<noteq> 2 \<and> n \<noteq> 3"
  if "2 \<le> n" "n \<le> 4" for n
proof -
  have "n = 2 \<or> n = 3 \<or> n = 4" using that by auto
  then show ?thesis
    by (auto simp: is_virtual_ip_available_def demo_eval ipv4_new_def word_from_be_def be_val_def)
qed

theorem allocation_lowest_free_witness:
  "allocate_virtual_ip demo_router (0, 0, 0) = Some (VirtualIp (ipv4_new 0 0 0 4))"
proof -
  note spec = allocation_lowest_free [of demo_router 0 0 0]
  show ?thesis
  proof (cases "allocate_virtual_ip demo_router (0, 0, 0)")
    case None
    with spec have "\<forall>m. 2 \<le> m \<and> m \<le> 254 \<longrightarrow>
        \<not> is_virtual_ip_available demo_router (VirtualIp (ipv4_new 0 0 0 (word_of_nat m)))"
      by (simp only: option.case)
    from this [rule_format, of 4] show ?thesis using demo_addresses [of 4] by simp
  next
    case (Some ip)
    with spec obtain n where n: "is_virtual_ip_available demo_router ip" "2 \<le> n"
        "ip = VirtualIp (ipv4_new 0 0 0 (word_of_nat n))"
        "\<forall>m. 2 \<le> m \<and> m < n \<longrightarrow> \<not> is_virtual_ip_available demo_router (VirtualIp (ipv4_new 0 0 0 (word_of_nat m)))"
      by (simp only: option.case) blast
    have "\<not> 4 < n" using n(4) [rule_format, of 4] demo_addresses [of 4] by auto
    then have "n = 4" using n(1-3) demo_addresses [of n] by auto
    with n(3) Some show ?thesis by simp
  qed
qed

subsection \<open>A restart\<close>

lemma restore_rooms_spec:
  assumes "router_inv (router a)"
    and "distinct (map pr_room_id rest)" "distinct (map pr_room_code rest)"
    and "\<And>x. x \<in> set rest \<Longrightarrow> hget (rooms (router a)) (pr_room_id x) = None \<and>
      hget (rooms_by_code (router a)) (pr_room_code x) = None"
    and "hlen (rooms (router a)) + length rest \<le> max_rooms (config (router a))"
  shows "\<exists>r. restore_rooms rest a = (Ok (), a\<lparr>router := r\<rparr>) \<and> router_inv r \<and>
    abs_router r = (abs_router (router a))\<lparr>sp_codes :=
      fold (\<lambda>x. hinsert (pr_room_id x) (pr_room_code x)) rest (sp_codes (abs_router (router a)))\<rparr>"
  using assms
proof (induction rest arbitrary: a)
  case Nil
  then show ?case by (intro exI [of _ "router a"]) simp
next
  case (Cons x rest)
  let ?r = "(router a)\<lparr>rooms := hinsert (pr_room_id x) \<lparr>rs_code = pr_room_code x, rs_members = {||}, rs_host_sessions = {||}\<rparr> (rooms (router a)),
     rooms_by_code := hinsert (pr_room_code x) (pr_room_id x) (rooms_by_code (router a))\<rparr>"
  have new: "create_room_with_id (pr_room_id x) (pr_room_code x) (router a) = (Ok (), ?r)"
    using Cons.prems(4) [of x] Cons.prems(5) by (simp add: create_room_with_id_def)
  have inv: "router_inv ?r"
    using inv_create_room_with_id [OF Cons.prems(1), of "pr_room_id x" "pr_room_code x"] new by simp
  have abs: "abs_router ?r = (abs_router (router a))\<lparr>sp_codes := hinsert (pr_room_id x) (pr_room_code x) (sp_codes (abs_router (router a)))\<rparr>"
    by (intro abs_eqI) auto
  have "\<exists>r. restore_rooms rest (a\<lparr>router := ?r\<rparr>) = (Ok (), (a\<lparr>router := ?r\<rparr>)\<lparr>router := r\<rparr>) \<and> router_inv r \<and>
    abs_router r = (abs_router (router (a\<lparr>router := ?r\<rparr>)))\<lparr>sp_codes :=
      fold (\<lambda>x. hinsert (pr_room_id x) (pr_room_code x)) rest (sp_codes (abs_router (router (a\<lparr>router := ?r\<rparr>))))\<rparr>"
    using Cons.prems inv by (intro Cons.IH) (auto simp: hlen_insert image_iff)
  then show ?case by (auto simp: new abs)
qed

abbreviation restored_peer :: "instant \<Rightarrow> persisted_peer \<Rightarrow> peer_state" where
  "restored_peer now x \<equiv> \<lparr>ps_room_id = pp_room_id x, ps_virtual_ip = pp_virtual_ip x, ps_last_seen = now,
     ps_disconnected_at = None, ps_connection_epoch = 1\<rparr>"

lemma restore_peers_spec:
  assumes "router_inv (router a)"
    and "distinct (map pp_peer_id rest)" "distinct (map pp_virtual_ip rest)"
    and "\<And>x. x \<in> set rest \<Longrightarrow> hget (rooms (router a)) (pp_room_id x) \<noteq> None \<and>
      hget (peers (router a)) (pp_peer_id x) = None \<and> hget (virtual_ips (router a)) (pp_virtual_ip x) = None"
    and "hlen (peers (router a)) + length rest \<le> max_total_peers (config (router a))"
    and "\<And>x. x \<in> set rest \<Longrightarrow> hlen (spec_members (abs_router (router a)) (pp_room_id x)) +
      length (filter (\<lambda>y. pp_room_id y = pp_room_id x) rest) \<le> max_peers_per_room (config (router a))"
  shows "\<exists>r. restore_peers now rest a = (Ok (), a\<lparr>router := r, peer_keys :=
      fold (\<lambda>x. hinsert (pp_peer_id x) (pp_wireguard_public_key x)) rest (peer_keys a)\<rparr>) \<and> router_inv r \<and>
    abs_router r = (abs_router (router a))\<lparr>sp_peers :=
      fold (\<lambda>x. hinsert (pp_peer_id x) (restored_peer now x)) rest (peers (router a))\<rparr>"
  using assms
proof (induction rest arbitrary: a)
  case Nil
  then show ?case by (intro exI [of _ "router a"]) (simp add: abs_router_def)
next
  case (Cons x rest)
  obtain room where room: "hget (rooms (router a)) (pp_room_id x) = Some room"
    using Cons.prems(4) [of x] by auto
  let ?r = "(router a)\<lparr>rooms := hinsert (pp_room_id x) (room\<lparr>rs_members := finsert (pp_peer_id x) (rs_members room)\<rparr>) (rooms (router a)),
     peers := hinsert (pp_peer_id x) (restored_peer now x) (peers (router a)),
     virtual_ips := hinsert (pp_virtual_ip x) (pp_peer_id x) (virtual_ips (router a))\<rparr>"
  let ?a = "a\<lparr>router := ?r, peer_keys := hinsert (pp_peer_id x) (pp_wireguard_public_key x) (peer_keys a)\<rparr>"
  have new: "restore_peer (pp_room_id x) (pp_peer_id x) (pp_virtual_ip x) now (router a) = (Ok (), ?r)"
    using Cons.prems(4) [of x] Cons.prems(5) Cons.prems(6) [of x] room
      counts_computed(1) [OF Cons.prems(1) room]
    by (simp add: restore_peer_def join_room_def)
  have inv: "router_inv ?r"
    using inv_join_room [OF Cons.prems(1)] new unfolding restore_peer_def by (metis snd_conv)
  have abs: "abs_router ?r = (abs_router (router a))\<lparr>sp_peers := hinsert (pp_peer_id x) (restored_peer now x) (peers (router a))\<rparr>"
    using room by (intro abs_eqI) auto
  have members: "hlen (spec_members (abs_router ?r) rid) =
      (if rid = pp_room_id x then Suc (hlen (spec_members (abs_router (router a)) rid))
       else hlen (spec_members (abs_router (router a)) rid))" for rid
    using Cons.prems(4) [of x] by (simp add: spec_members_def hretain_insert hlen_insert hlen_remove)
  have "\<exists>r. restore_peers now rest ?a = (Ok (), ?a\<lparr>router := r, peer_keys :=
      fold (\<lambda>x. hinsert (pp_peer_id x) (pp_wireguard_public_key x)) rest (peer_keys ?a)\<rparr>) \<and> router_inv r \<and>
    abs_router r = (abs_router (router ?a))\<lparr>sp_peers :=
      fold (\<lambda>x. hinsert (pp_peer_id x) (restored_peer now x)) rest (peers (router ?a))\<rparr>"
  proof (rule Cons.IH)
    show "hlen (spec_members (abs_router (router ?a)) (pp_room_id y)) +
        length (filter (\<lambda>z. pp_room_id z = pp_room_id y) rest) \<le> max_peers_per_room (config (router ?a))"
      if "y \<in> set rest" for y
      using that Cons.prems(6) [of y] by (auto simp: members split: if_splits)
  qed (use Cons.prems inv in \<open>auto simp: hlen_insert image_iff\<close>)
  then show ?case by (auto simp: new abs)
qed

lemma hget_fold_insert:
  "distinct (map key xs) \<Longrightarrow> hget (fold (\<lambda>x. hinsert (key x) (val x)) xs m) k =
     (case find (\<lambda>x. key x = k) xs of None \<Rightarrow> hget m k | Some x \<Rightarrow> Some (val x))"
proof (induction xs arbitrary: m)
  case (Cons x xs)
  then show ?case
  proof (cases "key x = k")
    case True
    with Cons.prems have "find (\<lambda>y. key y = k) xs = None"
      unfolding find_None_iff by (metis distinct.simps(2) image_eqI list.set_map list.simps(9))
    with Cons True show ?thesis by simp
  qed (simp split: option.split)
qed simp

lemma find_key:
  assumes "distinct (map key xs)" "x \<in> set xs"
  shows "find (\<lambda>y. key y = key x) xs = Some x"
  using assms
proof (induction xs)
  case (Cons y ys)
  then show ?case by (cases "x = y") (auto simp: image_iff)
qed simp

text \<open>What the database holds of a router: its rooms with their codes, its peers with room and address.\<close>

definition persists :: "persisted_state \<Rightarrow> room_router \<Rightarrow> bool" where
  "persists ps r \<longleftrightarrow> distinct (map pr_room_id (pst_rooms ps)) \<and> distinct (map pp_peer_id (pst_peers ps)) \<and>
     (\<forall>rid code. (\<exists>x\<in>set (pst_rooms ps). pr_room_id x = rid \<and> pr_room_code x = code) \<longleftrightarrow>
        (\<exists>room. hget (rooms r) rid = Some room \<and> rs_code room = code)) \<and>
     (\<forall>p rid ip. (\<exists>x\<in>set (pst_peers ps). pp_peer_id x = p \<and> pp_room_id x = rid \<and> pp_virtual_ip x = ip) \<longleftrightarrow> lives r p rid ip)"

lemma length_rows:
  assumes "distinct (map key xs)" "\<And>k. k \<in> key ` set xs \<longleftrightarrow> hget m k \<noteq> None"
  shows "length xs = hlen m"
proof -
  have "fset (fmdom m) = set (map key xs)"
    using assms(2) unfolding set_map by (intro set_eqI) (simp only: fmdom_lookup_iff)
  then show ?thesis
    using distinct_card [OF assms(1)] by (simp add: hlen_def fcard.rep_eq)
qed

lemma find_other: "k \<notin> key ` set xs \<Longrightarrow> find (\<lambda>y. key y = k) xs = None"
  by (auto simp: find_None_iff)

text \<open>The rows of a consistent router are what restoration needs: unique codes and addresses, within the limits.\<close>

lemma persisted_rooms:
  assumes inv: "router_inv r" and ps: "persists ps r"
  shows "distinct (map pr_room_code (pst_rooms ps))"
    and "length (pst_rooms ps) = hlen (rooms r)"
    and "hget (fold (\<lambda>x. hinsert (pr_room_id x) (pr_room_code x)) (pst_rooms ps) fmempty) rid =
      map_option rs_code (hget (rooms r) rid)"
proof -
  let ?rows = "pst_rooms ps"
  have dist: "distinct (map pr_room_id ?rows)"
    and rows: "(\<exists>x\<in>set ?rows. pr_room_id x = rid \<and> pr_room_code x = code) \<longleftrightarrow>
        (\<exists>room. hget (rooms r) rid = Some room \<and> rs_code room = code)" for rid code
    using ps unfolding persists_def by blast+
  have "x = y" if "x \<in> set ?rows" "y \<in> set ?rows" "pr_room_code x = pr_room_code y" for x y
  proof -
    have "hget (rooms_by_code r) (pr_room_code x) = Some (pr_room_id x)"
      "hget (rooms_by_code r) (pr_room_code x) = Some (pr_room_id y)"
      using rows that router_invD(1) [OF inv] unfolding codes_agree_def by metis+
    then have "pr_room_id x = pr_room_id y" by simp
    then show ?thesis using dist that by (simp add: distinct_map inj_on_def)
  qed
  then show "distinct (map pr_room_code ?rows)"
    using dist by (simp add: distinct_map inj_on_def)
  show "length ?rows = hlen (rooms r)"
    by (rule length_rows [OF dist]) (use rows in \<open>force simp: image_iff\<close>)
  show "hget (fold (\<lambda>x. hinsert (pr_room_id x) (pr_room_code x)) ?rows fmempty) rid = map_option rs_code (hget (rooms r) rid)"
  proof (cases "hget (rooms r) rid")
    case None
    then have "rid \<notin> pr_room_id ` set ?rows" using rows by (metis imageE option.distinct(1))
    with None show ?thesis by (simp add: hget_fold_insert [OF dist] find_other)
  next
    case (Some room)
    then obtain x where "x \<in> set ?rows" "pr_room_id x = rid" "pr_room_code x = rs_code room" using rows by blast
    with Some find_key [OF dist] show ?thesis by (auto simp: hget_fold_insert [OF dist])
  qed
qed

lemma persisted_peers:
  assumes inv: "router_inv r" and ps: "persists ps r"
  shows "distinct (map pp_virtual_ip (pst_peers ps))"
    and "length (pst_peers ps) = hlen (peers r)"
    and "length (filter (\<lambda>y. pp_room_id y = rid) (pst_peers ps)) = hlen (spec_members (abs_router r) rid)"
    and "hget (fold (\<lambda>x. hinsert (pp_peer_id x) (restored_peer now x)) (pst_peers ps) fmempty) p =
      map_option (\<lambda>peer. \<lparr>ps_room_id = ps_room_id peer, ps_virtual_ip = ps_virtual_ip peer, ps_last_seen = now,
        ps_disconnected_at = None, ps_connection_epoch = 1\<rparr>) (hget (peers r) p)"
proof -
  let ?ps = "pst_peers ps"
  have dist: "distinct (map pp_peer_id ?ps)"
    and rows: "(\<exists>x\<in>set ?ps. pp_peer_id x = p \<and> pp_room_id x = rid \<and> pp_virtual_ip x = ip) \<longleftrightarrow> lives r p rid ip" for p rid ip
    using ps unfolding persists_def by blast+
  have "x = y" if "x \<in> set ?ps" "y \<in> set ?ps" "pp_virtual_ip x = pp_virtual_ip y" for x y
  proof -
    have "hget (virtual_ips r) (pp_virtual_ip x) = Some (pp_peer_id x)"
      "hget (virtual_ips r) (pp_virtual_ip x) = Some (pp_peer_id y)"
      using rows that router_invD(3) [OF inv] unfolding ips_agree_def lives_iff by metis+
    then have "pp_peer_id x = pp_peer_id y" by simp
    then show ?thesis using dist that by (simp add: distinct_map inj_on_def)
  qed
  then show "distinct (map pp_virtual_ip ?ps)"
    using dist by (simp add: distinct_map inj_on_def)
  have keys: "p \<in> pp_peer_id ` set ?ps \<longleftrightarrow> hget (peers r) p \<noteq> None" for p
    using rows unfolding lives_iff by (force simp: image_iff)
  show "length ?ps = hlen (peers r)"
    by (rule length_rows [OF dist keys])
  show "length (filter (\<lambda>y. pp_room_id y = rid) ?ps) = hlen (spec_members (abs_router r) rid)"
  proof (rule length_rows [where key = pp_peer_id])
    show "distinct (map pp_peer_id (filter (\<lambda>y. pp_room_id y = rid) ?ps))"
      using dist by (rule distinct_map_filter)
    show "p \<in> pp_peer_id ` set (filter (\<lambda>y. pp_room_id y = rid) ?ps) \<longleftrightarrow> hget (spec_members (abs_router r) rid) p \<noteq> None" for p
    proof -
      have "p \<in> pp_peer_id ` set (filter (\<lambda>y. pp_room_id y = rid) ?ps) \<longleftrightarrow>
          (\<exists>x\<in>set ?ps. pp_peer_id x = p \<and> pp_room_id x = rid)"
        by auto
      also have "\<dots> \<longleftrightarrow> (\<exists>ip. lives r p rid ip)"
        using rows by metis
      also have "\<dots> \<longleftrightarrow> hget (spec_members (abs_router r) rid) p \<noteq> None"
        by (auto simp: lives_iff spec_members_def split: option.split)
      finally show ?thesis .
    qed
  qed
  show "hget (fold (\<lambda>x. hinsert (pp_peer_id x) (restored_peer now x)) ?ps fmempty) p =
      map_option (\<lambda>peer. \<lparr>ps_room_id = ps_room_id peer, ps_virtual_ip = ps_virtual_ip peer, ps_last_seen = now,
        ps_disconnected_at = None, ps_connection_epoch = 1\<rparr>) (hget (peers r) p)"
  proof (cases "hget (peers r) p")
    case None
    with keys show ?thesis by (simp add: hget_fold_insert [OF dist] find_other)
  next
    case (Some peer)
    then obtain x where "x \<in> set ?ps" "pp_peer_id x = p" "pp_room_id x = ps_room_id peer" "pp_virtual_ip x = ps_virtual_ip peer"
      using rows unfolding lives_iff by blast
    with Some find_key [OF dist] show ?thesis by (auto simp: hget_fold_insert [OF dist])
  qed
qed

lemma same_codes:
  assumes "router_inv r" "router_inv r'"
    and "\<And>rid. map_option rs_code (hget (rooms r') rid) = map_option rs_code (hget (rooms r) rid)"
  shows "room_id_for_code r' code = room_id_for_code r code"
proof -
  have "hget (rooms_by_code r') code = Some rid \<longleftrightarrow> hget (rooms_by_code r) code = Some rid" for rid
    using router_invD(1) [OF assms(1)] router_invD(1) [OF assms(2)] assms(3) [of rid]
    unfolding codes_agree_def by (cases "hget (rooms r) rid"; cases "hget (rooms r') rid") auto
  then show ?thesis by (metis room_id_for_code_def not_None_eq)
qed

lemma no_peers_no_addresses:
  assumes "router_inv r" "peers r = fmempty"
  shows "hget (virtual_ips r) ip = None"
  using router_invD(3) [OF assms(1)] assms(2) by (cases "hget (virtual_ips r) ip") (auto simp: ips_agree_def)

text \<open>First the rooms: the fresh router gets the codes, and nothing more.\<close>

lemma restored_rooms:
  assumes inv: "router_inv r" and ps: "persists ps r" and fresh: "router a = router_new (config r)"
  obtains r1 where "restore_rooms (pst_rooms ps) a = (Ok (), a\<lparr>router := r1\<rparr>)" "router_inv r1"
    "config r1 = config r" "peers r1 = fmempty" "hosts r1 = fmempty" "discoveries r1 = fmempty" "gameplay r1 = fmempty"
    "\<And>rid. map_option rs_code (hget (rooms r1) rid) = map_option rs_code (hget (rooms r) rid)"
proof -
  note rows = persisted_rooms [OF inv ps]
  have codes0: "sp_codes (abs_router (router a)) = fmempty"
    by (simp add: fresh abs_router_def router_new_def)
  have "\<exists>r1. restore_rooms (pst_rooms ps) a = (Ok (), a\<lparr>router := r1\<rparr>) \<and> router_inv r1 \<and>
    abs_router r1 = (abs_router (router a))\<lparr>sp_codes :=
      fold (\<lambda>x. hinsert (pr_room_id x) (pr_room_code x)) (pst_rooms ps) (sp_codes (abs_router (router a)))\<rparr>"
    using router_invD(10) [OF inv] inv_new ps
    by (intro restore_rooms_spec rows(1)) (simp_all add: fresh router_new_def rows(2) within_limits_def persists_def)
  then obtain r1 where r1: "restore_rooms (pst_rooms ps) a = (Ok (), a\<lparr>router := r1\<rparr>)" "router_inv r1"
    and abs: "abs_router r1 = (abs_router (router_new (config r)))\<lparr>sp_codes :=
      fold (\<lambda>x. hinsert (pr_room_id x) (pr_room_code x)) (pst_rooms ps) fmempty\<rparr>"
    unfolding codes0 unfolding fresh by blast
  have "config r1 = config r" "peers r1 = fmempty" "hosts r1 = fmempty" "discoveries r1 = fmempty" "gameplay r1 = fmempty"
    using arg_cong [OF abs, of sp_config] arg_cong [OF abs, of sp_peers] arg_cong [OF abs, of sp_hosts]
      arg_cong [OF abs, of sp_discoveries] arg_cong [OF abs, of sp_gameplay] by (simp_all add: router_new_def)
  moreover have "map_option rs_code (hget (rooms r1) rid) = map_option rs_code (hget (rooms r) rid)" for rid
    using arg_cong [OF abs, of "\<lambda>s. hget (sp_codes s) rid"] rows(3) by simp
  ultimately show ?thesis using that r1 by blast
qed

text \<open>Then the peers: each finds its room and a free address, and the room never overflows.\<close>

lemma restored_peers:
  assumes inv: "router_inv r" and ps: "persists ps r" and inv1: "router_inv (router a)"
    and tables: "config (router a) = config r" "peers (router a) = fmempty"
    and codes: "\<And>rid. map_option rs_code (hget (rooms (router a)) rid) = map_option rs_code (hget (rooms r) rid)"
  shows "\<exists>r2. restore_peers now (pst_peers ps) a = (Ok (), a\<lparr>router := r2, peer_keys :=
      fold (\<lambda>x. hinsert (pp_peer_id x) (pp_wireguard_public_key x)) (pst_peers ps) (peer_keys a)\<rparr>) \<and> router_inv r2 \<and>
    abs_router r2 = (abs_router (router a))\<lparr>sp_peers :=
      fold (\<lambda>x. hinsert (pp_peer_id x) (restored_peer now x)) (pst_peers ps) (peers (router a))\<rparr>"
proof -
  note rows = persisted_peers [OF inv ps] and lim = router_invD(10) [OF inv, unfolded within_limits_def]
  have room: "hget (rooms (router a)) (pp_room_id x) \<noteq> None \<and>
      hlen (spec_members (abs_router r) (pp_room_id x)) \<le> max_peers_per_room (config r)" if "x \<in> set (pst_peers ps)" for x
  proof -
    have rows: "(\<exists>y\<in>set (pst_peers ps). pp_peer_id y = p \<and> pp_room_id y = rid \<and> pp_virtual_ip y = ip) \<longleftrightarrow> lives r p rid ip"
      for p rid ip
      using ps unfolding persists_def by blast
    have "lives r (pp_peer_id x) (pp_room_id x) (pp_virtual_ip x)"
      using rows that by blast
    then obtain peer where "hget (peers r) (pp_peer_id x) = Some peer" "ps_room_id peer = pp_room_id x"
      unfolding lives_iff by blast
    then obtain room where room: "hget (rooms r) (pp_room_id x) = Some room"
      using peer_room_exists [OF inv] by metis
    then show ?thesis
      using codes [of "pp_room_id x"] counts_computed(1) [OF inv room] lim by fastforce
  qed
  have "spec_members (abs_router (router a)) rid = fmempty" for rid
    by (simp add: spec_members_def tables)
  then show ?thesis
    using lim inv1 room ps
    by (intro restore_peers_spec rows(1))
      (simp_all add: tables no_peers_no_addresses [OF inv1 tables(2)] rows(2,3) persists_def)
qed

lemma restore_recovers:
  assumes inv: "router_inv r" and ps: "persists ps r" and fresh: "router a = router_new (config r)"
  obtains r' where "restore_persisted_state now ps a = (Ok (), a\<lparr>router := r', peer_keys :=
      fold (\<lambda>x. hinsert (pp_peer_id x) (pp_wireguard_public_key x)) (pst_peers ps) (peer_keys a)\<rparr>)"
    and "router_inv r'" "config r' = config r"
    and "\<And>rid. map_option rs_code (hget (rooms r') rid) = map_option rs_code (hget (rooms r) rid)"
    and "\<And>p. hget (peers r') p = map_option (\<lambda>peer. \<lparr>ps_room_id = ps_room_id peer,
        ps_virtual_ip = ps_virtual_ip peer, ps_last_seen = now, ps_disconnected_at = None,
        ps_connection_epoch = 1\<rparr>) (hget (peers r) p)"
    and "hosts r' = fmempty" "discoveries r' = fmempty" "gameplay r' = fmempty"
proof -
  obtain r1 where r1: "restore_rooms (pst_rooms ps) a = (Ok (), a\<lparr>router := r1\<rparr>)" "router_inv r1"
    and t1: "config r1 = config r" "peers r1 = fmempty" "hosts r1 = fmempty" "discoveries r1 = fmempty" "gameplay r1 = fmempty"
      "\<And>rid. map_option rs_code (hget (rooms r1) rid) = map_option rs_code (hget (rooms r) rid)"
    using restored_rooms [OF inv ps fresh] by blast
  obtain r2 where r2: "restore_peers now (pst_peers ps) (a\<lparr>router := r1\<rparr>) = (Ok (), a\<lparr>router := r2, peer_keys :=
      fold (\<lambda>x. hinsert (pp_peer_id x) (pp_wireguard_public_key x)) (pst_peers ps) (peer_keys a)\<rparr>)" "router_inv r2"
    and abs: "abs_router r2 = (abs_router r1)\<lparr>sp_peers :=
      fold (\<lambda>x. hinsert (pp_peer_id x) (restored_peer now x)) (pst_peers ps) fmempty\<rparr>"
    using restored_peers [OF inv ps, of "a\<lparr>router := r1\<rparr>" now] r1(2) t1 by auto
  have t2: "peers r2 = fold (\<lambda>x. hinsert (pp_peer_id x) (restored_peer now x)) (pst_peers ps) fmempty"
    "hosts r2 = fmempty" "discoveries r2 = fmempty" "gameplay r2 = fmempty" "config r2 = config r"
    using arg_cong [OF abs, of sp_peers] arg_cong [OF abs, of sp_hosts] arg_cong [OF abs, of sp_config]
      arg_cong [OF abs, of sp_discoveries] arg_cong [OF abs, of sp_gameplay] by (simp_all add: t1)
  have codes: "map_option rs_code (hget (rooms r2) rid) = map_option rs_code (hget (rooms r) rid)" for rid
    using arg_cong [OF abs, of "\<lambda>s. hget (sp_codes s) rid"] t1(6) by simp
  show ?thesis
  proof (rule that [of r2])
    show "restore_persisted_state now ps a = (Ok (), a\<lparr>router := r2, peer_keys :=
        fold (\<lambda>x. hinsert (pp_peer_id x) (pp_wireguard_public_key x)) (pst_peers ps) (peer_keys a)\<rparr>)"
      using r1(1) r2(1) by (simp add: restore_persisted_state_def)
  qed (simp_all add: r2(2) codes t2 persisted_peers(4) [OF inv ps])
qed

text \<open>C30. A restart keeps rooms, members and addresses and nothing else: restoring what the database holds of a
  reachable router into a fresh server succeeds and gives a consistent router with the same room codes and
  the same peers in the same rooms under the same addresses, all connected as of now with epoch 1, no
  host, discovery or gameplay session, and the WireGuard key of every peer.\<close>

theorem restart_restores:
  assumes "run router_step (router_new c) es r" and "persists ps r" and "router a = router_new (config r)"
  shows "\<exists>a'. restore_persisted_state now ps a = (Ok (), a') \<and> router_inv (router a') \<and>
    (\<forall>code. room_id_for_code (router a') code = room_id_for_code r code) \<and>
    (\<forall>p. hget (peers (router a')) p = map_option (\<lambda>peer. \<lparr>ps_room_id = ps_room_id peer,
        ps_virtual_ip = ps_virtual_ip peer, ps_last_seen = now, ps_disconnected_at = None,
        ps_connection_epoch = 1\<rparr>) (hget (peers r) p)) \<and>
    hosts (router a') = fmempty \<and> discoveries (router a') = fmempty \<and> gameplay (router a') = fmempty \<and>
    (\<forall>x\<in>set (pst_peers ps). hget (peer_keys a') (pp_peer_id x) = Some (pp_wireguard_public_key x))"
proof -
  note inv = inv_run [OF assms(1)]
  have dist: "distinct (map pp_peer_id (pst_peers ps))"
    using assms(2) unfolding persists_def by blast
  obtain r' where r': "restore_persisted_state now ps a = (Ok (), a\<lparr>router := r', peer_keys :=
      fold (\<lambda>x. hinsert (pp_peer_id x) (pp_wireguard_public_key x)) (pst_peers ps) (peer_keys a)\<rparr>)" "router_inv r'" "config r' = config r"
    and t: "\<And>rid. map_option rs_code (hget (rooms r') rid) = map_option rs_code (hget (rooms r) rid)"
      "\<And>p. hget (peers r') p = map_option (\<lambda>peer. \<lparr>ps_room_id = ps_room_id peer,
        ps_virtual_ip = ps_virtual_ip peer, ps_last_seen = now, ps_disconnected_at = None,
        ps_connection_epoch = 1\<rparr>) (hget (peers r) p)"
      "hosts r' = fmempty" "discoveries r' = fmempty" "gameplay r' = fmempty"
    by (rule restore_recovers [OF inv assms(2,3), of now]; rule that; assumption)
  have keys: "hget (fold (\<lambda>x. hinsert (pp_peer_id x) (pp_wireguard_public_key x)) (pst_peers ps) (peer_keys a)) (pp_peer_id x) =
      Some (pp_wireguard_public_key x)" if "x \<in> set (pst_peers ps)" for x
    using find_key [OF dist that] by (simp add: hget_fold_insert [OF dist])
  show ?thesis
  proof (intro exI conjI)
    show "restore_persisted_state now ps a = (Ok (), a\<lparr>router := r', peer_keys :=
        fold (\<lambda>x. hinsert (pp_peer_id x) (pp_wireguard_public_key x)) (pst_peers ps) (peer_keys a)\<rparr>)"
      by (rule r'(1))
  qed (use keys in \<open>simp_all add: r'(2) same_codes [OF inv r'(2) t(1)] t(2-5)\<close>)
qed

definition demo_rows :: persisted_state where
  "demo_rows = \<lparr>
     pst_rooms = [\<lparr>pr_room_id = RoomId 1, pr_room_code = RoomCode [65]\<rparr>, \<lparr>pr_room_id = RoomId 2, pr_room_code = RoomCode [66]\<rparr>],
     pst_peers =
       [\<lparr>pp_room_id = RoomId 2, pp_peer_id = PeerId 3, pp_virtual_ip = VirtualIp 3, pp_wireguard_public_key = [99]\<rparr>,
        \<lparr>pp_room_id = RoomId 1, pp_peer_id = PeerId 1, pp_virtual_ip = VirtualIp 1, pp_wireguard_public_key = [97]\<rparr>,
        \<lparr>pp_room_id = RoomId 1, pp_peer_id = PeerId 2, pp_virtual_ip = VirtualIp 2, pp_wireguard_public_key = [98]\<rparr>]\<rparr>"

lemma demo_persists: "persists demo_rows demo_router"
  unfolding persists_def
proof (intro conjI allI)
  show "(\<exists>x\<in>set (pst_rooms demo_rows). pr_room_id x = rid \<and> pr_room_code x = code) \<longleftrightarrow>
      (\<exists>room. hget (rooms demo_router) rid = Some room \<and> rs_code room = code)" for rid code
    by (auto simp: demo_rows_def demo_eval)
  show "(\<exists>x\<in>set (pst_peers demo_rows). pp_peer_id x = p \<and> pp_room_id x = rid \<and> pp_virtual_ip x = ip) \<longleftrightarrow>
      lives demo_router p rid ip" for p rid ip
    by (auto simp: demo_rows_def demo_eval lives_iff)
qed (simp_all add: demo_rows_def)

theorem restart_restores_witness:
  "\<exists>a'. restore_persisted_state 100 demo_rows ((app_new 0 [])\<lparr>router := router_new demo_config\<rparr>) = (Ok (), a') \<and>
     room_id_for_code (router a') (RoomCode [66]) = Some (RoomId 2) \<and> hosts (router a') = fmempty"
proof -
  let ?a = "(app_new 0 [])\<lparr>router := router_new demo_config\<rparr>"
  have "router ?a = router_new (config demo_router)"
    by (simp add: demo_eval)
  from restart_restores [OF demo_run demo_persists this, of 100]
  show ?thesis by (auto simp: room_id_for_code_def) (simp add: demo_eval)
qed

lemma router_work_try:
  assumes "router_work r (router (snd x))" "\<And>v. fst x = Ok v \<Longrightarrow> router_work (router (snd x)) (router (snd (f v (snd x))))"
  shows "router_work r (router (snd (try_st x f)))"
  using assms by (cases x; cases "fst x") (auto intro: router_work_trans)

end
