(* ===== verification/Relay.thy ===== *)
theory Relay
  imports App_State Codec_Correct
begin

section \<open>The UDP relay of the server\<close>

text \<open>
  Models \<open>server/src/relay.rs\<close>: \<open>RelayDispatcher::handle_datagram\<close> from the received bytes to the
  datagrams to send, and the loop of \<open>RelayServer::run\<close> with its error accounting. The router's write
  lock is held from the source lookup to the end of the handler, and the rate limiter and the metrics have
  locks of their own that no other part of the handler needs, so one call is one step on the shared state.
  Clock readings are arguments, as is what the socket does.
\<close>

subsection \<open>Addresses, datagrams and errors\<close>

datatype ip_addr = IpV4 ipv4 | IpV6 "128 word"

text \<open>The flow label and scope of an IPv6 socket address are never read, since such a source is refused.\<close>

datatype socket_addr = SocketAddr (sa_ip: ip_addr) (sa_port: u16)

record outbound_datagram =
  out_destination :: socket_addr
  out_message :: relay_message
  out_meta :: relay_meta

datatype 'io relay_error =
    InvalidRelayPacket string
  | CodecError relay_codec_error
  | InvalidSource socket_addr
  | UnknownSource ipv4
  | StaleConnectionEpoch u64 u64
  | PacketRateLimited
  | DuplicateSequence u64
  | SourcePeerMismatch host_session_id peer_id
  | RouterFailed router_error
  | IoError 'io

definition relay_destination :: "virtual_ip \<Rightarrow> u16 \<Rightarrow> socket_addr" where
  "relay_destination ip port = SocketAddr (IpV4 (address ip)) port"

subsection \<open>From actions to datagrams\<close>

definition action_to_datagrams ::
  "u16 \<Rightarrow> room_router \<Rightarrow> relay_action \<Rightarrow> relay_meta \<Rightarrow> (outbound_datagram list, 'io relay_error) result" where
  "action_to_datagrams relay_port r action meta =
     (case action of
        DiscoveryFanout request source destination_port targets payload \<Rightarrow>
          and_then (ok_or (UnknownSource 0) (peer_virtual_ip r source)) (\<lambda>source_ip.
            Ok (map (\<lambda>target. \<lparr>
              out_destination = relay_destination (target_host_virtual_ip target) relay_port,
              out_message = DiscoveryToHost request source_ip destination_port payload,
              out_meta = meta\<rparr>) targets))
      | DiscoveryUnicast request destination_peer source_ip source_port payload \<Rightarrow>
          and_then (ok_or (UnknownSource 0) (peer_virtual_ip r destination_peer)) (\<lambda>destination.
            Ok [\<lparr>out_destination = relay_destination destination relay_port,
                 out_message = DiscoveryToClient request source_ip source_port payload,
                 out_meta = meta\<rparr>])
      | GameplayUnicast route destination_port payload \<Rightarrow>
          and_then (ok_or (UnknownSource 0) (peer_virtual_ip r (route_source_peer_id route))) (\<lambda>source_ip.
            Ok [\<lparr>out_destination = relay_destination (route_destination_virtual_ip route) relay_port,
                 out_message = GameplayToPeer (route_session_id route) source_ip destination_port payload,
                 out_meta = meta\<rparr>]))"

subsection \<open>Handling one datagram\<close>

record relay_clocks =
  clk_limiter :: instant
  clk_now :: instant
  clk_unix_ms :: u64

text \<open>A router operation inside the handler: its error is converted by \<open>?\<close>.\<close>

definition on_router ::
  "(room_router \<Rightarrow> ('a, router_error) result \<times> room_router) \<Rightarrow> app_state \<Rightarrow> ('a, 'io relay_error) result \<times> app_state"
where
  "on_router f a = (case f (router a) of (res, r) \<Rightarrow> (map_err RouterFailed res, a\<lparr>router := r\<rparr>))"

text \<open>The ingress a message becomes, after the ownership check of a discovery response.\<close>

definition ingress_of ::
  "peer_id \<Rightarrow> instant \<Rightarrow> relay_message \<Rightarrow> room_router \<Rightarrow> (relay_ingress, 'io relay_error) result" where
  "ingress_of source now message r =
     (case message of
        DiscoveryRequest request destination_port payload \<Rightarrow>
          Ok (IngressDiscovery source request destination_port payload now)
      | DiscoveryResponse request h source_port payload \<Rightarrow>
          and_then (map_err RouterFailed (host_snapshot_of r h)) (\<lambda>host.
            if hsnap_peer_id host \<noteq> source then Err (SourcePeerMismatch h source)
            else Ok (IngressDiscoveryResponse h request source_port payload now))
      | GameplayPacket g source_port payload \<Rightarrow>
          Ok (IngressGameplay g source source_port payload now)
      | _ \<Rightarrow> Err (InvalidRelayPacket ''server received an outbound relay envelope''))"

text \<open>Every message but a probe: the rest of the handler from the second clock reading on.\<close>

definition forward_message ::
  "relay_clocks \<Rightarrow> u16 \<Rightarrow> peer_id \<Rightarrow> relay_meta \<Rightarrow> relay_message \<Rightarrow> app_state \<Rightarrow>
   (outbound_datagram list, 'io relay_error) result \<times> app_state" where
  "forward_message clk relay_port source_peer meta message a =
     try_st (on_router (mark_peer_seen source_peer (clk_now clk)) a) (\<lambda>_ a.
       case record_sequence source_peer (meta_sequence meta) (metrics a) of (disposition, m) \<Rightarrow>
       let a = a\<lparr>metrics := m\<rparr> in
       if disposition = SeqDuplicate then (Err (DuplicateSequence (meta_sequence meta)), a)
       else
         try_st (ingress_of source_peer (clk_now clk) message (router a), a) (\<lambda>ingress a.
         try_st (on_router (dispatch ingress) a) (\<lambda>action a.
           (action_to_datagrams relay_port (router a) action meta, a))))"

definition handle_message ::
  "relay_clocks \<Rightarrow> u16 \<Rightarrow> socket_addr \<Rightarrow> peer_id \<Rightarrow> relay_envelope \<Rightarrow> app_state \<Rightarrow>
   (outbound_datagram list, 'io relay_error) result \<times> app_state" where
  "handle_message clk relay_port source source_peer envelope a =
     (let meta = env_meta envelope in
      case env_message envelope of
        RelayProbe request \<Rightarrow>
          try_st (on_router (mark_peer_seen source_peer (clk_now clk)) a) (\<lambda>_ a.
            (Ok [\<lparr>out_destination = source, out_message = RelayProbeAck request, out_meta = meta\<rparr>],
             a\<lparr>metrics := record_probe (clk_unix_ms clk) True (metrics a)\<rparr>))
      | message \<Rightarrow> forward_message clk relay_port source_peer meta message a)"

definition handle_datagram ::
  "relay_clocks \<Rightarrow> u16 \<Rightarrow> socket_addr \<Rightarrow> byte list \<Rightarrow> app_state \<Rightarrow>
   (outbound_datagram list, 'io relay_error) result \<times> app_state" where
  "handle_datagram clk relay_port source packet a =
     try_st (map_err CodecError (envelope_decode packet), a) (\<lambda>envelope a.
       case sa_ip source of
         IpV6 _ \<Rightarrow> (Err (InvalidSource source), a)
       | IpV4 source_ip \<Rightarrow>
           (case allow (clk_limiter clk) (rstr (ipv4_to_string source_ip)) (udp_rate_limiter a) of (allowed, l) \<Rightarrow>
            let a = a\<lparr>udp_rate_limiter := l\<rparr> in
            if \<not> allowed then (Err PacketRateLimited, a\<lparr>metrics := record_rate_limited (metrics a)\<rparr>)
            else
              try_st (ok_or (UnknownSource source_ip) (peer_for_virtual_ip (router a) (VirtualIp source_ip)), a) (\<lambda>source_peer a.
              try_st (map_err RouterFailed (peer_connection_epoch (router a) source_peer), a) (\<lambda>current_epoch a.
                if meta_connection_epoch (env_meta envelope) \<noteq> 0 \<and>
                   meta_connection_epoch (env_meta envelope) \<noteq> current_epoch
                then (Err (StaleConnectionEpoch (meta_connection_epoch (env_meta envelope)) current_epoch), a)
                else handle_message clk relay_port source source_peer envelope a))))"

subsection \<open>The server loop\<close>

text \<open>
  What the loop can see: a failing receive, a received packet with the clocks of its handling and what the
  socket makes of each send (\<open>None\<close> is success), or a tick of the expiry timer.
\<close>

datatype 'io relay_event =
    RecvFailed 'io
  | Packet instant relay_clocks socket_addr "byte list" "socket_addr \<Rightarrow> byte list \<Rightarrow> 'io option"
  | Tick instant

fun send_all ::
  "(socket_addr \<Rightarrow> byte list \<Rightarrow> 'io option) \<Rightarrow> outbound_datagram list \<Rightarrow> app_state \<Rightarrow>
   (unit, 'io relay_error) result \<times> app_state" where
  "send_all send [] a = (Ok (), a)"
| "send_all send (d # ds) a =
     try_st (map_err CodecError (envelope_encode \<lparr>env_meta = out_meta d, env_message = out_message d\<rparr>), a) (\<lambda>packet a.
       case send (out_destination d) packet of
         Some io \<Rightarrow> (Err (IoError io), a)
       | None \<Rightarrow> send_all send ds (a\<lparr>metrics := record_sent (length packet) (metrics a)\<rparr>))"

text \<open>The input and output errors an event brings with it.\<close>

fun io_failures :: "'io relay_event \<Rightarrow> 'io set" where
  "io_failures (RecvFailed io) = {io}"
| "io_failures (Packet t clk source packet send) = {io. \<exists>dest bytes. send dest bytes = Some io}"
| "io_failures (Tick now) = {}"

fun authentication_failure :: "'io relay_error \<Rightarrow> bool" where
  "authentication_failure (UnknownSource _) = True"
| "authentication_failure (SourcePeerMismatch _ _) = True"
| "authentication_failure (StaleConnectionEpoch _ _) = True"
| "authentication_failure (RouterFailed (PeerDisconnected _)) = True"
| "authentication_failure (RouterFailed (UnauthorizedGameplayPeer _ _)) = True"
| "authentication_failure _ = False"

fun oversized_error :: "'io relay_error \<Rightarrow> bool" where
  "oversized_error (RouterFailed (DatagramTooLarge _)) = True"
| "oversized_error _ = False"

text \<open>One turn of the loop: \<open>Ok\<close> goes round again, an error is what \<open>run\<close> returns.\<close>

fun loop_turn ::
  "(byte list \<Rightarrow> u64) \<Rightarrow> u16 \<Rightarrow> 'io relay_event \<Rightarrow> app_state \<Rightarrow> (unit, 'io relay_error) result \<times> app_state" where
  "loop_turn fp relay_port (RecvFailed io) a = (Err (IoError io), a)"
| "loop_turn fp relay_port (Packet received_at clk source packet send) a =
     (let a = a\<lparr>metrics := record_received fp received_at packet (metrics a)\<rparr> in
      case (handle_datagram clk relay_port source packet a :: (outbound_datagram list, 'io relay_error) result \<times> app_state) of
        (Ok outbound, a) \<Rightarrow> send_all send outbound a
      | (Err error, a) \<Rightarrow>
          let m = (if oversized_error error then record_oversized (metrics a) else metrics a)
          in (Ok (), a\<lparr>metrics := record_drop (authentication_failure error) m\<rparr>)
      | (Panic, a) \<Rightarrow> (Panic, a))"
| "loop_turn fp relay_port (Tick now) a =
     (case expire now (router a) of
        (Panic, r) \<Rightarrow> (Panic, a\<lparr>router := r\<rparr>)
      | (_, r) \<Rightarrow> (Ok (), a\<lparr>router := r\<rparr>))"

subsection \<open>The handler, taken apart\<close>

lemma on_router_simps [simp]:
  "fst (on_router f a) = map_err RouterFailed (fst (f (router a)))"
  "snd (on_router f a) = a\<lparr>router := snd (f (router a))\<rparr>"
  by (simp_all add: on_router_def split: prod.split)

lemma on_router_Ok_iff:
  "on_router f a = (Ok x, a') \<longleftrightarrow> (\<exists>r. f (router a) = (Ok x, r) \<and> a' = a\<lparr>router := r\<rparr>)"
  by (auto simp: on_router_def split: prod.split)

lemma action_to_datagrams_not_Panic [simp]: "action_to_datagrams port r action meta \<noteq> Panic"
  by (auto simp: action_to_datagrams_def result_simps split: relay_action.split)

lemma ingress_of_not_Panic [simp]: "ingress_of source now message r \<noteq> Panic"
  by (auto simp: ingress_of_def host_snapshot_of_def result_simps split: relay_message.split if_splits)

text \<open>What a message may turn into when it comes from address \<open>ip\<close>.\<close>

fun forwarded :: "virtual_ip \<Rightarrow> relay_message \<Rightarrow> relay_message option" where
  "forwarded ip (DiscoveryRequest request port payload) = Some (DiscoveryToHost request ip port payload)"
| "forwarded ip (DiscoveryResponse request h port payload) = Some (DiscoveryToClient request ip port payload)"
| "forwarded ip (GameplayPacket g port payload) = Some (GameplayToPeer g ip port payload)"
| "forwarded ip (RelayProbe request) = Some (RelayProbeAck request)"
| "forwarded ip _ = None"

lemma handle_datagram_Ok:
  assumes "(handle_datagram clk port source packet a :: (outbound_datagram list, 'io relay_error) result \<times> app_state) = (Ok outbound, a')"
  obtains envelope ip l p epoch where "envelope_decode packet = Ok envelope" "sa_ip source = IpV4 ip"
    "allow (clk_limiter clk) (rstr (ipv4_to_string ip)) (udp_rate_limiter a) = (True, l)"
    "peer_for_virtual_ip (router a) (VirtualIp ip) = Some p"
    "peer_connection_epoch (router a) p = Ok epoch"
    "meta_connection_epoch (env_meta envelope) = 0 \<or> meta_connection_epoch (env_meta envelope) = epoch"
    "(handle_message clk port source p envelope (a\<lparr>udp_rate_limiter := l\<rparr>) :: (outbound_datagram list, 'io relay_error) result \<times> app_state) = (Ok outbound, a')"
proof -
  obtain envelope where e: "envelope_decode packet = Ok envelope"
    using assms by (cases "envelope_decode packet") (auto simp: handle_datagram_def)
  obtain ip where ip: "sa_ip source = IpV4 ip"
    using assms e by (cases "sa_ip source") (auto simp: handle_datagram_def)
  obtain l where l: "allow (clk_limiter clk) (rstr (ipv4_to_string ip)) (udp_rate_limiter a) = (True, l)"
    using assms e ip
    by (cases "allow (clk_limiter clk) (rstr (ipv4_to_string ip)) (udp_rate_limiter a)")
      (auto simp: handle_datagram_def Let_def split: if_splits)
  have "\<exists>p epoch. peer_for_virtual_ip (router a) (VirtualIp ip) = Some p \<and> peer_connection_epoch (router a) p = Ok epoch \<and>
      (meta_connection_epoch (env_meta envelope) = 0 \<or> meta_connection_epoch (env_meta envelope) = epoch) \<and>
      (handle_message clk port source p envelope (a\<lparr>udp_rate_limiter := l\<rparr>) :: (outbound_datagram list, 'io relay_error) result \<times> app_state) = (Ok outbound, a')"
    using assms e ip l by (auto simp: handle_datagram_def try_st_Ok_iff split: if_splits)
  then show ?thesis using that [OF e ip l] by blast
qed

lemma forward_message_Ok:
  assumes "(forward_message clk port p meta message a :: (outbound_datagram list, 'io relay_error) result \<times> app_state) = (Ok outbound, a')"
  obtains r1 ingress action where
      "mark_peer_seen p (clk_now clk) (router a) = (Ok (), r1)"
      "(ingress_of p (clk_now clk) message r1 :: (relay_ingress, 'io relay_error) result) = Ok ingress"
      "dispatch ingress r1 = (Ok action, router a')"
      "(action_to_datagrams port (router a') action meta :: (outbound_datagram list, 'io relay_error) result) = Ok outbound"
proof -
  obtain res1 r1 where m: "mark_peer_seen p (clk_now clk) (router a) = (res1, r1)" by fastforce
  obtain d mm where q: "record_sequence p (meta_sequence meta) (metrics a) = (d, mm)" by fastforce
  have "\<exists>ingress action. res1 = Ok () \<and> (ingress_of p (clk_now clk) message r1 :: (relay_ingress, 'io relay_error) result) = Ok ingress \<and>
      dispatch ingress r1 = (Ok action, router a') \<and>
      (action_to_datagrams port (router a') action meta :: (outbound_datagram list, 'io relay_error) result) = Ok outbound"
    using assms m q
    by (auto simp: forward_message_def on_router_Ok_iff try_st_Ok_iff Let_def split: prod.splits if_splits)
  then show ?thesis using that m by blast
qed

lemma handle_message_cases:
  assumes "(handle_message clk port source p envelope a :: (outbound_datagram list, 'io relay_error) result \<times> app_state) = (Ok outbound, a')"
  obtains (probe) request r1 where "env_message envelope = RelayProbe request"
      "mark_peer_seen p (clk_now clk) (router a) = (Ok (), r1)"
      "outbound = [\<lparr>out_destination = source, out_message = RelayProbeAck request, out_meta = env_meta envelope\<rparr>]"
  | (forward) "\<forall>request. env_message envelope \<noteq> RelayProbe request"
      "(forward_message clk port p (env_meta envelope) (env_message envelope) a
        :: (outbound_datagram list, 'io relay_error) result \<times> app_state) = (Ok outbound, a')"
  using assms
  by (cases "env_message envelope") (auto simp: handle_message_def try_st_Ok_iff on_router_Ok_iff)

lemma mark_peer_seen_Ok:
  assumes "mark_peer_seen p now r = (Ok (), r1)"
  obtains peer where "hget (peers r) p = Some peer" "ps_disconnected_at peer = None"
    "r1 = r\<lparr>peers := hinsert p (peer\<lparr>ps_last_seen := now\<rparr>) (peers r)\<rparr>"
  using assms by (auto simp: mark_peer_seen_def split: option.splits if_splits)

lemma mark_peer_seen_view:
  assumes "mark_peer_seen p now r = (Ok (), r1)"
  shows "room_for_peer r1 q = room_for_peer r q" "peer_virtual_ip r1 q = peer_virtual_ip r q"
  using assms by (auto elim!: mark_peer_seen_Ok simp: room_for_peer_def peer_virtual_ip_def)

lemma dispatch_addresses:
  assumes inv: "router_inv r" and ok: "dispatch i r = (Ok action, r')"
  shows "peer_virtual_ip r' q = peer_virtual_ip r q"
  using ok
proof (cases rule: dispatch_Ok_cases)
  case (discovery source q port payload now rid targets)
  then show ?thesis using fanout_targets(4) [OF inv discovery(4)] by (simp add: peer_virtual_ip_def)
next
  case (gameplay g source port payload now route)
  then show ?thesis
    by (cases rule: route_gameplay_cases [of g source now r]) (auto simp: route_gameplay_Ok peer_virtual_ip_def)
qed simp

text \<open>Where one forwarded datagram may go, and what it says.\<close>

definition forwarded_within :: "room_router \<Rightarrow> u16 \<Rightarrow> peer_id \<Rightarrow> relay_meta \<Rightarrow> relay_message \<Rightarrow> outbound_datagram \<Rightarrow> bool" where
  "forwarded_within r port p meta message d \<longleftrightarrow> out_meta d = meta \<and>
     (\<exists>sip. peer_virtual_ip r p = Some sip \<and> forwarded sip message = Some (out_message d)) \<and>
     (\<exists>dest ip rid. room_for_peer r p = Some rid \<and> room_for_peer r dest = Some rid \<and>
        peer_virtual_ip r dest = Some ip \<and> out_destination d = relay_destination ip port)"

lemma forward_outbound:
  assumes inv: "router_inv r" and ing: "ingress_of p now message r = Ok ingress"
    and ok: "dispatch ingress r = (Ok action, r')"
    and out: "action_to_datagrams port r' action meta = Ok outbound" and d: "d \<in> set outbound"
  shows "forwarded_within r port p meta message d"
  using ok
proof (cases rule: dispatch_Ok_cases)
  case (discovery source q dport payload now rid targets)
  have m: "source = p" "message = DiscoveryRequest q dport payload"
    using ing discovery(1) by (auto simp: ingress_of_def result_simps split: relay_message.splits if_splits)
  obtain target sip where t: "target \<in> set targets" "peer_virtual_ip r p = Some sip"
      "d = \<lparr>out_destination = relay_destination (target_host_virtual_ip target) port,
            out_message = DiscoveryToHost q sip dport payload, out_meta = meta\<rparr>"
    using out d discovery(2) m dispatch_addresses [OF inv ok]
    by (auto simp: action_to_datagrams_def result_simps)
  then show ?thesis
    using m discovery(3) fanout_target_room [OF inv discovery(4) t(1)] by (auto simp: forwarded_within_def)
next
  case (response h q sport payload now client host)
  have m: "hs_peer_id host = p" "message = DiscoveryResponse q h sport payload"
    using ing response(1,5)
    by (auto simp: ingress_of_def host_snapshot_of_def result_simps split: relay_message.splits if_splits)
  obtain host' where h: "hget (hosts r) h = Some host'" "room_for_peer r client = Some (hs_room_id host')"
      "room_for_peer r (hs_peer_id host') = Some (hs_room_id host')"
      "peer_virtual_ip r (hs_peer_id host') = Some (hs_virtual_ip host')"
    using response_in_room [OF inv response(4)] by metis
  obtain ip where "peer_virtual_ip r client = Some ip"
      "d = \<lparr>out_destination = relay_destination ip port,
            out_message = DiscoveryToClient q (hs_virtual_ip host) sport payload, out_meta = meta\<rparr>"
    using out d response(2,3) by (auto simp: action_to_datagrams_def result_simps)
  then show ?thesis using m h response(5) by (auto simp: forwarded_within_def)
next
  case (gameplay g source sport payload now route)
  have m: "source = p" "message = GameplayPacket g sport payload"
    using ing gameplay(1) by (auto simp: ingress_of_def result_simps split: relay_message.splits if_splits)
  note ends = gameplay_route_ends [OF inv gameplay(3)]
  have g: "route_session_id route = g"
    using gameplay(3) by (cases rule: route_gameplay_cases [of g source now r]) (auto simp: route_gameplay_Ok)
  obtain sip where "peer_virtual_ip r p = Some sip"
      "d = \<lparr>out_destination = relay_destination (route_destination_virtual_ip route) port,
            out_message = GameplayToPeer g sip sport payload, out_meta = meta\<rparr>"
    using out d gameplay(2) m g ends(1) dispatch_addresses [OF inv ok]
    by (auto simp: action_to_datagrams_def result_simps)
  then show ?thesis using m ends by (auto simp: forwarded_within_def)
qed

lemma forwarded_within_seen:
  assumes "mark_peer_seen p now r = (Ok (), r1)"
  shows "forwarded_within r1 = forwarded_within r"
  using mark_peer_seen_view [OF assms] by (auto simp: forwarded_within_def fun_eq_iff)

subsection \<open>Who may send and where it goes\<close>

text \<open>The facts of an accepted packet, over any consistent router.\<close>

lemma accepted_packet:
  assumes inv: "router_inv (router a)"
    and ok: "(handle_datagram clk port source packet a :: (outbound_datagram list, 'io relay_error) result \<times> app_state) = (Ok outbound, a')"
  obtains ip p peer envelope where "sa_ip source = IpV4 ip" "hget (peers (router a)) p = Some peer"
    "ps_virtual_ip peer = VirtualIp ip" "ps_disconnected_at peer = None" "envelope_decode packet = Ok envelope"
    "meta_connection_epoch (env_meta envelope) = 0 \<or> meta_connection_epoch (env_meta envelope) = ps_connection_epoch peer"
    "(\<exists>request. env_message envelope = RelayProbe request \<and>
        outbound = [\<lparr>out_destination = source, out_message = RelayProbeAck request, out_meta = env_meta envelope\<rparr>]) \<or>
     (\<forall>request. env_message envelope \<noteq> RelayProbe request) \<and>
     (\<forall>d\<in>set outbound. forwarded_within (router a) port p (env_meta envelope) (env_message envelope) d)"
proof -
  obtain envelope ip l p epoch where e: "envelope_decode packet = Ok envelope" "sa_ip source = IpV4 ip"
      "peer_for_virtual_ip (router a) (VirtualIp ip) = Some p" "peer_connection_epoch (router a) p = Ok epoch"
      "meta_connection_epoch (env_meta envelope) = 0 \<or> meta_connection_epoch (env_meta envelope) = epoch"
    and h: "(handle_message clk port source p envelope (a\<lparr>udp_rate_limiter := l\<rparr>)
        :: (outbound_datagram list, 'io relay_error) result \<times> app_state) = (Ok outbound, a')"
    using ok by (rule handle_datagram_Ok) blast
  obtain peer where p: "hget (peers (router a)) p = Some peer" "ps_virtual_ip peer = VirtualIp ip"
    using e(3) router_invD(3) [OF inv] by (auto simp: peer_for_virtual_ip_def ips_agree_def)
  have epoch: "epoch = ps_connection_epoch peer" using e(4) p(1) by (simp add: peer_connection_epoch_def)
  show ?thesis
    using h
  proof (cases rule: handle_message_cases)
    case (probe request)
    then show ?thesis using that [OF e(2) p _ e(1)] e(5) epoch p(1) by (auto elim!: mark_peer_seen_Ok)
  next
    case forward
    from forward(2) obtain r1 ingress action where f: "mark_peer_seen p (clk_now clk) (router a) = (Ok (), r1)"
        "(ingress_of p (clk_now clk) (env_message envelope) r1 :: (relay_ingress, 'io relay_error) result) = Ok ingress"
        "dispatch ingress r1 = (Ok action, router a')"
        "(action_to_datagrams port (router a') action (env_meta envelope) :: (outbound_datagram list, 'io relay_error) result) = Ok outbound"
      by (rule forward_message_Ok) simp
    have inv1: "router_inv r1" using inv_mark_peer_seen [OF inv, of p "clk_now clk"] f(1) by simp
    have "\<forall>d\<in>set outbound. forwarded_within (router a) port p (env_meta envelope) (env_message envelope) d"
      using forward_outbound [OF inv1 f(2,3,4)] forwarded_within_seen [OF f(1)] by simp
    then show ?thesis using that [OF e(2) p _ e(1)] e(5) epoch p(1) f(1) forward(1) by (auto elim!: mark_peer_seen_Ok)
  qed
qed

text \<open>C15. The relay forwards only for a connected peer, only inside its room and without spoofing: when the
  handler accepts a packet from a UDP source, the source is an IPv4 address registered to a peer that is
  not suspended and the packet carries that peer's current connection epoch (or epoch 0); every datagram
  it sends is the packet's message turned round with the sender's registered address in it and the
  metadata untouched, and goes to the registered address of a peer of the sender's own room at the relay
  port, or, for a probe, back to the source.\<close>

theorem relay_forwards_in_room:
  assumes "run router_step (router_new c) es (router a)"
    and "(handle_datagram clk port source packet a :: (outbound_datagram list, 'io relay_error) result \<times> app_state) = (Ok outbound, a')"
  shows "\<exists>ip p peer envelope. sa_ip source = IpV4 ip \<and> hget (peers (router a)) p = Some peer \<and>
    ps_virtual_ip peer = VirtualIp ip \<and> ps_disconnected_at peer = None \<and> envelope_decode packet = Ok envelope \<and>
    meta_connection_epoch (env_meta envelope) \<in> {0, ps_connection_epoch peer} \<and>
    (\<forall>d\<in>set outbound. out_meta d = env_meta envelope \<and>
       forwarded (VirtualIp ip) (env_message envelope) = Some (out_message d) \<and>
       (case env_message envelope of
          RelayProbe request \<Rightarrow> out_destination d = source
        | _ \<Rightarrow> \<exists>dest to. hget (peers (router a)) dest = Some to \<and> ps_room_id to = ps_room_id peer \<and>
            out_destination d = SocketAddr (IpV4 (address (ps_virtual_ip to))) port))"
proof -
  obtain ip p peer envelope where k: "sa_ip source = IpV4 ip" "hget (peers (router a)) p = Some peer"
      "ps_virtual_ip peer = VirtualIp ip" "ps_disconnected_at peer = None" "envelope_decode packet = Ok envelope"
      "meta_connection_epoch (env_meta envelope) = 0 \<or> meta_connection_epoch (env_meta envelope) = ps_connection_epoch peer"
    and out: "(\<exists>request. env_message envelope = RelayProbe request \<and>
        outbound = [\<lparr>out_destination = source, out_message = RelayProbeAck request, out_meta = env_meta envelope\<rparr>]) \<or>
     (\<forall>request. env_message envelope \<noteq> RelayProbe request) \<and>
     (\<forall>d\<in>set outbound. forwarded_within (router a) port p (env_meta envelope) (env_message envelope) d)"
    using accepted_packet [OF inv_run [OF assms(1)] assms(2)] by metis
  have "out_meta d = env_meta envelope \<and> forwarded (VirtualIp ip) (env_message envelope) = Some (out_message d) \<and>
       (case env_message envelope of
          RelayProbe request \<Rightarrow> out_destination d = source
        | _ \<Rightarrow> \<exists>dest to. hget (peers (router a)) dest = Some to \<and> ps_room_id to = ps_room_id peer \<and>
            out_destination d = SocketAddr (IpV4 (address (ps_virtual_ip to))) port)" if d: "d \<in> set outbound" for d
    using out
  proof
    assume fwd: "(\<forall>request. env_message envelope \<noteq> RelayProbe request) \<and>
      (\<forall>d\<in>set outbound. forwarded_within (router a) port p (env_meta envelope) (env_message envelope) d)"
    with d have w: "forwarded_within (router a) port p (env_meta envelope) (env_message envelope) d" by blast
    have f: "forwarded (VirtualIp ip) (env_message envelope) = Some (out_message d)" "out_meta d = env_meta envelope"
      using w k(2,3) by (auto simp: forwarded_within_def peer_virtual_ip_def)
    obtain dest to where "hget (peers (router a)) dest = Some to" "ps_room_id to = ps_room_id peer"
        "out_destination d = SocketAddr (IpV4 (address (ps_virtual_ip to))) port"
      using w k(2) by (auto simp: forwarded_within_def peer_virtual_ip_def room_for_peer_def relay_destination_def)
    then have "\<exists>dest to. hget (peers (router a)) dest = Some to \<and> ps_room_id to = ps_room_id peer \<and>
        out_destination d = SocketAddr (IpV4 (address (ps_virtual_ip to))) port" by blast
    with f fwd show ?thesis by (simp split: relay_message.split)
  qed (use d in auto)
  with k show ?thesis by blast
qed

definition demo_app :: app_state where
  "demo_app = (app_new 0 [])\<lparr>router := demo_play\<rparr>"

definition demo_clocks :: relay_clocks where
  "demo_clocks = \<lparr>clk_limiter = 5, clk_now = 5, clk_unix_ms = 1000\<rparr>"

lemma demo_peer_tables:
  "hget (peers demo_play) (PeerId 1) = Some \<lparr>ps_room_id = RoomId 1, ps_virtual_ip = VirtualIp 1, ps_last_seen = 0,
     ps_disconnected_at = None, ps_connection_epoch = 1\<rparr>"
  "hget (virtual_ips demo_play) (VirtualIp 1) = Some (PeerId 1)"
  by (simp_all add: demo_play_eval)

text \<open>A gameplay packet of the demo client arrives at the demo host.\<close>

lemma demo_handled:
  assumes "envelope_decode packet = Ok \<lparr>env_meta = \<lparr>meta_sequence = 4, meta_connection_epoch = 1, meta_sent_at_ms = 0, meta_path_id = None\<rparr>,
      env_message = GameplayPacket (GameplaySessionId 9) (Civ6UdpPort 62056) [1, 2]\<rparr>"
  shows "\<exists>a'. (handle_datagram demo_clocks 32000 (SocketAddr (IpV4 1) 5000) packet demo_app
      :: (outbound_datagram list, 'io relay_error) result \<times> app_state) =
    (Ok [\<lparr>out_destination = SocketAddr (IpV4 2) 32000,
          out_message = GameplayToPeer (GameplaySessionId 9) (VirtualIp 1) (Civ6UdpPort 62056) [1, 2],
          out_meta = \<lparr>meta_sequence = 4, meta_connection_epoch = 1, meta_sent_at_ms = 0, meta_path_id = None\<rparr>\<rparr>], a')"
proof -
  have "fst (allow 5 key (udp_rate_limiter demo_app))" for key
    by (simp add: allow_def demo_app_def app_new_def limiter_new_def from_secs_def UDP_PACKETS_PER_SECOND_def duration_since_def)
  then obtain l where l: "allow 5 (rstr (ipv4_to_string 1)) (udp_rate_limiter demo_app) = (True, l)"
    by (metis prod.collapse)
  show ?thesis
    by (simp add: handle_datagram_def assms l peer_for_virtual_ip_def peer_connection_epoch_def
        demo_clocks_def Let_def)
      (simp add: handle_message_def forward_message_def on_router_def demo_app_def demo_peer_tables demo_play_tables mark_peer_seen_def record_sequence_def app_new_def metrics_default_def
        ingress_of_def validate_payload_def GAMEPLAY_PORT_def MAX_CIV6_DATAGRAM_SIZE_def demo_config_def
        route_gameplay_datagram_def action_to_datagrams_def peer_virtual_ip_def relay_destination_def)
qed

theorem relay_forwards_in_room_witness:
  "\<exists>packet d a'. (handle_datagram demo_clocks 32000 (SocketAddr (IpV4 1) 5000) packet demo_app
      :: (outbound_datagram list, unit relay_error) result \<times> app_state) = (Ok [d], a') \<and>
    (\<exists>dest to. hget (peers demo_play) dest = Some to \<and>
       out_destination d = SocketAddr (IpV4 (address (ps_virtual_ip to))) 32000)"
proof -
  let ?e = "\<lparr>env_meta = \<lparr>meta_sequence = 4, meta_connection_epoch = 1, meta_sent_at_ms = 0, meta_path_id = None\<rparr>,
      env_message = GameplayPacket (GameplaySessionId 9) (Civ6UdpPort 62056) [1, 2]\<rparr>"
  obtain packet where p: "envelope_decode packet = Ok ?e" using encoded_envelope [of ?e] by auto
  then obtain d a' where h: "(handle_datagram demo_clocks 32000 (SocketAddr (IpV4 1) 5000) packet demo_app
      :: (outbound_datagram list, unit relay_error) result \<times> app_state) = (Ok [d], a')"
    using demo_handled by blast
  have run: "run router_step (router_new demo_config) demo_play_events (router demo_app)"
    using demo_play_run by (simp add: demo_app_def)
  show ?thesis
    using relay_forwards_in_room [OF run h] h p by (auto simp: demo_app_def)
qed

subsection \<open>What is sent can be encoded\<close>

lemma forwarded_payload:
  "forwarded ip m = Some m' \<Longrightarrow> length (message_payload m') \<le> length (message_payload m)"
  by (cases m) auto

lemma outbound_encodes:
  assumes inv: "router_inv (router a)"
    and ok: "(handle_datagram clk port source packet a :: (outbound_datagram list, 'io relay_error) result \<times> app_state) = (Ok outbound, a')"
    and d: "d \<in> set outbound"
  obtains bytes where "envelope_encode \<lparr>env_meta = out_meta d, env_message = out_message d\<rparr> = Ok bytes"
    "length bytes \<le> MAX_RELAY_DATAGRAM_SIZE"
    "envelope_decode bytes = Ok \<lparr>env_meta = out_meta d, env_message = out_message d\<rparr>"
proof -
  have "length (message_payload (out_message d)) \<le> 4096"
    using inv ok
  proof (cases rule: accepted_packet)
    case (1 ip p peer envelope)
    show ?thesis
      using 1(7)
    proof
      assume "(\<forall>request. env_message envelope \<noteq> RelayProbe request) \<and>
        (\<forall>d\<in>set outbound. forwarded_within (router a) port p (env_meta envelope) (env_message envelope) d)"
      with d obtain sip where "forwarded sip (env_message envelope) = Some (out_message d)"
        unfolding forwarded_within_def by blast
      from forwarded_payload [OF this] decoded_payload [OF 1(5)] show ?thesis by linarith
    qed (use d in auto)
  qed
  then show ?thesis using that encoded_envelope [of "\<lparr>env_meta = out_meta d, env_message = out_message d\<rparr>"] by auto
qed

text \<open>The relay never fails on its own output: whatever the handler returns for an accepted packet can be
  encoded, within the relay's datagram limit and so that the receiver decodes exactly that envelope;
  the \<open>encode()?\<close> of the server loop cannot end the loop.\<close>

theorem relay_output_encodes:
  assumes "run router_step (router_new c) es (router a)"
    and "(handle_datagram clk port source packet a :: (outbound_datagram list, 'io relay_error) result \<times> app_state) = (Ok outbound, a')"
    and "d \<in> set outbound"
  shows "\<exists>bytes. envelope_encode \<lparr>env_meta = out_meta d, env_message = out_message d\<rparr> = Ok bytes \<and>
    length bytes \<le> MAX_RELAY_DATAGRAM_SIZE \<and>
    envelope_decode bytes = Ok \<lparr>env_meta = out_meta d, env_message = out_message d\<rparr>"
  using outbound_encodes [OF inv_run [OF assms(1)] assms(2,3)] by metis

theorem relay_output_encodes_witness:
  "\<exists>bytes. envelope_encode \<lparr>env_meta = \<lparr>meta_sequence = 4, meta_connection_epoch = 1, meta_sent_at_ms = 0, meta_path_id = None\<rparr>,
      env_message = GameplayToPeer (GameplaySessionId 9) (VirtualIp 1) (Civ6UdpPort 62056) [1, 2]\<rparr> = Ok bytes"
proof -
  let ?e = "\<lparr>env_meta = \<lparr>meta_sequence = 4, meta_connection_epoch = 1, meta_sent_at_ms = 0, meta_path_id = None\<rparr>,
      env_message = GameplayPacket (GameplaySessionId 9) (Civ6UdpPort 62056) [1, 2]\<rparr>"
  obtain packet where p: "envelope_decode packet = Ok ?e" using encoded_envelope [of ?e] by auto
  have run: "run router_step (router_new demo_config) demo_play_events (router demo_app)"
    using demo_play_run by (simp add: demo_app_def)
  from demo_handled [OF p, where ?'io = unit] obtain a' where
    h: "(handle_datagram demo_clocks 32000 (SocketAddr (IpV4 1) 5000) packet demo_app
      :: (outbound_datagram list, unit relay_error) result \<times> app_state) =
    (Ok [\<lparr>out_destination = SocketAddr (IpV4 2) 32000,
          out_message = GameplayToPeer (GameplaySessionId 9) (VirtualIp 1) (Civ6UdpPort 62056) [1, 2],
          out_meta = \<lparr>meta_sequence = 4, meta_connection_epoch = 1, meta_sent_at_ms = 0, meta_path_id = None\<rparr>\<rparr>], a')"
    by blast
  show ?thesis
    using relay_output_encodes [OF run h, OF list.set_intros(1)] by auto
qed

subsection \<open>The handler as router operations\<close>

lemma router_work_step:
  "router_work r (snd (mark_peer_seen p now r))"
  "router_work r (snd (dispatch i r))"
  "router_work r (snd (expire now r))"
  using router_work_apply [of r "MarkPeerSeen p now"] router_work_apply [of r "Dispatch i"]
    router_work_apply [of r "Expire now"] by simp_all

lemma router_work_forward: "router_work (router a) (router (snd (forward_message clk port p meta message a)))"
  unfolding forward_message_def
  by (intro router_work_try) (auto simp: router_work_step Let_def intro!: router_work_try split: prod.split)

lemma router_work_handle: "router_work (router a) (router (snd (handle_message clk port source p envelope a)))"
  unfolding handle_message_def Let_def
  by (auto simp: router_work_forward router_work_step intro!: router_work_try split: relay_message.split)

lemma handle_datagram_cases:
  fixes h :: "(outbound_datagram list, 'io relay_error) result \<times> app_state"
  assumes "h = handle_datagram clk port source packet a"
  obtains (refused) e l where "h = (Err e, a\<lparr>udp_rate_limiter := l\<rparr>)" "e \<noteq> PacketRateLimited"
  | (limited) l where "h = (Err PacketRateLimited, a\<lparr>udp_rate_limiter := l, metrics := record_rate_limited (metrics a)\<rparr>)"
  | (handled) p envelope l where "h = handle_message clk port source p envelope (a\<lparr>udp_rate_limiter := l\<rparr>)"
proof (cases "envelope_decode packet")
  case (Ok envelope)
  have same: "a = a\<lparr>udp_rate_limiter := udp_rate_limiter a\<rparr>" by simp
  show ?thesis
  proof (cases "sa_ip source")
    case (IpV4 ip)
    obtain allowed l where l: "allow (clk_limiter clk) (rstr (ipv4_to_string ip)) (udp_rate_limiter a) = (allowed, l)"
      by fastforce
    show ?thesis
    proof (cases "peer_for_virtual_ip (router a) (VirtualIp ip)")
      case (Some p)
      then show ?thesis
        using assms Ok IpV4 l refused [of _ l] limited [of l] handled [of p envelope l]
        by (cases "peer_connection_epoch (router a) p")
          (auto simp: handle_datagram_def Let_def peer_connection_epoch_def split: if_splits)
    qed (use assms Ok IpV4 l refused [of _ l] limited [of l] in \<open>auto simp: handle_datagram_def Let_def split: if_splits\<close>)
  qed (use assms Ok refused [OF _, of _ "udp_rate_limiter a"] in \<open>auto simp: handle_datagram_def\<close>)
qed (use assms refused [of _ "udp_rate_limiter a"] decode_packet_not_Panic [of packet] in
    \<open>auto simp: handle_datagram_def envelope_decode_def\<close>)

lemma router_work_datagram:
  "router_work (router a) (router (snd (handle_datagram clk port source packet a
     :: (outbound_datagram list, 'io relay_error) result \<times> app_state)))" (is "router_work _ (router (snd ?h))")
proof -
  have "?h = handle_datagram clk port source packet a" by simp
  then show ?thesis
  proof (cases rule: handle_datagram_cases)
    case (handled p envelope l)
    then show ?thesis using router_work_handle [of "a\<lparr>udp_rate_limiter := l\<rparr>"] by simp
  qed simp_all
qed

subsection \<open>The loop\<close>

lemma map_err_router_simps [simp]:
  "map_err RouterFailed res \<noteq> Err PacketRateLimited"
  "map_err CodecError res' \<noteq> Err PacketRateLimited"
  by (cases res; simp) (cases res'; simp)

lemma action_to_datagrams_not_limited [simp]: "action_to_datagrams port r action meta \<noteq> Err PacketRateLimited"
  by (auto simp: action_to_datagrams_def result_simps ok_or_def split: relay_action.split option.split)

lemma ingress_of_not_limited [simp]: "ingress_of source now message r \<noteq> Err PacketRateLimited"
  by (auto simp: ingress_of_def result_simps split: relay_message.split)

lemma forward_not_limited: "fst (forward_message clk port p meta message a) \<noteq> Err PacketRateLimited"
  by (auto simp: forward_message_def try_st_Err_iff Let_def split: prod.splits)

lemma handle_message_not_limited: "fst (handle_message clk port source p envelope a) \<noteq> Err PacketRateLimited"
  by (auto simp: handle_message_def try_st_Err_iff forward_not_limited Let_def split: relay_message.split)

text \<open>What the handler may do to the metrics.\<close>

definition handler_metrics :: "relay_metrics \<Rightarrow> relay_metrics \<Rightarrow> bool" where
  "handler_metrics m m' \<longleftrightarrow> m' = m \<or> (\<exists>p s. m' = snd (record_sequence p s m)) \<or> (\<exists>ms. m' = record_probe ms True m)"

lemma forward_metrics: "handler_metrics (metrics a) (metrics (snd (forward_message clk port p meta message a)))"
proof -
  obtain res r where m: "mark_peer_seen p (clk_now clk) (router a) = (res, r)" by fastforce
  obtain d mm where q: "record_sequence p (meta_sequence meta) (metrics a) = (d, mm)" by fastforce
  have mm: "handler_metrics (metrics a) mm" using q unfolding handler_metrics_def by (metis snd_conv)
  show ?thesis
    unfolding forward_message_def
    by (rule try_st_snd [where P = "\<lambda>x. handler_metrics (metrics a) (metrics x)"])
      (auto simp: q mm Let_def handler_metrics_def [of _ "metrics a"]
        intro!: try_st_snd [where P = "\<lambda>x. handler_metrics (metrics a) (metrics x)"])
qed

lemma handle_message_metrics: "handler_metrics (metrics a) (metrics (snd (handle_message clk port source p envelope a)))"
proof -
  have probe: "handler_metrics (metrics a) (record_probe ms True (metrics a))" "handler_metrics (metrics a) (metrics a)" for ms
    by (auto simp: handler_metrics_def)
  show ?thesis
    unfolding handle_message_def Let_def
    by (auto simp: forward_metrics probe split: relay_message.split
        intro!: try_st_snd [where P = "\<lambda>x. handler_metrics (metrics a) (metrics x)"])
qed

lemma handle_datagram_metrics:
  fixes h :: "(outbound_datagram list, 'io relay_error) result \<times> app_state"
  assumes "h = handle_datagram clk port source packet a"
  shows "fst h = Err PacketRateLimited \<and> metrics (snd h) = record_rate_limited (metrics a) \<or>
    fst h \<noteq> Err PacketRateLimited \<and> handler_metrics (metrics a) (metrics (snd h))"
  using assms
proof (cases rule: handle_datagram_cases)
  case (handled p envelope l)
  then show ?thesis
    using handle_message_metrics [of "a\<lparr>udp_rate_limiter := l\<rparr>"] handle_message_not_limited by fastforce
qed (simp_all add: handler_metrics_def)

lemma handle_datagram_not_Panic:
  assumes inv: "router_inv (router a)"
  shows "fst (handle_datagram clk port source packet a :: (outbound_datagram list, 'io relay_error) result \<times> app_state) \<noteq> Panic"
    (is "fst ?h \<noteq> Panic")
proof -
  have h: "?h = handle_datagram clk port source packet a" by simp
  from h show ?thesis
  proof (cases rule: handle_datagram_cases)
    case (handled p envelope l)
    have "fst (forward_message clk port p meta message (a\<lparr>udp_rate_limiter := l\<rparr>)) \<noteq> Panic" for meta message
      by (auto simp: forward_message_def try_st_Panic_iff operations_not_Panic inv inv_mark_peer_seen Let_def
          split: prod.splits)
    then show ?thesis
      unfolding handled handle_message_def Let_def
      by (auto simp: operations_not_Panic try_st_Panic_iff split: relay_message.split)
  qed simp_all
qed

lemma send_all_spec:
  fixes a :: app_state and res :: "(unit, 'io relay_error) result"
  assumes "\<And>d. d \<in> set ds \<Longrightarrow> \<exists>bytes. envelope_encode \<lparr>env_meta = out_meta d, env_message = out_message d\<rparr> = Ok bytes"
    and "send_all send ds a = (res, a')"
  shows "\<exists>n total. a' = a\<lparr>metrics := (metrics a)\<lparr>sent_packets := sent_packets (metrics a) + word_of_nat n,
        bytes_out := bytes_out (metrics a) + total\<rparr>\<rparr> \<and>
     (res = Ok () \<and> n = length ds \<or> (\<exists>io dest bytes. res = Err (IoError io) \<and> n < length ds \<and> send dest bytes = Some io))"
  using assms
proof (induction ds arbitrary: a)
  case Nil
  then show ?case by (intro exI [of _ 0]) simp
next
  case (Cons d ds)
  obtain bytes where b: "envelope_encode \<lparr>env_meta = out_meta d, env_message = out_message d\<rparr> = Ok bytes"
    using Cons.prems(1) by auto
  show ?case
  proof (cases "send (out_destination d) bytes")
    case None
    let ?a = "a\<lparr>metrics := record_sent (length bytes) (metrics a)\<rparr>"
    have "send_all send ds ?a = (res, a')" using Cons.prems(2) b None by simp
    moreover have "\<exists>bytes. envelope_encode \<lparr>env_meta = out_meta d, env_message = out_message d\<rparr> = Ok bytes" if "d \<in> set ds" for d
      using Cons.prems(1) that by simp
    ultimately obtain n total where
      "a' = ?a\<lparr>metrics := (metrics ?a)\<lparr>sent_packets := sent_packets (metrics ?a) + word_of_nat n,
          bytes_out := bytes_out (metrics ?a) + total\<rparr>\<rparr>"
      "res = Ok () \<and> n = length ds \<or> (\<exists>io dest bytes. res = Err (IoError io) \<and> n < length ds \<and> send dest bytes = Some io)"
      using Cons.IH [of ?a] by blast
    then show ?thesis
      by (intro exI [of _ "Suc n"] exI [of _ "word_of_nat (length bytes) + total"])
        (auto simp: record_sent_def ac_simps)
  next
    case (Some io)
    then show ?thesis
      using Cons.prems(2) b by (intro exI [of _ 0]) auto
  qed
qed

lemma loop_turn_work:
  assumes "router_inv (router a)"
  shows "router_work (router a) (router (snd (loop_turn fp port event a)))" (is ?work)
    and "fst (loop_turn fp port event a) = Ok () \<or>
      (\<exists>io. fst (loop_turn fp port event a) = Err (IoError io) \<and> io \<in> io_failures event)" (is ?ends)
proof -
  have "?work \<and> ?ends"
  proof (cases event)
    case (Packet t clk source packet send)
    let ?a = "a\<lparr>metrics := record_received fp t packet (metrics a)\<rparr>"
    let ?h = "handle_datagram clk port source packet ?a :: (outbound_datagram list, 'a relay_error) result \<times> app_state"
    obtain res b where h: "?h = (res, b)" by fastforce
    have inv: "router_inv (router ?a)" using assms by simp
    have work: "router_work (router a) (router b)"
      using router_work_datagram [of ?a clk port source packet, where ?'io = 'a] h by simp
    show ?thesis
    proof (cases res)
      case (Ok outbound)
      obtain r s where s: "send_all send outbound b = (r, s)" by fastforce
      from h Ok have "?h = (Ok outbound, b)" by simp
      then have "\<exists>bytes. envelope_encode \<lparr>env_meta = out_meta d, env_message = out_message d\<rparr> = Ok bytes" if "d \<in> set outbound" for d
        using outbound_encodes [OF inv _ that] by metis
      from send_all_spec [OF this s] have "router s = router b"
          "r = Ok () \<or> (\<exists>io. r = Err (IoError io) \<and> io \<in> io_failures event)"
        unfolding Packet by auto
      moreover have "loop_turn fp port event a = (r, s)" by (simp add: Packet h Ok s)
      ultimately show ?thesis using work by simp
    next
      case (Err e)
      then show ?thesis using h work unfolding Packet by (simp add: Let_def)
    next
      case Panic
      then show ?thesis using handle_datagram_not_Panic [OF inv, of clk port source packet, where ?'io = 'a] h by simp
    qed
  next
    case (Tick now)
    obtain res r where e: "expire now (router a) = (res, r)" by fastforce
    then have "res \<noteq> Panic" "router_work (router a) r"
      using expire_not_Panic [OF assms, of now] router_work_step(3) [of "router a" now] by simp_all
    then show ?thesis using Tick e by (cases res) simp_all
  qed simp
  then show ?work ?ends by blast+
qed

text \<open>C16. The server loop survives its input: from a reachable router, whatever bytes arrive from wherever, one turn
  of the loop changes the router only by router operations (so every property of router runs holds through
  the relay), does not panic, and ends the loop only with an input or output error that the socket itself
  reported while receiving or sending; a tick never ends it.\<close>

theorem relay_loop_survives:
  assumes "run router_step (router_new c) es (router a)"
  shows "\<exists>fs. run router_step (router_new c) (es @ fs) (router (snd (loop_turn fp port event a))) \<and>
    (case fst (loop_turn fp port event a) of
       Ok _ \<Rightarrow> True
     | Err e \<Rightarrow> (\<exists>io\<in>io_failures event. e = IoError io)
     | Panic \<Rightarrow> False)"
proof -
  have "\<exists>fs. run router_step (router a) fs (router (snd (loop_turn fp port event a)))"
    using loop_turn_work(1) [OF inv_run [OF assms]] unfolding router_work_def .
  then show ?thesis
    using loop_turn_work(2) [OF inv_run [OF assms], of fp port event] run_trans [OF assms] by auto
qed

theorem relay_loop_survives_witness:
  "fst (loop_turn (\<lambda>_. 0) 32000 (Packet 5 demo_clocks (SocketAddr (IpV4 1) 5000) [1, 2, 3] (\<lambda>_ _. Some ())) demo_app) = Ok ()"
proof -
  have run: "run router_step (router_new demo_config) demo_play_events (router demo_app)"
    using demo_play_run by (simp add: demo_app_def)
  have "fst (loop_turn (\<lambda>_. 0) 32000 (Packet 5 demo_clocks (SocketAddr (IpV4 1) 5000) [1, 2, 3] (\<lambda>_ _. Some ())) demo_app) \<noteq> Err e" for e
    by (simp add: handle_datagram_def envelope_decode_def decode_packet_eq size_defs)
  then show ?thesis
    using relay_loop_survives [OF run, of "\<lambda>_. 0" 32000 "Packet 5 demo_clocks (SocketAddr (IpV4 1) 5000) [1, 2, 3] (\<lambda>_ _. Some ())"]
    by (cases "fst (loop_turn (\<lambda>_. 0) 32000 (Packet 5 demo_clocks (SocketAddr (IpV4 1) 5000) [1, 2, 3] (\<lambda>_ _. Some ())) demo_app)") auto
qed

lemma handler_metrics_frame:
  assumes "handler_metrics m m'"
  shows "received_packets m' = received_packets m" "sent_packets m' = sent_packets m"
    "dropped_packets m' = dropped_packets m" "authentication_failures m' = authentication_failures m"
    "rate_limited_packets m' = rate_limited_packets m" "oversized_packets m' = oversized_packets m"
    "bytes_in m' = bytes_in m"
  using assms by (auto simp: handler_metrics_def record_sequence_def record_probe_def Let_def split: option.split)

lemma record_received_counts:
  "received_packets (record_received fp t packet m) = received_packets m + 1"
  "bytes_in (record_received fp t packet m) = bytes_in m + word_of_nat (length packet)"
  "sent_packets (record_received fp t packet m) = sent_packets m"
  "dropped_packets (record_received fp t packet m) = dropped_packets m"
  "authentication_failures (record_received fp t packet m) = authentication_failures m"
  "rate_limited_packets (record_received fp t packet m) = rate_limited_packets m"
  "oversized_packets (record_received fp t packet m) = oversized_packets m"
  by (simp_all add: record_received_def Let_def split: prod.split)

text \<open>C17. Every packet is accounted for exactly once: a received packet counts as received with its bytes; if the
  handler refuses it, nothing is sent and it counts as one drop, and additionally as an authentication
  failure, as rate limited or as oversized exactly when its error is of that kind; if the handler accepts
  it, no drop is counted and as many sends as went out before the first failing send.\<close>

theorem relay_accounting:
  fixes res :: "(unit, 'io relay_error) result"
  assumes "run router_step (router_new c) es (router a)"
    and "loop_turn fp port (Packet t clk source packet send) a = (res, a')"
  shows "received_packets (metrics a') = received_packets (metrics a) + 1 \<and>
    bytes_in (metrics a') = bytes_in (metrics a) + word_of_nat (length packet) \<and>
    (case fst (handle_datagram clk port source packet (a\<lparr>metrics := record_received fp t packet (metrics a)\<rparr>)
        :: (outbound_datagram list, 'io relay_error) result \<times> app_state) of
       Ok outbound \<Rightarrow>
         dropped_packets (metrics a') = dropped_packets (metrics a) \<and>
         authentication_failures (metrics a') = authentication_failures (metrics a) \<and>
         (\<exists>n\<le>length outbound. sent_packets (metrics a') = sent_packets (metrics a) + word_of_nat n \<and>
            (res = Ok () \<longleftrightarrow> n = length outbound))
     | Err e \<Rightarrow>
         res = Ok () \<and> sent_packets (metrics a') = sent_packets (metrics a) \<and>
         dropped_packets (metrics a') = dropped_packets (metrics a) + 1 \<and>
         authentication_failures (metrics a') = authentication_failures (metrics a) + (if authentication_failure e then 1 else 0) \<and>
         rate_limited_packets (metrics a') = rate_limited_packets (metrics a) + (if e = PacketRateLimited then 1 else 0) \<and>
         oversized_packets (metrics a') = oversized_packets (metrics a) + (if oversized_error e then 1 else 0)
     | Panic \<Rightarrow> False)"
proof -
  let ?a = "a\<lparr>metrics := record_received fp t packet (metrics a)\<rparr>"
  let ?h = "handle_datagram clk port source packet ?a :: (outbound_datagram list, 'io relay_error) result \<times> app_state"
  obtain r b where h: "?h = (r, b)" by fastforce
  have inv: "router_inv (router ?a)" using inv_run [OF assms(1)] by simp
  have m: "r = Err PacketRateLimited \<and> metrics b = record_rate_limited (metrics ?a) \<or>
      r \<noteq> Err PacketRateLimited \<and> handler_metrics (metrics ?a) (metrics b)"
    using handle_datagram_metrics [OF refl, of clk port source packet ?a, where ?'io = 'io] h by simp
  show ?thesis
  proof (cases r)
    case (Ok outbound)
    then have hm: "handler_metrics (metrics ?a) (metrics b)" using m by simp
    have s: "send_all send outbound b = (res, a')" using assms(2) h Ok by simp
    have "\<exists>bytes. envelope_encode \<lparr>env_meta = out_meta d, env_message = out_message d\<rparr> = Ok bytes" if "d \<in> set outbound" for d
      using outbound_encodes [OF inv _ that] h Ok by metis
    from send_all_spec [OF this s] obtain n total where
      a': "a' = b\<lparr>metrics := (metrics b)\<lparr>sent_packets := sent_packets (metrics b) + word_of_nat n,
          bytes_out := bytes_out (metrics b) + total\<rparr>\<rparr>"
      and n: "res = Ok () \<and> n = length outbound \<or> (\<exists>io dest bytes. res = Err (IoError io) \<and> n < length outbound \<and> send dest bytes = Some io)"
      by blast
    then show ?thesis
      using Ok h handler_metrics_frame [OF hm] by (auto simp: record_received_counts intro!: exI [of _ n])
  next
    case (Err e)
    have "res = Ok ()" "a' = b\<lparr>metrics := record_drop (authentication_failure e)
        (if oversized_error e then record_oversized (metrics b) else metrics b)\<rparr>"
      using assms(2) h Err by (simp_all add: Let_def)
    moreover have "received_packets (metrics b) = received_packets (metrics a) + 1"
      "bytes_in (metrics b) = bytes_in (metrics a) + word_of_nat (length packet)"
      "sent_packets (metrics b) = sent_packets (metrics a)" "dropped_packets (metrics b) = dropped_packets (metrics a)"
      "authentication_failures (metrics b) = authentication_failures (metrics a)"
      "oversized_packets (metrics b) = oversized_packets (metrics a)"
      "rate_limited_packets (metrics b) = rate_limited_packets (metrics a) + (if e = PacketRateLimited then 1 else 0)"
      using m Err handler_metrics_frame [of "metrics ?a" "metrics b"]
      by (auto simp: record_received_counts record_rate_limited_def)
    ultimately show ?thesis
      using Err h by (simp add: record_drop_def record_oversized_def record_authentication_failure_def Let_def)
  next
    case Panic
    then show ?thesis using handle_datagram_not_Panic [OF inv, of clk port source packet, where ?'io = 'io] h by simp
  qed
qed

theorem relay_accounting_witness:
  "\<exists>res a'. loop_turn (\<lambda>_. 0) 32000 (Packet 5 demo_clocks (SocketAddr (IpV4 1) 5000) [1, 2, 3] (\<lambda>_ _. Some ())) demo_app = (res, a') \<and>
     received_packets (metrics a') = 1 \<and> dropped_packets (metrics a') = 1"
proof -
  have run: "run router_step (router_new demo_config) demo_play_events (router demo_app)"
    using demo_play_run by (simp add: demo_app_def)
  obtain res a' where t: "loop_turn (\<lambda>_. 0) 32000 (Packet 5 demo_clocks (SocketAddr (IpV4 1) 5000) [1, 2, 3] (\<lambda>_ _. Some ())) demo_app = (res, a')"
    by fastforce
  have "fst (handle_datagram demo_clocks 32000 (SocketAddr (IpV4 1) 5000) [1, 2, 3] x
      :: (outbound_datagram list, unit relay_error) result \<times> app_state) =
    Err (CodecError (InvalidPacket ''relay envelope header is truncated''))" for x
    by (simp add: handle_datagram_def envelope_decode_def decode_packet_eq size_defs)
  then show ?thesis
    using relay_accounting [OF run t] t by (simp add: demo_app_def app_new_def metrics_default_def)
qed

end
