(* ===== verification/Database.thy ===== *)
theory Database
  imports App_State
begin

section \<open>The database\<close>

text \<open>
  Models \<open>server/src/db.rs\<close> over the schema of \<open>server/migrations/0001_control_plane.sql\<close>: the four
  tables as lists of rows in insertion order, one definition per query with the uniqueness and
  foreign-key constraints and the cascades of the schema, and the reader \<open>load_state\<close>. What the network
  does to a call is an argument (\<open>link\<close>): it may work, never arrive, or be executed with its reply lost.
  \<open>NOW()\<close> is an argument, and so is how the server renders an \<open>INET\<close> column as text.
\<close>

subsection \<open>Rows, tables and errors\<close>

record room_row =
  rr_room_id :: room_id
  rr_room_code :: rstring
  rr_created_at :: instant
  rr_expires_at :: "instant option"

record peer_row =
  pw_peer_id :: peer_id
  pw_room_id :: room_id
  pw_virtual_ip :: ipv4
  pw_public_key :: rstring
  pw_joined_at :: instant
  pw_left_at :: "instant option"

record host_row =
  hw_host_session_id :: host_session_id
  hw_room_id :: room_id
  hw_peer_id :: peer_id
  hw_last_heartbeat_at :: instant
  hw_expires_at :: instant

record gameplay_row =
  gw_session_id :: gameplay_session_id
  gw_room_id :: room_id
  gw_client_peer_id :: peer_id
  gw_host_session_id :: host_session_id
  gw_last_activity_at :: instant
  gw_expires_at :: instant

record database =
  tb_rooms :: "room_row list"
  tb_peers :: "peer_row list"
  tb_hosts :: "host_row list"
  tb_gameplay :: "gameplay_row list"

definition empty_database :: database where
  "empty_database = \<lparr>tb_rooms = [], tb_peers = [], tb_hosts = [], tb_gameplay = []\<rparr>"

datatype sqlx_error =
    PoolError
  | UniqueViolation
  | ForeignKeyViolation
  | RowNotFound
  | ProtocolCode room_code_error
  | ProtocolAddress rstring

subsection \<open>What the connection does\<close>

datatype link = LinkUp | LinkDown | ReplyLost

definition execute ::
  "link \<Rightarrow> (database \<Rightarrow> (unit, sqlx_error) result \<times> database) \<Rightarrow> database \<Rightarrow> (unit, sqlx_error) result \<times> database"
where
  "execute link stmt db =
     (case link of
        LinkUp \<Rightarrow> stmt db
      | LinkDown \<Rightarrow> (Err PoolError, db)
      | ReplyLost \<Rightarrow> (Err PoolError, snd (stmt db)))"

subsection \<open>Cascades\<close>

definition remove_host_rows :: "(host_row \<Rightarrow> bool) \<Rightarrow> database \<Rightarrow> database" where
  "remove_host_rows P db =
     (let gone = map hw_host_session_id (filter P (tb_hosts db)) in
      db\<lparr>tb_hosts := filter (\<lambda>h. \<not> P h) (tb_hosts db),
         tb_gameplay := filter (\<lambda>g. gw_host_session_id g \<notin> set gone) (tb_gameplay db)\<rparr>)"

definition remove_peer_rows :: "(peer_row \<Rightarrow> bool) \<Rightarrow> database \<Rightarrow> database" where
  "remove_peer_rows P db =
     (let gone = map pw_peer_id (filter P (tb_peers db));
          db = db\<lparr>tb_gameplay := filter (\<lambda>g. gw_client_peer_id g \<notin> set gone) (tb_gameplay db)\<rparr>;
          db = remove_host_rows (\<lambda>h. hw_peer_id h \<in> set gone) db
      in db\<lparr>tb_peers := filter (\<lambda>p. \<not> P p) (tb_peers db)\<rparr>)"

subsection \<open>The queries\<close>

definition insert_room :: "instant \<Rightarrow> room_id \<Rightarrow> room_code \<Rightarrow> database \<Rightarrow> (unit, sqlx_error) result \<times> database" where
  "insert_room now rid code db =
     (if rid \<in> rr_room_id ` set (tb_rooms db) \<or> code_str code \<in> rr_room_code ` set (tb_rooms db)
      then (Err UniqueViolation, db)
      else (Ok (), db\<lparr>tb_rooms := tb_rooms db @ [\<lparr>rr_room_id = rid, rr_room_code = code_str code,
                rr_created_at = now, rr_expires_at = None\<rparr>]\<rparr>))"

definition delete_room_row :: "room_id \<Rightarrow> database \<Rightarrow> (unit, sqlx_error) result \<times> database" where
  "delete_room_row rid db =
     (let db = db\<lparr>tb_gameplay := filter (\<lambda>g. gw_room_id g \<noteq> rid) (tb_gameplay db)\<rparr>;
          db = remove_host_rows (\<lambda>h. hw_room_id h = rid) db;
          db = remove_peer_rows (\<lambda>p. pw_room_id p = rid) db
      in (Ok (), db\<lparr>tb_rooms := filter (\<lambda>r. rr_room_id r \<noteq> rid) (tb_rooms db)\<rparr>))"

definition insert_peer ::
  "instant \<Rightarrow> room_id \<Rightarrow> peer_id \<Rightarrow> virtual_ip \<Rightarrow> rstring \<Rightarrow> database \<Rightarrow> (unit, sqlx_error) result \<times> database" where
  "insert_peer now rid p ip public_key db =
     (if p \<in> pw_peer_id ` set (tb_peers db) \<or> address ip \<in> pw_virtual_ip ` set (tb_peers db) \<or>
         public_key \<in> pw_public_key ` set (tb_peers db)
      then (Err UniqueViolation, db)
      else if rid \<notin> rr_room_id ` set (tb_rooms db) then (Err ForeignKeyViolation, db)
      else (Ok (), db\<lparr>tb_peers := tb_peers db @ [\<lparr>pw_peer_id = p, pw_room_id = rid, pw_virtual_ip = address ip,
                pw_public_key = public_key, pw_joined_at = now, pw_left_at = None\<rparr>]\<rparr>))"

definition delete_peer_row :: "peer_id \<Rightarrow> database \<Rightarrow> (unit, sqlx_error) result \<times> database" where
  "delete_peer_row p db = (Ok (), remove_peer_rows (\<lambda>row. pw_peer_id row = p) db)"

definition ttl_seconds :: "duration \<Rightarrow> nat" where
  "ttl_seconds ttl = (let secs = ttl div 1000000000 in if secs < 2 ^ 63 then secs else 2 ^ 63 - 1)"

text \<open>Both statements of the transaction; a failing second one rolls the first back.\<close>

definition upsert_host ::
  "instant \<Rightarrow> room_id \<Rightarrow> peer_id \<Rightarrow> host_session_id \<Rightarrow> duration \<Rightarrow> database \<Rightarrow> (unit, sqlx_error) result \<times> database" where
  "upsert_host now rid p h ttl db =
     (let expires = now + from_secs (ttl_seconds ttl);
          db1 = remove_host_rows (\<lambda>row. hw_room_id row = rid \<and> hw_peer_id row = p \<and> hw_host_session_id row \<noteq> h) db
      in if h \<in> hw_host_session_id ` set (tb_hosts db1)
         then (Ok (), db1\<lparr>tb_hosts := map (\<lambda>row. if hw_host_session_id row = h
                 then row\<lparr>hw_last_heartbeat_at := now, hw_expires_at := expires\<rparr> else row) (tb_hosts db1)\<rparr>)
         else if rid \<notin> rr_room_id ` set (tb_rooms db1) \<or> p \<notin> pw_peer_id ` set (tb_peers db1)
         then (Err ForeignKeyViolation, db)
         else (Ok (), db1\<lparr>tb_hosts := tb_hosts db1 @ [\<lparr>hw_host_session_id = h, hw_room_id = rid, hw_peer_id = p,
                 hw_last_heartbeat_at = now, hw_expires_at = expires\<rparr>]\<rparr>))"

definition heartbeat_host_row ::
  "instant \<Rightarrow> room_id \<Rightarrow> peer_id \<Rightarrow> host_session_id \<Rightarrow> duration \<Rightarrow> database \<Rightarrow> (unit, sqlx_error) result \<times> database" where
  "heartbeat_host_row now rid p h ttl db =
     (let hit = (\<lambda>row. hw_host_session_id row = h \<and> hw_room_id row = rid \<and> hw_peer_id row = p);
          affected = length (filter hit (tb_hosts db));
          db = db\<lparr>tb_hosts := map (\<lambda>row. if hit row
                 then row\<lparr>hw_last_heartbeat_at := now, hw_expires_at := now + from_secs (ttl_seconds ttl)\<rparr> else row) (tb_hosts db)\<rparr>
      in if affected \<noteq> 1 then (Err RowNotFound, db) else (Ok (), db))"

definition delete_host_row :: "host_session_id \<Rightarrow> database \<Rightarrow> (unit, sqlx_error) result \<times> database" where
  "delete_host_row h db = (Ok (), remove_host_rows (\<lambda>row. hw_host_session_id row = h) db)"

definition insert_gameplay ::
  "instant \<Rightarrow> room_id \<Rightarrow> peer_id \<Rightarrow> host_session_id \<Rightarrow> gameplay_session_id \<Rightarrow> duration \<Rightarrow> database \<Rightarrow>
   (unit, sqlx_error) result \<times> database" where
  "insert_gameplay now rid client h g ttl db =
     (if g \<in> gw_session_id ` set (tb_gameplay db) then (Err UniqueViolation, db)
      else if rid \<notin> rr_room_id ` set (tb_rooms db) \<or> client \<notin> pw_peer_id ` set (tb_peers db) \<or>
              h \<notin> hw_host_session_id ` set (tb_hosts db)
      then (Err ForeignKeyViolation, db)
      else (Ok (), db\<lparr>tb_gameplay := tb_gameplay db @ [\<lparr>gw_session_id = g, gw_room_id = rid, gw_client_peer_id = client,
                gw_host_session_id = h, gw_last_activity_at = now,
                gw_expires_at = now + from_secs (ttl_seconds ttl)\<rparr>]\<rparr>))"

definition delete_gameplay :: "gameplay_session_id \<Rightarrow> database \<Rightarrow> (unit, sqlx_error) result \<times> database" where
  "delete_gameplay g db = (Ok (), db\<lparr>tb_gameplay := filter (\<lambda>row. gw_session_id row \<noteq> g) (tb_gameplay db)\<rparr>)"

definition clear_ephemeral_sessions :: "database \<Rightarrow> (unit, sqlx_error) result \<times> database" where
  "clear_ephemeral_sessions db = (Ok (), db\<lparr>tb_gameplay := [], tb_hosts := []\<rparr>)"

subsection \<open>Reading the persisted state\<close>

text \<open>\<open>Ipv4Addr::from_str\<close>: at most 15 bytes, four parts of one to three digits without a leading zero, each at most 255.\<close>

fun split_dots :: "rstring \<Rightarrow> rstring list" where
  "split_dots [] = [[]]"
| "split_dots (c # s) =
     (if c = 46 then [] # split_dots s
      else case split_dots s of [] \<Rightarrow> [[c]] | part # parts \<Rightarrow> (c # part) # parts)"

definition parse_octet :: "rstring \<Rightarrow> byte option" where
  "parse_octet s =
     (let value = foldl (\<lambda>v c. 10 * v + (c - 48)) 0 s in
      if s \<noteq> [] \<and> length s \<le> 3 \<and> (\<forall>c\<in>set s. 48 \<le> c \<and> c \<le> 57) \<and> (hd s = 48 \<longrightarrow> length s = 1) \<and> value \<le> 255
      then Some (word_of_nat value) else None)"

definition parse_ipv4 :: "rstring \<Rightarrow> ipv4 option" where
  "parse_ipv4 s =
     (if 15 < str_len s then None
      else case split_dots s of
        [a, b, c, d] \<Rightarrow>
          (case (parse_octet a, parse_octet b, parse_octet c, parse_octet d) of
             (Some a, Some b, Some c, Some d) \<Rightarrow> Some (ipv4_new a b c d)
           | _ \<Rightarrow> None)
      | _ \<Rightarrow> None)"

fun load_rooms :: "room_row list \<Rightarrow> persisted_state \<Rightarrow> (persisted_state, sqlx_error) result" where
  "load_rooms [] state = Ok state"
| "load_rooms (row # rows) state =
     and_then (map_err ProtocolCode (parse_code (rr_room_code row))) (\<lambda>code.
       load_rooms rows (state\<lparr>pst_rooms := pst_rooms state @ [\<lparr>pr_room_id = rr_room_id row, pr_room_code = code\<rparr>]\<rparr>))"

fun load_peers :: "(ipv4 \<Rightarrow> rstring) \<Rightarrow> peer_row list \<Rightarrow> persisted_state \<Rightarrow> (persisted_state, sqlx_error) result" where
  "load_peers inet_text [] state = Ok state"
| "load_peers inet_text (row # rows) state =
     and_then (ok_or (ProtocolAddress (inet_text (pw_virtual_ip row)))
         (map_option VirtualIp (parse_ipv4 (inet_text (pw_virtual_ip row))))) (\<lambda>ip.
       load_peers inet_text rows (state\<lparr>pst_peers := pst_peers state @ [\<lparr>pp_room_id = pw_room_id row,
         pp_peer_id = pw_peer_id row, pp_virtual_ip = ip, pp_wireguard_public_key = pw_public_key row\<rparr>]\<rparr>))"

definition load_state :: "(ipv4 \<Rightarrow> rstring) \<Rightarrow> instant \<Rightarrow> database \<Rightarrow> (persisted_state, sqlx_error) result" where
  "load_state inet_text now db =
     (let room_rows = sort_key rr_created_at (filter (\<lambda>row. case rr_expires_at row of None \<Rightarrow> True | Some t \<Rightarrow> now < t) (tb_rooms db));
          peer_rows = sort_key pw_joined_at (filter (\<lambda>row. pw_left_at row = None) (tb_peers db))
      in and_then (load_rooms room_rows \<lparr>pst_rooms = [], pst_peers = []\<rparr>) (load_peers inet_text peer_rows))"

subsection \<open>The schema holds\<close>

definition schema_ok :: "database \<Rightarrow> bool" where
  "schema_ok db \<longleftrightarrow>
     distinct (map rr_room_id (tb_rooms db)) \<and> distinct (map rr_room_code (tb_rooms db)) \<and>
     distinct (map pw_peer_id (tb_peers db)) \<and> distinct (map pw_virtual_ip (tb_peers db)) \<and>
     distinct (map pw_public_key (tb_peers db)) \<and>
     distinct (map hw_host_session_id (tb_hosts db)) \<and>
     distinct (map (\<lambda>h. (hw_room_id h, hw_peer_id h)) (tb_hosts db)) \<and>
     distinct (map gw_session_id (tb_gameplay db)) \<and>
     (\<forall>p\<in>set (tb_peers db). pw_room_id p \<in> rr_room_id ` set (tb_rooms db)) \<and>
     (\<forall>h\<in>set (tb_hosts db). hw_room_id h \<in> rr_room_id ` set (tb_rooms db) \<and>
        hw_peer_id h \<in> pw_peer_id ` set (tb_peers db)) \<and>
     (\<forall>g\<in>set (tb_gameplay db). gw_room_id g \<in> rr_room_id ` set (tb_rooms db) \<and>
        gw_client_peer_id g \<in> pw_peer_id ` set (tb_peers db) \<and>
        gw_host_session_id g \<in> hw_host_session_id ` set (tb_hosts db))"

lemma distinct_map_filter_not: "distinct (map f xs) \<Longrightarrow> distinct (map f (filter P xs))"
  by (induction xs) auto

lemmas row_removals = remove_host_rows_def remove_peer_rows_def Let_def

lemma schema_filter_gameplay: "schema_ok db \<Longrightarrow> schema_ok (db\<lparr>tb_gameplay := filter P (tb_gameplay db)\<rparr>)"
  by (simp add: schema_ok_def distinct_map_filter_not)

lemma schema_remove_hosts: 
  assumes "schema_ok db"
  shows "schema_ok (remove_host_rows P db)"
proof -
  have "gw_host_session_id g \<in> hw_host_session_id ` {h \<in> set (tb_hosts db). \<not> P h}"
    if "g \<in> set (tb_gameplay db)" "gw_host_session_id g \<notin> hw_host_session_id ` {h \<in> set (tb_hosts db). P h}" for g
    using assms that unfolding schema_ok_def by blast
  then show ?thesis
    using assms by (simp add: schema_ok_def row_removals distinct_map_filter_not)
qed

lemma schema_filter_peers:
  assumes "schema_ok db" and "\<And>h. h \<in> set (tb_hosts db) \<Longrightarrow> hw_peer_id h \<notin> pw_peer_id ` {p \<in> set (tb_peers db). \<not> P p}"
    and "\<And>g. g \<in> set (tb_gameplay db) \<Longrightarrow> gw_client_peer_id g \<notin> pw_peer_id ` {p \<in> set (tb_peers db). \<not> P p}"
  shows "schema_ok (db\<lparr>tb_peers := filter P (tb_peers db)\<rparr>)"
proof -
  have "hw_peer_id h \<in> pw_peer_id ` {p \<in> set (tb_peers db). P p}" if "h \<in> set (tb_hosts db)" for h
    using assms(1) assms(2) [OF that] that unfolding schema_ok_def by blast
  moreover have "gw_client_peer_id g \<in> pw_peer_id ` {p \<in> set (tb_peers db). P p}" if "g \<in> set (tb_gameplay db)" for g
    using assms(1) assms(3) [OF that] that unfolding schema_ok_def by blast
  ultimately show ?thesis
    using assms(1) by (simp add: schema_ok_def distinct_map_filter_not)
qed

lemma schema_remove_peers:
  assumes "schema_ok db"
  shows "schema_ok (remove_peer_rows P db)"
proof -
  let ?gone = "map pw_peer_id (filter P (tb_peers db))"
  let ?db = "remove_host_rows (\<lambda>h. hw_peer_id h \<in> set ?gone)
      (db\<lparr>tb_gameplay := filter (\<lambda>g. gw_client_peer_id g \<notin> set ?gone) (tb_gameplay db)\<rparr>)"
  have "schema_ok ?db" by (intro schema_remove_hosts schema_filter_gameplay assms)
  then have "schema_ok (?db\<lparr>tb_peers := filter (\<lambda>p. \<not> P p) (tb_peers ?db)\<rparr>)"
    by (rule schema_filter_peers) (simp_all add: remove_host_rows_def Let_def)
  then show ?thesis by (simp add: remove_peer_rows_def Let_def)
qed

lemma remove_host_rows_frame [simp]:
  "tb_rooms (remove_host_rows P db) = tb_rooms db"
  "tb_peers (remove_host_rows P db) = tb_peers db"
  "set (tb_hosts (remove_host_rows P db)) = {h \<in> set (tb_hosts db). \<not> P h}"
  "set (tb_gameplay (remove_host_rows P db)) \<subseteq> set (tb_gameplay db)"
  by (auto simp: remove_host_rows_def Let_def)

lemma remove_peer_rows_frame [simp]:
  "tb_rooms (remove_peer_rows P db) = tb_rooms db"
  "set (tb_peers (remove_peer_rows P db)) = {p \<in> set (tb_peers db). \<not> P p}"
  "set (tb_hosts (remove_peer_rows P db)) \<subseteq> set (tb_hosts db)"
  "set (tb_gameplay (remove_peer_rows P db)) \<subseteq> set (tb_gameplay db)"
  by (auto simp: row_removals)

lemma schema_filter_rooms:
  assumes "schema_ok db" "\<And>p. p \<in> set (tb_peers db) \<Longrightarrow> pw_room_id p \<noteq> rid"
    "\<And>h. h \<in> set (tb_hosts db) \<Longrightarrow> hw_room_id h \<noteq> rid" "\<And>g. g \<in> set (tb_gameplay db) \<Longrightarrow> gw_room_id g \<noteq> rid"
  shows "schema_ok (db\<lparr>tb_rooms := filter (\<lambda>r. rr_room_id r \<noteq> rid) (tb_rooms db)\<rparr>)"
proof -
  have "x \<in> rr_room_id ` {r \<in> set (tb_rooms db). rr_room_id r \<noteq> rid} \<longleftrightarrow> x \<noteq> rid \<and> x \<in> rr_room_id ` set (tb_rooms db)" for x
    by auto
  with assms show ?thesis by (simp add: schema_ok_def distinct_map_filter_not)
qed

lemma schema_delete_room:
  assumes "schema_ok db"
  shows "schema_ok (snd (delete_room_row rid db))"
proof -
  let ?db1 = "remove_host_rows (\<lambda>h. hw_room_id h = rid) (db\<lparr>tb_gameplay := filter (\<lambda>g. gw_room_id g \<noteq> rid) (tb_gameplay db)\<rparr>)"
  let ?db = "remove_peer_rows (\<lambda>p. pw_room_id p = rid) ?db1"
  have "schema_ok ?db" by (intro schema_remove_peers schema_remove_hosts schema_filter_gameplay assms)
  moreover have "hw_room_id h \<noteq> rid" if "h \<in> set (tb_hosts ?db)" for h
    using subsetD [OF remove_peer_rows_frame(3) that] by simp
  moreover have "gw_room_id g \<noteq> rid" if "g \<in> set (tb_gameplay ?db)" for g
    using subsetD [OF remove_host_rows_frame(4) subsetD [OF remove_peer_rows_frame(4) that]] by simp
  moreover have "pw_room_id p \<noteq> rid" if "p \<in> set (tb_peers ?db)" for p
    using that by simp
  ultimately have "schema_ok (?db\<lparr>tb_rooms := filter (\<lambda>r. rr_room_id r \<noteq> rid) (tb_rooms ?db)\<rparr>)"
    by (intro schema_filter_rooms)
  then show ?thesis by (simp add: delete_room_row_def Let_def)
qed

lemma schema_inserts:
  "schema_ok db \<Longrightarrow> schema_ok (snd (insert_room now rid code db))"
  "schema_ok db \<Longrightarrow> schema_ok (snd (insert_peer now rid p ip key db))"
  "schema_ok db \<Longrightarrow> schema_ok (snd (insert_gameplay now rid p h g ttl db))"
  by (auto simp: schema_ok_def insert_room_def insert_peer_def insert_gameplay_def)

lemma schema_update_hosts:
  assumes "schema_ok db" "\<And>row. hw_host_session_id (f row) = hw_host_session_id row \<and>
    hw_room_id (f row) = hw_room_id row \<and> hw_peer_id (f row) = hw_peer_id row"
  shows "schema_ok (db\<lparr>tb_hosts := map f (tb_hosts db)\<rparr>)"
  using assms by (auto simp: schema_ok_def comp_def image_image)

lemma schema_insert_host:
  assumes "schema_ok db" "h \<notin> hw_host_session_id ` set (tb_hosts db)"
    "(rid, p) \<notin> (\<lambda>h. (hw_room_id h, hw_peer_id h)) ` set (tb_hosts db)"
    "rid \<in> rr_room_id ` set (tb_rooms db)" "p \<in> pw_peer_id ` set (tb_peers db)"
  shows "schema_ok (db\<lparr>tb_hosts := tb_hosts db @ [\<lparr>hw_host_session_id = h, hw_room_id = rid, hw_peer_id = p,
    hw_last_heartbeat_at = t, hw_expires_at = t'\<rparr>]\<rparr>)"
  using assms by (simp add: schema_ok_def)

lemma schema_upsert:
  assumes "schema_ok db"
  shows "schema_ok (snd (upsert_host now rid p h ttl db))"
proof -
  let ?db = "remove_host_rows (\<lambda>row. hw_room_id row = rid \<and> hw_peer_id row = p \<and> hw_host_session_id row \<noteq> h) db"
  have ok: "schema_ok ?db" using assms by (rule schema_remove_hosts)
  have "(rid, p) \<notin> (\<lambda>h. (hw_room_id h, hw_peer_id h)) ` set (tb_hosts ?db)"
    if "h \<notin> hw_host_session_id ` set (tb_hosts ?db)"
    using that by auto
  then show ?thesis
    using assms schema_update_hosts [OF ok] schema_insert_host [OF ok]
    by (auto simp: upsert_host_def Let_def simp del: remove_host_rows_frame)
qed

lemma schema_heartbeat: "schema_ok db \<Longrightarrow> schema_ok (snd (heartbeat_host_row now rid p h ttl db))"
  using schema_update_hosts by (auto simp: heartbeat_host_row_def Let_def)

lemma schema_deletes:
  "schema_ok db \<Longrightarrow> schema_ok (snd (delete_peer_row p db))"
  "schema_ok db \<Longrightarrow> schema_ok (snd (delete_host_row h db))"
  "schema_ok db \<Longrightarrow> schema_ok (snd (delete_gameplay g db))"
  "schema_ok db \<Longrightarrow> schema_ok (snd (clear_ephemeral_sessions db))"
  by (simp_all add: delete_peer_row_def schema_remove_peers delete_host_row_def schema_remove_hosts)
    (auto simp: schema_ok_def delete_gameplay_def clear_ephemeral_sessions_def distinct_map_filter_not)

datatype db_query =
    InsertRoomQuery room_id room_code
  | DeleteRoomQuery room_id
  | InsertPeerQuery room_id peer_id virtual_ip rstring
  | DeletePeerQuery peer_id
  | UpsertHostQuery room_id peer_id host_session_id duration
  | HeartbeatHostQuery room_id peer_id host_session_id duration
  | DeleteHostQuery host_session_id
  | InsertGameplayQuery room_id peer_id host_session_id gameplay_session_id duration
  | DeleteGameplayQuery gameplay_session_id
  | ClearEphemeralQuery

fun run_query :: "instant \<Rightarrow> db_query \<Rightarrow> database \<Rightarrow> (unit, sqlx_error) result \<times> database" where
  "run_query now (InsertRoomQuery rid code) db = insert_room now rid code db"
| "run_query now (DeleteRoomQuery rid) db = delete_room_row rid db"
| "run_query now (InsertPeerQuery rid p ip key) db = insert_peer now rid p ip key db"
| "run_query now (DeletePeerQuery p) db = delete_peer_row p db"
| "run_query now (UpsertHostQuery rid p h ttl) db = upsert_host now rid p h ttl db"
| "run_query now (HeartbeatHostQuery rid p h ttl) db = heartbeat_host_row now rid p h ttl db"
| "run_query now (DeleteHostQuery h) db = delete_host_row h db"
| "run_query now (InsertGameplayQuery rid p h g ttl) db = insert_gameplay now rid p h g ttl db"
| "run_query now (DeleteGameplayQuery g) db = delete_gameplay g db"
| "run_query now ClearEphemeralQuery db = clear_ephemeral_sessions db"

text \<open>A call of the program: the clock of the server, the state of the connection, the query.\<close>

inductive db_step :: "database \<Rightarrow> instant \<times> link \<times> db_query \<Rightarrow> database \<Rightarrow> bool" where
  "db_step db (now, link, query) (snd (execute link (run_query now query) db))"

inductive_cases db_stepE: "db_step db e db'"

lemma schema_query: "schema_ok db \<Longrightarrow> schema_ok (snd (run_query now query db))"
  by (cases query) (simp_all add: schema_inserts schema_delete_room schema_upsert schema_heartbeat schema_deletes)

lemma schema_execute: "schema_ok db \<Longrightarrow> schema_ok (snd (execute link (run_query now query) db))"
  by (cases link) (simp_all add: execute_def schema_query)

lemma schema_empty: "schema_ok empty_database"
  by (simp add: schema_ok_def empty_database_def)

interpretation db_run: step_invariant db_step schema_ok
  by unfold_locales (auto elim!: db_stepE intro: schema_execute)

text \<open>C37. The tables always satisfy the schema: whatever sequence of the program's queries is executed on the empty
  database, with any of them failing or losing its reply, every key, code, address and public key is
  unique, no peer, host or gameplay row refers to a deleted row, and a room has at most one host session
  per peer.\<close>

theorem database_keeps_schema:
  assumes "run db_step empty_database es db"
  shows "schema_ok db"
  using db_run.run_keeps [OF assms schema_empty] .

definition demo_queries :: "(instant \<times> link \<times> db_query) list" where
  "demo_queries =
    [(1, LinkUp, InsertRoomQuery (RoomId 1) (RoomCode (rstr ''RMAAAA''))),
     (2, LinkUp, InsertPeerQuery (RoomId 1) (PeerId 5) (VirtualIp 7) (rstr ''key'')),
     (3, LinkDown, DeleteRoomQuery (RoomId 1))]"

definition demo_tables :: database where
  "demo_tables = \<lparr>tb_rooms = [\<lparr>rr_room_id = RoomId 1, rr_room_code = rstr ''RMAAAA'', rr_created_at = 1, rr_expires_at = None\<rparr>],
     tb_peers = [\<lparr>pw_peer_id = PeerId 5, pw_room_id = RoomId 1, pw_virtual_ip = 7, pw_public_key = rstr ''key'',
       pw_joined_at = 2, pw_left_at = None\<rparr>], tb_hosts = [], tb_gameplay = []\<rparr>"

lemma run_queries:
  "run db_step db es (fold (\<lambda>(now, link, query) db. snd (execute link (run_query now query) db)) es db)"
  by (induction es arbitrary: db) (auto intro: db_step.intros)

lemma demo_queries_run: "run db_step empty_database demo_queries demo_tables"
proof -
  have "fold (\<lambda>(now, link, query) db. snd (execute link (run_query now query) db)) demo_queries empty_database = demo_tables"
    by (simp add: demo_queries_def execute_def insert_room_def insert_peer_def empty_database_def demo_tables_def)
  then show ?thesis using run_queries by metis
qed

theorem database_keeps_schema_witness: "schema_ok demo_tables"
  by (rule database_keeps_schema [OF demo_queries_run])

subsection \<open>Addresses as text\<close>

lemma rstr_dec_str:
  assumes "n < 256"
  shows "rstr (dec_str n) = (if n < 10 then [48 + n] else if n < 100 then [48 + n div 10, 48 + n mod 10]
     else [48 + n div 100, 48 + n div 10 mod 10, 48 + n mod 10])"
proof -
  have c: "of_char (char_of (48 + d) :: char) = 48 + d" if "d < 10" for d :: nat
    using that by simp
  have digit: "dec_str d = [char_of (48 + d)]" if "d < 10" for d
    using that by (simp add: dec_str.simps [of d])
  have two: "dec_str m = [char_of (48 + m div 10), char_of (48 + m mod 10)]" if "10 \<le> m" "m < 100" for m
    using that by (simp add: dec_str.simps [of m] digit)
  have "dec_str n = [char_of (48 + n div 100), char_of (48 + n div 10 mod 10), char_of (48 + n mod 10)]" if "100 \<le> n"
    using that assms two [of "n div 10"] by (simp add: dec_str.simps [of n] div_mult2_eq [symmetric])
  then show ?thesis
    using assms digit [of n] two [of n] by (cases "n < 10"; cases "n < 100") (simp_all add: rstr_def c)
qed

lemma parse_octet_dec_str: "n < 256 \<Longrightarrow> parse_octet (rstr (dec_str n)) = Some (word_of_nat n)"
proof -
  assume n: "n < 256"
  have v: "foldl (\<lambda>v c. 10 * v + (c - 48)) 0 (rstr (dec_str n)) = n"
  proof -
    have "n div 10 * 10 + n mod 10 = n" by (rule div_mult_mod_eq)
    moreover have "n div 10 div 10 * 10 + n div 10 mod 10 = n div 10" by (rule div_mult_mod_eq)
    moreover have "n div 10 div 10 = n div 100" by (simp add: div_mult2_eq [symmetric])
    ultimately have "n = 100 * (n div 100) + 10 * (n div 10 mod 10) + n mod 10" by linarith
    then show ?thesis using n by (auto simp: rstr_dec_str)
  qed
  have "n div 10 mod 10 \<le> 9" "n mod 10 \<le> 9" "n div 100 \<le> 9" "\<not> n < 10 \<Longrightarrow> 0 < n div 10" "\<not> n < 100 \<Longrightarrow> 0 < n div 100"
    "n < 100 \<Longrightarrow> n div 10 \<le> 9"
    using n by auto
  then have "rstr (dec_str n) \<noteq> [] \<and> length (rstr (dec_str n)) \<le> 3 \<and> (\<forall>c\<in>set (rstr (dec_str n)). 48 \<le> c \<and> c \<le> 57) \<and>
      (hd (rstr (dec_str n)) = 48 \<longrightarrow> length (rstr (dec_str n)) = 1)"
    using n by (simp add: rstr_dec_str)
  then show ?thesis using n v by (simp add: parse_octet_def)
qed

lemma parse_octet_not_digit: "c \<in> set s \<Longrightarrow> \<not> (48 \<le> c \<and> c \<le> 57) \<Longrightarrow> parse_octet s = None"
  unfolding parse_octet_def Let_def by (simp; blast)

lemma dec_str_bounds:
  assumes "n < 256"
  shows "46 \<notin> set (rstr (dec_str n))" "length (rstr (dec_str n)) \<le> 3" "\<forall>c\<in>set (rstr (dec_str n)). c < 128"
  using assms by (auto simp: rstr_dec_str)

lemma split_dots_no_dot: "46 \<notin> set s \<Longrightarrow> split_dots s = [s]"
  by (induction s) auto

lemma split_dots_append: "46 \<notin> set s \<Longrightarrow> split_dots (s @ 46 # t) = s # split_dots t"
  by (induction s) auto

lemma rstr_append: "rstr (s @ t) = rstr s @ rstr t"
  by (simp add: rstr_def)

lemma octet_list: "octets a = [octets a ! 0, octets a ! 1, octets a ! 2, octets a ! 3]"
  by (rule nth_equalityI) (auto simp: less_Suc_eq numeral_eq_Suc)

lemma ipv4_text_parts:
  "rstr (ipv4_to_string a) =
     (let part = (\<lambda>i. rstr (dec_str (unat (octets a ! i)))) in part 0 @ 46 # part 1 @ 46 # part 2 @ 46 # part 3)"
proof -
  have "map (\<lambda>b. dec_str (unat b)) (octets a) = map (\<lambda>i. dec_str (unat (octets a ! i))) [0, 1, 2, 3]"
    by (subst octet_list) simp
  moreover have "rstr (CHR ''.'' # s) = 46 # rstr s" for s by (simp add: rstr_def)
  ultimately show ?thesis by (simp add: ipv4_to_string_def rstr_append)
qed

lemma str_len_ascii: "\<forall>c\<in>set s. c < 128 \<Longrightarrow> str_len s = length s"
  by (induction s) (auto simp: str_len_def utf8_len_def)

lemma ipv4_from_octet_list: "ipv4_new (octets a ! 0) (octets a ! 1) (octets a ! 2) (octets a ! 3) = a"
proof -
  have "octets (ipv4_new (octets a ! 0) (octets a ! 1) (octets a ! 2) (octets a ! 3)) = octets a"
    unfolding octets_ipv4_new by (rule octet_list [symmetric])
  then show ?thesis by (simp only: octets_inject)
qed

lemma parse_ipv4_to_string: "parse_ipv4 (rstr (ipv4_to_string a)) = Some a"
proof -
  let ?part = "\<lambda>i. rstr (dec_str (unat (octets a ! i)))"
  have b: "46 \<notin> set (?part i)" "length (?part i) \<le> 3" "\<forall>c\<in>set (?part i). c < 128" for i
    using dec_str_bounds [OF unat_byte_less [of "octets a ! i"]] by simp_all
  have "str_len (rstr (ipv4_to_string a)) = length (rstr (ipv4_to_string a))"
    using b(3) by (intro str_len_ascii) (auto simp: ipv4_text_parts Let_def)
  also have "\<dots> \<le> 15"
    using b(2) [of 0] b(2) [of 1] b(2) [of 2] b(2) [of 3] by (simp add: ipv4_text_parts Let_def)
  finally have "str_len (rstr (ipv4_to_string a)) \<le> 15" .
  moreover have "split_dots (rstr (ipv4_to_string a)) = [?part 0, ?part 1, ?part 2, ?part 3]"
    using b(1) by (simp add: ipv4_text_parts Let_def split_dots_append split_dots_no_dot)
  ultimately show ?thesis
    using ipv4_from_octet_list [of a] by (simp add: parse_ipv4_def parse_octet_dec_str unat_byte_less)
qed

lemma parse_ipv4_netmask: "parse_ipv4 (rstr (ipv4_to_string a @ ''/32'')) = None"
proof -
  let ?part = "\<lambda>i. rstr (dec_str (unat (octets a ! i)))"
  have b: "46 \<notin> set (?part i)" for i
    using dec_str_bounds(1) [OF unat_byte_less [of "octets a ! i"]] by simp
  have mask: "46 \<notin> set (rstr ''/32'')" "47 \<in> set (rstr ''/32'')" by (simp_all add: rstr_def)
  have "split_dots (rstr (ipv4_to_string a @ ''/32'')) = [?part 0, ?part 1, ?part 2, ?part 3 @ rstr ''/32'']"
    using b mask(1) by (simp add: rstr_append ipv4_text_parts Let_def split_dots_append split_dots_no_dot)
  moreover have "parse_octet (?part 3 @ rstr ''/32'') = None"
    using mask(2) by (intro parse_octet_not_digit [of 47]) simp_all
  ultimately show ?thesis
    by (simp add: parse_ipv4_def split: option.split)
qed

subsection \<open>What is loaded\<close>

lemma load_rooms_codes:
  assumes "\<And>row. row \<in> set rows \<Longrightarrow> well_formed_code (RoomCode (rr_room_code row))"
  shows "load_rooms rows state = Ok (state\<lparr>pst_rooms := pst_rooms state @
    map (\<lambda>row. \<lparr>pr_room_id = rr_room_id row, pr_room_code = RoomCode (rr_room_code row)\<rparr>) rows\<rparr>)"
  using assms
proof (induction rows arbitrary: state)
  case (Cons row rows)
  then show ?case using parse_well_formed [of "RoomCode (rr_room_code row)"] by simp
qed simp

lemma load_peers_plain:
  assumes "\<And>ip. inet_text ip = rstr (ipv4_to_string ip)"
  shows "load_peers inet_text rows state = Ok (state\<lparr>pst_peers := pst_peers state @
    map (\<lambda>row. \<lparr>pp_room_id = pw_room_id row, pp_peer_id = pw_peer_id row, pp_virtual_ip = VirtualIp (pw_virtual_ip row),
      pp_wireguard_public_key = pw_public_key row\<rparr>) rows\<rparr>)"
  by (induction rows arbitrary: state) (simp_all add: assms parse_ipv4_to_string)

lemma load_peers_netmask:
  assumes "\<And>ip. inet_text ip = rstr (ipv4_to_string ip @ ''/32'')" "rows \<noteq> []"
  shows "load_peers inet_text rows state = Err (ProtocolAddress (inet_text (pw_virtual_ip (hd rows))))"
  using assms(2) by (cases rows) (simp_all add: assms(1) parse_ipv4_netmask)

text \<open>The rows a restart reads, in the order of creation.\<close>

definition open_rooms :: "instant \<Rightarrow> database \<Rightarrow> room_row list" where
  "open_rooms now db = sort_key rr_created_at (filter (\<lambda>row. case rr_expires_at row of None \<Rightarrow> True | Some t \<Rightarrow> now < t) (tb_rooms db))"

definition present_peers :: "database \<Rightarrow> peer_row list" where
  "present_peers db = sort_key pw_joined_at (filter (\<lambda>row. pw_left_at row = None) (tb_peers db))"

definition codes_well_formed :: "database \<Rightarrow> bool" where
  "codes_well_formed db \<longleftrightarrow> (\<forall>row\<in>set (tb_rooms db). well_formed_code (RoomCode (rr_room_code row)))"

text \<open>C38. Loading depends on how the server renders an address column: if \<open>virtual_ip::text\<close> is the bare dotted
  address, loading gives every open room and every present peer in the order of creation; if the text
  carries the netmask \<open>/32\<close>, as PostgreSQL documents for \<open>INET\<close>, then loading fails with a protocol error as
  soon as one peer is stored.\<close>

theorem load_state_by_rendering:
  assumes "codes_well_formed db"
  shows "((\<forall>ip. inet_text ip = rstr (ipv4_to_string ip)) \<longrightarrow>
      load_state inet_text now db = Ok \<lparr>
        pst_rooms = map (\<lambda>row. \<lparr>pr_room_id = rr_room_id row, pr_room_code = RoomCode (rr_room_code row)\<rparr>) (open_rooms now db),
        pst_peers = map (\<lambda>row. \<lparr>pp_room_id = pw_room_id row, pp_peer_id = pw_peer_id row,
          pp_virtual_ip = VirtualIp (pw_virtual_ip row), pp_wireguard_public_key = pw_public_key row\<rparr>) (present_peers db)\<rparr>) \<and>
    ((\<forall>ip. inet_text ip = rstr (ipv4_to_string ip @ ''/32'')) \<and> present_peers db \<noteq> [] \<longrightarrow>
      load_state inet_text now db = Err (ProtocolAddress (inet_text (pw_virtual_ip (hd (present_peers db))))))"
proof -
  have codes: "well_formed_code (RoomCode (rr_room_code row))" if "row \<in> set (open_rooms now db)" for row
    using assms that by (auto simp: codes_well_formed_def open_rooms_def)
  show ?thesis
    using load_peers_plain [of inet_text] load_peers_netmask [of inet_text "present_peers db"]
    by (simp add: load_state_def open_rooms_def [symmetric] present_peers_def [symmetric] load_rooms_codes [OF codes])
qed

theorem load_state_by_rendering_witness:
  "load_state (\<lambda>ip. rstr (ipv4_to_string ip)) 9 demo_tables = Ok \<lparr>
     pst_rooms = [\<lparr>pr_room_id = RoomId 1, pr_room_code = RoomCode (rstr ''RMAAAA'')\<rparr>],
     pst_peers = [\<lparr>pp_room_id = RoomId 1, pp_peer_id = PeerId 5, pp_virtual_ip = VirtualIp 7,
       pp_wireguard_public_key = rstr ''key''\<rparr>]\<rparr> \<and>
   load_state (\<lambda>ip. rstr (ipv4_to_string ip @ ''/32'')) 9 demo_tables =
     Err (ProtocolAddress (rstr (ipv4_to_string 7 @ ''/32'')))"
proof -
  have "codes_well_formed demo_tables"
    by (simp add: codes_well_formed_def demo_tables_def well_formed_code_def room_alphabet_codes rstr_def CODE_MIN_LEN_def CODE_MAX_LEN_def)
  moreover have "open_rooms 9 demo_tables = tb_rooms demo_tables" "present_peers demo_tables = tb_peers demo_tables"
    by (simp_all add: open_rooms_def present_peers_def demo_tables_def)
  ultimately show ?thesis
    using load_state_by_rendering [of demo_tables "\<lambda>ip. rstr (ipv4_to_string ip)" 9]
      load_state_by_rendering [of demo_tables "\<lambda>ip. rstr (ipv4_to_string ip @ ''/32'')" 9]
    by (simp add: demo_tables_def)
qed

end
