(* ===== verification/Api.thy ===== *)
theory Api
  imports Database
begin

section \<open>The control API of the server\<close>

text \<open>
  Models \<open>server/src/api.rs\<close>: errors and their status codes, the bearer checks, user registration and
  login with client sessions, and every route handler with its database and WireGuard calls and its
  roll-backs. A handler is one function from the shared world to its outcome and the new world; where it
  waits for the database or for \<open>wg\<close> without holding the router, other requests may run, which is the
  argument \<open>e_other\<close>. Password hashing, base64, UUIDs, clocks, the network and the \<open>wg\<close> command are fields
  of the environment; the JSON and path extraction of the web framework happens before a handler.
\<close>

subsection \<open>Errors\<close>

text \<open>A message that the code renders from an error value is kept as that value.\<close>

datatype api_message =
    Text string
  | RouterText router_error
  | WireGuardText wireguard_error
  | CodeText room_code_error

datatype api_error =
    Unauthorized
  | TooManyRequests
  | Forbidden api_message
  | BadRequest api_message
  | NotFound api_message
  | Conflict api_message
  | Internal api_message

fun status_and_code :: "api_error \<Rightarrow> nat \<times> string" where
  "status_and_code Unauthorized = (401, ''unauthorized'')"
| "status_and_code TooManyRequests = (429, ''rate_limited'')"
| "status_and_code (Forbidden _) = (403, ''forbidden'')"
| "status_and_code (BadRequest _) = (400, ''bad_request'')"
| "status_and_code (NotFound _) = (404, ''not_found'')"
| "status_and_code (Conflict _) = (409, ''conflict'')"
| "status_and_code (Internal _) = (500, ''internal_error'')"

record error_response =
  err_error :: string
  err_message :: api_message

fun error_message :: "api_error \<Rightarrow> api_message" where
  "error_message Unauthorized = Text ''a valid bearer token is required''"
| "error_message TooManyRequests = Text ''control request rate limit exceeded''"
| "error_message (Forbidden message) = message"
| "error_message (BadRequest message) = message"
| "error_message (NotFound message) = message"
| "error_message (Conflict message) = message"
| "error_message (Internal message) = message"

definition into_response :: "api_error \<Rightarrow> nat \<times> error_response" where
  "into_response e =
     (case status_and_code e of (status, error) \<Rightarrow> (status, \<lparr>err_error = error, err_message = error_message e\<rparr>))"

fun from_router_error :: "router_error \<Rightarrow> api_error" where
  "from_router_error (RoomNotFound rid) = NotFound (RouterText (RoomNotFound rid))"
| "from_router_error (PeerNotInRoom p rid) = NotFound (RouterText (PeerNotInRoom p rid))"
| "from_router_error (PeerNotFound p) = NotFound (RouterText (PeerNotFound p))"
| "from_router_error (HostNotFound h) = NotFound (RouterText (HostNotFound h))"
| "from_router_error (DiscoveryNotFound q) = NotFound (RouterText (DiscoveryNotFound q))"
| "from_router_error (GameplayNotFound g) = NotFound (RouterText (GameplayNotFound g))"
| "from_router_error (HostNotInRoom h rid) = Forbidden (RouterText (HostNotInRoom h rid))"
| "from_router_error (UnauthorizedGameplayPeer p g) = Forbidden (RouterText (UnauthorizedGameplayPeer p g))"
| "from_router_error (HostExpired h) = BadRequest (RouterText (HostExpired h))"
| "from_router_error (DiscoveryExpired q) = BadRequest (RouterText (DiscoveryExpired q))"
| "from_router_error (InvalidDiscoveryPort port) = BadRequest (RouterText (InvalidDiscoveryPort port))"
| "from_router_error (InvalidGameplayPort port) = BadRequest (RouterText (InvalidGameplayPort port))"
| "from_router_error (DatagramTooLarge n) = BadRequest (RouterText (DatagramTooLarge n))"
| "from_router_error e = Conflict (RouterText e)"

fun from_wireguard_error :: "wireguard_error \<Rightarrow> api_error" where
  "from_wireguard_error InvalidPublicKey = BadRequest (WireGuardText InvalidPublicKey)"
| "from_wireguard_error _ = Internal (Text ''WireGuard peer operation failed'')"

subsection \<open>Requests and responses\<close>

record auth_request =
  ar_username :: rstring
  ar_password :: rstring

record auth_response =
  as_username :: rstring
  as_access_token :: rstring
  as_expires_in_seconds :: nat

record join_request =
  jr_peer_id :: "peer_id option"
  jr_wireguard_public_key :: "rstring option"
  jr_requested_virtual_ip :: "virtual_ip option"

record heartbeat_request =
  hr_peer_id :: peer_id
  hr_host_session_id :: host_session_id

record gameplay_request =
  gr_client_peer_id :: peer_id
  gr_host_session_id :: host_session_id

record room_response =
  ro_room_id :: room_id
  ro_room_code :: room_code
  ro_member_count :: nat
  ro_host_count :: nat

record peer_response =
  pe_room_id :: room_id
  pe_peer_id :: peer_id
  pe_virtual_ip :: virtual_ip
  pe_connection_epoch :: u64

record host_response =
  ho_room_id :: room_id
  ho_host_session_id :: host_session_id
  ho_peer_id :: peer_id
  ho_virtual_ip :: virtual_ip
  ho_expires_in_seconds :: nat

record gameplay_response =
  ga_session_id :: gameplay_session_id
  ga_room_id :: room_id
  ga_client_peer_id :: peer_id
  ga_host_peer_id :: peer_id
  ga_client_virtual_ip :: virtual_ip
  ga_host_virtual_ip :: virtual_ip

record health_response =
  health_status :: string
  health_database_configured :: bool

definition room_response_of :: "room_snapshot \<Rightarrow> room_response" where
  "room_response_of s = \<lparr>ro_room_id = rsnap_room_id s, ro_room_code = rsnap_code s,
     ro_member_count = rsnap_member_count s, ro_host_count = rsnap_host_count s\<rparr>"

definition host_response_of :: "host_snapshot \<Rightarrow> nat \<Rightarrow> host_response" where
  "host_response_of s expires_in_seconds = \<lparr>ho_room_id = hsnap_room_id s,
     ho_host_session_id = hsnap_host_session_id s, ho_peer_id = hsnap_peer_id s,
     ho_virtual_ip = hsnap_virtual_ip s, ho_expires_in_seconds = expires_in_seconds\<rparr>"

definition gameplay_response_of :: "gameplay_snapshot \<Rightarrow> gameplay_response" where
  "gameplay_response_of s = \<lparr>ga_session_id = gsnap_session_id s, ga_room_id = gsnap_room_id s,
     ga_client_peer_id = gsnap_client_peer_id s, ga_host_peer_id = gsnap_host_peer_id s,
     ga_client_virtual_ip = gsnap_client_virtual_ip s, ga_host_virtual_ip = gsnap_host_virtual_ip s\<rparr>"

subsection \<open>The world of a handler\<close>

record world =
  w_app :: app_state
  w_db :: database
  w_wg :: "rstring list list"

record env =
  e_authorization :: "rstring option"
  e_limit_at :: instant
  e_session_at :: instant
  e_now :: instant
  e_db_now :: instant
  e_room_id :: room_id
  e_random_code :: room_code
  e_peer_id :: peer_id
  e_host_id :: host_session_id
  e_gameplay_id :: gameplay_session_id
  e_decode :: "rstring \<Rightarrow> byte list option"
  e_wg :: "rstring list \<Rightarrow> (unit, wireguard_error) result"
  e_link :: "nat \<Rightarrow> link"
  e_other :: "nat \<Rightarrow> world \<Rightarrow> world"

abbreviation the_router :: "world \<Rightarrow> room_router" where
  "the_router w \<equiv> router (w_app w)"

definition on_app :: "(app_state \<Rightarrow> app_state) \<Rightarrow> world \<Rightarrow> world" where
  "on_app f w = w\<lparr>w_app := f (w_app w)\<rparr>"

text \<open>A router operation under its lock, with the conversion of its error by \<open>?\<close>.\<close>

definition router_op ::
  "(room_router \<Rightarrow> ('a, router_error) result \<times> room_router) \<Rightarrow> world \<Rightarrow> ('a, api_error) result \<times> world" where
  "router_op f w = (case f (the_router w) of
     (res, r) \<Rightarrow> (map_err from_router_error res, on_app (router_update (\<lambda>_. r)) w))"

text \<open>\<open>let _ = \<dots>\<close>: the error is ignored, a panic is not.\<close>

definition discard :: "('a, 'e) result \<times> 's \<Rightarrow> (unit, 'd) result \<times> 's" where
  "discard p = (case p of (Panic, s) \<Rightarrow> (Panic, s) | (_, s) \<Rightarrow> (Ok (), s))"

text \<open>
  The \<open>n\<close>-th wait of a handler, on the database or on \<open>wg\<close>: other requests run before and while it is
  served. A \<open>wg\<close> command that is run is recorded with its arguments.
\<close>

definition database_call :: "env \<Rightarrow> nat \<Rightarrow> db_query \<Rightarrow> world \<Rightarrow> (unit, sqlx_error) result \<times> world" where
  "database_call env n query w =
     (let w = e_other env (2 * n) w in
      case execute (e_link env n) (run_query (e_db_now env) query) (w_db w) of
        (res, db) \<Rightarrow> (res, e_other env (2 * n + 1) (w\<lparr>w_db := db\<rparr>)))"

definition wireguard_run :: "env \<Rightarrow> nat \<Rightarrow> rstring list \<Rightarrow> world \<Rightarrow> (unit, wireguard_error) result \<times> world" where
  "wireguard_run env n args w =
     (let w = e_other env (2 * n) w
      in (e_wg env args, e_other env (2 * n + 1) (w\<lparr>w_wg := w_wg w @ [args]\<rparr>)))"

definition add_peer_call ::
  "env \<Rightarrow> nat \<Rightarrow> wireguard_manager \<Rightarrow> rstring \<Rightarrow> virtual_ip \<Rightarrow> world \<Rightarrow> (unit, wireguard_error) result \<times> world" where
  "add_peer_call env n m public_key ip w =
     try_st (validate_public_key (e_decode env) public_key, w) (\<lambda>_ w. wireguard_run env n (add_peer_args m public_key ip) w)"

definition remove_peer_call ::
  "env \<Rightarrow> nat \<Rightarrow> wireguard_manager \<Rightarrow> rstring \<Rightarrow> world \<Rightarrow> (unit, wireguard_error) result \<times> world" where
  "remove_peer_call env n m public_key w =
     try_st (validate_public_key (e_decode env) public_key, w) (\<lambda>_ w. wireguard_run env n (remove_peer_args m public_key) w)"

text \<open>A call whose failure, whatever it is, becomes the given error.\<close>

definition or_fail :: "api_error \<Rightarrow> ('a, 'e) result \<times> world \<Rightarrow> ('a, api_error) result \<times> world" where
  "or_fail e p = (case p of (res, w) \<Rightarrow> (map_err (\<lambda>_. e) res, w))"

text \<open>What a handler does when a step fails: it undoes what it did before, ignoring errors, and returns the error.\<close>

definition recover ::
  "('e \<Rightarrow> api_error) \<Rightarrow> (world \<Rightarrow> (unit, api_error) result \<times> world) \<Rightarrow> ('a, 'e) result \<times> world \<Rightarrow> ('a, api_error) result \<times> world"
where
  "recover f undo p =
     (case p of
        (Ok x, w) \<Rightarrow> (Ok x, w)
      | (Err e, w) \<Rightarrow> try_st (discard (undo w)) (\<lambda>_ w. (Err (f e), w))
      | (Panic, w) \<Rightarrow> (Panic, w))"

subsection \<open>Authorisation\<close>

definition strip_prefix :: "rstring \<Rightarrow> rstring \<Rightarrow> rstring option" where
  "strip_prefix prefix s = (if take (length prefix) s = prefix then Some (drop (length prefix) s) else None)"

definition limit_request :: "env \<Rightarrow> rstring \<Rightarrow> world \<Rightarrow> (unit, api_error) result \<times> world" where
  "limit_request env key w =
     (case allow (e_limit_at env) key (api_rate_limiter (w_app w)) of
        (allowed, l) \<Rightarrow> (if allowed then Ok () else Err TooManyRequests, on_app (api_rate_limiter_update (\<lambda>_. l)) w))"

definition refuse :: "world \<Rightarrow> (unit, api_error) result \<times> world" where
  "refuse w = (Err Unauthorized, on_app (metrics_update record_authentication_failure) w)"

definition require_admin_bearer :: "env \<Rightarrow> world \<Rightarrow> (unit, api_error) result \<times> world" where
  "require_admin_bearer env w =
     (let expected = rstr ''Bearer '' @ bearer_token (w_app w);
          provided = e_authorization env
      in if provided = Some expected
         then limit_request env (case provided of Some p \<Rightarrow> p | None \<Rightarrow> []) w
         else refuse w)"

definition require_bearer :: "env \<Rightarrow> world \<Rightarrow> (unit, api_error) result \<times> world" where
  "require_bearer env w =
     (case Option.bind (e_authorization env) (strip_prefix (rstr ''Bearer '')) of
        None \<Rightarrow> refuse w
      | Some token \<Rightarrow>
          if token = bearer_token (w_app w) then limit_request env token w
          else
            let sessions = hretain (\<lambda>_ s. e_session_at env < session_expires_at s) (client_sessions (w_app w));
                w = on_app (client_sessions_update (\<lambda>_. sessions)) w
            in if \<not> hcontains token sessions then refuse w else limit_request env token w)"

subsection \<open>Users and sessions\<close>

text \<open>\<open>char::is_whitespace\<close> is the Unicode property \<open>White_Space\<close>, \<open>char::is_control\<close> the category \<open>Cc\<close>.\<close>

definition is_whitespace :: "rchar \<Rightarrow> bool" where
  "is_whitespace c \<longleftrightarrow> 9 \<le> c \<and> c \<le> 13 \<or> 0x2000 \<le> c \<and> c \<le> 0x200A \<or>
     c \<in> {0x20, 0x85, 0xA0, 0x1680, 0x2028, 0x2029, 0x202F, 0x205F, 0x3000}"

definition is_control :: "rchar \<Rightarrow> bool" where
  "is_control c \<longleftrightarrow> c < 32 \<or> 127 \<le> c \<and> c \<le> 159"

definition trim :: "rstring \<Rightarrow> rstring" where
  "trim s = rev (dropWhile is_whitespace (rev (dropWhile is_whitespace s)))"

text \<open>
  What registration and login take from outside: \<open>str::to_lowercase\<close>, the salt drawn and its encoding,
  Argon2 hashing (password, salt), the parsing of a stored hash and its verification (password, stored
  hash), and the access token of two random UUIDs.
\<close>

record auth_env =
  ae_lowercase :: "rstring \<Rightarrow> rstring"
  ae_salt :: "rstring option"
  ae_hash :: "rstring \<Rightarrow> rstring \<Rightarrow> rstring option"
  ae_parses :: "rstring \<Rightarrow> bool"
  ae_verify :: "rstring \<Rightarrow> rstring \<Rightarrow> bool"
  ae_token :: rstring
  ae_now :: instant

definition validate_username :: "auth_env \<Rightarrow> rstring \<Rightarrow> (rstring, api_error) result" where
  "validate_username ae value =
     (let username = ae_lowercase ae (trim value) in
      if \<not> (2 \<le> length username \<and> length username \<le> 24) \<or> (\<exists>c\<in>set username. is_control c \<or> is_whitespace c)
      then Err (BadRequest (Text ''username must contain 2 to 24 non-whitespace characters''))
      else Ok username)"

definition validate_password :: "rstring \<Rightarrow> (unit, api_error) result" where
  "validate_password value =
     (if \<not> (6 \<le> length value \<and> length value \<le> 128)
      then Err (BadRequest (Text ''password must contain 6 to 128 characters'')) else Ok ())"

definition hash_password :: "auth_env \<Rightarrow> rstring \<Rightarrow> (rstring, api_error) result" where
  "hash_password ae password =
     and_then (ok_or (Internal (Text ''failed to generate password salt'')) (ae_salt ae)) (\<lambda>salt.
       ok_or (Internal (Text ''failed to hash password'')) (ae_hash ae password salt))"

definition create_client_session :: "auth_env \<Rightarrow> rstring \<Rightarrow> world \<Rightarrow> (auth_response, api_error) result \<times> world" where
  "create_client_session ae username w =
     (let expires_at = ae_now ae + CLIENT_SESSION_TTL;
          w = on_app (client_sessions_update (hinsert (ae_token ae) (ClientSession expires_at))) w
      in (Ok \<lparr>as_username = username, as_access_token = ae_token ae,
              as_expires_in_seconds = CLIENT_SESSION_TTL div from_secs 1\<rparr>, w))"

definition register_user :: "env \<Rightarrow> auth_env \<Rightarrow> auth_request \<Rightarrow> world \<Rightarrow> (nat \<times> auth_response, api_error) result \<times> world" where
  "register_user env ae payload w =
     try_st (validate_username ae (ar_username payload), w) (\<lambda>username w.
     try_st (validate_password (ar_password payload), w) (\<lambda>_ w.
     try_st (limit_request env (rstr ''register:'' @ username) w) (\<lambda>_ w.
     try_st (hash_password ae (ar_password payload), w) (\<lambda>password_hash w.
       if hcontains username (users (w_app w))
       then (Err (Conflict (Text ''username is already registered'')), w)
       else
         let w = on_app (users_update (hinsert username (UserAccount password_hash))) w in
         try_st (create_client_session ae username w) (\<lambda>response w. (Ok (201, response), w))))))"

definition login_user :: "env \<Rightarrow> auth_env \<Rightarrow> auth_request \<Rightarrow> world \<Rightarrow> (nat \<times> auth_response, api_error) result \<times> world" where
  "login_user env ae payload w =
     try_st (validate_username ae (ar_username payload), w) (\<lambda>username w.
     try_st (limit_request env (rstr ''login:'' @ username) w) (\<lambda>_ w.
     try_st (ok_or Unauthorized (map_option password_hash (hget (users (w_app w)) username)), w) (\<lambda>password_hash w.
       if \<not> ae_parses ae password_hash then (Err (Internal (Text ''stored password hash is invalid'')), w)
       else if \<not> ae_verify ae (ar_password payload) password_hash then (Err Unauthorized, w)
       else try_st (create_client_session ae username w) (\<lambda>response w. (Ok (200, response), w)))))"

end
