(* ===== verification/Api_Handlers.thy ===== *)
theory Api_Handlers
  imports Api
begin

section \<open>The route handlers\<close>

text \<open>
  The handlers of \<open>server/src/api.rs\<close> and their table \<open>build_router\<close>. Each definition follows its handler
  statement by statement: the bearer check, the room code, the section under the router's lock, the
  waits on WireGuard and the database, and what is rolled back when one of them fails.
\<close>

subsection \<open>Health and metrics\<close>

definition health_live :: "world \<Rightarrow> health_response" where
  "health_live w = \<lparr>health_status = ''ok'', health_database_configured = has_database (w_app w)\<rparr>"

definition health_ready :: "world \<Rightarrow> nat \<times> health_response" where
  "health_ready w =
     (let database_configured = has_database (w_app w)
      in (200, \<lparr>health_status = (if database_configured then ''ready'' else ''ready_in_memory''),
                health_database_configured = database_configured\<rparr>))"

definition test_metrics :: "env \<Rightarrow> world \<Rightarrow> (relay_metrics_snapshot, api_error) result \<times> world" where
  "test_metrics env w =
     try_st (require_admin_bearer env w) (\<lambda>_ w.
       (Ok (metrics_snapshot (router_stats_of (the_router w)) (metrics (w_app w))), w))"

subsection \<open>Rooms\<close>

text \<open>\<open>Path(code)\<close> and the lookup of the room, as every room handler does them.\<close>

definition path_code :: "rstring \<Rightarrow> (room_code, api_error) result" where
  "path_code code = map_err (\<lambda>e. BadRequest (CodeText e)) (parse_room_code code)"

definition room_of_code :: "room_code \<Rightarrow> room_router \<Rightarrow> (room_id, api_error) result" where
  "room_of_code code r = ok_or (NotFound (Text ''room does not exist'')) (room_id_for_code r code)"

definition create_room_handler :: "env \<Rightarrow> room_code option \<Rightarrow> world \<Rightarrow> (nat \<times> room_response, api_error) result \<times> world" where
  "create_room_handler env payload w =
     try_st (require_bearer env w) (\<lambda>_ w.
       let code = (case payload of Some c \<Rightarrow> c | None \<Rightarrow> e_random_code env) in
       try_st (router_op (create_room (e_room_id env) code) w) (\<lambda>room_id w.
       try_st (map_err from_router_error (room_snapshot_of (the_router w) room_id), w) (\<lambda>snapshot w.
         try_st (if has_database (w_app w)
                 then recover (\<lambda>_. Internal (Text ''database write failed''))
                   (router_op (remove_empty_room (rsnap_room_id snapshot)))
                   (database_call env 0 (InsertRoomQuery (rsnap_room_id snapshot) (rsnap_code snapshot)) w)
                 else (Ok (), w)) (\<lambda>_ w.
           (Ok (201, room_response_of snapshot), w)))))"

definition room_status :: "env \<Rightarrow> rstring \<Rightarrow> world \<Rightarrow> (room_response, api_error) result \<times> world" where
  "room_status env code w =
     try_st (require_bearer env w) (\<lambda>_ w.
     try_st (path_code code, w) (\<lambda>room_code w.
     try_st (room_of_code room_code (the_router w), w) (\<lambda>room_id w.
     try_st (map_err from_router_error (room_snapshot_of (the_router w) room_id), w) (\<lambda>snapshot w.
       (Ok (room_response_of snapshot), w)))))"

definition delete_room_handler :: "env \<Rightarrow> rstring \<Rightarrow> world \<Rightarrow> (nat, api_error) result \<times> world" where
  "delete_room_handler env code w =
     try_st (require_bearer env w) (\<lambda>_ w.
     try_st (path_code code, w) (\<lambda>room_code w.
     try_st (room_of_code room_code (the_router w), w) (\<lambda>room_id w.
     try_st (map_err from_router_error (room_snapshot_of (the_router w) room_id), w) (\<lambda>snapshot w.
       if rsnap_member_count snapshot \<noteq> 0 \<or> rsnap_host_count snapshot \<noteq> 0
       then (Err (Conflict (Text ''room is not empty'')), w)
       else
         try_st (if has_database (w_app w)
                 then or_fail (Internal (Text ''database delete failed'')) (database_call env 0 (DeleteRoomQuery room_id) w)
                 else (Ok (), w)) (\<lambda>_ w.
         try_st (router_op (remove_empty_room room_id) w) (\<lambda>_ w. (Ok 204, w)))))))"

subsection \<open>Joining and resuming\<close>

definition outside_subnet :: "byte \<times> byte \<times> byte \<Rightarrow> virtual_ip \<Rightarrow> bool" where
  "outside_subnet prefix ip =
     (case prefix of (a, b, c) \<Rightarrow> take 3 (octets (address ip)) \<noteq> [a, b, c] \<or> octets (address ip) ! 3 < 2)"

definition choose_address :: "virtual_ip option \<Rightarrow> byte \<times> byte \<times> byte \<Rightarrow> room_router \<Rightarrow> (virtual_ip, api_error) result" where
  "choose_address requested prefix r =
     (case requested of
        Some ip \<Rightarrow>
          if outside_subnet prefix ip
          then Err (BadRequest (Text ''requested virtual IP is outside the configured WireGuard subnet''))
          else if \<not> is_virtual_ip_available r ip
          then Err (Conflict (Text ''requested virtual IP is already assigned''))
          else Ok ip
      | None \<Rightarrow> ok_or (Conflict (Text ''virtual IP pool is exhausted'')) (allocate_virtual_ip r prefix))"

text \<open>The section of \<open>join_room\<close> under the router's lock.\<close>

definition join_section ::
  "env \<Rightarrow> room_code \<Rightarrow> peer_id \<Rightarrow> virtual_ip option \<Rightarrow> world \<Rightarrow> (room_id \<times> virtual_ip \<times> u64, api_error) result \<times> world" where
  "join_section env room_code p requested w =
     try_st (room_of_code room_code (the_router w), w) (\<lambda>room_id w.
     try_st (choose_address requested (virtual_ip_prefix (w_app w)) (the_router w), w) (\<lambda>ip w.
     try_st (router_op (join_room room_id p ip (e_now env)) w) (\<lambda>_ w.
     try_st (map_err from_router_error (peer_connection_epoch (the_router w) p), w) (\<lambda>epoch w.
       (Ok (room_id, ip, epoch), w)))))"

text \<open>The WireGuard and database half of \<open>join_room\<close>, with its roll-backs.\<close>

definition join_external ::
  "env \<Rightarrow> bool \<Rightarrow> wireguard_manager option \<Rightarrow> rstring option \<Rightarrow> room_id \<Rightarrow> peer_id \<Rightarrow> virtual_ip \<Rightarrow> world \<Rightarrow>
   (unit, api_error) result \<times> world" where
  "join_external env database wg public_key room_id p ip w =
     try_st (case wg of
         None \<Rightarrow> (Ok (), w)
       | Some manager \<Rightarrow>
           (case public_key of
              None \<Rightarrow> (Panic, w)
            | Some key \<Rightarrow>
                recover from_wireguard_error (router_op (leave_room room_id p)) (add_peer_call env 0 manager key ip w))) (\<lambda>_ w.
       if \<not> database then (Ok (), w)
       else case public_key of
         None \<Rightarrow> (Panic, w)
       | Some key \<Rightarrow>
           recover (\<lambda>_. Internal (Text ''database write failed''))
             (\<lambda>w. try_st (case wg of
                 None \<Rightarrow> (Ok (), w)
               | Some manager \<Rightarrow> discard (remove_peer_call env 2 manager key w)) (\<lambda>_ w.
               router_op (leave_room room_id p) w))
             (database_call env 1 (InsertPeerQuery room_id p ip key) w))"

definition join_room_handler ::
  "env \<Rightarrow> rstring \<Rightarrow> join_request \<Rightarrow> world \<Rightarrow> (nat \<times> peer_response, api_error) result \<times> world" where
  "join_room_handler env code payload w =
     try_st (require_bearer env w) (\<lambda>_ w.
     try_st (path_code code, w) (\<lambda>room_code w.
       let p = (case jr_peer_id payload of Some p \<Rightarrow> p | None \<Rightarrow> e_peer_id env);
           database = has_database (w_app w);
           wg = wireguard (w_app w);
           public_key = jr_wireguard_public_key payload
       in if (database \<or> wg \<noteq> None) \<and> public_key = None
          then (Err (BadRequest (Text ''wireguard_public_key is required when persistent or WireGuard mode is enabled'')), w)
          else
            try_st (case public_key of
                None \<Rightarrow> (Ok (), w)
              | Some key \<Rightarrow> (map_err from_wireguard_error (validate_public_key (e_decode env) key), w)) (\<lambda>_ w.
            try_st (join_section env room_code p (jr_requested_virtual_ip payload) w) (\<lambda>(room_id, ip, epoch) w.
            try_st (join_external env database wg public_key room_id p ip w) (\<lambda>_ w.
              let w = (case public_key of
                  None \<Rightarrow> w
                | Some key \<Rightarrow> on_app (peer_keys_update (hinsert p key)) w)
              in (Ok (201, \<lparr>pe_room_id = room_id, pe_peer_id = p, pe_virtual_ip = ip, pe_connection_epoch = epoch\<rparr>), w))))))"

definition resume_room :: "env \<Rightarrow> rstring \<Rightarrow> join_request \<Rightarrow> world \<Rightarrow> (peer_response, api_error) result \<times> world" where
  "resume_room env code payload w =
     try_st (require_bearer env w) (\<lambda>_ w.
     try_st (path_code code, w) (\<lambda>room_code w.
     try_st (room_of_code room_code (the_router w), w) (\<lambda>room_id w.
     try_st (ok_or (BadRequest (Text ''peer_id is required to resume a room'')) (jr_peer_id payload), w) (\<lambda>p w.
     try_st (router_op (resume_peer room_id p (e_now env)) w) (\<lambda>snapshot w.
       (Ok \<lparr>pe_room_id = psnap_room_id snapshot, pe_peer_id = psnap_peer_id snapshot,
            pe_virtual_ip = psnap_virtual_ip snapshot, pe_connection_epoch = psnap_connection_epoch snapshot\<rparr>, w))))))"

subsection \<open>Host and gameplay sessions\<close>

definition register_host_handler ::
  "env \<Rightarrow> rstring \<Rightarrow> peer_id \<Rightarrow> world \<Rightarrow> (nat \<times> host_response, api_error) result \<times> world" where
  "register_host_handler env code p w =
     try_st (require_bearer env w) (\<lambda>_ w.
     try_st (path_code code, w) (\<lambda>room_code w.
     try_st (room_of_code room_code (the_router w), w) (\<lambda>room_id w.
     try_st (router_op (register_host room_id p (e_now env) (e_host_id env)) w) (\<lambda>h w.
     try_st (map_err from_router_error (host_snapshot_of (the_router w) h), w) (\<lambda>snapshot w.
     try_st (if has_database (w_app w)
             then recover (\<lambda>_. Internal (Text ''database write failed'')) (router_op (unregister_host h))
               (database_call env 0 (UpsertHostQuery room_id p h (from_secs 15)) w)
             else (Ok (), w)) (\<lambda>_ w.
       (Ok (201, host_response_of snapshot 15), w)))))))"

definition heartbeat_host_handler ::
  "env \<Rightarrow> rstring \<Rightarrow> heartbeat_request \<Rightarrow> world \<Rightarrow> (host_response, api_error) result \<times> world" where
  "heartbeat_host_handler env code payload w =
     try_st (require_bearer env w) (\<lambda>_ w.
     try_st (path_code code, w) (\<lambda>room_code w.
     try_st (room_of_code room_code (the_router w), w) (\<lambda>room_id w.
     try_st (router_op (heartbeat_host_for_room room_id (hr_peer_id payload) (hr_host_session_id payload) (e_now env)) w) (\<lambda>_ w.
     try_st (map_err from_router_error (host_snapshot_of (the_router w) (hr_host_session_id payload)), w) (\<lambda>snapshot w.
     try_st (if has_database (w_app w)
             then or_fail (Internal (Text ''database write failed'')) (database_call env 0
               (HeartbeatHostQuery room_id (hr_peer_id payload) (hr_host_session_id payload) (from_secs 15)) w)
             else (Ok (), w)) (\<lambda>_ w.
       (Ok (host_response_of snapshot 15), w)))))))"

definition create_gameplay_handler ::
  "env \<Rightarrow> rstring \<Rightarrow> gameplay_request \<Rightarrow> world \<Rightarrow> (nat \<times> gameplay_response, api_error) result \<times> world" where
  "create_gameplay_handler env code payload w =
     try_st (require_bearer env w) (\<lambda>_ w.
     try_st (path_code code, w) (\<lambda>room_code w.
     try_st (room_of_code room_code (the_router w), w) (\<lambda>room_id w.
     try_st (router_op (select_host room_id (gr_client_peer_id payload) (gr_host_session_id payload) (e_now env) (e_gameplay_id env)) w) (\<lambda>g w.
     try_st (map_err from_router_error (gameplay_snapshot_of (the_router w) g), w) (\<lambda>snapshot w.
     try_st (if has_database (w_app w)
             then recover (\<lambda>_. Internal (Text ''database write failed'')) (router_op (remove_gameplay_session g))
               (database_call env 0 (InsertGameplayQuery room_id (gr_client_peer_id payload) (gr_host_session_id payload) g
                  (from_secs 30)) w)
             else (Ok (), w)) (\<lambda>_ w.
       (Ok (201, gameplay_response_of snapshot), w)))))))"

subsection \<open>Deleting hosts and peers\<close>

definition delete_host_handler :: "env \<Rightarrow> rstring \<Rightarrow> host_session_id \<Rightarrow> world \<Rightarrow> (nat, api_error) result \<times> world" where
  "delete_host_handler env code h w =
     try_st (require_bearer env w) (\<lambda>_ w.
     try_st (path_code code, w) (\<lambda>room_code w.
     try_st (room_of_code room_code (the_router w), w) (\<lambda>room_id w.
     try_st (map_err from_router_error (host_snapshot_of (the_router w) h), w) (\<lambda>host w.
       if hsnap_room_id host \<noteq> room_id then (Err (Forbidden (Text ''host session belongs to another room'')), w)
       else
         try_st (if has_database (w_app w)
                 then or_fail (Internal (Text ''database delete failed'')) (database_call env 0 (DeleteHostQuery h) w)
                 else (Ok (), w)) (\<lambda>_ w.
         try_st (router_op (unregister_host h) w) (\<lambda>_ w. (Ok 204, w)))))))"

text \<open>The checks of \<open>delete_peer\<close> under the read lock: the room and the address of the peer.\<close>

definition peer_section :: "room_code \<Rightarrow> peer_id \<Rightarrow> room_router \<Rightarrow> (room_id \<times> virtual_ip, api_error) result" where
  "peer_section room_code p r =
     and_then (room_of_code room_code r) (\<lambda>room_id.
     and_then (ok_or (NotFound (Text ''peer does not exist'')) (room_for_peer r p)) (\<lambda>peer_room_id.
       if peer_room_id \<noteq> room_id then Err (Forbidden (Text ''peer belongs to another room''))
       else and_then (ok_or (NotFound (Text ''peer does not exist'')) (peer_virtual_ip r p)) (\<lambda>ip. Ok (room_id, ip))))"

text \<open>The WireGuard and database half of \<open>delete_peer\<close>, before the router is touched.\<close>

definition delete_external ::
  "env \<Rightarrow> bool \<Rightarrow> wireguard_manager option \<Rightarrow> rstring option \<Rightarrow> peer_id \<Rightarrow> virtual_ip \<Rightarrow> world \<Rightarrow>
   (unit, api_error) result \<times> world" where
  "delete_external env database wg public_key p ip w =
     try_st (case (wg, public_key) of
         (Some manager, Some key) \<Rightarrow>
           recover from_wireguard_error (\<lambda>w. (Ok (), w)) (remove_peer_call env 0 manager key w)
       | _ \<Rightarrow> (Ok (), w)) (\<lambda>_ w.
       if \<not> database then (Ok (), w)
       else recover (\<lambda>_. Internal (Text ''database delete failed''))
         (\<lambda>w. case (wg, public_key) of
             (Some manager, Some key) \<Rightarrow> discard (add_peer_call env 2 manager key ip w)
           | _ \<Rightarrow> (Ok (), w))
         (database_call env 1 (DeletePeerQuery p) w))"

text \<open>Putting the peer back when the router refuses to let it leave.\<close>

definition restore_external ::
  "env \<Rightarrow> bool \<Rightarrow> wireguard_manager option \<Rightarrow> rstring option \<Rightarrow> room_id \<Rightarrow> peer_id \<Rightarrow> virtual_ip \<Rightarrow> world \<Rightarrow>
   (unit, api_error) result \<times> world" where
  "restore_external env database wg public_key room_id p ip w =
     try_st (case (database, public_key) of
         (True, Some key) \<Rightarrow> discard (database_call env 3 (InsertPeerQuery room_id p ip key) w)
       | _ \<Rightarrow> (Ok (), w)) (\<lambda>_ w.
       case (wg, public_key) of
         (Some manager, Some key) \<Rightarrow> discard (add_peer_call env 4 manager key ip w)
       | _ \<Rightarrow> (Ok (), w))"

definition delete_peer_handler :: "env \<Rightarrow> rstring \<Rightarrow> peer_id \<Rightarrow> world \<Rightarrow> (nat, api_error) result \<times> world" where
  "delete_peer_handler env code p w =
     try_st (require_bearer env w) (\<lambda>_ w.
     try_st (path_code code, w) (\<lambda>room_code w.
     try_st (peer_section room_code p (the_router w), w) (\<lambda>(room_id, ip) w.
       let database = has_database (w_app w);
           wg = wireguard (w_app w);
           public_key = hget (peer_keys (w_app w)) p
       in if (database \<or> wg \<noteq> None) \<and> public_key = None
          then (Err (Internal (Text ''peer has no persisted WireGuard public key'')), w)
          else
            try_st (delete_external env database wg public_key p ip w) (\<lambda>_ w.
            try_st (recover (\<lambda>error. error) (restore_external env database wg public_key room_id p ip)
                (router_op (leave_room room_id p) w)) (\<lambda>_ w.
              (Ok 204, on_app (peer_keys_update (hremove p)) w))))))"

subsection \<open>The routes\<close>

datatype api_request =
    GetLive
  | GetReady
  | PostRegister auth_env auth_request
  | PostLogin auth_env auth_request
  | GetMetrics
  | PostRoom "room_code option"
  | PostJoin rstring join_request
  | PostResume rstring join_request
  | GetStatus rstring
  | PostHost rstring peer_id
  | PostHeartbeat rstring heartbeat_request
  | PostGameplay rstring gameplay_request
  | DeleteHost rstring host_session_id
  | DeletePeer rstring peer_id
  | DeleteRoom rstring

datatype api_body =
    HealthBody health_response
  | AuthBody auth_response
  | MetricsBody relay_metrics_snapshot
  | RoomBody room_response
  | PeerBody peer_response
  | HostBody host_response
  | GameplayBody gameplay_response
  | EmptyBody
  | ErrorBody error_response

text \<open>The reply of a handler: its status and body, or those of its error.\<close>

definition reply :: "('a \<Rightarrow> nat \<times> api_body) \<Rightarrow> ('a, api_error) result \<times> world \<Rightarrow> (nat \<times> api_body) option \<times> world" where
  "reply f p = (case p of
     (Ok x, w) \<Rightarrow> (Some (f x), w)
   | (Err e, w) \<Rightarrow> (Some (apsnd ErrorBody (into_response e)), w)
   | (Panic, w) \<Rightarrow> (None, w))"

text \<open>\<open>build_router\<close>: one route per request; no reply at all would be a panic in the handler.\<close>

fun serve :: "env \<Rightarrow> api_request \<Rightarrow> world \<Rightarrow> (nat \<times> api_body) option \<times> world" where
  "serve env GetLive w = (Some (200, HealthBody (health_live w)), w)"
| "serve env GetReady w = (Some (apsnd HealthBody (health_ready w)), w)"
| "serve env (PostRegister ae payload) w = reply (apsnd AuthBody) (register_user env ae payload w)"
| "serve env (PostLogin ae payload) w = reply (apsnd AuthBody) (login_user env ae payload w)"
| "serve env GetMetrics w = reply (\<lambda>m. (200, MetricsBody m)) (test_metrics env w)"
| "serve env (PostRoom payload) w = reply (apsnd RoomBody) (create_room_handler env payload w)"
| "serve env (PostJoin code payload) w = reply (apsnd PeerBody) (join_room_handler env code payload w)"
| "serve env (PostResume code payload) w = reply (\<lambda>b. (200, PeerBody b)) (resume_room env code payload w)"
| "serve env (GetStatus code) w = reply (\<lambda>b. (200, RoomBody b)) (room_status env code w)"
| "serve env (PostHost code p) w = reply (apsnd HostBody) (register_host_handler env code p w)"
| "serve env (PostHeartbeat code payload) w = reply (\<lambda>b. (200, HostBody b)) (heartbeat_host_handler env code payload w)"
| "serve env (PostGameplay code payload) w = reply (apsnd GameplayBody) (create_gameplay_handler env code payload w)"
| "serve env (DeleteHost code h) w = reply (\<lambda>status. (status, EmptyBody)) (delete_host_handler env code h w)"
| "serve env (DeletePeer code p) w = reply (\<lambda>status. (status, EmptyBody)) (delete_peer_handler env code p w)"
| "serve env (DeleteRoom code) w = reply (\<lambda>status. (status, EmptyBody)) (delete_room_handler env code w)"

end
