(* ===== verification/Api_Safety.thy ===== *)
theory Api_Safety
  imports Api_Handlers Router_Lifecycle
begin

section \<open>What every request keeps\<close>

text \<open>
  Every handler works on the router only by router operations and on the database only by its queries, so
  all that holds of every run of the router and of the schema holds under any interleaving of requests;
  and no \<open>expect\<close> of a handler fails. The proofs go once over the primitives and then over the handlers.
\<close>

subsection \<open>The judgement\<close>

text \<open>What other requests may do while a handler waits, and that \<open>wg\<close> returns.\<close>

definition world_step :: "world \<Rightarrow> world \<Rightarrow> bool" where
  "world_step w w' \<longleftrightarrow> router_work (the_router w) (the_router w') \<and> (schema_ok (w_db w) \<longrightarrow> schema_ok (w_db w'))"

definition benign :: "env \<Rightarrow> bool" where
  "benign env \<longleftrightarrow> (\<forall>n w. world_step w (e_other env n w)) \<and> (\<forall>args. e_wg env args \<noteq> Panic)"

definition safe_from :: "world \<Rightarrow> ('a, 'e) result \<times> world \<Rightarrow> bool" where
  "safe_from w p \<longleftrightarrow> world_step w (snd p) \<and> (router_inv (the_router w) \<longrightarrow> fst p \<noteq> Panic)"

lemma world_step_refl [simp]: "world_step w w"
  by (simp add: world_step_def)

lemma world_step_trans: "world_step w w' \<Longrightarrow> world_step w' w'' \<Longrightarrow> world_step w w''"
  by (auto simp: world_step_def intro: router_work_trans)

lemma inv_router_work: "router_inv r \<Longrightarrow> router_work r r' \<Longrightarrow> router_inv r'"
  unfolding router_work_def using router_run.run_keeps by blast

lemma world_step_inv: "world_step w w' \<Longrightarrow> router_inv (the_router w) \<Longrightarrow> router_inv (the_router w')"
  by (auto simp: world_step_def intro: inv_router_work)

lemma safe_pure [simp]: "safe_from w (res, w) \<longleftrightarrow> (router_inv (the_router w) \<longrightarrow> res \<noteq> Panic)"
  by (simp add: safe_from_def)

lemma safe_values [simp]:
  "safe_from w (Ok x, w') \<longleftrightarrow> world_step w w'"
  "safe_from w (Err e, w') \<longleftrightarrow> world_step w w'"
  by (simp_all add: safe_from_def)

lemma safe_after: "world_step w w' \<Longrightarrow> safe_from w' p \<Longrightarrow> safe_from w p"
  by (auto simp: safe_from_def intro: world_step_trans world_step_inv)

lemma safe_try:
  assumes "safe_from w p" "\<And>x. fst p = Ok x \<Longrightarrow> safe_from (snd p) (f x (snd p))"
  shows "safe_from w (try_st p f)"
proof -
  obtain res v where p: "p = (res, v)" by fastforce
  show ?thesis
  proof (cases res)
    case (Ok x)
    then show ?thesis using assms p safe_after [of w v "f x v"] by (simp add: safe_from_def)
  qed (use assms(1) p in \<open>simp_all add: safe_from_def\<close>)
qed

lemma safe_discard: "safe_from w p \<Longrightarrow> safe_from w (discard p)"
  by (cases p; cases "fst p") (auto simp: safe_from_def discard_def)

lemma safe_or_fail: "safe_from w p \<Longrightarrow> safe_from w (or_fail e p)"
  by (cases p) (auto simp: safe_from_def or_fail_def)

lemma on_app_frame [simp]:
  "w_app (on_app f w) = f (w_app w)" "w_db (on_app f w) = w_db w" "w_wg (on_app f w) = w_wg w"
  by (simp_all add: on_app_def)

lemma world_step_app [simp]: "router (f (w_app v)) = the_router v \<Longrightarrow> world_step w (on_app f v) \<longleftrightarrow> world_step w v"
  by (simp add: world_step_def)

subsection \<open>The primitives\<close>

lemma safe_router_op:
  assumes "router_inv (the_router w) \<Longrightarrow> fst (f (the_router w)) \<noteq> Panic"
    and "router_work (the_router w) (snd (f (the_router w)))"
  shows "safe_from w (router_op f w)"
  using assms by (auto simp: router_op_def safe_from_def world_step_def split: prod.split)

lemma safe_router_event:
  assumes "fresh_event (the_router w) e" and "snd (f (the_router w)) = snd (apply_event e (the_router w))"
    and "router_inv (the_router w) \<Longrightarrow> fst (f (the_router w)) \<noteq> Panic"
  shows "safe_from w (router_op f w)"
  using assms router_work_apply by (intro safe_router_op) auto

lemma safe_operations:
  "safe_from w (router_op (create_room rid code) w)"
  "safe_from w (router_op (remove_empty_room rid) w)"
  "safe_from w (router_op (join_room rid p ip now) w)"
  "safe_from w (router_op (leave_room rid p) w)"
  "safe_from w (router_op (resume_peer rid p now) w)"
  "safe_from w (router_op (heartbeat_host_for_room rid p h now) w)"
  "safe_from w (router_op (unregister_host h) w)"
  "safe_from w (router_op (remove_gameplay_session g) w)"
  by (rule safe_router_event [where e = "CreateRoom rid code"]
      safe_router_event [where e = "RemoveEmptyRoom rid"]
      safe_router_event [where e = "JoinRoom rid p ip now"]
      safe_router_event [where e = "LeaveRoom rid p"]
      safe_router_event [where e = "ResumePeer rid p now"]
      safe_router_event [where e = "HeartbeatHostForRoom rid p h now"]
      safe_router_event [where e = "UnregisterHost h"]
      safe_router_event [where e = "RemoveGameplay g"];
      simp add: operations_not_Panic; fail)+

lemma safe_register: "hget (hosts (the_router w)) h = None \<Longrightarrow> safe_from w (router_op (register_host rid p now h) w)"
  by (rule safe_router_event [where e = "RegisterHost rid p now h"]) (simp_all add: operations_not_Panic)

lemma safe_select: "hget (gameplay (the_router w)) g = None \<Longrightarrow> safe_from w (router_op (select_host rid p h now g) w)"
  by (rule safe_router_event [where e = "SelectHost rid p h now g"]) (simp_all add: operations_not_Panic)

lemma world_step_other: "benign env \<Longrightarrow> world_step w (e_other env n w)"
  by (simp add: benign_def)

lemma execute_not_Panic: "fst (execute link (run_query now query) db) \<noteq> Panic"
  by (cases link; cases query)
    (auto simp: execute_def insert_room_def delete_room_row_def insert_peer_def delete_peer_row_def upsert_host_def
      heartbeat_host_row_def delete_host_row_def insert_gameplay_def delete_gameplay_def clear_ephemeral_sessions_def Let_def)

lemma world_step_db: "schema_ok db' \<or> \<not> schema_ok (w_db w) \<Longrightarrow> world_step w (w\<lparr>w_db := db'\<rparr>)"
  by (auto simp: world_step_def)

lemma safe_database:
  assumes "benign env"
  shows "safe_from w (database_call env n query w)"
proof -
  let ?w = "e_other env (2 * n) w"
  obtain res db where e: "execute (e_link env n) (run_query (e_db_now env) query) (w_db ?w) = (res, db)" by fastforce
  then have "res \<noteq> Panic" using execute_not_Panic by (metis fst_conv)
  moreover have "world_step ?w (?w\<lparr>w_db := db\<rparr>)"
    using schema_execute [of "w_db ?w" "e_link env n" "e_db_now env" query] e by (intro world_step_db) auto
  ultimately show ?thesis
    using world_step_trans [OF world_step_other [OF assms] world_step_trans [OF _ world_step_other [OF assms]]] e
    by (simp add: database_call_def safe_from_def)
qed

lemma safe_wireguard_run:
  assumes "benign env"
  shows "safe_from w (wireguard_run env n args w)"
proof -
  let ?w = "e_other env (2 * n) w"
  have "world_step w ?w" using assms by (rule world_step_other)
  moreover have "world_step ?w (?w\<lparr>w_wg := w_wg ?w @ [args]\<rparr>)" by (simp add: world_step_def)
  moreover have "world_step v (e_other env (2 * n + 1) v)" for v using assms by (rule world_step_other)
  ultimately have "world_step w (e_other env (2 * n + 1) (?w\<lparr>w_wg := w_wg ?w @ [args]\<rparr>))"
    using world_step_trans by blast
  then show ?thesis using assms by (simp add: wireguard_run_def safe_from_def benign_def Let_def)
qed

lemma validate_public_key_not_Panic: "validate_public_key decode key \<noteq> Panic"
  by (auto simp: validate_public_key_def result_simps)

lemma safe_wireguard:
  assumes "benign env"
  shows "safe_from w (add_peer_call env n m key ip w)" "safe_from w (remove_peer_call env n m key w)"
  unfolding add_peer_call_def remove_peer_call_def
  by (intro safe_try; simp add: validate_public_key_not_Panic safe_wireguard_run [OF assms])+

lemma safe_bearer: "safe_from w (require_bearer env w)" "safe_from w (require_admin_bearer env w)"
  by (auto simp: require_bearer_def require_admin_bearer_def refuse_def limit_request_def Let_def safe_from_def world_step_def
      split: option.split prod.split)


lemma safe_recover:
  assumes "safe_from w p" "\<And>v. safe_from v (undo v)"
  shows "safe_from w (recover f undo p)"
proof -
  obtain res v where p: "p = (res, v)" by fastforce
  show ?thesis
  proof (cases res)
    case (Err e)
    have "safe_from v (try_st (discard (undo v)) (\<lambda>_ w. (Err (f e), w)))"
      by (rule safe_try) (simp_all add: safe_discard assms(2))
    then show ?thesis
      using assms(1) p Err safe_after [of w v] by (simp add: recover_def)
  qed (use assms(1) p in \<open>simp_all add: recover_def safe_from_def\<close>)
qed

subsection \<open>The handlers\<close>

lemma bearer_router [simp]:
  "the_router (snd (require_bearer env w)) = the_router w"
  "the_router (snd (require_admin_bearer env w)) = the_router w"
  by (auto simp: require_bearer_def require_admin_bearer_def refuse_def limit_request_def Let_def
      split: option.split prod.split)

lemma pure_not_Panic [simp]:
  "path_code code \<noteq> Panic" "room_of_code rc r \<noteq> Panic" "room_snapshot_of r rid \<noteq> Panic" "host_snapshot_of r h \<noteq> Panic"
  "gameplay_snapshot_of r g \<noteq> Panic" "peer_connection_epoch r p \<noteq> Panic" "choose_address requested prefix r \<noteq> Panic"
  "peer_section rc p r \<noteq> Panic" "validate_username ae name \<noteq> Panic" "validate_password pw \<noteq> Panic" "hash_password ae pw \<noteq> Panic"
  "validate_public_key decode key \<noteq> Panic"
  by (auto simp: path_code_def parse_room_code_def parse_code_not_Panic room_of_code_def room_snapshot_of_def
      host_snapshot_of_def gameplay_snapshot_of_def peer_connection_epoch_def choose_address_def peer_section_def
      validate_username_def validate_password_def hash_password_def validate_public_key_def result_simps Let_def
      split: option.split)

lemma safe_limit: "safe_from w (limit_request env key w)"
  by (auto simp: limit_request_def safe_from_def split: prod.split)

lemmas safe_rules = safe_try safe_limit safe_bearer safe_operations safe_database safe_wireguard safe_discard
  safe_or_fail safe_recover

lemma safe_auth:
  "safe_from w (register_user env ae payload w)"
  "safe_from w (login_user env ae payload w)"
  unfolding register_user_def login_user_def create_client_session_def Let_def
  by (rule safe_rules | simp | intro conjI impI)+

lemma safe_rooms:
  assumes "benign env"
  shows "safe_from w (create_room_handler env payload w)"
    and "safe_from w (room_status env code w)"
    and "safe_from w (delete_room_handler env code w)"
    and "safe_from w (resume_room env code join w)"
    and "safe_from w (test_metrics env w)"
  unfolding create_room_handler_def room_status_def delete_room_handler_def resume_room_def test_metrics_def Let_def
  by (rule safe_rules assms conjI impI allI | simp split: option.split)+

lemma safe_sessions:
  assumes "benign env"
  shows "hget (hosts (the_router w)) (e_host_id env) = None \<Longrightarrow> safe_from w (register_host_handler env code p w)"
    and "safe_from w (heartbeat_host_handler env code hb w)"
    and "hget (gameplay (the_router w)) (e_gameplay_id env) = None \<Longrightarrow> safe_from w (create_gameplay_handler env code gp w)"
    and "safe_from w (delete_host_handler env code h w)"
  unfolding register_host_handler_def heartbeat_host_handler_def create_gameplay_handler_def delete_host_handler_def Let_def
  by (rule safe_rules safe_register safe_select assms conjI impI allI | simp split: option.split)+

lemma safe_join_section: "safe_from w (join_section env rc p requested w)"
  unfolding join_section_def
  by (rule safe_rules conjI impI allI | simp split: option.split)+

lemma safe_join_external:
  assumes "benign env" "database \<or> wg \<noteq> None \<Longrightarrow> public_key \<noteq> None"
  shows "safe_from w (join_external env database wg public_key rid p ip w)"
proof (cases public_key)
  case None
  with assms(2) have "\<not> database" "wg = None" by blast+
  then show ?thesis by (simp add: join_external_def)
next
  case (Some key)
  show ?thesis
    unfolding join_external_def Some option.case
    by (rule safe_rules assms(1) conjI impI allI | simp split: option.split)+
qed

lemma safe_join:
  assumes "benign env"
  shows "safe_from w (join_room_handler env code payload w)"
  unfolding join_room_handler_def Let_def
  by (rule safe_rules safe_join_section safe_join_external assms conjI impI allI | simp split: option.split prod.split)+

lemma safe_delete_peer:
  assumes "benign env"
  shows "safe_from w (delete_peer_handler env code p w)"
proof -
  have ext: "safe_from v (delete_external env database wg key p ip v)" for v database wg key ip
    unfolding delete_external_def
    by (rule safe_rules assms conjI impI allI | simp split: option.split)+
  have undo: "safe_from v (restore_external env database wg key rid p ip v)" for v database wg key rid ip
    unfolding restore_external_def
    by (rule safe_rules assms conjI impI allI | simp split: option.split bool.split)+
  show ?thesis
    unfolding delete_peer_handler_def Let_def
    by (rule safe_rules ext undo assms conjI impI allI | simp split: option.split prod.split)+
qed

text \<open>The identifiers a request draws are unused, as random UUIDs are.\<close>

definition fresh_ids :: "env \<Rightarrow> world \<Rightarrow> bool" where
  "fresh_ids env w \<longleftrightarrow> hget (hosts (the_router w)) (e_host_id env) = None \<and>
     hget (gameplay (the_router w)) (e_gameplay_id env) = None"

lemma reply_safe: "safe_from w p \<Longrightarrow> world_step w (snd (reply f p)) \<and> (router_inv (the_router w) \<longrightarrow> fst (reply f p) \<noteq> None)"
  by (cases p; cases "fst p") (auto simp: reply_def safe_from_def)

lemma serve_safe:
  assumes "benign env" "fresh_ids env w"
  shows "world_step w (snd (serve env req w)) \<and> (router_inv (the_router w) \<longrightarrow> fst (serve env req w) \<noteq> None)"
  by (cases req; simp only: serve.simps;
      (rule reply_safe, (rule safe_auth safe_sessions [OF assms(1)] safe_rooms [OF assms(1)] safe_join [OF assms(1)]
          safe_delete_peer [OF assms(1)])+)?; use assms(2) in \<open>simp add: fresh_ids_def\<close>)

text \<open>C31. Requests do only router work: from a reachable router, any request, authorised or not, with any outcome
  of the database and WireGuard calls and with any other requests running while it waits, changes the router
  only by router operations and the tables only within the schema, and always gets a reply: no \<open>expect\<close>
  in a handler fails.\<close>

theorem requests_are_router_work:
  assumes "run router_step (router_new c) es (the_router w)" and "benign env" and "fresh_ids env w"
  shows "(\<exists>fs. run router_step (router_new c) (es @ fs) (the_router (snd (serve env req w)))) \<and>
    (schema_ok (w_db w) \<longrightarrow> schema_ok (w_db (snd (serve env req w)))) \<and> fst (serve env req w) \<noteq> None"
  using serve_safe [OF assms(2,3), of req] inv_run [OF assms(1)] run_trans [OF assms(1)]
  by (auto simp: world_step_def router_work_def)

definition demo_world :: world where
  "demo_world = \<lparr>w_app = (app_new 0 (rstr ''tok''))\<lparr>router := demo_play\<rparr>, w_db = empty_database, w_wg = []\<rparr>"

definition demo_env :: env where
  "demo_env = \<lparr>e_authorization = Some (rstr ''Bearer tok''), e_limit_at = 6, e_session_at = 6, e_now = 6, e_db_now = 6,
     e_room_id = RoomId 77, e_random_code = random_code 0, e_peer_id = PeerId 77, e_host_id = HostSessionId 77,
     e_gameplay_id = GameplaySessionId 77, e_decode = (\<lambda>_. None), e_wg = (\<lambda>_. Ok ()), e_link = (\<lambda>_. LinkUp),
     e_other = (\<lambda>_ w. w)\<rparr>"

lemma demo_env_benign: "benign demo_env"
  by (simp add: benign_def demo_env_def)

lemma demo_world_run: "run router_step (router_new demo_config) demo_play_events (the_router demo_world)"
  using demo_play_run by (simp add: demo_world_def)

lemma demo_fresh: "fresh_ids demo_env demo_world"
  by (simp add: fresh_ids_def demo_env_def demo_world_def demo_play_eval)

theorem requests_are_router_work_witness:
  "fst (serve demo_env (PostRoom (Some (RoomCode (rstr ''RMNEWA'')))) demo_world) \<noteq> None \<and>
   (\<exists>fs. run router_step (router_new demo_config) (demo_play_events @ fs)
      (the_router (snd (serve demo_env (PostRoom (Some (RoomCode (rstr ''RMNEWA'')))) demo_world))))"
  using requests_are_router_work [OF demo_world_run demo_env_benign demo_fresh] by blast

end
