(* ===== verification/Api_Auth.thy ===== *)
theory Api_Auth
  imports Api_Safety
begin

section \<open>Who may do what\<close>

text \<open>
  The bearer checks of the control API: which requests are admitted, that a refused one changes nothing but
  the failure count, how long a client session lives, and that registration and login fit together.
\<close>

subsection \<open>Admission\<close>

definition bearer :: "env \<Rightarrow> rstring option" where
  "bearer env = Option.bind (e_authorization env) (strip_prefix (rstr ''Bearer ''))"

definition live_session :: "env \<Rightarrow> world \<Rightarrow> rstring \<Rightarrow> bool" where
  "live_session env w token \<longleftrightarrow> (case hget (client_sessions (w_app w)) token of
     None \<Rightarrow> False | Some s \<Rightarrow> e_session_at env < session_expires_at s)"

definition admits :: "env \<Rightarrow> world \<Rightarrow> bool" where
  "admits env w \<longleftrightarrow> (case bearer env of None \<Rightarrow> False
     | Some token \<Rightarrow> token = bearer_token (w_app w) \<or> live_session env w token)"

definition admits_admin :: "env \<Rightarrow> world \<Rightarrow> bool" where
  "admits_admin env w \<longleftrightarrow> e_authorization env = Some (rstr ''Bearer '' @ bearer_token (w_app w))"

fun open_route :: "api_request \<Rightarrow> bool" where
  "open_route GetLive = True"
| "open_route GetReady = True"
| "open_route (PostRegister _ _) = True"
| "open_route (PostLogin _ _) = True"
| "open_route _ = False"

fun admitted :: "env \<Rightarrow> api_request \<Rightarrow> world \<Rightarrow> bool" where
  "admitted env GetMetrics w = admits_admin env w"
| "admitted env _ w = admits env w"

lemma require_bearer_refuses:
  assumes "\<not> admits env w"
  shows "\<exists>sessions. require_bearer env w = refuse (on_app (client_sessions_update (\<lambda>_. sessions)) w)"
proof (cases "bearer env")
  case None
  have "on_app (client_sessions_update (\<lambda>_. client_sessions (w_app w))) w = w"
    by (simp add: on_app_def)
  with None show ?thesis unfolding require_bearer_def bearer_def by (metis option.case(1))
next
  case (Some token)
  let ?sessions = "hretain (\<lambda>_ s. e_session_at env < session_expires_at s) (client_sessions (w_app w))"
  have "token \<noteq> bearer_token (w_app w)" "hget ?sessions token = None"
    using assms Some by (auto simp: admits_def live_session_def split: option.splits)
  then have "require_bearer env w = refuse (on_app (client_sessions_update (\<lambda>_. ?sessions)) w)"
    using Some by (simp add: require_bearer_def bearer_def Let_def)
  then show ?thesis by blast
qed

lemma require_bearer_Ok:
  assumes "admits env w"
  shows "fst (require_bearer env w) \<noteq> Err Unauthorized"
  using assms
  by (auto simp: admits_def bearer_def live_session_def require_bearer_def limit_request_def Let_def
      split: option.splits prod.splits if_splits)

lemmas handler_defs = create_room_handler_def room_status_def delete_room_handler_def join_room_handler_def
  resume_room_def register_host_handler_def heartbeat_host_handler_def create_gameplay_handler_def
  delete_host_handler_def delete_peer_handler_def test_metrics_def

definition refusal :: "nat \<times> api_body" where
  "refusal = (401, ErrorBody \<lparr>err_error = ''unauthorized'', err_message = Text ''a valid bearer token is required''\<rparr>)"

lemma serve_refused:
  assumes "\<not> open_route req" "\<not> admitted env req w"
  shows "\<exists>sessions. serve env req w =
    (Some refusal, on_app (metrics_update record_authentication_failure) (on_app (client_sessions_update (\<lambda>_. sessions)) w))"
proof (cases "req = GetMetrics")
  case True
  have "on_app (client_sessions_update (\<lambda>_. client_sessions (w_app w))) w = w"
    by (simp add: on_app_def)
  moreover have "serve env req w = (Some refusal, on_app (metrics_update record_authentication_failure) w)"
    using assms True
    by (simp add: test_metrics_def require_admin_bearer_def admits_admin_def refuse_def reply_def into_response_def refusal_def)
  ultimately show ?thesis by metis
next
  case False
  then have "\<not> admits env w" using assms by (cases req) auto
  then obtain sessions where "require_bearer env w = refuse (on_app (client_sessions_update (\<lambda>_. sessions)) w)"
    using require_bearer_refuses by blast
  then show ?thesis
    using assms(1) False
    by (intro exI [of _ sessions], cases req)
      (simp_all add: handler_defs refuse_def reply_def into_response_def refusal_def)
qed

subsection \<open>No other refusal\<close>

definition not_refused :: "('a, api_error) result \<times> world \<Rightarrow> bool" where
  "not_refused p \<longleftrightarrow> fst p \<noteq> Err Unauthorized"

lemma not_refused_values [simp]: "not_refused (res, w) \<longleftrightarrow> res \<noteq> Err Unauthorized"
  by (simp add: not_refused_def)

lemma not_refused_try: "not_refused p \<Longrightarrow> (\<And>x v. not_refused (f x v)) \<Longrightarrow> not_refused (try_st p f)"
  by (cases p; cases "fst p") (auto simp: not_refused_def)

lemma from_errors [simp]: "from_router_error e \<noteq> Unauthorized" "from_wireguard_error e' \<noteq> Unauthorized"
  by (cases e; simp) (cases e'; simp)

lemma map_err_refused [simp]:
  "map_err from_router_error res \<noteq> Err Unauthorized" "map_err from_wireguard_error res' \<noteq> Err Unauthorized"
  by (cases res; simp) (cases res'; simp)

lemma not_refused_ops:
  "not_refused (router_op f w)"
  "e \<noteq> Unauthorized \<Longrightarrow> not_refused (or_fail e p)"
  "not_refused (discard q)"
  by (auto simp: not_refused_def router_op_def or_fail_def discard_def split: prod.split result.split; cases "fst p"; simp)+

lemma not_refused_recover: "(\<And>e. f e \<noteq> Unauthorized) \<Longrightarrow> not_refused (recover f undo p)"
  by (cases p; cases "fst p")
    (auto simp: recover_def not_refused_def try_st_Err_iff discard_def split: prod.splits result.splits)

lemma not_refused_same_error: "not_refused p \<Longrightarrow> not_refused (recover (\<lambda>e. e) undo p)"
  by (cases p; cases "fst p")
    (auto simp: recover_def not_refused_def try_st_Err_iff discard_def split: prod.splits result.splits)

lemma pure_not_refused [simp]:
  "path_code code \<noteq> Err Unauthorized" "room_of_code rc r \<noteq> Err Unauthorized"
  "choose_address requested prefix r \<noteq> Err Unauthorized" "peer_section rc p r \<noteq> Err Unauthorized"
  by (cases "parse_room_code code"; auto simp: path_code_def)
    (auto simp: room_of_code_def choose_address_def peer_section_def result_simps ok_or_def split: option.split)

lemma ok_or_refused [simp]: "e \<noteq> Unauthorized \<Longrightarrow> ok_or e v \<noteq> Err Unauthorized"
  by (cases v) simp_all

lemmas not_refused_rules = not_refused_try not_refused_ops not_refused_same_error not_refused_recover

lemma not_refused_externals:
  "not_refused (join_section env rc p requested w)"
  "not_refused (join_external env database wg key rid p ip w)"
  "not_refused (delete_external env database wg key p ip w)"
  unfolding join_section_def join_external_def delete_external_def
  by (rule not_refused_rules conjI impI allI | simp split: option.split)+

lemma not_refused_handlers:
  assumes "admits env w"
  shows "not_refused (create_room_handler env payload w)" "not_refused (room_status env code w)"
    "not_refused (delete_room_handler env code w)" "not_refused (join_room_handler env code join w)"
    "not_refused (resume_room env code join w)" "not_refused (register_host_handler env code p w)"
    "not_refused (heartbeat_host_handler env code hb w)" "not_refused (create_gameplay_handler env code gp w)"
    "not_refused (delete_host_handler env code h w)" "not_refused (delete_peer_handler env code p w)"
proof -
  have b: "not_refused (require_bearer env w)" using require_bearer_Ok [OF assms] by (simp add: not_refused_def)
  show "not_refused (create_room_handler env payload w)" "not_refused (room_status env code w)"
    "not_refused (delete_room_handler env code w)" "not_refused (join_room_handler env code join w)"
    "not_refused (resume_room env code join w)" "not_refused (register_host_handler env code p w)"
    "not_refused (heartbeat_host_handler env code hb w)" "not_refused (create_gameplay_handler env code gp w)"
    "not_refused (delete_host_handler env code h w)" "not_refused (delete_peer_handler env code p w)"
    unfolding handler_defs Let_def
    by (rule b not_refused_rules not_refused_externals conjI impI allI | simp split: option.split prod.split)+
qed

lemma reply_not_refused:
  assumes "not_refused p" "\<And>x. \<nexists>e. snd (f x) = ErrorBody e"
  shows "fst (reply f p) \<noteq> Some refusal"
proof (cases p)
  case (Pair res w)
  show ?thesis
  proof (cases res)
    case (Ok x)
    then show ?thesis using assms(2) [of x] Pair by (auto simp: reply_def refusal_def)
  next
    case (Err e)
    then show ?thesis using assms(1) Pair by (cases e) (auto simp: reply_def refusal_def into_response_def not_refused_def)
  qed (use Pair in \<open>simp add: reply_def\<close>)
qed

lemma admin_not_refused: "admits_admin env w \<Longrightarrow> not_refused (test_metrics env w)"
  by (auto simp: test_metrics_def require_admin_bearer_def admits_admin_def limit_request_def not_refused_def
      try_st_Err_iff split: prod.splits if_splits)

text \<open>C33. The bearer check decides everything first: on every route but health, registration and login, a request is
  answered with the 401 refusal exactly when it does not carry the admin token or, where sessions are enough,
  the token of an unexpired session; and a refused request touches neither the router, the database,
  WireGuard, the peers' keys nor the accounts, and counts as one authentication failure.\<close>

theorem bearer_decides:
  assumes "\<not> open_route req"
  shows "(fst (serve env req w) = Some refusal \<longleftrightarrow> \<not> admitted env req w) \<and>
    (\<not> admitted env req w \<longrightarrow>
      (let w' = snd (serve env req w) in
       the_router w' = the_router w \<and> w_db w' = w_db w \<and> w_wg w' = w_wg w \<and>
       peer_keys (w_app w') = peer_keys (w_app w) \<and> users (w_app w') = users (w_app w) \<and>
       authentication_failures (metrics (w_app w')) = authentication_failures (metrics (w_app w)) + 1))"
proof (cases "admitted env req w")
  case True
  then have "fst (serve env req w) \<noteq> Some refusal"
    using assms not_refused_handlers [of env w] admin_not_refused [of env w]
    by (cases req; simp; intro reply_not_refused; simp)
  with True show ?thesis by simp
next
  case False
  then obtain sessions where "serve env req w = (Some refusal,
      on_app (metrics_update record_authentication_failure) (on_app (client_sessions_update (\<lambda>_. sessions)) w))"
    using serve_refused [OF assms] by blast
  with False show ?thesis by (simp add: record_authentication_failure_def Let_def)
qed

theorem bearer_decides_witness:
  "fst (serve (demo_env\<lparr>e_authorization := Some (rstr ''Bearer no'')\<rparr>) GetMetrics demo_world) = Some refusal"
proof -
  have "\<not> open_route GetMetrics" by simp
  from bearer_decides [OF this, of "demo_env\<lparr>e_authorization := Some (rstr ''Bearer no'')\<rparr>" demo_world]
  show ?thesis by (simp add: admits_admin_def demo_env_def demo_world_def app_new_def rstr_def)
qed

subsection \<open>The life of a session\<close>

text \<open>No other request runs while this one waits.\<close>

definition quiet :: "env \<Rightarrow> bool" where
  "quiet env \<longleftrightarrow> (\<forall>n w. e_other env n w = w)"

definition same_sessions :: "world \<Rightarrow> ('a, 'e) result \<times> world \<Rightarrow> bool" where
  "same_sessions w p \<longleftrightarrow> client_sessions (w_app (snd p)) = client_sessions (w_app w) \<and>
     bearer_token (w_app (snd p)) = bearer_token (w_app w) \<and> users (w_app (snd p)) = users (w_app w)"

lemma same_sessions_values [simp]:
  "same_sessions w (res, w') \<longleftrightarrow> client_sessions (w_app w') = client_sessions (w_app w) \<and>
     bearer_token (w_app w') = bearer_token (w_app w) \<and> users (w_app w') = users (w_app w)"
  by (simp add: same_sessions_def)

lemma same_sessions_try:
  assumes "same_sessions w p" "\<And>x. same_sessions (snd p) (f x (snd p))"
  shows "same_sessions w (try_st p f)"
proof -
  obtain res v where p: "p = (res, v)" by fastforce
  with assms show ?thesis by (cases res) (auto simp: same_sessions_def)
qed

lemma same_sessions_prims:
  "same_sessions w (router_op f w)"
  "same_sessions w (limit_request env key w)"
  "same_sessions w p \<Longrightarrow> same_sessions w (or_fail e p)"
  "same_sessions w p \<Longrightarrow> same_sessions w (discard p)"
  by (auto simp: same_sessions_def router_op_def limit_request_def or_fail_def discard_def split: prod.split result.split)

lemma same_sessions_waits:
  assumes "quiet env"
  shows "same_sessions w (database_call env n query w)" "same_sessions w (add_peer_call env n m key ip w)"
    "same_sessions w (remove_peer_call env n m key w)"
proof -
  have run: "same_sessions w (wireguard_run env n args w)" for w args
    using assms by (simp add: same_sessions_def wireguard_run_def quiet_def Let_def)
  show "same_sessions w (database_call env n query w)"
    using assms by (auto simp: same_sessions_def database_call_def quiet_def Let_def split: prod.split)
  show "same_sessions w (add_peer_call env n m key ip w)" "same_sessions w (remove_peer_call env n m key w)"
    unfolding add_peer_call_def remove_peer_call_def by (rule same_sessions_try run | simp)+
qed

lemma same_sessions_recover:
  assumes "same_sessions w p" "\<And>v. same_sessions v (undo v)"
  shows "same_sessions w (recover f undo p)"
proof -
  obtain res v where p: "p = (res, v)" by fastforce
  show ?thesis
  proof (cases res)
    case (Err e)
    have "same_sessions v (try_st (discard (undo v)) (\<lambda>_ w. (Err (f e), w)))"
      by (rule same_sessions_try) (simp_all add: same_sessions_prims assms(2))
    then show ?thesis using assms(1) p Err by (simp add: recover_def same_sessions_def)
  qed (use assms(1) p in \<open>simp_all add: recover_def\<close>)
qed

lemmas same_sessions_rules = same_sessions_try same_sessions_prims same_sessions_waits same_sessions_recover

text \<open>A request keeps every session that has not run out, the admin token and the accounts.\<close>

definition keeps_sessions :: "env \<Rightarrow> world \<Rightarrow> ('a, 'e) result \<times> world \<Rightarrow> bool" where
  "keeps_sessions env w p \<longleftrightarrow> bearer_token (w_app (snd p)) = bearer_token (w_app w) \<and>
     users (w_app (snd p)) = users (w_app w) \<and>
     (\<forall>token s. hget (client_sessions (w_app w)) token = Some s \<and> e_session_at env < session_expires_at s \<longrightarrow>
        hget (client_sessions (w_app (snd p))) token = Some s)"

lemma keeps_same: "same_sessions w p \<Longrightarrow> keeps_sessions env w p"
  by (simp add: same_sessions_def keeps_sessions_def)

lemma keeps_bearer: "keeps_sessions env w (require_bearer env w)" "keeps_sessions env w (require_admin_bearer env w)"
  by (auto simp: keeps_sessions_def require_bearer_def require_admin_bearer_def refuse_def limit_request_def Let_def
      hget_retain_iff split: option.split prod.split)

lemma keeps_after_bearer:
  assumes "keeps_sessions env w p" "\<And>x. same_sessions (snd p) (f x (snd p))"
  shows "keeps_sessions env w (try_st p f)"
proof -
  obtain res v where p: "p = (res, v)" by fastforce
  with assms show ?thesis by (cases res) (auto simp: same_sessions_def keeps_sessions_def)
qed

lemma same_sessions_externals:
  assumes "quiet env"
  shows "same_sessions w (join_section env rc p requested w)"
    "same_sessions w (join_external env database wg key rid p ip w)"
    "same_sessions w (delete_external env database wg key p ip w)"
    "same_sessions w (restore_external env database wg key rid p ip w)"
  unfolding join_section_def join_external_def delete_external_def restore_external_def
  by (rule same_sessions_rules assms conjI impI allI | simp split: option.split bool.split)+

lemma keeps_handlers:
  assumes "quiet env"
  shows "keeps_sessions env w (create_room_handler env payload w)" "keeps_sessions env w (room_status env code w)"
    "keeps_sessions env w (delete_room_handler env code w)" "keeps_sessions env w (join_room_handler env code join w)"
    "keeps_sessions env w (resume_room env code join w)" "keeps_sessions env w (register_host_handler env code p w)"
    "keeps_sessions env w (heartbeat_host_handler env code hb w)" "keeps_sessions env w (create_gameplay_handler env code gp w)"
    "keeps_sessions env w (delete_host_handler env code h w)" "keeps_sessions env w (delete_peer_handler env code p w)"
    "keeps_sessions env w (test_metrics env w)"
  unfolding handler_defs Let_def
  by (rule keeps_after_bearer keeps_bearer same_sessions_rules same_sessions_externals assms conjI impI allI
      | simp split: option.split prod.split)+

lemma limit_request_frame [simp]:
  "client_sessions (w_app (snd (limit_request env key w))) = client_sessions (w_app w)"
  "bearer_token (w_app (snd (limit_request env key w))) = bearer_token (w_app w)"
  "users (w_app (snd (limit_request env key w))) = users (w_app w)"
  by (simp_all add: limit_request_def split: prod.split)

text \<open>Registration and login touch the sessions only at the token they draw, and no account that exists.\<close>

definition adds_session :: "auth_env \<Rightarrow> world \<Rightarrow> ('a, 'e) result \<times> world \<Rightarrow> bool" where
  "adds_session ae w p \<longleftrightarrow> bearer_token (w_app (snd p)) = bearer_token (w_app w) \<and>
     (\<forall>name account. hget (users (w_app w)) name = Some account \<longrightarrow> hget (users (w_app (snd p))) name = Some account) \<and>
     (\<forall>token. token \<noteq> ae_token ae \<longrightarrow> hget (client_sessions (w_app (snd p))) token = hget (client_sessions (w_app w)) token)"

lemma adds_session_values [simp]:
  "adds_session ae w (res, w)"
  "hget (users (w_app v)) name = None \<Longrightarrow> adds_session ae w (res, v) \<Longrightarrow>
     adds_session ae w (res, on_app (users_update (hinsert name account)) v)"
  "adds_session ae w (res, on_app (client_sessions_update (hinsert (ae_token ae) s)) v) \<longleftrightarrow> adds_session ae w (res, v)"
  "adds_session ae w (limit_request env key w)"
  by (auto simp: adds_session_def)

lemma adds_session_try:
  assumes "adds_session ae w p" "\<And>x. adds_session ae (snd p) (f x (snd p))"
  shows "adds_session ae w (try_st p f)"
proof -
  obtain res v where p: "p = (res, v)" by fastforce
  with assms show ?thesis by (cases res) (auto simp: adds_session_def)
qed

lemma adds_session_auth:
  "adds_session ae w (register_user env ae payload w)" "adds_session ae w (login_user env ae payload w)"
  unfolding register_user_def login_user_def create_client_session_def Let_def
  by (rule adds_session_try | simp)+

lemma register_frame:
  "bearer_token (w_app (snd (register_user env ae payload w))) = bearer_token (w_app w)"
  "token \<noteq> ae_token ae \<Longrightarrow> hget (client_sessions (w_app (snd (register_user env ae payload w)))) token =
     hget (client_sessions (w_app w)) token"
  using adds_session_auth(1) [of ae w env payload] by (simp_all add: adds_session_def)

lemma login_frame:
  "bearer_token (w_app (snd (login_user env ae payload w))) = bearer_token (w_app w)"
  "token \<noteq> ae_token ae \<Longrightarrow> hget (client_sessions (w_app (snd (login_user env ae payload w)))) token =
     hget (client_sessions (w_app w)) token"
  using adds_session_auth(2) [of ae w env payload] by (simp_all add: adds_session_def)

fun draws_token :: "rstring \<Rightarrow> api_request \<Rightarrow> bool" where
  "draws_token token (PostRegister ae _) = (ae_token ae = token)"
| "draws_token token (PostLogin ae _) = (ae_token ae = token)"
| "draws_token token _ = False"

lemma reply_snd [simp]: "snd (reply f p) = snd p"
  by (cases p; cases "fst p") (auto simp: reply_def)

lemma serve_keeps_session:
  assumes "quiet env" "\<not> draws_token token req" "hget (client_sessions (w_app w)) token = Some s"
    "e_session_at env < session_expires_at s"
  shows "hget (client_sessions (w_app (snd (serve env req w)))) token = Some s"
    and "bearer_token (w_app (snd (serve env req w))) = bearer_token (w_app w)"
  using assms keeps_handlers [OF assms(1)]
  by (cases req; auto simp: keeps_sessions_def register_frame login_frame)+

text \<open>A history of requests, one after the other.\<close>

fun served :: "(env \<times> api_request) list \<Rightarrow> world \<Rightarrow> world" where
  "served [] w = w"
| "served ((env, req) # rest) w = served rest (snd (serve env req w))"

lemma served_keeps_session:
  assumes "\<forall>(env, req)\<in>set requests. quiet env \<and> \<not> draws_token token req \<and> e_session_at env < session_expires_at s"
    and "hget (client_sessions (w_app w)) token = Some s"
  shows "hget (client_sessions (w_app (served requests w))) token = Some s \<and>
    bearer_token (w_app (served requests w)) = bearer_token (w_app w)"
  using assms
proof (induction requests w rule: served.induct)
  case (2 env req rest w)
  then have "hget (client_sessions (w_app (snd (serve env req w)))) token = Some s"
    "bearer_token (w_app (snd (serve env req w))) = bearer_token (w_app w)"
    using serve_keeps_session [of env token req w s] by auto
  with 2 show ?case by simp
qed simp

lemma strip_prefix_append [simp]: "strip_prefix prefix (prefix @ s) = Some s"
  by (simp add: strip_prefix_def)

lemma login_session:
  assumes "login_user env ae payload w = (Ok (status, response), w')"
  shows "as_access_token response = ae_token ae"
    and "hget (client_sessions (w_app w')) (ae_token ae) = Some (ClientSession (ae_now ae + CLIENT_SESSION_TTL))"
    and "bearer_token (w_app w') = bearer_token (w_app w)"
proof -
  show "as_access_token response = ae_token ae"
    "hget (client_sessions (w_app w')) (ae_token ae) = Some (ClientSession (ae_now ae + CLIENT_SESSION_TTL))"
    using assms by (auto simp: login_user_def create_client_session_def try_st_Ok_iff Let_def split: if_splits)
  show "bearer_token (w_app w') = bearer_token (w_app w)"
    using login_frame(1) [of env ae payload w] assms by simp
qed

text \<open>C34. A client session lives exactly its thirty days: after a successful login, whatever other requests are served
  in between (none drawing the same token) before the session runs out, a request carrying the returned
  token is admitted exactly until 30 days after the login; afterwards only if it is the admin token.\<close>

theorem session_lifetime:
  assumes "login_user env ae payload w = (Ok (status, response), w0)"
    and "\<forall>(e, req)\<in>set requests. quiet e \<and> \<not> draws_token (as_access_token response) req \<and>
      e_session_at e < ae_now ae + CLIENT_SESSION_TTL"
    and "e_authorization env' = Some (rstr ''Bearer '' @ as_access_token response)"
  shows "admits env' (served requests w0) \<longleftrightarrow>
    e_session_at env' < ae_now ae + CLIENT_SESSION_TTL \<or> as_access_token response = bearer_token (w_app w)"
proof -
  note l = login_session [OF assms(1)]
  have "\<forall>(e, req)\<in>set requests. quiet e \<and> \<not> draws_token (ae_token ae) req \<and>
      e_session_at e < session_expires_at (ClientSession (ae_now ae + CLIENT_SESSION_TTL))"
    using assms(2) l(1) by auto
  from served_keeps_session [OF this l(2)] show ?thesis
    using assms(3) l by (auto simp: admits_def bearer_def live_session_def)
qed

definition demo_account_world :: world where
  "demo_account_world = on_app (users_update (hinsert (rstr ''ada'') (UserAccount (rstr ''h:secret'')))) demo_world"

definition demo_auth :: auth_env where
  "demo_auth = \<lparr>ae_lowercase = (\<lambda>s. s), ae_salt = Some [], ae_hash = (\<lambda>password salt. Some (rstr ''h:'' @ password)),
     ae_parses = (\<lambda>_. True), ae_verify = (\<lambda>password h. h = rstr ''h:'' @ password), ae_token = rstr ''one'', ae_now = 0\<rparr>"

definition demo_credentials :: auth_request where
  "demo_credentials = \<lparr>ar_username = rstr '' ada'', ar_password = rstr ''secret''\<rparr>"

lemma demo_username: "validate_username demo_auth (rstr '' ada'') = Ok (rstr ''ada'')"
  by (simp add: validate_username_def demo_auth_def trim_def rstr_def is_whitespace_def is_control_def)

lemma demo_limiter [simp]: "api_rate_limiter (w_app demo_world) = limiter_new API_REQUESTS_PER_SECOND (from_secs 1)"
  by (simp add: demo_world_def app_new_def)

lemma fresh_limiter_allows [simp]: "fst (allow now key (limiter_new API_REQUESTS_PER_SECOND window))"
  by (simp add: allow_own current_entry_def limiter_new_def API_REQUESTS_PER_SECOND_def)

lemma limit_request_fresh:
  assumes "api_rate_limiter (w_app w) = limiter_new API_REQUESTS_PER_SECOND window"
  obtains l where "limit_request env key w = (Ok (), on_app (api_rate_limiter_update (\<lambda>_. l)) w)"
proof -
  have "fst (allow (e_limit_at env) key (api_rate_limiter (w_app w)))" by (simp add: assms)
  then have "\<exists>l. limit_request env key w = (Ok (), on_app (api_rate_limiter_update (\<lambda>_. l)) w)"
    by (auto simp: limit_request_def split: prod.split)
  then show ?thesis using that by blast
qed

lemma demo_login:
  "\<exists>w0. login_user demo_env demo_auth demo_credentials demo_account_world =
     (Ok (200, \<lparr>as_username = rstr ''ada'', as_access_token = rstr ''one'', as_expires_in_seconds = 2592000\<rparr>), w0)"
proof -
  have "api_rate_limiter (w_app demo_account_world) = limiter_new API_REQUESTS_PER_SECOND (from_secs 1)"
    by (simp add: demo_account_world_def)
  then obtain l where l: "limit_request demo_env (rstr ''login:'' @ rstr ''ada'') demo_account_world =
      (Ok (), on_app (api_rate_limiter_update (\<lambda>_. l)) demo_account_world)"
    by (rule limit_request_fresh)
  have user: "hget (users (w_app demo_account_world)) (rstr ''ada'') = Some (UserAccount (rstr ''h:secret''))"
    by (simp add: demo_account_world_def)
  show ?thesis
    using l user demo_username
    by (simp add: login_user_def demo_credentials_def create_client_session_def Let_def)
      (simp add: demo_auth_def rstr_def CLIENT_SESSION_TTL_def from_secs_def)
qed

theorem session_lifetime_witness:
  "\<exists>w0. \<not> admits (demo_env\<lparr>e_authorization := Some (rstr ''Bearer one''), e_session_at := CLIENT_SESSION_TTL\<rparr>)
     (served [(demo_env, GetLive), (demo_env, PostRoom None)] w0)"
proof -
  obtain w0 where w0: "login_user demo_env demo_auth demo_credentials demo_account_world =
     (Ok (200, \<lparr>as_username = rstr ''ada'', as_access_token = rstr ''one'', as_expires_in_seconds = 2592000\<rparr>), w0)"
    using demo_login by blast
  have between: "\<forall>(e, req)\<in>set [(demo_env, GetLive), (demo_env, PostRoom None)].
      quiet e \<and> \<not> draws_token (as_access_token
        \<lparr>as_username = rstr ''ada'', as_access_token = rstr ''one'', as_expires_in_seconds = 2592000\<rparr>) req \<and>
      e_session_at e < ae_now demo_auth + CLIENT_SESSION_TTL"
    by (simp add: quiet_def demo_env_def demo_auth_def CLIENT_SESSION_TTL_def from_secs_def)
  have sent: "e_authorization (demo_env\<lparr>e_authorization := Some (rstr ''Bearer one''), e_session_at := CLIENT_SESSION_TTL\<rparr>) =
      Some (rstr ''Bearer '' @ as_access_token
        \<lparr>as_username = rstr ''ada'', as_access_token = rstr ''one'', as_expires_in_seconds = 2592000\<rparr>)"
    by (simp add: rstr_def)
  from session_lifetime [OF w0 between sent] show ?thesis
    by (intro exI [of _ w0])
      (simp add: demo_account_world_def demo_world_def app_new_def demo_auth_def rstr_def)
qed

subsection \<open>Accounts\<close>

lemma serve_keeps_account:
  assumes "quiet env" "hget (users (w_app w)) name = Some account"
  shows "hget (users (w_app (snd (serve env req w)))) name = Some account"
  using assms(2) keeps_handlers [OF assms(1), of w] adds_session_auth [of _ w env]
  by (cases req; simp add: keeps_sessions_def adds_session_def)

lemma served_keeps_account:
  assumes "\<forall>(env, req)\<in>set requests. quiet env" and "hget (users (w_app w)) name = Some account"
  shows "hget (users (w_app (served requests w))) name = Some account"
  using assms by (induction requests w rule: served.induct) (auto simp: serve_keeps_account)

lemma register_account:
  assumes "register_user env ae payload w = (Ok (status, response), w0)"
  shows "validate_username ae (ar_username payload) = Ok (as_username response)"
    and "\<exists>salt h. ae_hash ae (ar_password payload) salt = Some h \<and>
      hget (users (w_app w0)) (as_username response) = Some (UserAccount h)"
  using assms
  by (auto simp: register_user_def create_client_session_def try_st_Ok_iff hash_password_def result_simps Let_def
      split: if_splits)

lemma limit_request_users: "limit_request env key w = (res, v) \<Longrightarrow> users (w_app v) = users (w_app w)"
  using limit_request_frame(3) [of env key w] by (simp del: limit_request_frame)

lemma login_outcome:
  assumes "validate_username ae (ar_username payload) = Ok name"
    and "fst (limit_request env (rstr ''login:'' @ name) w) = Ok ()"
    and "hget (users (w_app w)) name = Some (UserAccount h)" and "ae_parses ae h"
  shows "fst (login_user env ae payload w) =
    (if ae_verify ae (ar_password payload) h
     then Ok (200, \<lparr>as_username = name, as_access_token = ae_token ae, as_expires_in_seconds = 2592000\<rparr>)
     else Err Unauthorized)"
proof -
  obtain v where v: "limit_request env (rstr ''login:'' @ name) w = (Ok (), v)"
    using assms(2) by (cases "limit_request env (rstr ''login:'' @ name) w") simp
  then have "users (w_app v) = users (w_app w)" by (rule limit_request_users)
  then show ?thesis using assms v
    by (simp add: login_user_def create_client_session_def CLIENT_SESSION_TTL_def from_secs_def Let_def)
qed

text \<open>C35. An account works as promised: after a successful registration, whatever other requests are served, a
  login under any spelling of the name that normalises to the registered one gets a new session of
  2,592,000 seconds when the password is the registered one and 401 otherwise, given a password hash that
  verifies exactly its own password and a login the limiter lets through; and registering the name again
  fails.\<close>

theorem account_roundtrip:
  assumes "register_user env ae payload w = (Ok (status, response), w0)"
    and "\<forall>(e, req)\<in>set requests. quiet e"
    and "validate_username ae' (ar_username payload') = validate_username ae (ar_username payload)"
    and argon2: "\<And>password salt h. ae_hash ae password salt = Some h \<Longrightarrow>
      ae_parses ae' h \<and> (\<forall>other. ae_verify ae' other h \<longleftrightarrow> other = password)"
    and "fst (limit_request env' (rstr ''login:'' @ as_username response) (served requests w0)) = Ok ()"
  shows "fst (login_user env' ae' payload' (served requests w0)) =
      (if ar_password payload' = ar_password payload
       then Ok (200, \<lparr>as_username = as_username response, as_access_token = ae_token ae', as_expires_in_seconds = 2592000\<rparr>)
       else Err Unauthorized) \<and>
    (\<forall>x. fst (register_user env' ae' payload' (served requests w0)) \<noteq> Ok x)"
proof -
  note r = register_account [OF assms(1)]
  obtain salt h where h: "ae_hash ae (ar_password payload) salt = Some h"
    and user0: "hget (users (w_app w0)) (as_username response) = Some (UserAccount h)" using r(2) by blast
  have user: "hget (users (w_app (served requests w0))) (as_username response) = Some (UserAccount h)"
    using served_keeps_account [OF assms(2) user0] .
  have name: "validate_username ae' (ar_username payload') = Ok (as_username response)" using assms(3) r(1) by simp
  have again: "fst (register_user env' ae' payload' v) \<noteq> Ok x"
    if "hget (users (w_app v)) (as_username response) = Some (UserAccount h)" for v x
  proof
    assume "fst (register_user env' ae' payload' v) = Ok x"
    then obtain v' where "register_user env' ae' payload' v = (Ok x, v')" by (metis prod.collapse)
    then show False using that name
      by (auto simp: register_user_def try_st_Ok_iff split: if_splits dest!: limit_request_users)
  qed
  show ?thesis
    using login_outcome [OF name assms(5) user] argon2 [OF h] again [OF user] by auto
qed

definition demo_other_password :: auth_request where
  "demo_other_password = \<lparr>ar_username = rstr ''ada '', ar_password = rstr ''guess''\<rparr>"

lemma limit_request_other_key:
  assumes "api_rate_limiter (w_app w) = limiter_new API_REQUESTS_PER_SECOND window" "limit_request env key w = (res, v)"
    "k \<noteq> key" "api_rate_limiter (w_app u) = api_rate_limiter (w_app v)"
  shows "fst (limit_request env' k u) = Ok ()"
proof -
  let ?l = "snd (allow (e_limit_at env) key (api_rate_limiter (w_app w)))"
  have l: "api_rate_limiter (w_app u) = ?l"
    using assms(2,4) by (auto simp: limit_request_def split: prod.splits)
  have "hget (rl_entries ?l) k = None" "rl_limit ?l = API_REQUESTS_PER_SECOND"
    using assms(3) by (simp_all add: allow_other assms(1)) (simp_all add: limiter_new_def)
  then have "fst (allow (e_limit_at env') k ?l)"
    by (simp add: allow_own current_entry_def API_REQUESTS_PER_SECOND_def)
  then show ?thesis using l by (auto simp: limit_request_def split: prod.split)
qed

lemma demo_password:
  "validate_password (rstr ''secret'') = Ok ()" "hash_password demo_auth (rstr ''secret'') = Ok (rstr ''h:secret'')"
  by (simp_all add: validate_password_def hash_password_def demo_auth_def rstr_def result_simps)

lemma demo_register:
  "\<exists>w0. register_user demo_env demo_auth demo_credentials demo_world =
     (Ok (201, \<lparr>as_username = rstr ''ada'', as_access_token = rstr ''one'', as_expires_in_seconds = 2592000\<rparr>), w0) \<and>
     fst (limit_request demo_env (rstr ''login:'' @ rstr ''ada'') w0) = Ok ()"
proof -
  obtain v where v: "limit_request demo_env (rstr ''register:'' @ rstr ''ada'') demo_world = (Ok (), v)"
    using limit_request_fresh [OF demo_limiter] by metis
  have other: "fst (limit_request demo_env (rstr ''login:'' @ rstr ''ada'') (on_app (client_sessions_update s) (on_app (users_update u) v))) = Ok ()"
    for s u
    by (rule limit_request_other_key [OF demo_limiter v]) (simp_all add: rstr_def)
  have free: "hget (users (w_app v)) (rstr ''ada'') = None"
    using limit_request_users [OF v] by (simp add: demo_world_def app_new_def)
  show ?thesis
    using v free other demo_username demo_password
    by (simp add: register_user_def demo_credentials_def create_client_session_def Let_def)
      (simp add: demo_auth_def CLIENT_SESSION_TTL_def from_secs_def)
qed

theorem account_roundtrip_witness:
  "\<exists>w0. fst (login_user demo_env demo_auth demo_other_password w0) = Err Unauthorized \<and>
     fst (register_user demo_env demo_auth demo_credentials demo_world) = Ok (201, \<lparr>as_username = rstr ''ada'',
       as_access_token = rstr ''one'', as_expires_in_seconds = 2592000\<rparr>)"
proof -
  define answer where "answer = \<lparr>as_username = rstr ''ada'', as_access_token = rstr ''one'', as_expires_in_seconds = 2592000\<rparr>"
  obtain w0 where w0: "register_user demo_env demo_auth demo_credentials demo_world = (Ok (201, answer), w0)"
    and limit: "fst (limit_request demo_env (rstr ''login:'' @ as_username answer) (served [] w0)) = Ok ()"
    using demo_register by (auto simp: answer_def)
  have name: "validate_username demo_auth (ar_username demo_other_password) = validate_username demo_auth (ar_username demo_credentials)"
    by (simp add: validate_username_def demo_auth_def demo_other_password_def demo_credentials_def trim_def rstr_def
        is_whitespace_def is_control_def)
  have argon2: "ae_parses demo_auth h \<and> (\<forall>other. ae_verify demo_auth other h \<longleftrightarrow> other = password)"
    if "ae_hash demo_auth password salt = Some h" for password salt h
    using that by (auto simp: demo_auth_def rstr_def)
  have differs: "ar_password demo_other_password \<noteq> ar_password demo_credentials"
    by (simp add: demo_other_password_def demo_credentials_def rstr_def)
  have "fst (login_user demo_env demo_auth demo_other_password (served [] w0)) = Err Unauthorized"
    using account_roundtrip [OF w0 _ name argon2 limit] differs by simp
  with w0 show ?thesis by (auto simp: answer_def)
qed

end
