(* ===== verification/Api_Rooms.thy ===== *)
theory Api_Rooms
  imports Api_Auth
begin

section \<open>What requests do\<close>

text \<open>
  The effect of the room handlers on all four stores (router, database, WireGuard, public keys) when no
  other request runs meanwhile: here that joining happens completely or not at all, but for a row whose insertion
  was not acknowledged.
\<close>

subsection \<open>Undisturbed requests\<close>

text \<open>No other request runs between the calls of the handler; the outcomes of the calls are free.\<close>

definition undisturbed :: "env \<Rightarrow> bool" where
  "undisturbed env \<longleftrightarrow> quiet env \<and> (\<forall>args. e_wg env args \<noteq> Panic)"

text \<open>Besides, the reply of no statement is lost: a database call that fails has not changed the tables.\<close>

definition settled :: "env \<Rightarrow> bool" where
  "settled env \<longleftrightarrow> quiet env \<and> (\<forall>args. e_wg env args \<noteq> Panic) \<and> (\<forall>n. e_link env n \<noteq> ReplyLost)"

lemma settledD:
  assumes "settled env"
  shows "e_other env n w = w" "e_wg env args \<noteq> Panic" "e_link env n \<noteq> ReplyLost" "quiet env"
  using assms by (auto simp: settled_def quiet_def)

lemma undisturbedD:
  assumes "undisturbed env"
  shows "e_other env n w = w" "e_wg env args \<noteq> Panic" "quiet env"
  using assms by (auto simp: undisturbed_def quiet_def)

lemma settled_undisturbed: "settled env \<Longrightarrow> undisturbed env"
  by (simp add: settled_def undisturbed_def)

lemma undisturbed_wireguard_run: "undisturbed env \<Longrightarrow> wireguard_run env n args w = (e_wg env args, w\<lparr>w_wg := w_wg w @ [args]\<rparr>)"
  by (simp add: wireguard_run_def undisturbedD Let_def)

lemma undisturbed_database_call:
  assumes "undisturbed env"
  shows "database_call env n query w = (case e_link env n of
      LinkUp \<Rightarrow> (fst (run_query (e_db_now env) query (w_db w)), w\<lparr>w_db := snd (run_query (e_db_now env) query (w_db w))\<rparr>)
    | LinkDown \<Rightarrow> (Err PoolError, w)
    | ReplyLost \<Rightarrow> (Err PoolError, w\<lparr>w_db := snd (run_query (e_db_now env) query (w_db w))\<rparr>))"
  by (cases "e_link env n") (auto simp: database_call_def undisturbedD [OF assms] execute_def Let_def split: prod.split)

lemma settled_database_call:
  assumes "settled env"
  shows "database_call env n query w =
    (if e_link env n = LinkUp
     then (fst (run_query (e_db_now env) query (w_db w)), w\<lparr>w_db := snd (run_query (e_db_now env) query (w_db w))\<rparr>)
     else (Err PoolError, w))"
  using settledD(3) [OF assms, of n] undisturbed_database_call [OF settled_undisturbed [OF assms]]
  by (cases "e_link env n") simp_all

text \<open>A rejected statement leaves the tables alone, except an update of a host that matches no row.\<close>

lemma insert_peer_cases:
  "insert_peer now rid p ip key db = (Ok (), db\<lparr>tb_peers := tb_peers db @ [\<lparr>pw_peer_id = p, pw_room_id = rid,
      pw_virtual_ip = address ip, pw_public_key = key, pw_joined_at = now, pw_left_at = None\<rparr>]\<rparr>) \<or>
   (\<exists>e. insert_peer now rid p ip key db = (Err e, db))"
  by (auto simp: insert_peer_def)

lemma insert_room_cases:
  "insert_room now rid code db = (Ok (), db\<lparr>tb_rooms := tb_rooms db @ [\<lparr>rr_room_id = rid, rr_room_code = code_str code,
      rr_created_at = now, rr_expires_at = None\<rparr>]\<rparr>) \<or>
   (\<exists>e. insert_room now rid code db = (Err e, db))"
  by (auto simp: insert_room_def)

subsection \<open>Joining\<close>

text \<open>The commands a join that failed may have run: none, an adding one that failed, or adding and removing.\<close>

definition undone :: "env \<Rightarrow> wireguard_manager option \<Rightarrow> rstring option \<Rightarrow> rstring list list \<Rightarrow> bool" where
  "undone env wg public_key cmds \<longleftrightarrow> cmds = [] \<or>
     (\<exists>m key ip. wg = Some m \<and> public_key = Some key \<and>
        (cmds = [add_peer_args m key ip] \<and> e_wg env (add_peer_args m key ip) \<noteq> Ok () \<or>
         cmds = [add_peer_args m key ip, remove_peer_args m key]))"

definition join_commands :: "wireguard_manager option \<Rightarrow> rstring option \<Rightarrow> virtual_ip \<Rightarrow> rstring list list" where
  "join_commands wg public_key ip = (case (wg, public_key) of
     (Some m, Some key) \<Rightarrow> [add_peer_args m key ip] | _ \<Rightarrow> [])"

definition join_rows :: "bool \<Rightarrow> instant \<Rightarrow> rstring option \<Rightarrow> room_id \<Rightarrow> peer_id \<Rightarrow> virtual_ip \<Rightarrow> peer_row list" where
  "join_rows database now public_key rid p ip = (case public_key of
     Some key \<Rightarrow> if database then [\<lparr>pw_peer_id = p, pw_room_id = rid, pw_virtual_ip = address ip, pw_public_key = key,
       pw_joined_at = now, pw_left_at = None\<rparr>] else []
   | None \<Rightarrow> [])"

lemma world_eta: "w\<lparr>w_db := w_db w\<rparr> = w" "w\<lparr>w_wg := w_wg w\<rparr> = w"
  by simp_all

lemma world_db_eta: "w\<lparr>w_wg := x, w_db := w_db w\<rparr> = w\<lparr>w_wg := x\<rparr>"
  by (cases w) simp

lemma world_commute: "w\<lparr>w_db := d, w_wg := x\<rparr> = w\<lparr>w_wg := x, w_db := d\<rparr>"
  by simp

text \<open>The insertion of a peer: done, refused without a trace, or done without the server learning it.\<close>

definition with_row :: "env \<Rightarrow> rstring \<Rightarrow> room_id \<Rightarrow> peer_id \<Rightarrow> virtual_ip \<Rightarrow> world \<Rightarrow> world" where
  "with_row env key rid p ip w = w\<lparr>w_db := (w_db w)\<lparr>tb_peers := tb_peers (w_db w) @ join_rows True (e_db_now env) (Some key) rid p ip\<rparr>\<rparr>"

lemma insert_peer_outcomes:
  assumes "undisturbed env"
  shows "database_call env n (InsertPeerQuery rid p ip key) w = (Ok (), with_row env key rid p ip w) \<or>
    (\<exists>e. database_call env n (InsertPeerQuery rid p ip key) w = (Err e, w)) \<or>
    (\<exists>e. database_call env n (InsertPeerQuery rid p ip key) w = (Err e, with_row env key rid p ip w) \<and> e_link env n = ReplyLost)"
  using insert_peer_cases [of "e_db_now env" rid p ip key "w_db w"]
  by (cases "e_link env n") (auto simp: undisturbed_database_call [OF assms] join_rows_def with_row_def)

lemma undisturbed_wireguard_calls:
  assumes "undisturbed env" "validate_public_key (e_decode env) key = Ok ()"
  shows "add_peer_call env n m key ip w = (e_wg env (add_peer_args m key ip), w\<lparr>w_wg := w_wg w @ [add_peer_args m key ip]\<rparr>)"
    and "remove_peer_call env n m key w = (e_wg env (remove_peer_args m key), w\<lparr>w_wg := w_wg w @ [remove_peer_args m key]\<rparr>)"
  using assms by (simp_all add: add_peer_call_def remove_peer_call_def undisturbed_wireguard_run)

lemma leave_op:
  "leave_room rid p (the_router w) = (Ok (), r) \<Longrightarrow>
   router_op (leave_room rid p) (w\<lparr>w_wg := x, w_db := d\<rparr>) = (Ok (), (on_app (router_update (\<lambda>_. r)) w)\<lparr>w_wg := x, w_db := d\<rparr>)"
  by (simp add: router_op_def on_app_def)

lemma discard_undisturbed:
  assumes "undisturbed env"
  shows "discard (e_wg env args, w) = (Ok (), w)"
  using undisturbedD(2) [OF assms, of args] by (cases "e_wg env args") (simp_all add: discard_def)

lemma undone_intros:
  "undone env wg public_key []"
  "wg = Some m \<Longrightarrow> public_key = Some key \<Longrightarrow> e_wg env (add_peer_args m key ip) \<noteq> Ok () \<Longrightarrow> undone env wg public_key [add_peer_args m key ip]"
  "wg = Some m \<Longrightarrow> public_key = Some key \<Longrightarrow> undone env wg public_key [add_peer_args m key ip, remove_peer_args m key]"
  by (auto simp: undone_def)

definition join_done :: "env \<Rightarrow> bool \<Rightarrow> wireguard_manager option \<Rightarrow> rstring option \<Rightarrow> room_id \<Rightarrow> peer_id \<Rightarrow> virtual_ip \<Rightarrow> world \<Rightarrow> world" where
  "join_done env database wg public_key rid p ip w = w\<lparr>
        w_db := (w_db w)\<lparr>tb_peers := tb_peers (w_db w) @ join_rows database (e_db_now env) public_key rid p ip\<rparr>,
        w_wg := w_wg w @ join_commands wg public_key ip\<rparr>"

text \<open>The rows a failed join leaves: those before it, or one more when the reply of the insertion was lost.\<close>

definition leftover :: "env \<Rightarrow> bool \<Rightarrow> rstring option \<Rightarrow> room_id \<Rightarrow> peer_id \<Rightarrow> virtual_ip \<Rightarrow> world \<Rightarrow> database \<Rightarrow> bool" where
  "leftover env database public_key rid p ip w d \<longleftrightarrow> d = w_db w \<or>
     database \<and> e_link env 1 = ReplyLost \<and> (\<exists>key. public_key = Some key \<and> d = w_db (with_row env key rid p ip w))"

lemma with_row_frame: "with_row env key rid p ip w = w\<lparr>w_db := w_db (with_row env key rid p ip w)\<rparr>"
  "w_db (with_row env key rid p ip (w\<lparr>w_wg := x\<rparr>)) = w_db (with_row env key rid p ip w)"
  by (simp_all add: with_row_def)

lemma join_external_outcomes:
  assumes "undisturbed env" and key: "database \<or> wg \<noteq> None \<Longrightarrow> public_key \<noteq> None"
    and valid: "\<And>key. public_key = Some key \<Longrightarrow> validate_public_key (e_decode env) key = Ok ()"
    and leave: "leave_room rid p (the_router w) = (Ok (), r)"
  shows "join_external env database wg public_key rid p ip w = (Ok (), join_done env database wg public_key rid p ip w) \<or>
    (\<exists>e cmds d. join_external env database wg public_key rid p ip w =
        (Err e, (on_app (router_update (\<lambda>_. r)) w)\<lparr>w_wg := w_wg w @ cmds, w_db := d\<rparr>) \<and>
        undone env wg public_key cmds \<and> leftover env database public_key rid p ip w d)"
proof (cases public_key)
  case None
  with key have "\<not> database" "wg = None" by blast+
  with None show ?thesis by (simp add: join_external_def join_done_def join_rows_def join_commands_def)
next
  case (Some k)
  note call = undisturbed_wireguard_calls [OF assms(1) valid [OF Some]]
  note pk = Some
  have undo: "router_op (leave_room rid p) (w\<lparr>w_wg := x, w_db := d\<rparr>) =
      (Ok (), (on_app (router_update (\<lambda>_. r)) w)\<lparr>w_wg := x, w_db := d\<rparr>)" for x d
    by (rule leave_op [OF leave])
  have called: "\<exists>e d. database_call env 1 (InsertPeerQuery rid p ip k) (w\<lparr>w_wg := x\<rparr>) = (Err e, w\<lparr>w_wg := x, w_db := d\<rparr>) \<and>
        leftover env True public_key rid p ip w d"
    if "database_call env 1 (InsertPeerQuery rid p ip k) (w\<lparr>w_wg := x\<rparr>) \<noteq> (Ok (), with_row env k rid p ip (w\<lparr>w_wg := x\<rparr>))" for x
    using insert_peer_outcomes [OF assms(1), of 1 rid p ip k "w\<lparr>w_wg := x\<rparr>"]
  proof (elim disjE exE conjE)
    fix e
    assume "database_call env 1 (InsertPeerQuery rid p ip k) (w\<lparr>w_wg := x\<rparr>) = (Err e, w\<lparr>w_wg := x\<rparr>)"
    then show ?thesis by (intro exI [of _ e] exI [of _ "w_db w"]) (simp add: leftover_def world_db_eta)
  qed (use that in \<open>auto simp: leftover_def pk with_row_def\<close>)
  show ?thesis
  proof (cases wg)
    case None
    have no_command: "undone env wg public_key []" by (rule undone_intros(1))
    show ?thesis
    proof (cases "database \<and> database_call env 1 (InsertPeerQuery rid p ip k) w \<noteq> (Ok (), with_row env k rid p ip w)")
      case True
      with called [of "w_wg w"] obtain e d where
        "database_call env 1 (InsertPeerQuery rid p ip k) w = (Err e, w\<lparr>w_wg := w_wg w, w_db := d\<rparr>)"
        "leftover env True public_key rid p ip w d" by (auto simp: world_eta)
      then have "join_external env database wg public_key rid p ip w = (Err (Internal (Text ''database write failed'')),
            (on_app (router_update (\<lambda>_. r)) w)\<lparr>w_wg := w_wg w @ [], w_db := d\<rparr>)" "leftover env database public_key rid p ip w d"
        using True undo [where x = "w_wg w" and d = d] by (simp_all add: join_external_def None pk recover_def discard_def)
      then show ?thesis using no_command by (intro disjI2 exI conjI)
    next
      case False
      then show ?thesis
        by (cases database)
          (auto simp: join_external_def join_done_def join_rows_def join_commands_def None pk recover_def with_row_def)
    qed
  next
    case (Some m)
    let ?v = "w\<lparr>w_wg := w_wg w @ [add_peer_args m k ip]\<rparr>"
    show ?thesis
    proof (cases "e_wg env (add_peer_args m k ip)")
      case (Ok u)
      show ?thesis
      proof (cases "database \<and> database_call env 1 (InsertPeerQuery rid p ip k) ?v \<noteq> (Ok (), with_row env k rid p ip ?v)")
        case True
        with called [of "w_wg w @ [add_peer_args m k ip]"] obtain e d where
          lost: "database_call env 1 (InsertPeerQuery rid p ip k) ?v = (Err e, ?v\<lparr>w_db := d\<rparr>)"
          and d: "leftover env database public_key rid p ip w d" by auto
        have "join_external env database wg public_key rid p ip w = (Err (Internal (Text ''database write failed'')),
            (on_app (router_update (\<lambda>_. r)) w)\<lparr>w_wg := w_wg w @ [add_peer_args m k ip, remove_peer_args m k], w_db := d\<rparr>)"
          using True Ok lost undo [where x = "w_wg w @ [add_peer_args m k ip, remove_peer_args m k]" and d = d]
          by (simp add: join_external_def Some pk recover_def call discard_undisturbed [OF assms(1)] world_commute)
            (simp add: discard_def)
        then show ?thesis using undone_intros(3) [OF Some pk] d by blast
      next
        case False
        then show ?thesis
          using Ok
          by (cases database)
            (auto simp: join_external_def join_done_def join_rows_def join_commands_def Some pk recover_def call with_row_def)
      qed
    next
      case (Err e)
      then have "\<exists>e. join_external env database wg public_key rid p ip w = (Err e,
          (on_app (router_update (\<lambda>_. r)) w)\<lparr>w_wg := w_wg w @ [add_peer_args m k ip], w_db := w_db w\<rparr>)"
        using undo [where x = "w_wg w @ [add_peer_args m k ip]" and d = "w_db w"]
        by (simp add: join_external_def Some pk recover_def call discard_def)
      moreover have "e_wg env (add_peer_args m k ip) \<noteq> Ok ()" using Err by simp
      then have "undone env wg public_key [add_peer_args m k ip]" by (rule undone_intros(2) [OF Some pk])
      moreover have "leftover env database public_key rid p ip w (w_db w)" by (simp add: leftover_def)
      ultimately show ?thesis by blast
    next
      case Panic
      then show ?thesis using undisturbedD(2) [OF assms(1)] by simp
    qed
  qed
qed

text \<open>The bearer check leaves the four stores and the configuration alone.\<close>

definition same_stores :: "world \<Rightarrow> world \<Rightarrow> bool" where
  "same_stores w w' \<longleftrightarrow> the_router w' = the_router w \<and> w_db w' = w_db w \<and> w_wg w' = w_wg w \<and>
     peer_keys (w_app w') = peer_keys (w_app w) \<and> has_database (w_app w') = has_database (w_app w) \<and>
     wireguard (w_app w') = wireguard (w_app w) \<and> virtual_ip_prefix (w_app w') = virtual_ip_prefix (w_app w)"

lemma same_stores_refl [simp]: "same_stores w w"
  by (simp add: same_stores_def)

lemma bearer_stores: "same_stores w (snd (require_bearer env w))"
  by (auto simp: same_stores_def require_bearer_def refuse_def limit_request_def Let_def split: option.split prod.split)

lemma bearer_same: "require_bearer env w = (res, w0) \<Longrightarrow> has_database (w_app w0) = has_database (w_app w)"
  using bearer_stores [of w env] by (simp add: same_stores_def)

lemma after_bearer:
  obtains (refused) e w0 where "require_bearer env w = (Err e, w0)" "same_stores w w0"
  | (admitted) w0 where "require_bearer env w = (Ok (), w0)" "same_stores w w0"
proof (cases "require_bearer env w")
  case (Pair res w0)
  then have same: "same_stores w w0" using bearer_stores [of w env] by simp
  have "res \<noteq> Panic"
    using Pair by (auto simp: require_bearer_def refuse_def limit_request_def Let_def split: option.splits prod.splits if_splits)
  with Pair same show ?thesis using that by (cases res) auto
qed

lemma choose_address_inside:
  assumes "choose_address requested prefix r = Ok ip"
  shows "\<not> outside_subnet prefix ip" "is_virtual_ip_available r ip"
proof -
  obtain a b c where prefix: "prefix = (a, b, c)" by (cases prefix) auto
  have low: "\<not> word_of_nat n < (2 :: byte)" if "2 \<le> n" "n < 255" for n
    using that by (simp add: word_less_nat_alt unat_of_nat)
  show "\<not> outside_subnet prefix ip" "is_virtual_ip_available r ip"
    using assms low
    by (auto simp: choose_address_def prefix allocate_virtual_ip_def find_map_upt_Some outside_subnet_def octets_ipv4_new
        simp del: upt_rec_numeral split: option.splits if_splits)
qed

lemma join_section_cases:
  obtains (failed) e where "join_section env room_code p requested w = (Err e, w)"
  | (joins) rid ip r where
      "join_section env room_code p requested w = (Ok (rid, ip, 1), on_app (router_update (\<lambda>_. r)) w)"
      "room_id_for_code (the_router w) room_code = Some rid"
      "choose_address requested (virtual_ip_prefix (w_app w)) (the_router w) = Ok ip"
      "join_room rid p ip (e_now env) (the_router w) = (Ok (), r)"
proof (cases "room_id_for_code (the_router w) room_code")
  case None
  then show ?thesis by (intro failed) (simp add: join_section_def room_of_code_def)
next
  case (Some rid)
  show ?thesis
  proof (cases "choose_address requested (virtual_ip_prefix (w_app w)) (the_router w)")
    case (Ok ip)
    show ?thesis
    proof (cases rule: join_room_cases [of rid p ip "e_now env" "the_router w"])
      case (err e)
      have "on_app (router_update (\<lambda>_. the_router w)) w = w" by (simp add: on_app_def)
      with err Some Ok show ?thesis
        by (intro failed) (simp add: join_section_def room_of_code_def router_op_def)
    next
      case (ok room)
      with Some Ok show ?thesis
        by (intro joins) (auto simp: join_section_def room_of_code_def router_op_def peer_connection_epoch_def on_app_def)
    qed
  next
    case (Err e)
    with Some show ?thesis by (intro failed) (simp add: join_section_def room_of_code_def)
  next
    case Panic
    then show ?thesis by simp
  qed
qed

text \<open>What a successful join has done, and what a failed one leaves behind.\<close>

definition joined :: "env \<Rightarrow> join_request \<Rightarrow> peer_response \<Rightarrow> world \<Rightarrow> world \<Rightarrow> bool" where
  "joined env payload response w w' \<longleftrightarrow>
     (let rid = pe_room_id response; p = pe_peer_id response; ip = pe_virtual_ip response;
          key = jr_wireguard_public_key payload in
      join_room rid p ip (e_now env) (the_router w) = (Ok (), the_router w') \<and>
      p = (case jr_peer_id payload of Some p \<Rightarrow> p | None \<Rightarrow> e_peer_id env) \<and>
      pe_connection_epoch response = 1 \<and> \<not> outside_subnet (virtual_ip_prefix (w_app w)) ip \<and>
      (case jr_requested_virtual_ip payload of
         None \<Rightarrow> allocate_virtual_ip (the_router w) (virtual_ip_prefix (w_app w)) = Some ip
       | Some requested \<Rightarrow> ip = requested) \<and>
      w_db w' = (w_db w)\<lparr>tb_peers := tb_peers (w_db w) @ join_rows (has_database (w_app w)) (e_db_now env) key rid p ip\<rparr> \<and>
      w_wg w' = w_wg w @ join_commands (wireguard (w_app w)) key ip \<and>
      peer_keys (w_app w') = (case key of None \<Rightarrow> peer_keys (w_app w) | Some k \<Rightarrow> hinsert p k (peer_keys (w_app w))) \<and>
      has_database (w_app w') = has_database (w_app w) \<and> virtual_ip_prefix (w_app w') = virtual_ip_prefix (w_app w))"

definition not_joined :: "env \<Rightarrow> join_request \<Rightarrow> world \<Rightarrow> world \<Rightarrow> bool" where
  "not_joined env payload w w' \<longleftrightarrow> the_router w' = the_router w \<and> w_db w' = w_db w \<and>
     peer_keys (w_app w') = peer_keys (w_app w) \<and> has_database (w_app w') = has_database (w_app w) \<and>
     wireguard (w_app w') = wireguard (w_app w) \<and> virtual_ip_prefix (w_app w') = virtual_ip_prefix (w_app w) \<and>
     (\<exists>cmds. w_wg w' = w_wg w @ cmds \<and> undone env (wireguard (w_app w)) (jr_wireguard_public_key payload) cmds)"

text \<open>Like a failed join, but the row of the peer has stayed: the server undid an insertion whose reply it did not get.\<close>

definition row_left :: "env \<Rightarrow> join_request \<Rightarrow> world \<Rightarrow> world \<Rightarrow> bool" where
  "row_left env payload w w' \<longleftrightarrow> has_database (w_app w) \<and> e_link env 1 = ReplyLost \<and>
     (\<exists>key rid ip. jr_wireguard_public_key payload = Some key \<and>
        not_joined env payload
          (with_row env key rid (case jr_peer_id payload of Some p \<Rightarrow> p | None \<Rightarrow> e_peer_id env) ip w) w')"

lemma not_joined_same: "same_stores w w' \<Longrightarrow> not_joined env payload w w'"
  by (simp add: same_stores_def not_joined_def undone_def)

lemma choose_requested: "choose_address requested prefix r = Ok ip \<Longrightarrow>
    (case requested of None \<Rightarrow> allocate_virtual_ip r prefix = Some ip | Some q \<Rightarrow> ip = q)"
  by (simp add: choose_address_def split: if_splits option.splits)

lemma join_atomic:
  assumes inv: "router_inv (the_router w)" and env: "undisturbed env"
  shows "(\<exists>response w'. join_room_handler env code payload w = (Ok (201, response), w') \<and> joined env payload response w w') \<or>
    (\<exists>e w'. join_room_handler env code payload w = (Err e, w') \<and> (not_joined env payload w w' \<or> row_left env payload w w'))"
proof (cases rule: after_bearer [of env w])
  case (refused e w0)
  then show ?thesis by (simp add: join_room_handler_def not_joined_same)
next
  case (admitted w0)
  let ?p = "case jr_peer_id payload of Some p \<Rightarrow> p | None \<Rightarrow> e_peer_id env"
  let ?key = "jr_wireguard_public_key payload"
  let ?db = "has_database (w_app w)" and ?wg = "wireguard (w_app w)"
  have cfg: "has_database (w_app w0) = ?db" "wireguard (w_app w0) = ?wg" using admitted(2) by (simp_all add: same_stores_def)
  note same = not_joined_same [OF admitted(2), of env payload]
  show ?thesis
  proof (cases "path_code code")
    case (Ok room_code)
    let ?needs = "(?db \<or> ?wg \<noteq> None) \<and> ?key = None"
    let ?valid = "case ?key of None \<Rightarrow> Ok () | Some key \<Rightarrow> map_err from_wireguard_error (validate_public_key (e_decode env) key)"
    show ?thesis
    proof (cases "?needs \<or> ?valid \<noteq> Ok ()")
      case True
      then have "\<exists>e. join_room_handler env code payload w = (Err e, w0)"
        using admitted Ok cfg
        by (cases ?key; cases ?valid) (auto simp: join_room_handler_def Let_def)
      with same show ?thesis by blast
    next
      case False
      then have key: "?db \<or> ?wg \<noteq> None \<Longrightarrow> ?key \<noteq> None"
        and valid: "\<And>key. ?key = Some key \<Longrightarrow> validate_public_key (e_decode env) key = Ok ()" and v: "?valid = Ok ()"
        by auto
      have run: "join_room_handler env code payload w =
          try_st (join_section env room_code ?p (jr_requested_virtual_ip payload) w0) (\<lambda>(rid, ip, epoch) w.
            try_st (join_external env ?db ?wg ?key rid ?p ip w) (\<lambda>_ w.
              let w = (case ?key of None \<Rightarrow> w | Some key \<Rightarrow> on_app (peer_keys_update (hinsert ?p key)) w)
              in (Ok (201, \<lparr>pe_room_id = rid, pe_peer_id = ?p, pe_virtual_ip = ip, pe_connection_epoch = epoch\<rparr>), w)))"
        using admitted(1) Ok cfg False v by (cases ?key) (auto simp: join_room_handler_def Let_def)
      show ?thesis
      proof (cases rule: join_section_cases [of env room_code ?p "jr_requested_virtual_ip payload" w0])
        case (failed e)
        then show ?thesis using run same by auto
      next
        case (joins rid ip r)
        let ?w1 = "on_app (router_update (\<lambda>_. r)) w0"
        have router: "the_router w0 = the_router w" using admitted(2) by (simp add: same_stores_def)
        have "leave_room rid ?p (the_router ?w1) = (Ok (), the_router w)"
          using leave_after_join [OF inv] joins(4) by (simp add: on_app_def router)
        from join_external_outcomes [OF env _ valid this, where database = ?db and wg = ?wg and ip = ip] key
        consider (stored) "join_external env ?db ?wg ?key rid ?p ip ?w1 = (Ok (), join_done env ?db ?wg ?key rid ?p ip ?w1)"
          | (undone) e cmds d where "join_external env ?db ?wg ?key rid ?p ip ?w1 =
              (Err e, (on_app (router_update (\<lambda>_. the_router w)) ?w1)\<lparr>w_wg := w_wg ?w1 @ cmds, w_db := d\<rparr>)"
              "undone env ?wg ?key cmds" "leftover env ?db ?key rid ?p ip ?w1 d"
          by blast
        then show ?thesis
        proof cases
          case stored
          let ?response = "\<lparr>pe_room_id = rid, pe_peer_id = ?p, pe_virtual_ip = ip, pe_connection_epoch = 1\<rparr>"
          let ?w2 = "join_done env ?db ?wg ?key rid ?p ip ?w1"
          let ?w' = "case ?key of None \<Rightarrow> ?w2 | Some key \<Rightarrow> on_app (peer_keys_update (hinsert ?p key)) ?w2"
          from choose_requested [OF joins(3)] have "joined env payload ?response w ?w'"
            using joins(4) choose_address_inside(1) [OF joins(3)] admitted(2)
            by (cases ?key; cases "jr_requested_virtual_ip payload")
                (simp_all add: joined_def join_done_def on_app_def same_stores_def Let_def)
          moreover have "join_room_handler env code payload w = (Ok (201, ?response), ?w')"
            using run joins(1) stored by (simp add: Let_def)
          ultimately show ?thesis by blast
        next
          case undone
          let ?w' = "(on_app (router_update (\<lambda>_. the_router w)) ?w1)\<lparr>w_wg := w_wg ?w1 @ cmds, w_db := d\<rparr>"
          have fail: "join_room_handler env code payload w = (Err e, ?w')"
            using run joins(1) undone(1) by simp
          have kept: "not_joined env payload (w\<lparr>w_db := d\<rparr>) ?w'"
            using undone(2) admitted(2) by (simp add: not_joined_def on_app_def same_stores_def)
          from undone(3) have "d = w_db w \<or> row_left env payload w ?w'"
          proof (unfold leftover_def, elim disjE exE conjE)
            fix k
            assume "?db" "e_link env 1 = ReplyLost" "?key = Some k" "d = w_db (with_row env k rid ?p ip ?w1)"
            moreover from this(4) have "w\<lparr>w_db := d\<rparr> = with_row env k rid ?p ip w"
              using admitted(2) by (simp add: with_row_def on_app_def same_stores_def)
            ultimately show ?thesis using kept unfolding row_left_def by metis
          qed (use admitted(2) in \<open>simp add: on_app_def same_stores_def\<close>)
          with fail kept show ?thesis by (auto simp: world_eta)
        qed
      qed
    qed
  next
    case (Err e)
    with admitted same show ?thesis by (simp add: join_room_handler_def)
  qed simp
qed

lemma join_settled:
  assumes "router_inv (the_router w)" and "settled env"
  shows "(\<exists>response w'. join_room_handler env code payload w = (Ok (201, response), w') \<and> joined env payload response w w') \<or>
    (\<exists>e w'. join_room_handler env code payload w = (Err e, w') \<and> not_joined env payload w w')"
  using join_atomic [OF assms(1) settled_undisturbed [OF assms(2)], of code payload] settledD(3) [OF assms(2), of 1]
  by (auto simp: row_left_def)

text \<open>C32. When no other request runs between its calls, a join happens completely or not at all, but for one row. On
  success the router has performed exactly \<open>join_room\<close> for the requested or drawn peer at an address inside the
  configured subnet (the requested one if one was requested), the database has gained exactly that peer's row,
  WireGuard one adding command and the key table one entry. On failure, be it of WireGuard or of the
  database, the router, the tables and the keys are exactly what they were, and an adding command that
  worked has been followed by the removing one. Only when the reply of the insertion is lost does the
  row of the peer stay in the database, although everything else has been undone.\<close>

theorem join_all_or_nothing:
  assumes "run router_step (router_new c) es (the_router w)" and "undisturbed env"
  shows "(\<exists>response w'. join_room_handler env code payload w = (Ok (201, response), w') \<and> joined env payload response w w') \<or>
    (\<exists>e w'. join_room_handler env code payload w = (Err e, w') \<and> (not_joined env payload w w' \<or> row_left env payload w w'))"
  using join_atomic [OF inv_run [OF assms(1)] assms(2)] .

definition demo_join :: join_request where
  "demo_join = \<lparr>jr_peer_id = None, jr_wireguard_public_key = Some (rstr ''other''), jr_requested_virtual_ip = None\<rparr>"

lemma demo_settled: "settled demo_env"
  by (simp add: settled_def quiet_def demo_env_def)

lemma lowest_address:
  assumes "hget (virtual_ips r) (VirtualIp 2) = None"
  shows "allocate_virtual_ip r (0, 0, 0) = Some (VirtualIp 2)"
proof -
  have "ipv4_new 0 0 0 (word_of_nat 2) = 2" by (simp add: ipv4_new_def word_from_be_def be_val_def)
  moreover have "[2..<255] = (2::nat) # [3..<255]" by (simp add: upt_conv_Cons del: upt_rec_numeral)
  ultimately show ?thesis
    using assms by (simp add: allocate_virtual_ip_def is_virtual_ip_available_def del: upt_rec_numeral)
qed

text \<open>A room stored with the router's, and joins of it with a valid key and every outcome of the insertion.\<close>

definition open_world :: world where
  "open_world = \<lparr>
     w_app = (app_new 0 (rstr ''tok''))\<lparr>router := apply_events [CreateRoom (RoomId 1) (RoomCode (rstr ''RMAAAA''))] (router_new demo_config),
       has_database := True, virtual_ip_prefix := (0, 0, 0), wireguard := Some (WireGuardManager (rstr ''wg0''))\<rparr>,
     w_db = snd (insert_room 1 (RoomId 1) (RoomCode (rstr ''RMAAAA'')) empty_database),
     w_wg = []\<rparr>"

definition joining_env :: "link \<Rightarrow> env" where
  "joining_env link = demo_env\<lparr>e_decode := (\<lambda>_. Some (replicate 32 0)), e_link := (\<lambda>_. link)\<rparr>"

lemma joining_undisturbed: "undisturbed (joining_env link)" "link \<noteq> ReplyLost \<Longrightarrow> settled (joining_env link)"
  by (simp_all add: undisturbed_def settled_def quiet_def joining_env_def demo_env_def)

lemma open_run: "run router_step (router_new demo_config) [CreateRoom (RoomId 1) (RoomCode (rstr ''RMAAAA''))] (the_router open_world)"
proof -
  have "all_fresh [CreateRoom (RoomId 1) (RoomCode (rstr ''RMAAAA''))] (router_new demo_config)" by simp
  from run_apply_events [OF this] show ?thesis by (simp add: open_world_def)
qed

lemmas join_eval = joining_env_def demo_env_def open_world_def on_app_def join_section_def room_of_code_def room_id_for_code_def
  choose_address_def router_op_def router_eval demo_config_def peer_connection_epoch_def join_external_def add_peer_call_def
  remove_peer_call_def wireguard_run_def database_call_def execute_def insert_peer_def insert_room_def empty_database_def
  validate_public_key_def leave_room_def drop_sessions_of_def hkeys_where_def hash_simps recover_def discard_def Let_def

lemma demo_room_code: "path_code (rstr ''RMAAAA'') = Ok (RoomCode (rstr ''RMAAAA''))"
proof -
  have "parse_code (rstr ''RMAAAA'') = Ok (RoomCode (rstr ''RMAAAA''))" by code_simp
  then show ?thesis by (simp add: path_code_def parse_room_code_def)
qed

lemma demo_admitted:
  assumes "api_rate_limiter (w_app w) = limiter_new API_REQUESTS_PER_SECOND (from_secs 1)" and "bearer_token (w_app w) = rstr ''tok''"
  obtains l where "require_bearer (joining_env link) w = (Ok (), on_app (api_rate_limiter_update (\<lambda>_. l)) w)"
proof -
  obtain l where l: "limit_request (joining_env link) (rstr ''tok'') w = (Ok (), on_app (api_rate_limiter_update (\<lambda>_. l)) w)"
    using assms(1) by (rule limit_request_fresh)
  have "strip_prefix (rstr ''Bearer '') (rstr ''Bearer tok'') = Some (rstr ''tok'')" by code_simp
  then have "require_bearer (joining_env link) w = (Ok (), on_app (api_rate_limiter_update (\<lambda>_. l)) w)"
    using l assms(2) by (simp add: require_bearer_def joining_env_def demo_env_def)
  then show ?thesis by (rule that)
qed

lemma open_joined:
  "fst (join_room_handler (joining_env link) (rstr ''RMAAAA'') demo_join open_world) =
    (if link = LinkUp then Ok (201, \<lparr>pe_room_id = RoomId 1, pe_peer_id = PeerId 77, pe_virtual_ip = VirtualIp 2, pe_connection_epoch = 1\<rparr>)
     else Err (Internal (Text ''database write failed''))) \<and>
   length (tb_peers (w_db (snd (join_room_handler (joining_env link) (rstr ''RMAAAA'') demo_join open_world)))) =
    (if link = LinkDown then 0 else 1)"
proof -
  have "api_rate_limiter (w_app open_world) = limiter_new API_REQUESTS_PER_SECOND (from_secs 1)" "bearer_token (w_app open_world) = rstr ''tok''"
    by (simp_all add: open_world_def app_new_def)
  then obtain l where "require_bearer (joining_env link) open_world = (Ok (), on_app (api_rate_limiter_update (\<lambda>_. l)) open_world)"
    by (rule demo_admitted)
  moreover have "validate_public_key (e_decode (joining_env link)) key = Ok ()" for key
    by (simp add: validate_public_key_def joining_env_def)
  moreover have "hget (virtual_ips (the_router open_world)) (VirtualIp 2) = None"
    by (simp add: open_world_def router_eval)
  note lowest_address [OF this]
  ultimately show ?thesis
    by (cases link)
      (simp_all add: join_room_handler_def demo_room_code demo_join_def join_eval)
qed

theorem join_all_or_nothing_witness:
  "(\<exists>response w'. join_room_handler (joining_env LinkUp) (rstr ''RMAAAA'') demo_join open_world = (Ok (201, response), w') \<and>
      joined (joining_env LinkUp) demo_join response open_world w') \<and>
   (\<exists>e w'. join_room_handler (joining_env LinkDown) (rstr ''RMAAAA'') demo_join open_world = (Err e, w') \<and>
      not_joined (joining_env LinkDown) demo_join open_world w') \<and>
   (\<exists>e w'. join_room_handler (joining_env ReplyLost) (rstr ''RMAAAA'') demo_join open_world = (Err e, w') \<and>
      row_left (joining_env ReplyLost) demo_join open_world w')"
proof (intro conjI)
  have empty: "tb_peers (w_db open_world) = []"
    by (simp add: open_world_def insert_room_def empty_database_def)
  show "\<exists>response w'. join_room_handler (joining_env LinkUp) (rstr ''RMAAAA'') demo_join open_world = (Ok (201, response), w') \<and>
      joined (joining_env LinkUp) demo_join response open_world w'"
    using join_all_or_nothing [OF open_run joining_undisturbed(1) [of LinkUp], of "rstr ''RMAAAA''" demo_join] open_joined [of LinkUp] by auto
  show "\<exists>e w'. join_room_handler (joining_env LinkDown) (rstr ''RMAAAA'') demo_join open_world = (Err e, w') \<and>
      not_joined (joining_env LinkDown) demo_join open_world w'"
    using join_all_or_nothing [OF open_run joining_undisturbed(1) [of LinkDown], of "rstr ''RMAAAA''" demo_join] open_joined [of LinkDown] by (auto simp: row_left_def joining_env_def)
  show "\<exists>e w'. join_room_handler (joining_env ReplyLost) (rstr ''RMAAAA'') demo_join open_world = (Err e, w') \<and>
      row_left (joining_env ReplyLost) demo_join open_world w'"
    using join_all_or_nothing [OF open_run joining_undisturbed(1) [of ReplyLost], of "rstr ''RMAAAA''" demo_join] open_joined [of ReplyLost] empty by (auto simp: not_joined_def)
qed

subsection \<open>What a join needs\<close>

lemma settled_benign: "settled env \<Longrightarrow> benign env"
  by (simp add: benign_def settledD world_step_def router_work_refl)

lemma join_needs_key:
  assumes "join_room_handler env code payload w = (Ok x, w')" and "has_database (w_app w)"
  shows "\<exists>key. jr_wireguard_public_key payload = Some key"
  using assms
  by (cases "jr_wireguard_public_key payload")
    (auto simp: join_room_handler_def try_st_Ok_iff Let_def dest: bearer_same split: if_splits)

end
