(* ===== verification/Api_Mirror.thy ===== *)
theory Api_Mirror
  imports Api_Rooms
begin

section \<open>The database mirrors the router\<close>

text \<open>
  Deleting a peer as a whole, up to a deletion of its row that was not acknowledged, and the invariant of a server with a database between two requests: the
  rows of rooms and peers are exactly the rooms and peers of the router, with the public keys the server
  knows. Every settled request keeps it.
\<close>

subsection \<open>Deleting a peer\<close>

text \<open>The \<open>wg\<close> calls with any key: an invalid key fails before a command is run.\<close>

lemma remove_call_cases:
  assumes "undisturbed env"
  obtains (failed) e cmds where "remove_peer_call env n m key w = (Err e, w\<lparr>w_wg := w_wg w @ cmds\<rparr>)"
      "cmds = [] \<or> cmds = [remove_peer_args m key] \<and> e_wg env (remove_peer_args m key) \<noteq> Ok ()"
  | (removed) "remove_peer_call env n m key w = (Ok (), w\<lparr>w_wg := w_wg w @ [remove_peer_args m key]\<rparr>)"
      "validate_public_key (e_decode env) key = Ok ()"
proof (cases "validate_public_key (e_decode env) key")
  case (Ok u)
  then have "validate_public_key (e_decode env) key = Ok ()" by simp
  note call = undisturbed_wireguard_calls(2) [OF assms this, of n m w]
  show ?thesis
  proof (cases "e_wg env (remove_peer_args m key)")
    case (Ok v)
    then show ?thesis using removed call \<open>validate_public_key (e_decode env) key = Ok ()\<close> by simp
  next
    case (Err e)
    then show ?thesis using failed [of e "[remove_peer_args m key]"] call by simp
  next
    case Panic
    then show ?thesis using undisturbedD(2) [OF assms] by simp
  qed
next
  case (Err e)
  then show ?thesis using failed [of e "[]"] by (simp add: remove_peer_call_def)
next
  case Panic
  then show ?thesis by simp
qed

definition leave_commands :: "wireguard_manager option \<Rightarrow> rstring option \<Rightarrow> rstring list list" where
  "leave_commands wg public_key = (case (wg, public_key) of
     (Some m, Some key) \<Rightarrow> [remove_peer_args m key] | _ \<Rightarrow> [])"

text \<open>The commands a deletion that failed may have run: none, a removing one that failed, or removing and adding.\<close>

definition kept :: "env \<Rightarrow> wireguard_manager option \<Rightarrow> rstring option \<Rightarrow> virtual_ip \<Rightarrow> rstring list list \<Rightarrow> bool" where
  "kept env wg public_key ip cmds \<longleftrightarrow> cmds = [] \<or>
     (\<exists>m key. wg = Some m \<and> public_key = Some key \<and>
        (cmds = [remove_peer_args m key] \<and> e_wg env (remove_peer_args m key) \<noteq> Ok () \<or>
         cmds = [remove_peer_args m key, add_peer_args m key ip]))"

text \<open>The deletion of a row: done, not reached, or done without the server learning it.\<close>

definition without_row :: "peer_id \<Rightarrow> world \<Rightarrow> world" where
  "without_row p w = w\<lparr>w_db := remove_peer_rows (\<lambda>row. pw_peer_id row = p) (w_db w)\<rparr>"

lemma delete_peer_outcomes:
  assumes "undisturbed env"
  shows "database_call env n (DeletePeerQuery p) w = (case e_link env n of
      LinkUp \<Rightarrow> (Ok (), without_row p w) | LinkDown \<Rightarrow> (Err PoolError, w) | ReplyLost \<Rightarrow> (Err PoolError, without_row p w))"
  by (simp add: undisturbed_database_call [OF assms] delete_peer_row_def without_row_def split: link.split)

definition delete_done :: "bool \<Rightarrow> wireguard_manager option \<Rightarrow> rstring option \<Rightarrow> peer_id \<Rightarrow> world \<Rightarrow> world" where
  "delete_done database wg public_key p w = w\<lparr>
     w_db := (if database then remove_peer_rows (\<lambda>row. pw_peer_id row = p) (w_db w) else w_db w),
     w_wg := w_wg w @ leave_commands wg public_key\<rparr>"

text \<open>The rows a failed deletion leaves: those before it, or fewer when the reply of the deletion was lost.\<close>

definition remaining :: "env \<Rightarrow> bool \<Rightarrow> peer_id \<Rightarrow> world \<Rightarrow> database \<Rightarrow> bool" where
  "remaining env database p w d \<longleftrightarrow> d = w_db w \<or>
     database \<and> e_link env 1 = ReplyLost \<and> d = w_db (without_row p w)"

lemma delete_external_outcomes:
  assumes "undisturbed env"
  shows "delete_external env database wg public_key p ip w = (Ok (), delete_done database wg public_key p w) \<or>
    (\<exists>e cmds d. delete_external env database wg public_key p ip w = (Err e, w\<lparr>w_wg := w_wg w @ cmds, w_db := d\<rparr>) \<and>
       kept env wg public_key ip cmds \<and> remaining env database p w d)"
proof -
  have called: "\<exists>e d. database_call env 1 (DeletePeerQuery p) (w\<lparr>w_wg := x\<rparr>) = (Err e, w\<lparr>w_wg := x, w_db := d\<rparr>) \<and>
      remaining env True p w d"
    if "e_link env 1 \<noteq> LinkUp" for x
  proof (cases "e_link env 1")
    case LinkDown
    then show ?thesis
      by (intro exI [of _ PoolError] exI [of _ "w_db w"]) (simp add: delete_peer_outcomes [OF assms] remaining_def world_db_eta)
  next
    case ReplyLost
    then show ?thesis
      by (intro exI [of _ PoolError] exI [of _ "w_db (without_row p w)"])
        (simp add: delete_peer_outcomes [OF assms] remaining_def without_row_def)
  qed (use that in simp)
  show ?thesis
  proof (cases "\<exists>m key. wg = Some m \<and> public_key = Some key")
    case False
    then have none: "leave_commands wg public_key = []" and no_command: "kept env wg public_key ip []"
      by (auto simp: leave_commands_def kept_def split: option.splits)
    show ?thesis
    proof (cases "database \<and> e_link env 1 \<noteq> LinkUp")
      case True
      with called [of "w_wg w"] obtain e d where
        lost: "database_call env 1 (DeletePeerQuery p) w = (Err e, w\<lparr>w_wg := w_wg w, w_db := d\<rparr>)" "remaining env True p w d"
        by (auto simp: world_eta)
      then have "delete_external env database wg public_key p ip w =
          (Err (Internal (Text ''database delete failed'')), w\<lparr>w_wg := w_wg w @ [], w_db := d\<rparr>)"
        using True False by (cases wg; cases public_key) (simp_all add: delete_external_def recover_def discard_def)
      moreover have "remaining env database p w d" using lost(2) True by simp
      ultimately show ?thesis using no_command by blast
    next
      case no_loss: False
      then show ?thesis
        using False none
        by (cases database)
          (auto simp: delete_external_def delete_done_def delete_peer_outcomes [OF assms] recover_def without_row_def
            split: option.splits)
    qed
  next
    case True
    then obtain m key where wg: "wg = Some m" "public_key = Some key" by blast
    show ?thesis
      using assms
    proof (cases rule: remove_call_cases [where n = 0 and m = m and key = key and w = w])
      case (failed e cmds)
      then have "kept env wg public_key ip cmds" using wg by (auto simp: kept_def)
      moreover have "\<exists>e. delete_external env database wg public_key p ip w = (Err e, w\<lparr>w_wg := w_wg w @ cmds, w_db := w_db w\<rparr>)"
        using failed(1) wg by (simp add: delete_external_def recover_def discard_def world_db_eta)
      moreover have "remaining env database p w (w_db w)" by (simp add: remaining_def)
      ultimately show ?thesis by blast
    next
      case removed
      note add = undisturbed_wireguard_calls(1) [OF assms removed(2)]
      show ?thesis
      proof (cases "database \<and> e_link env 1 \<noteq> LinkUp")
        case True
        with called [of "w_wg w @ [remove_peer_args m key]"] obtain e d where
          lost: "database_call env 1 (DeletePeerQuery p) (w\<lparr>w_wg := w_wg w @ [remove_peer_args m key]\<rparr>) =
              (Err e, w\<lparr>w_wg := w_wg w @ [remove_peer_args m key], w_db := d\<rparr>)"
          and d: "remaining env database p w d" by auto
        have "delete_external env database wg public_key p ip w = (Err (Internal (Text ''database delete failed'')),
            w\<lparr>w_wg := w_wg w @ [remove_peer_args m key, add_peer_args m key ip], w_db := d\<rparr>)"
          using removed(1) wg True add lost
          by (simp add: delete_external_def recover_def discard_undisturbed [OF assms]) (simp add: discard_def)
        moreover have "kept env wg public_key ip [remove_peer_args m key, add_peer_args m key ip]"
          using wg by (simp add: kept_def)
        ultimately show ?thesis using d by blast
      next
        case False
        then show ?thesis
          using removed(1) wg
          by (cases database)
            (auto simp: delete_external_def delete_done_def leave_commands_def recover_def delete_peer_outcomes [OF assms] without_row_def)
      qed
    qed
  qed
qed

definition deleted :: "peer_id \<Rightarrow> world \<Rightarrow> world \<Rightarrow> bool" where
  "deleted p w w' \<longleftrightarrow>
     (\<exists>peer. hget (peers (the_router w)) p = Some peer \<and>
        leave_room (ps_room_id peer) p (the_router w) = (Ok (), the_router w')) \<and>
     w_db w' = (if has_database (w_app w) then remove_peer_rows (\<lambda>row. pw_peer_id row = p) (w_db w) else w_db w) \<and>
     w_wg w' = w_wg w @ leave_commands (wireguard (w_app w)) (hget (peer_keys (w_app w)) p) \<and>
     peer_keys (w_app w') = hremove p (peer_keys (w_app w)) \<and> has_database (w_app w') = has_database (w_app w)"

definition not_deleted :: "env \<Rightarrow> peer_id \<Rightarrow> world \<Rightarrow> world \<Rightarrow> bool" where
  "not_deleted env p w w' \<longleftrightarrow> the_router w' = the_router w \<and> w_db w' = w_db w \<and>
     peer_keys (w_app w') = peer_keys (w_app w) \<and> has_database (w_app w') = has_database (w_app w) \<and>
     (\<exists>cmds. w_wg w' = w_wg w @ cmds \<and> (cmds = [] \<or> (\<exists>peer. hget (peers (the_router w)) p = Some peer \<and>
        kept env (wireguard (w_app w)) (hget (peer_keys (w_app w)) p) (ps_virtual_ip peer) cmds)))"

text \<open>Like a failed deletion, but the row is gone: the server kept a peer although the deletion whose reply it did not get was done.\<close>

definition row_lost :: "env \<Rightarrow> peer_id \<Rightarrow> world \<Rightarrow> world \<Rightarrow> bool" where
  "row_lost env p w w' \<longleftrightarrow> has_database (w_app w) \<and> e_link env 1 = ReplyLost \<and> not_deleted env p (without_row p w) w'"

lemma not_deleted_same: "same_stores w w' \<Longrightarrow> not_deleted env p w w'"
  by (simp add: same_stores_def not_deleted_def kept_def)

lemma peer_section_cases:
  obtains (failed) e where "peer_section room_code p r = Err e"
  | (found) rid peer where "peer_section room_code p r = Ok (rid, ps_virtual_ip peer)"
      "hget (peers r) p = Some peer" "ps_room_id peer = rid" "room_id_for_code r room_code = Some rid"
proof (cases "peer_section room_code p r")
  case (Ok x)
  then obtain rid ip where x: "peer_section room_code p r = Ok (rid, ip)" by (cases x) auto
  then obtain peer where "hget (peers r) p = Some peer" "ps_room_id peer = rid" "ip = ps_virtual_ip peer"
      "room_id_for_code r room_code = Some rid"
    by (auto simp: peer_section_def room_of_code_def result_simps room_for_peer_def peer_virtual_ip_def split: if_splits)
  with x show ?thesis using found by blast
next
  case (Err e)
  then show ?thesis using failed by blast
next
  case Panic
  then show ?thesis by simp
qed

lemma leave_room_of_peer:
  assumes "router_inv r" "hget (peers r) p = Some peer"
  obtains r' where "leave_room (ps_room_id peer) p r = (Ok (), r')"
  using leave_own_room(1) [OF assms] by (metis prod.collapse)

lemma delete_atomic:
  assumes inv: "router_inv (the_router w)" and env: "undisturbed env"
  shows "(\<exists>w'. delete_peer_handler env code p w = (Ok 204, w') \<and> deleted p w w') \<or>
    (\<exists>e w'. delete_peer_handler env code p w = (Err e, w') \<and> (not_deleted env p w w' \<or> row_lost env p w w'))"
proof (cases rule: after_bearer [of env w])
  case (refused e w0)
  then show ?thesis by (simp add: delete_peer_handler_def not_deleted_same)
next
  case (admitted w0)
  let ?db = "has_database (w_app w)" and ?wg = "wireguard (w_app w)" and ?key = "hget (peer_keys (w_app w)) p"
  have cfg: "has_database (w_app w0) = ?db" "wireguard (w_app w0) = ?wg" "hget (peer_keys (w_app w0)) p = ?key"
      "the_router w0 = the_router w" "peer_keys (w_app w0) = peer_keys (w_app w)" "w_db w0 = w_db w" "w_wg w0 = w_wg w"
    using admitted(2) by (simp_all add: same_stores_def)
  note same = not_deleted_same [OF admitted(2), of env p]
  show ?thesis
  proof (cases "path_code code")
    case (Ok room_code)
    show ?thesis
    proof (cases rule: peer_section_cases [of room_code p "the_router w"])
      case (failed e)
      then show ?thesis using admitted Ok cfg same by (simp add: delete_peer_handler_def)
    next
      case (found rid peer)
      obtain r' where leave: "leave_room rid p (the_router w) = (Ok (), r')"
        using leave_room_of_peer [OF inv found(2)] found(3) by blast
      show ?thesis
      proof (cases "(?db \<or> ?wg \<noteq> None) \<and> ?key = None")
        case True
        then show ?thesis using admitted Ok cfg same found(1) by (simp add: delete_peer_handler_def)
      next
        case False
        have run: "delete_peer_handler env code p w =
            try_st (delete_external env ?db ?wg ?key p (ps_virtual_ip peer) w0) (\<lambda>_ w.
            try_st (recover (\<lambda>error. error) (restore_external env ?db ?wg ?key rid p (ps_virtual_ip peer))
                (router_op (leave_room rid p) w)) (\<lambda>_ w. (Ok 204, on_app (peer_keys_update (hremove p)) w)))"
          using admitted(1) Ok cfg found(1) False by (auto simp: delete_peer_handler_def Let_def)
        from delete_external_outcomes [OF env, of ?db ?wg ?key p "ps_virtual_ip peer" w0]
        consider (removed) "delete_external env ?db ?wg ?key p (ps_virtual_ip peer) w0 = (Ok (), delete_done ?db ?wg ?key p w0)"
          | (undone) e cmds d where "delete_external env ?db ?wg ?key p (ps_virtual_ip peer) w0 =
              (Err e, w0\<lparr>w_wg := w_wg w0 @ cmds, w_db := d\<rparr>)"
              "kept env ?wg ?key (ps_virtual_ip peer) cmds" "remaining env ?db p w0 d"
          by blast
        then show ?thesis
        proof cases
          case removed
          have "router_op (leave_room rid p) (delete_done ?db ?wg ?key p w0) =
              (Ok (), on_app (router_update (\<lambda>_. r')) (delete_done ?db ?wg ?key p w0))"
            using leave by (simp add: router_op_def delete_done_def cfg)
          then show ?thesis
            using run removed leave found(2,3)
            by (auto simp: deleted_def delete_done_def on_app_def recover_def cfg)
        next
          case undone
          let ?w' = "w0\<lparr>w_wg := w_wg w0 @ cmds, w_db := d\<rparr>"
          have fail: "delete_peer_handler env code p w = (Err e, ?w')" using run undone(1) by simp
          have same_but_rows: "not_deleted env p (w\<lparr>w_db := d\<rparr>) ?w'"
            using undone(2) found(2) by (simp add: not_deleted_def cfg)
          from undone(3) have "d = w_db w \<or> row_lost env p w ?w'"
            using same_but_rows by (auto simp: remaining_def row_lost_def without_row_def cfg)
          with fail same_but_rows show ?thesis by (auto simp: world_eta)
        qed
      qed
    qed
  next
    case (Err e)
    with admitted same show ?thesis by (simp add: delete_peer_handler_def)
  qed simp
qed

lemma delete_settled:
  assumes "router_inv (the_router w)" and "settled env"
  shows "(\<exists>w'. delete_peer_handler env code p w = (Ok 204, w') \<and> deleted p w w') \<or>
    (\<exists>e w'. delete_peer_handler env code p w = (Err e, w') \<and> not_deleted env p w w')"
  using delete_atomic [OF assms(1) settled_undisturbed [OF assms(2)], of code p] settledD(3) [OF assms(2), of 1]
  by (auto simp: row_lost_def)

text \<open>C39. When no other request runs between its calls, a peer is deleted completely or not at all, but for its row. On
  success the router has performed exactly \<open>leave_room\<close>, the database has lost the peer's row with everything
  that refers to it, WireGuard has got one removing command and the key is forgotten. On failure the router,
  the tables and the keys are exactly what they were, and a removing command that worked has been followed
  by one that adds the peer again under its address. Only when the reply of the deletion is lost are the rows
  gone although the server keeps the peer.\<close>

theorem delete_all_or_nothing:
  assumes "run router_step (router_new c) es (the_router w)" and "undisturbed env"
  shows "(\<exists>w'. delete_peer_handler env code p w = (Ok 204, w') \<and> deleted p w w') \<or>
    (\<exists>e w'. delete_peer_handler env code p w = (Err e, w') \<and> (not_deleted env p w w' \<or> row_lost env p w w'))"
  using delete_atomic [OF inv_run [OF assms(1)] assms(2)] .

text \<open>A room with one peer in every store.\<close>

definition seated_events :: "router_event list" where
  "seated_events = [CreateRoom (RoomId 1) (RoomCode (rstr ''RMAAAA'')), JoinRoom (RoomId 1) (PeerId 5) (VirtualIp 2) 0]"

definition seated_world :: world where
  "seated_world = open_world\<lparr>
     w_app := (w_app open_world)\<lparr>router := apply_events seated_events (router_new demo_config),
       peer_keys := hinsert (PeerId 5) (rstr ''key'') fmempty\<rparr>,
     w_db := snd (insert_peer 2 (RoomId 1) (PeerId 5) (VirtualIp 2) (rstr ''key'') (w_db open_world))\<rparr>"

lemma seated_run: "run router_step (router_new demo_config) seated_events (the_router seated_world)"
proof -
  have "all_fresh seated_events (router_new demo_config)" by (simp add: seated_events_def)
  from run_apply_events [OF this] show ?thesis by (simp add: seated_world_def)
qed

lemma seated_deleted:
  "fst (delete_peer_handler (joining_env link) (rstr ''RMAAAA'') (PeerId 5) seated_world) =
    (if link = LinkUp then Ok 204 else Err (Internal (Text ''database delete failed''))) \<and>
   length (tb_peers (w_db (snd (delete_peer_handler (joining_env link) (rstr ''RMAAAA'') (PeerId 5) seated_world)))) =
    (if link = LinkDown then 1 else 0)"
proof -
  have "api_rate_limiter (w_app seated_world) = limiter_new API_REQUESTS_PER_SECOND (from_secs 1)" "bearer_token (w_app seated_world) = rstr ''tok''"
    by (simp_all add: seated_world_def open_world_def app_new_def)
  then obtain l where "require_bearer (joining_env link) seated_world = (Ok (), on_app (api_rate_limiter_update (\<lambda>_. l)) seated_world)"
    by (rule demo_admitted)
  then show ?thesis
    by (cases link)
      (simp_all add: delete_peer_handler_def demo_room_code seated_world_def seated_events_def join_eval peer_section_def
        room_for_peer_def peer_virtual_ip_def delete_external_def delete_peer_row_def remove_peer_rows_def remove_host_rows_def)
qed

theorem delete_all_or_nothing_witness:
  "(\<exists>w'. delete_peer_handler (joining_env LinkUp) (rstr ''RMAAAA'') (PeerId 5) seated_world = (Ok 204, w') \<and>
      deleted (PeerId 5) seated_world w') \<and>
   (\<exists>e w'. delete_peer_handler (joining_env LinkDown) (rstr ''RMAAAA'') (PeerId 5) seated_world = (Err e, w') \<and>
      not_deleted (joining_env LinkDown) (PeerId 5) seated_world w') \<and>
   (\<exists>e w'. delete_peer_handler (joining_env ReplyLost) (rstr ''RMAAAA'') (PeerId 5) seated_world = (Err e, w') \<and>
      row_lost (joining_env ReplyLost) (PeerId 5) seated_world w')"
proof (intro conjI)
  have one: "length (tb_peers (w_db seated_world)) = 1"
    by (simp add: seated_world_def open_world_def insert_peer_def insert_room_def empty_database_def)
  show "\<exists>w'. delete_peer_handler (joining_env LinkUp) (rstr ''RMAAAA'') (PeerId 5) seated_world = (Ok 204, w') \<and>
      deleted (PeerId 5) seated_world w'"
    using delete_all_or_nothing [OF seated_run joining_undisturbed(1) [of LinkUp], of "rstr ''RMAAAA''" "PeerId 5"]
      seated_deleted [of LinkUp] by auto
  show "\<exists>e w'. delete_peer_handler (joining_env LinkDown) (rstr ''RMAAAA'') (PeerId 5) seated_world = (Err e, w') \<and>
      not_deleted (joining_env LinkDown) (PeerId 5) seated_world w'"
    using delete_all_or_nothing [OF seated_run joining_undisturbed(1) [of LinkDown], of "rstr ''RMAAAA''" "PeerId 5"]
      seated_deleted [of LinkDown] by (auto simp: row_lost_def joining_env_def)
  show "\<exists>e w'. delete_peer_handler (joining_env ReplyLost) (rstr ''RMAAAA'') (PeerId 5) seated_world = (Err e, w') \<and>
      row_lost (joining_env ReplyLost) (PeerId 5) seated_world w'"
    using delete_all_or_nothing [OF seated_run joining_undisturbed(1) [of ReplyLost], of "rstr ''RMAAAA''" "PeerId 5"]
      seated_deleted [of ReplyLost] one by (auto simp: not_deleted_def)
qed

subsection \<open>What the rows are compared with\<close>

definition codes :: "room_router \<Rightarrow> (room_id, room_code) hash_map" where
  "codes r = fmmap rs_code (rooms r)"

definition seats :: "room_router \<Rightarrow> (peer_id, room_id \<times> virtual_ip) hash_map" where
  "seats r = fmmap (\<lambda>peer. (ps_room_id peer, ps_virtual_ip peer)) (peers r)"

definition room_rows_match :: "room_row list \<Rightarrow> (room_id, room_code) hash_map \<Rightarrow> bool" where
  "room_rows_match rows m \<longleftrightarrow>
     (\<forall>row\<in>set rows. rr_expires_at row = None \<and> well_formed_code (RoomCode (rr_room_code row)) \<and>
        hget m (rr_room_id row) = Some (RoomCode (rr_room_code row))) \<and>
     (\<forall>rid. hget m rid \<noteq> None \<longrightarrow> rid \<in> rr_room_id ` set rows)"

definition peer_rows_match ::
  "peer_row list \<Rightarrow> (peer_id, room_id \<times> virtual_ip) hash_map \<Rightarrow> (peer_id, rstring) hash_map \<Rightarrow> bool" where
  "peer_rows_match rows m keys \<longleftrightarrow>
     (\<forall>row\<in>set rows. pw_left_at row = None \<and> hget keys (pw_peer_id row) = Some (pw_public_key row) \<and>
        hget m (pw_peer_id row) = Some (pw_room_id row, VirtualIp (pw_virtual_ip row))) \<and>
     (\<forall>p. hget m p \<noteq> None \<longrightarrow> p \<in> pw_peer_id ` set rows)"

definition mirrored :: "world \<Rightarrow> bool" where
  "mirrored w \<longleftrightarrow> has_database (w_app w) \<and> router_inv (the_router w) \<and> schema_ok (w_db w) \<and>
     config (the_router w) = default_config \<and>
     room_rows_match (tb_rooms (w_db w)) (codes (the_router w)) \<and>
     peer_rows_match (tb_peers (w_db w)) (seats (the_router w)) (peer_keys (w_app w))"

subsection \<open>Router operations that move nobody\<close>

definition same_people :: "room_router \<Rightarrow> room_router \<Rightarrow> bool" where
  "same_people r r' \<longleftrightarrow> config r' = config r \<and> codes r' = codes r \<and> seats r' = seats r"

lemma same_people_refl [simp]: "same_people r r"
  by (simp add: same_people_def)

lemma same_people_trans: "same_people r r' \<Longrightarrow> same_people r' r'' \<Longrightarrow> same_people r r''"
  by (simp add: same_people_def)

lemma same_people_update [simp]:
  "same_people r (r\<lparr>hosts := hs\<rparr>)" "same_people r (r\<lparr>gameplay := gs\<rparr>)" "same_people r (r\<lparr>discoveries := ds\<rparr>)"
  "same_people r (r\<lparr>host_by_peer := hp\<rparr>)"
  by (simp_all add: same_people_def codes_def seats_def)

lemma codes_room_update:
  "hget (rooms r) rid = Some room \<Longrightarrow> rs_code room' = rs_code room \<Longrightarrow> codes (r\<lparr>rooms := hinsert rid room' (rooms r)\<rparr>) = codes r"
  by (rule fmap_eqI) (auto simp: codes_def)

lemma seats_peer_update:
  "hget (peers r) p = Some peer \<Longrightarrow> ps_room_id peer' = ps_room_id peer \<Longrightarrow> ps_virtual_ip peer' = ps_virtual_ip peer \<Longrightarrow>
   seats (r\<lparr>peers := hinsert p peer' (peers r)\<rparr>) = seats r"
  by (rule fmap_eqI) (auto simp: seats_def)

lemma same_people_remove_host: "same_people r (remove_host h r)"
proof -
  have "codes (remove_host h r) = codes r" by (rule fmap_eqI) (simp add: codes_def)
  then show ?thesis by (simp add: same_people_def seats_def)
qed

lemma same_people_insert_new_host: "same_people r (snd (insert_new_host rid p peer now h r))"
  by (auto simp: insert_new_host_def same_people_def codes_def seats_def Let_def
      intro!: fmap_eqI split: option.split)

lemma same_people_try:
  "same_people r s \<Longrightarrow> (\<And>x. same_people r (snd (f x s))) \<Longrightarrow> same_people r (snd (try_st (res, s) f))"
  by (cases res) simp_all

lemma same_people_register: "same_people r (snd (register_host rid p now h r))"
proof -
  have replaced: "same_people r (snd (insert_new_host rid p peer now h (remove_host k r)))" for peer k
    using same_people_trans [OF same_people_remove_host same_people_insert_new_host] .
  show ?thesis
    unfolding register_host_def
    by (rule same_people_try) (simp_all add: replaced same_people_insert_new_host split: option.split)
qed

lemma same_people_resume: "same_people r (snd (resume_peer rid p now r))"
  by (auto simp: resume_peer_def Let_def same_people_def seats_peer_update codes_def split: option.split)

lemma same_people_ops:
  "same_people r (snd (heartbeat_host_for_room rid p h now r))"
  "same_people r (snd (unregister_host h r))"
  "same_people r (snd (select_host rid p h now g r))"
  "same_people r (snd (remove_gameplay_session g r))"
  unfolding select_host_def
  by (simp_all add: heartbeat_host_for_room_def heartbeat_host_def unregister_host_def same_people_remove_host
      remove_gameplay_session_def same_people_try split: option.split)

subsection \<open>Requests that move nobody\<close>

text \<open>What the mirror depends on, apart from the consistency of each side.\<close>

definition same_view :: "world \<Rightarrow> ('a, 'e) result \<times> world \<Rightarrow> bool" where
  "same_view w p \<longleftrightarrow> same_people (the_router w) (the_router (snd p)) \<and>
     tb_rooms (w_db (snd p)) = tb_rooms (w_db w) \<and> tb_peers (w_db (snd p)) = tb_peers (w_db w) \<and>
     peer_keys (w_app (snd p)) = peer_keys (w_app w) \<and> has_database (w_app (snd p)) = has_database (w_app w) \<and>
     virtual_ip_prefix (w_app (snd p)) = virtual_ip_prefix (w_app w)"

lemma same_view_values [simp]: "same_view w (res, w)"
  by (simp add: same_view_def)

lemma same_view_try:
  assumes "same_view w p" "\<And>x. same_view (snd p) (f x (snd p))"
  shows "same_view w (try_st p f)"
proof -
  obtain res v where p: "p = (res, v)" by fastforce
  with assms show ?thesis by (cases res) (auto simp: same_view_def intro: same_people_trans)
qed

lemma same_view_prims:
  "(\<And>r. same_people r (snd (f r))) \<Longrightarrow> same_view w (router_op f w)"
  "same_view w p \<Longrightarrow> same_view w (or_fail e p)"
  "same_view w p \<Longrightarrow> same_view w (discard p)"
  "same_view w (require_bearer env w)" "same_view w (require_admin_bearer env w)"
  "same_view w (limit_request env key w)"
  by (auto simp: same_view_def router_op_def or_fail_def discard_def require_bearer_def require_admin_bearer_def
      refuse_def limit_request_def Let_def split: prod.split result.split option.split)
    (metis snd_conv)+

text \<open>The queries on hosts and gameplay sessions leave rooms and peers alone.\<close>

fun session_query :: "db_query \<Rightarrow> bool" where
  "session_query (UpsertHostQuery _ _ _ _) = True"
| "session_query (HeartbeatHostQuery _ _ _ _) = True"
| "session_query (DeleteHostQuery _) = True"
| "session_query (InsertGameplayQuery _ _ _ _ _) = True"
| "session_query (DeleteGameplayQuery _) = True"
| "session_query ClearEphemeralQuery = True"
| "session_query _ = False"

lemma session_query_rows:
  assumes "session_query query"
  shows "tb_rooms (snd (run_query now query db)) = tb_rooms db" "tb_peers (snd (run_query now query db)) = tb_peers db"
  using assms
  by (cases query; auto simp: upsert_host_def heartbeat_host_row_def delete_host_row_def insert_gameplay_def
      delete_gameplay_def clear_ephemeral_sessions_def Let_def)+

lemma same_view_database:
  assumes "settled env" "session_query query"
  shows "same_view w (database_call env n query w)"
  by (simp add: settled_database_call [OF assms(1)] same_view_def session_query_rows [OF assms(2)])

lemma same_view_recover:
  assumes "same_view w p" "\<And>v. same_view v (undo v)"
  shows "same_view w (recover f undo p)"
proof -
  obtain res v where p: "p = (res, v)" by fastforce
  show ?thesis
  proof (cases res)
    case (Err e)
    have "same_view v (try_st (discard (undo v)) (\<lambda>_ w. (Err (f e), w)))"
      by (rule same_view_try) (simp_all add: same_view_prims assms(2))
    then show ?thesis
      using assms(1) p Err by (auto simp: recover_def same_view_def intro: same_people_trans)
  qed (use assms(1) p in \<open>simp_all add: recover_def same_view_def\<close>)
qed

lemmas same_view_rules = same_view_try same_view_database same_view_recover same_view_prims
  same_people_ops same_people_register same_people_resume

lemma same_view_handlers:
  assumes "settled env"
  shows "same_view w (room_status env code w)" "same_view w (resume_room env code join w)"
    "same_view w (register_host_handler env code p w)" "same_view w (heartbeat_host_handler env code hb w)"
    "same_view w (create_gameplay_handler env code gp w)" "same_view w (delete_host_handler env code h w)"
    "same_view w (test_metrics env w)"
  unfolding handler_defs Let_def
  by (rule same_view_rules assms session_query.simps(1-5) [THEN iffD2] conjI impI allI
      | simp split: option.split prod.split)+

lemma same_view_auth:
  "same_view w (register_user env ae payload w)" "same_view w (login_user env ae payload w)"
  unfolding register_user_def login_user_def create_client_session_def Let_def
  by (rule same_view_rules | simp add: same_view_def)+

subsection \<open>Requests that do\<close>

lemma mirroredD:
  assumes "mirrored w"
  shows "router_inv (the_router w)" "schema_ok (w_db w)" "has_database (w_app w)"
    and "room_rows_match (tb_rooms (w_db w)) (codes (the_router w))"
    "peer_rows_match (tb_peers (w_db w)) (seats (the_router w)) (peer_keys (w_app w))"
    and "config (the_router w) = default_config"
  using assms by (simp_all add: mirrored_def)

lemma world_step_consistent:
  assumes "world_step w w'" "mirrored w"
  shows "router_inv (the_router w')" "schema_ok (w_db w')"
  using assms router_run.run_keeps by (auto simp: world_step_def mirrored_def router_work_def)

lemma mirrored_same_view:
  assumes "same_view w p" "world_step w (snd p)" "mirrored w"
  shows "mirrored (snd p)"
  using assms(1,3) world_step_consistent [OF assms(2,3)] by (simp add: mirrored_def same_view_def same_people_def)

lemma join_tables:
  assumes "join_room rid p ip now r = (Ok (), r')"
  shows "codes r' = codes r" "seats r' = hinsert p (rid, ip) (seats r)" "hget (seats r) p = None" "config r' = config r"
proof -
  obtain room where room: "hget (rooms r) rid = Some room" "hget (peers r) p = None"
    and r': "r' = r\<lparr>rooms := hinsert rid (room\<lparr>rs_members := finsert p (rs_members room)\<rparr>) (rooms r),
         peers := hinsert p \<lparr>ps_room_id = rid, ps_virtual_ip = ip, ps_last_seen = now,
           ps_disconnected_at = None, ps_connection_epoch = 1\<rparr> (peers r),
         virtual_ips := hinsert ip p (virtual_ips r)\<rparr>"
    using assms by (cases rule: join_room_cases [of rid p ip now r]) auto
  then show "codes r' = codes r" "seats r' = hinsert p (rid, ip) (seats r)" "hget (seats r) p = None" "config r' = config r"
    by (auto simp: codes_def seats_def intro!: fmap_eqI)
qed

lemma leave_tables:
  assumes "router_inv r" "leave_room rid p r = (Ok (), r')"
  shows "codes r' = codes r \<and> seats r' = hremove p (seats r) \<and> config r' = config r"
  using assms(1)
proof (cases rule: leave_room_cases [where rid = rid and p = p])
  case (err e)
  then show ?thesis using assms(2) by simp
next
  case (ok room peer)
  have "map_option rs_code (hget (rooms r) rid) = Some (rs_code room)"
    using drop_sessions_of_frame(6) [of rid p r rid] ok(3) by (simp del: drop_sessions_of_frame)
  moreover have "map_option rs_code (hget (rooms (drop_sessions_of rid p r)) k) = map_option rs_code (hget (rooms r) k)" for k
    by simp
  ultimately show ?thesis
    using ok(4) assms(2) by (auto simp: codes_def seats_def intro!: fmap_eqI)
qed

lemma image_except: "f ` {x \<in> S. f x \<noteq> a} = f ` S - {a}"
  by auto

lemma mirrored_join:
  assumes "mirrored w" "settled env"
  shows "mirrored (snd (join_room_handler env code payload w))"
proof -
  note m = mirroredD [OF assms(1)]
  note step = world_step_consistent [OF _ assms(1)]
  have consistent: "router_inv (the_router w')" "schema_ok (w_db w')"
    if "join_room_handler env code payload w = (res, w')" for res w'
    using safe_join [OF settled_benign [OF assms(2)], of w code payload] that step by (auto simp: safe_from_def)
  from join_settled [OF m(1) assms(2), of code payload] show ?thesis
  proof (elim disjE exE conjE)
    fix response w'
    assume h: "join_room_handler env code payload w = (Ok (201, response), w')" and j: "joined env payload response w w'"
    obtain key where key: "jr_wireguard_public_key payload = Some key" using join_needs_key [OF h m(3)] by blast
    let ?p = "pe_peer_id response"
    have join: "join_room (pe_room_id response) ?p (pe_virtual_ip response) (e_now env) (the_router w) = (Ok (), the_router w')"
      using j unfolding joined_def Let_def by blast
    have fresh: "?p \<notin> pw_peer_id ` set (tb_peers (w_db w))"
      using m(5) join_tables(3) [OF join] by (auto simp: peer_rows_match_def)
    have "peer_rows_match (tb_peers (w_db w')) (seats (the_router w')) (peer_keys (w_app w'))"
      using m(3,5) j key fresh by (auto simp: joined_def Let_def join_rows_def peer_rows_match_def join_tables [OF join])
    moreover have "tb_rooms (w_db w') = tb_rooms (w_db w)" "has_database (w_app w')"
      using j m(3) by (auto simp: joined_def Let_def)
    ultimately show ?thesis
      using consistent [OF h] m(4,6) h by (simp add: mirrored_def join_tables(1,4) [OF join])
  next
    fix e w'
    assume h: "join_room_handler env code payload w = (Err e, w')" and "not_joined env payload w w'"
    with m consistent [OF h] show ?thesis by (simp add: mirrored_def not_joined_def)
  qed
qed

lemma mirrored_delete_peer:
  assumes "mirrored w" "settled env"
  shows "mirrored (snd (delete_peer_handler env code p w))"
proof -
  note m = mirroredD [OF assms(1)]
  have consistent: "router_inv (the_router w')" "schema_ok (w_db w')"
    if "delete_peer_handler env code p w = (res, w')" for res w'
    using safe_delete_peer [OF settled_benign [OF assms(2)], of w code p] that world_step_consistent [OF _ assms(1)]
    by (auto simp: safe_from_def)
  from delete_settled [OF m(1) assms(2), of code p] show ?thesis
  proof (elim disjE exE conjE)
    fix w'
    assume h: "delete_peer_handler env code p w = (Ok 204, w')" and d: "deleted p w w'"
    then obtain peer :: peer_state where leave: "leave_room (ps_room_id peer) p (the_router w) = (Ok (), the_router w')"
      unfolding deleted_def by blast
    have "peer_rows_match (tb_peers (w_db w')) (seats (the_router w')) (peer_keys (w_app w'))"
      using m(3,5) d by (auto simp: deleted_def peer_rows_match_def image_except leave_tables [OF m(1) leave])
    then show ?thesis
      using consistent [OF h] m(3,4,6) d h by (simp add: mirrored_def deleted_def leave_tables [OF m(1) leave])
  next
    fix e w'
    assume h: "delete_peer_handler env code p w = (Err e, w')" and "not_deleted env p w w'"
    with m consistent [OF h] show ?thesis by (simp add: mirrored_def not_deleted_def)
  qed
qed

lemma create_tables:
  assumes "create_room rid code r = (Ok x, r')"
  shows "x = rid" "codes r' = hinsert rid code (codes r)" "seats r' = seats r" "hget (codes r) rid = None" "config r' = config r"
    "room_snapshot_of r' rid = Ok \<lparr>rsnap_room_id = rid, rsnap_code = code, rsnap_member_count = 0, rsnap_host_count = 0\<rparr>"
    "\<exists>r''. remove_empty_room rid r' = (Ok (), r'') \<and> codes r'' = codes r \<and> seats r'' = seats r \<and> config r'' = config r"
proof -
  have r': "r' = r\<lparr>rooms := hinsert rid \<lparr>rs_code = code, rs_members = {||}, rs_host_sessions = {||}\<rparr> (rooms r),
      rooms_by_code := hinsert code rid (rooms_by_code r)\<rparr>" and fresh: "hget (rooms r) rid = None" and x: "x = rid"
    using assms by (auto simp: create_room_def create_room_with_id_def split: if_splits)
  have "codes (r\<lparr>rooms := hremove rid (rooms r'), rooms_by_code := m\<rparr>) = codes r" for m
    using fresh r' by (auto simp: codes_def intro!: fmap_eqI)
  then show "\<exists>r''. remove_empty_room rid r' = (Ok (), r'') \<and> codes r'' = codes r \<and> seats r'' = seats r \<and> config r'' = config r"
    using r' by (simp add: remove_empty_room_def seats_def)
  show "x = rid" "codes r' = hinsert rid code (codes r)" "seats r' = seats r" "hget (codes r) rid = None" "config r' = config r"
    "room_snapshot_of r' rid = Ok \<lparr>rsnap_room_id = rid, rsnap_code = code, rsnap_member_count = 0, rsnap_host_count = 0\<rparr>"
    using r' fresh x by (auto simp: codes_def seats_def room_snapshot_of_def intro!: fmap_eqI)
qed

lemma insert_room_settled:
  assumes "settled env"
  shows "database_call env n (InsertRoomQuery rid code) w = (Ok (), w\<lparr>w_db := (w_db w)\<lparr>tb_rooms := tb_rooms (w_db w) @
      [\<lparr>rr_room_id = rid, rr_room_code = code_str code, rr_created_at = e_db_now env, rr_expires_at = None\<rparr>]\<rparr>\<rparr>) \<or>
    (\<exists>e. database_call env n (InsertRoomQuery rid code) w = (Err e, w))"
  using insert_room_cases [of "e_db_now env" rid code "w_db w"]
  by (auto simp: settled_database_call [OF assms])

text \<open>What a mirror needs of two worlds that agree on everything but the rooms.\<close>

lemma mirrored_bearer:
  assumes "mirrored w" "require_bearer env w = (res, w0)"
  shows "mirrored w0" "same_stores w w0"
  using assms bearer_stores [of w env] by (simp_all add: same_stores_def mirrored_def)

lemma mirrored_create:
  assumes "mirrored w" "settled env" "well_formed_code (case payload of Some c \<Rightarrow> c | None \<Rightarrow> e_random_code env)"
  shows "mirrored (snd (create_room_handler env payload w))"
proof (cases rule: after_bearer [of env w])
  case (refused e w0)
  then show ?thesis using mirrored_bearer [OF assms(1)] by (simp add: create_room_handler_def)
next
  case (admitted w0)
  let ?code = "case payload of Some c \<Rightarrow> c | None \<Rightarrow> e_random_code env"
  have m0: "mirrored w0" using mirrored_bearer [OF assms(1)] admitted by simp
  note m = mirroredD [OF m0]
  have step: "world_step w (snd (create_room_handler env payload w))"
    using safe_rooms(1) [OF settled_benign [OF assms(2)]] by (simp add: safe_from_def)
  note consistent = world_step_consistent [OF step assms(1)]
  show ?thesis
  proof (cases "create_room (e_room_id env) ?code (the_router w0)")
    case (Pair res r')
    show ?thesis
    proof (cases res)
      case (Ok x)
      note t = create_tables [OF Pair [unfolded Ok]]
      let ?w1 = "on_app (router_update (\<lambda>_. r')) w0"
      let ?snap = "\<lparr>rsnap_room_id = e_room_id env, rsnap_code = ?code, rsnap_member_count = 0, rsnap_host_count = 0\<rparr>"
      have run: "create_room_handler env payload w =
          try_st (recover (\<lambda>_. Internal (Text ''database write failed'')) (router_op (remove_empty_room (e_room_id env)))
             (database_call env 0 (InsertRoomQuery (e_room_id env) ?code) ?w1)) (\<lambda>_ w. (Ok (201, room_response_of ?snap), w))"
        using admitted(1) Pair Ok t(1,6) m(3) by (simp add: create_room_handler_def router_op_def on_app_def)
      from insert_room_settled [OF assms(2), of 0 "e_room_id env" ?code ?w1] show ?thesis
      proof (elim disjE exE)
        assume stored: "database_call env 0 (InsertRoomQuery (e_room_id env) ?code) ?w1 = (Ok (), ?w1\<lparr>w_db := (w_db ?w1)\<lparr>tb_rooms :=
            tb_rooms (w_db ?w1) @ [\<lparr>rr_room_id = e_room_id env, rr_room_code = code_str ?code, rr_created_at = e_db_now env,
              rr_expires_at = None\<rparr>]\<rparr>\<rparr>)"
        have "e_room_id env \<notin> rr_room_id ` set (tb_rooms (w_db w0))"
          using m(4) t(4) by (auto simp: room_rows_match_def)
        then have "room_rows_match (tb_rooms (w_db w0) @ [\<lparr>rr_room_id = e_room_id env, rr_room_code = code_str ?code,
            rr_created_at = e_db_now env, rr_expires_at = None\<rparr>]) (codes r')"
          using m(4) assms(3) by (auto simp: room_rows_match_def t(2))
        then show ?thesis
          using run stored m consistent by (simp add: mirrored_def recover_def on_app_def t(3,5))
      next
        fix e
        assume lost: "database_call env 0 (InsertRoomQuery (e_room_id env) ?code) ?w1 = (Err e, ?w1)"
        from t(7) obtain r'' where r'': "remove_empty_room (e_room_id env) r' = (Ok (), r'')"
            "codes r'' = codes (the_router w0)" "seats r'' = seats (the_router w0)"
            "config r'' = config (the_router w0)" by blast
        have "snd (create_room_handler env payload w) = on_app (router_update (\<lambda>_. r'')) ?w1"
          using run lost r''(1) by (simp add: recover_def router_op_def on_app_def discard_def)
        then show ?thesis
          using m consistent r''(2-4) by (simp add: mirrored_def on_app_def)
      qed
    next
      case (Err e)
      then have "r' = the_router w0"
        using Pair by (auto simp: create_room_def create_room_with_id_def split: if_splits)
      then have "snd (create_room_handler env payload w) = on_app (router_update (\<lambda>_. the_router w0)) w0"
        using admitted(1) Pair Err by (simp add: create_room_handler_def router_op_def)
      then show ?thesis using m0 by (simp add: on_app_def mirrored_def)
    next
      case Panic
      then show ?thesis using Pair by (auto simp: create_room_def create_room_with_id_def split: if_splits)
    qed
  qed
qed

lemma delete_room_rows:
  "tb_rooms (snd (delete_room_row rid db)) = filter (\<lambda>r. rr_room_id r \<noteq> rid) (tb_rooms db)"
  "set (tb_peers (snd (delete_room_row rid db))) = {p \<in> set (tb_peers db). pw_room_id p \<noteq> rid}"
  by (simp_all add: delete_room_row_def Let_def)

lemma fcard_no_elements: "fcard A = 0 \<longleftrightarrow> A = {||}"
  by (transfer, simp)

lemma empty_room_tables:
  assumes "router_inv r" "room_snapshot_of r rid = Ok s" "rsnap_member_count s = 0" "rsnap_host_count s = 0"
  shows "\<exists>r'. remove_empty_room rid r = (Ok (), r') \<and> codes r' = hremove rid (codes r) \<and> seats r' = seats r \<and>
      config r' = config r"
    and "hget (seats r) p \<noteq> Some (rid, ip)"
proof -
  obtain room where room: "hget (rooms r) rid = Some room" "rs_members room = {||}" "rs_host_sessions room = {||}"
    using assms(2-4) by (auto simp: room_snapshot_of_def result_simps fcard_no_elements)
  then show "\<exists>r'. remove_empty_room rid r = (Ok (), r') \<and> codes r' = hremove rid (codes r) \<and> seats r' = seats r \<and>
      config r' = config r"
    by (auto simp: remove_empty_room_def codes_def seats_def intro!: fmap_eqI)
  show "hget (seats r) p \<noteq> Some (rid, ip)"
    using member_iff [OF assms(1) room(1), of p] room(2) by (auto simp: seats_def)
qed

lemma mirrored_delete_room:
  assumes "mirrored w" "settled env"
  shows "mirrored (snd (delete_room_handler env code w))"
proof (cases rule: after_bearer [of env w])
  case (refused e w0)
  then show ?thesis using mirrored_bearer [OF assms(1)] by (simp add: delete_room_handler_def)
next
  case (admitted w0)
  have m0: "mirrored w0" using mirrored_bearer [OF assms(1)] admitted by simp
  note m = mirroredD [OF m0]
  have "world_step w (snd (delete_room_handler env code w))"
    using safe_rooms(3) [OF settled_benign [OF assms(2)]] by (simp add: safe_from_def)
  note consistent = world_step_consistent [OF this assms(1)]
  define checked where "checked = and_then (path_code code) (\<lambda>room_code.
     and_then (room_of_code room_code (the_router w0)) (\<lambda>rid.
     and_then (map_err from_router_error (room_snapshot_of (the_router w0) rid)) (\<lambda>s.
       if rsnap_member_count s \<noteq> 0 \<or> rsnap_host_count s \<noteq> 0 then Err (Conflict (Text ''room is not empty'')) else Ok rid)))"
  have run: "delete_room_handler env code w = try_st (checked, w0) (\<lambda>rid w.
      try_st (or_fail (Internal (Text ''database delete failed'')) (database_call env 0 (DeleteRoomQuery rid) w)) (\<lambda>_ w.
      try_st (router_op (remove_empty_room rid) w) (\<lambda>_ w. (Ok 204, w))))"
    using admitted(1) m(3)
    by (cases "path_code code") (auto simp: delete_room_handler_def checked_def room_of_code_def ok_or_def room_snapshot_of_def
        split: option.split)
  show ?thesis
  proof (cases checked)
    case (Ok rid)
    then obtain s where s: "room_snapshot_of (the_router w0) rid = Ok s" "rsnap_member_count s = 0" "rsnap_host_count s = 0"
      by (auto simp: checked_def result_simps split: if_splits)
    note e = empty_room_tables [OF m(1) s]
    obtain r' where r': "remove_empty_room rid (the_router w0) = (Ok (), r')" "codes r' = hremove rid (codes (the_router w0))"
        "seats r' = seats (the_router w0)" "config r' = config (the_router w0)" using e(1) by blast
    let ?db = "snd (delete_room_row rid (w_db w0))"
    show ?thesis
    proof (cases "e_link env 0 = LinkUp")
      case True
      have final: "snd (delete_room_handler env code w) = on_app (router_update (\<lambda>_. r')) (w0\<lparr>w_db := ?db\<rparr>)"
        using run Ok True r'(1)
        by (simp add: settled_database_call [OF assms(2)] or_fail_def router_op_def delete_room_row_def Let_def)
      have "room_rows_match (tb_rooms ?db) (codes r')"
        using m(4) by (auto simp: room_rows_match_def delete_room_rows r'(2) image_except)
      moreover have "{p \<in> set (tb_peers (w_db w0)). pw_room_id p \<noteq> rid} = set (tb_peers (w_db w0))"
        using m(5) e(2) by (auto simp: peer_rows_match_def)
      then have "peer_rows_match (tb_peers ?db) (seats r') (peer_keys (w_app w0))"
        using m(5) by (simp add: peer_rows_match_def delete_room_rows r'(3))
      ultimately show ?thesis
        using m(3,6) consistent r'(4) by (simp add: final mirrored_def on_app_def)
    next
      case False
      then have "snd (delete_room_handler env code w) = w0"
        using run Ok by (simp add: settled_database_call [OF assms(2)] or_fail_def)
      then show ?thesis using m0 by simp
    qed
  qed (use run m0 in simp_all)
qed

subsection \<open>Every request keeps the mirror\<close>

text \<open>Codes are checked when a request is read, and generated codes are well formed.\<close>

fun code_checked :: "env \<Rightarrow> api_request \<Rightarrow> bool" where
  "code_checked env (PostRoom payload) = well_formed_code (case payload of Some c \<Rightarrow> c | None \<Rightarrow> e_random_code env)"
| "code_checked env _ = True"

lemma serve_mirrored:
  assumes "mirrored w" "settled env" "fresh_ids env w" "code_checked env req"
  shows "mirrored (snd (serve env req w))"
proof -
  have step: "world_step w (snd (serve env req w))"
    using serve_safe [OF settled_benign [OF assms(2)] assms(3)] by blast
  show ?thesis
    using step assms mirrored_join mirrored_delete_peer mirrored_create mirrored_delete_room
      mirrored_same_view [OF same_view_auth(1)] mirrored_same_view [OF same_view_auth(2)]
      same_view_handlers [OF assms(2), THEN mirrored_same_view]
    by (cases req) simp_all
qed

end
