(* ===== verification/Server_Start.thy ===== *)
theory Server_Start
  imports Api_Mirror
begin

section \<open>Starting the server\<close>

text \<open>
  Models \<open>server/src/main.rs\<close>: the settings it reads, the order in which it loads, clears and restores the
  persisted state and re-adds the WireGuard peers, and the choice of the relay port. Environment variables,
  connecting, binding sockets and running the two servers are input and output; their results are fields
  of the settings. What a restart gives back is stated for both ways of rendering an address column.
\<close>

subsection \<open>Settings\<close>

text \<open>\<open>u8::from_str\<close> and \<open>u16::from_str\<close>: an optional plus sign, at least one digit, no overflow.\<close>

definition parse_unsigned :: "nat \<Rightarrow> rstring \<Rightarrow> nat option" where
  "parse_unsigned bound s =
     (let digits = (case s of [] \<Rightarrow> [] | c # rest \<Rightarrow> if c = 43 then rest else s);
          value = foldl (\<lambda>v c. 10 * v + (c - 48)) 0 digits
      in if digits \<noteq> [] \<and> (\<forall>c\<in>set digits. 48 \<le> c \<and> c \<le> 57) \<and> value < bound then Some value else None)"

datatype start_error =
    TokenMissing
  | TokenTooShort
  | PrefixNumber
  | PrefixOctets
  | VariableNotUnicode
  | DatabaseFailed sqlx_error
  | RestoreFailed router_error
  | WireGuardFailed wireguard_error
  | RelayPortNumber
  | RelayPortMismatch u16 u16

definition parse_ipv4_prefix :: "rstring \<Rightarrow> (byte \<times> byte \<times> byte, start_error) result" where
  "parse_ipv4_prefix value =
     (let octets = map (parse_unsigned 256) (split_dots value) in
      if None \<in> set octets then Err PrefixNumber
      else case map the octets of
        [first, second, third] \<Rightarrow> Ok (word_of_nat first, word_of_nat second, word_of_nat third)
      | _ \<Rightarrow> Err PrefixOctets)"

text \<open>
  What the environment holds: \<open>se_prefix\<close> is absent, not Unicode (\<open>Some None\<close>) or a text; \<open>se_link\<close> is the
  connection for the load and for the clearing; \<open>se_inet_text\<close> renders an address column.
\<close>

record settings =
  se_token :: "rstring option"
  se_prefix :: "rstring option option"
  se_database :: "(unit, sqlx_error) result option"
  se_load_link :: link
  se_clear_link :: link
  se_inet_text :: "ipv4 \<Rightarrow> rstring"
  se_interface :: "rstring option"
  se_decode :: "rstring \<Rightarrow> byte list option"
  se_wg :: "rstring list \<Rightarrow> (unit, wireguard_error) result"
  se_db_now :: instant
  se_now :: instant

definition read_prefix :: "settings \<Rightarrow> (byte \<times> byte \<times> byte, start_error) result" where
  "read_prefix se = (case se_prefix se of
     Some (Some value) \<Rightarrow> parse_ipv4_prefix value
   | None \<Rightarrow> Ok (10, 240, 0)
   | Some None \<Rightarrow> Err VariableNotUnicode)"

text \<open>Loading over the connection: both queries are reads.\<close>

definition load_over :: "settings \<Rightarrow> database \<Rightarrow> (persisted_state, sqlx_error) result" where
  "load_over se db = (case se_load_link se of
     LinkUp \<Rightarrow> load_state (se_inet_text se) (se_db_now se) db | _ \<Rightarrow> Err PoolError)"

definition start_database :: "settings \<Rightarrow> app_state \<Rightarrow> database \<Rightarrow> (app_state, start_error) result \<times> database" where
  "start_database se state db =
     (case se_database se of
        None \<Rightarrow> (Ok state, db)
      | Some connected \<Rightarrow>
          try_st (map_err DatabaseFailed connected, db) (\<lambda>_ db.
          try_st (map_err DatabaseFailed (load_over se db), db) (\<lambda>persisted db.
          try_st (case execute (se_clear_link se) (run_query (se_db_now se) ClearEphemeralQuery) db of
              (res, db) \<Rightarrow> (map_err DatabaseFailed res, db)) (\<lambda>_ db.
          try_st (case restore_persisted_state (se_now se) persisted state of
              (res, state) \<Rightarrow> (map_err RestoreFailed (and_then res (\<lambda>_. Ok state)), db)) (\<lambda>state db.
            (Ok (with_database state), db))))))"

definition start_wireguard :: "settings \<Rightarrow> app_state \<Rightarrow> (app_state, start_error) result" where
  "start_wireguard se state =
     (case se_interface se of
        None \<Rightarrow> Ok state
      | Some interface \<Rightarrow>
          let state = with_wireguard (WireGuardManager interface) state in
          and_then (map_err WireGuardFailed (restore_wireguard_peers (se_decode se) (se_wg se) state)) (\<lambda>_. Ok state))"

definition start_server :: "settings \<Rightarrow> database \<Rightarrow> (app_state, start_error) result \<times> database" where
  "start_server se db =
     try_st (ok_or TokenMissing (se_token se), db) (\<lambda>bearer_token db.
       if str_len bearer_token < 32 then (Err TokenTooShort, db)
       else
         try_st (read_prefix se, db) (\<lambda>prefix db.
         try_st (start_database se (with_virtual_ip_prefix prefix (app_new (se_now se) bearer_token)) db) (\<lambda>state db.
           (start_wireguard se state, db))))"

definition DEFAULT_RELAY_PORT :: u16 where "DEFAULT_RELAY_PORT = 32000"

text \<open>The port to bind and to advertise, from the port of \<open>CIV6_RELAY_BIND\<close> and the text of \<open>CIV6_RELAY_PORT\<close>.\<close>

definition choose_relay_port :: "u16 \<Rightarrow> rstring option \<Rightarrow> (u16 \<times> u16, start_error) result" where
  "choose_relay_port bind_port setting =
     and_then (case setting of
         None \<Rightarrow> Ok None
       | Some value \<Rightarrow> (case parse_unsigned 65536 value of None \<Rightarrow> Err RelayPortNumber | Some n \<Rightarrow> Ok (Some (word_of_nat n))))
       (\<lambda>relay_port.
         let relay_port = (case relay_port of Some port \<Rightarrow> port
               | None \<Rightarrow> if bind_port = 0 then DEFAULT_RELAY_PORT else bind_port)
         in if bind_port = 0 then Ok (relay_port, relay_port)
            else if bind_port \<noteq> relay_port then Err (RelayPortMismatch bind_port relay_port)
            else Ok (bind_port, relay_port))"

subsection \<open>What a start makes of the database\<close>

text \<open>
  PostgreSQL documents that the text of an \<open>INET\<close> value carries the length of its netmask, \<open>/32\<close> for a host; the
  query that loads the peers relies on the bare address. Where it matters the rendering is a premise.
\<close>

definition bare_text :: "settings \<Rightarrow> bool" where
  "bare_text se \<longleftrightarrow> (\<forall>ip. se_inet_text se ip = rstr (ipv4_to_string ip))"

definition netmask_text :: "settings \<Rightarrow> bool" where
  "netmask_text se \<longleftrightarrow> (\<forall>ip. se_inet_text se ip = rstr (ipv4_to_string ip @ ''/32''))"

lemma load_state_plain:
  assumes "codes_well_formed db" "present_peers db = [] \<or> (\<forall>ip. inet_text ip = rstr (ipv4_to_string ip))"
  shows "load_state inet_text now db = Ok \<lparr>
      pst_rooms = map (\<lambda>row. \<lparr>pr_room_id = rr_room_id row, pr_room_code = RoomCode (rr_room_code row)\<rparr>) (open_rooms now db),
      pst_peers = map (\<lambda>row. \<lparr>pp_room_id = pw_room_id row, pp_peer_id = pw_peer_id row,
        pp_virtual_ip = VirtualIp (pw_virtual_ip row), pp_wireguard_public_key = pw_public_key row\<rparr>) (present_peers db)\<rparr>"
proof -
  have codes: "well_formed_code (RoomCode (rr_room_code row))" if "row \<in> set (open_rooms now db)" for row
    using assms(1) that by (auto simp: codes_well_formed_def open_rooms_def)
  show ?thesis
    using assms(2) load_peers_plain [of inet_text]
    by (auto simp: load_state_def open_rooms_def [symmetric] present_peers_def [symmetric] load_rooms_codes [OF codes])
qed

lemma load_state_netmask:
  assumes "codes_well_formed db" "\<And>ip. inet_text ip = rstr (ipv4_to_string ip @ ''/32'')" "present_peers db \<noteq> []"
  shows "load_state inet_text now db = Err (ProtocolAddress (inet_text (pw_virtual_ip (hd (present_peers db)))))"
proof -
  have codes: "well_formed_code (RoomCode (rr_room_code row))" if "row \<in> set (open_rooms now db)" for row
    using assms(1) that by (auto simp: codes_well_formed_def open_rooms_def)
  show ?thesis
    using load_peers_netmask [of inet_text, OF assms(2,3)]
    by (simp add: load_state_def open_rooms_def [symmetric] present_peers_def [symmetric] load_rooms_codes [OF codes])
qed

text \<open>The persisted state read from a mirror is what the router holds.\<close>

definition loaded :: "instant \<Rightarrow> database \<Rightarrow> persisted_state" where
  "loaded now db = \<lparr>
      pst_rooms = map (\<lambda>row. \<lparr>pr_room_id = rr_room_id row, pr_room_code = RoomCode (rr_room_code row)\<rparr>) (open_rooms now db),
      pst_peers = map (\<lambda>row. \<lparr>pp_room_id = pw_room_id row, pp_peer_id = pw_peer_id row,
        pp_virtual_ip = VirtualIp (pw_virtual_ip row), pp_wireguard_public_key = pw_public_key row\<rparr>) (present_peers db)\<rparr>"

lemma mirrored_rows:
  assumes "mirrored w"
  shows "set (open_rooms now (w_db w)) = set (tb_rooms (w_db w))" "set (present_peers (w_db w)) = set (tb_peers (w_db w))"
    and "codes_well_formed (w_db w)"
    and "distinct (map rr_room_id (open_rooms now (w_db w)))" "distinct (map pw_peer_id (present_peers (w_db w)))"
proof -
  note m = mirroredD [OF assms]
  have rooms: "filter (\<lambda>row. case rr_expires_at row of None \<Rightarrow> True | Some t \<Rightarrow> now < t) (tb_rooms (w_db w)) = tb_rooms (w_db w)"
    using m(4) by (intro filter_True) (simp add: room_rows_match_def)
  have peers: "filter (\<lambda>row. pw_left_at row = None) (tb_peers (w_db w)) = tb_peers (w_db w)"
    using m(5) by (intro filter_True) (simp add: peer_rows_match_def)
  show "set (open_rooms now (w_db w)) = set (tb_rooms (w_db w))" "set (present_peers (w_db w)) = set (tb_peers (w_db w))"
    by (simp_all add: open_rooms_def present_peers_def rooms peers)
  show "codes_well_formed (w_db w)"
    using m(4) by (simp add: codes_well_formed_def room_rows_match_def)
  show "distinct (map rr_room_id (open_rooms now (w_db w)))" "distinct (map pw_peer_id (present_peers (w_db w)))"
    using m(2) by (simp_all add: open_rooms_def present_peers_def rooms peers schema_ok_def distinct_map)
qed

lemma room_rows_match_iff:
  assumes "room_rows_match rows m"
  shows "(\<exists>row\<in>set rows. rr_room_id row = rid \<and> RoomCode (rr_room_code row) = code) \<longleftrightarrow> hget m rid = Some code"
proof
  assume some: "hget m rid = Some code"
  then obtain row where row: "row \<in> set rows" "rr_room_id row = rid"
    using assms by (auto simp: room_rows_match_def)
  then have "hget m rid = Some (RoomCode (rr_room_code row))" using assms by (auto simp: room_rows_match_def)
  with row some show "\<exists>row\<in>set rows. rr_room_id row = rid \<and> RoomCode (rr_room_code row) = code" by auto
qed (use assms in \<open>auto simp: room_rows_match_def\<close>)

lemma peer_rows_match_iff:
  assumes "peer_rows_match rows m keys"
  shows "(\<exists>row\<in>set rows. pw_peer_id row = p \<and> pw_room_id row = rid \<and> VirtualIp (pw_virtual_ip row) = ip) \<longleftrightarrow>
    hget m p = Some (rid, ip)"
proof
  assume some: "hget m p = Some (rid, ip)"
  then have "p \<in> pw_peer_id ` set rows" using assms unfolding peer_rows_match_def by (metis option.distinct(1))
  then obtain row where row: "row \<in> set rows" "pw_peer_id row = p" by blast
  then have "hget m p = Some (pw_room_id row, VirtualIp (pw_virtual_ip row))" using assms by (auto simp: peer_rows_match_def)
  with row some show "\<exists>row\<in>set rows. pw_peer_id row = p \<and> pw_room_id row = rid \<and> VirtualIp (pw_virtual_ip row) = ip" by auto
qed (use assms in \<open>auto simp: peer_rows_match_def\<close>)

lemma mirrored_persists:
  assumes "mirrored w"
  shows "persists (loaded now (w_db w)) (the_router w)"
proof -
  note m = mirroredD [OF assms] and rows = mirrored_rows(1,4) [OF assms, of now] mirrored_rows(2,5) [OF assms]
  have "(\<exists>row\<in>set (tb_rooms (w_db w)). rr_room_id row = rid \<and> RoomCode (rr_room_code row) = code) \<longleftrightarrow>
      (\<exists>room. hget (rooms (the_router w)) rid = Some room \<and> rs_code room = code)" for rid code
  proof -
    have "(\<exists>row\<in>set (tb_rooms (w_db w)). rr_room_id row = rid \<and> RoomCode (rr_room_code row) = code) \<longleftrightarrow>
        hget (codes (the_router w)) rid = Some code"
      using m(4) by (rule room_rows_match_iff)
    then show ?thesis by (simp add: codes_def)
  qed
  moreover have "(\<exists>row\<in>set (tb_peers (w_db w)). pw_peer_id row = p \<and> pw_room_id row = rid \<and> VirtualIp (pw_virtual_ip row) = ip) \<longleftrightarrow>
      lives (the_router w) p rid ip" for p rid ip
  proof -
    have "(\<exists>row\<in>set (tb_peers (w_db w)). pw_peer_id row = p \<and> pw_room_id row = rid \<and> VirtualIp (pw_virtual_ip row) = ip) \<longleftrightarrow>
        hget (seats (the_router w)) p = Some (rid, ip)"
      using m(5) by (rule peer_rows_match_iff)
    then show ?thesis by (auto simp: seats_def lives_iff)
  qed
  ultimately show ?thesis
    using rows(2,4) by (simp add: persists_def loaded_def rows(1,3) comp_def)
qed

text \<open>A start that reaches its database: the state before the WireGuard peers are re-added.\<close>

definition database_up :: "settings \<Rightarrow> bool" where
  "database_up se \<longleftrightarrow> se_database se = Some (Ok ()) \<and> se_load_link se = LinkUp \<and> se_clear_link se = LinkUp"

definition settings_ok :: "settings \<Rightarrow> bool" where
  "settings_ok se \<longleftrightarrow> (\<exists>token. se_token se = Some token \<and> 32 \<le> str_len token) \<and> (\<exists>prefix. read_prefix se = Ok prefix)"

lemma cleared_schema: "schema_ok db \<Longrightarrow> schema_ok (snd (clear_ephemeral_sessions db))"
  by (rule schema_deletes)

lemma start_database_mirrored:
  assumes "mirrored w" "database_up se" "router state = router_new default_config" "peer_keys state = fmempty"
    and inet: "bare_text se \<or> tb_peers (w_db w) = []"
  shows "\<exists>a db. start_database se state (w_db w) = (Ok a, db) \<and> mirrored \<lparr>w_app = a, w_db = db, w_wg = log\<rparr> \<and>
    codes (router a) = codes (the_router w) \<and> seats (router a) = seats (the_router w) \<and>
    (\<forall>p. hget (peers (router a)) p \<noteq> None \<longrightarrow> hget (peer_keys a) p = hget (peer_keys (w_app w)) p) \<and>
    hosts (router a) = fmempty \<and> discoveries (router a) = fmempty \<and> gameplay (router a) = fmempty"
proof -
  note m = mirroredD [OF assms(1)]
  let ?ps = "loaded (se_db_now se) (w_db w)"
  have "present_peers (w_db w) = [] \<or> (\<forall>ip. se_inet_text se ip = rstr (ipv4_to_string ip))"
    using inet mirrored_rows(2) [OF assms(1)] by (auto simp: bare_text_def)
  then have load: "load_over se (w_db w) = Ok ?ps"
    using assms(2) load_state_plain [where inet_text = "se_inet_text se", OF mirrored_rows(3) [OF assms(1)]]
    unfolding load_over_def database_up_def loaded_def by (simp del: ex_simps)
  have dist: "distinct (map pp_peer_id (pst_peers ?ps))"
    using mirrored_rows(5) [OF assms(1)] by (simp add: loaded_def comp_def)
  have fresh: "router state = router_new (config (the_router w))" using assms(3) m(6) by simp
  obtain r where restore: "restore_persisted_state (se_now se) ?ps state = (Ok (), state\<lparr>router := r, peer_keys :=
      fold (\<lambda>x. hinsert (pp_peer_id x) (pp_wireguard_public_key x)) (pst_peers ?ps) (peer_keys state)\<rparr>)"
    and inv: "router_inv r" and cfg: "config r = config (the_router w)"
    and rooms: "\<And>rid. map_option rs_code (hget (rooms r) rid) = map_option rs_code (hget (rooms (the_router w)) rid)"
    and peers: "\<And>p. hget (peers r) p = map_option (\<lambda>peer. \<lparr>ps_room_id = ps_room_id peer,
        ps_virtual_ip = ps_virtual_ip peer, ps_last_seen = se_now se, ps_disconnected_at = None,
        ps_connection_epoch = 1\<rparr>) (hget (peers (the_router w)) p)"
    and none: "hosts r = fmempty" "discoveries r = fmempty" "gameplay r = fmempty"
    by (rule restore_recovers [OF m(1) mirrored_persists [OF assms(1), of "se_db_now se"] fresh]; rule that; assumption)
  let ?keys = "fold (\<lambda>x. hinsert (pp_peer_id x) (pp_wireguard_public_key x)) (pst_peers ?ps) (peer_keys state)"
  let ?a = "with_database (state\<lparr>router := r, peer_keys := ?keys\<rparr>)"
  let ?db = "snd (clear_ephemeral_sessions (w_db w))"
  have same: "codes r = codes (the_router w)" "seats r = seats (the_router w)"
    using rooms peers by (auto simp: codes_def seats_def option.map_comp comp_def intro!: fmap_eqI)
  have key: "hget ?keys (pw_peer_id row) = Some (pw_public_key row)" if "row \<in> set (tb_peers (w_db w))" for row
  proof -
    have "\<lparr>pp_room_id = pw_room_id row, pp_peer_id = pw_peer_id row, pp_virtual_ip = VirtualIp (pw_virtual_ip row),
        pp_wireguard_public_key = pw_public_key row\<rparr> \<in> set (pst_peers ?ps)"
      using that mirrored_rows(2) [OF assms(1)] by (auto simp: loaded_def)
    from find_key [OF dist this] show ?thesis by (simp add: hget_fold_insert [OF dist])
  qed
  have start: "start_database se state (w_db w) = (Ok ?a, ?db)"
    using assms(2) load restore by (simp add: start_database_def database_up_def execute_def clear_ephemeral_sessions_def)
  have "mirrored \<lparr>w_app = ?a, w_db = ?db, w_wg = log\<rparr>"
    using m(4,5) inv cfg m(6) cleared_schema [OF m(2)] key
    by (simp add: mirrored_def with_database_def same room_rows_match_def peer_rows_match_def clear_ephemeral_sessions_def)
  moreover have "hget ?keys p = hget (peer_keys (w_app w)) p" if "hget (peers r) p \<noteq> None" for p
  proof -
    have "hget (seats (the_router w)) p \<noteq> None" using that peers by (simp add: seats_def)
    then have "p \<in> pw_peer_id ` set (tb_peers (w_db w))"
      using m(5) unfolding peer_rows_match_def by blast
    then obtain row where "row \<in> set (tb_peers (w_db w))" "pw_peer_id row = p" by blast
    then show ?thesis using key m(5) by (auto simp: peer_rows_match_def)
  qed
  ultimately show ?thesis using start same none by (auto simp: with_database_def)
qed

lemma start_wireguard_frame:
  assumes "start_wireguard se a = Ok a'"
  shows "router a' = router a" "peer_keys a' = peer_keys a" "has_database a' = has_database a"
  using assms by (auto simp: start_wireguard_def with_wireguard_def result_simps Let_def split: option.splits)

lemma start_server_unfold:
  assumes "settings_ok se"
  obtains state where "start_server se db = try_st (start_database se state db) (\<lambda>state db. (start_wireguard se state, db))"
    "router state = router_new default_config" "peer_keys state = fmempty"
proof -
  obtain token prefix where "se_token se = Some token" "32 \<le> str_len token" "read_prefix se = Ok prefix"
    using assms by (auto simp: settings_ok_def)
  then show ?thesis
    by (intro that [of "with_virtual_ip_prefix prefix (app_new (se_now se) token)"])
      (simp_all add: start_server_def with_virtual_ip_prefix_def app_new_def)
qed

definition empty_world :: world where
  "empty_world = \<lparr>w_app = with_database (app_new 0 []), w_db = empty_database, w_wg = []\<rparr>"

lemma empty_world_mirrored: "mirrored empty_world"
  by (simp add: mirrored_def empty_world_def with_database_def app_new_def inv_new schema_empty)
    (simp add: room_rows_match_def peer_rows_match_def empty_database_def codes_def seats_def router_new_def)

lemma start_empty:
  assumes "settings_ok se" "database_up se" "start_server se empty_database = (Ok a, db)"
  shows "mirrored \<lparr>w_app = a, w_db = db, w_wg = log\<rparr>"
proof -
  obtain state where run: "start_server se empty_database =
      try_st (start_database se state empty_database) (\<lambda>state db. (start_wireguard se state, db))"
    and state: "router state = router_new default_config" "peer_keys state = fmempty"
    using start_server_unfold [OF assms(1)] by blast
  have "w_db empty_world = empty_database" "tb_peers (w_db empty_world) = []"
    by (simp_all add: empty_world_def empty_database_def)
  with start_database_mirrored [OF empty_world_mirrored assms(2) state, of log]
  obtain b db' where b: "start_database se state empty_database = (Ok b, db')" "mirrored \<lparr>w_app = b, w_db = db', w_wg = log\<rparr>"
    by auto
  then have "start_wireguard se b = Ok a" "db' = db" using run assms(3) by simp_all
  with b(2) start_wireguard_frame [of se b a] show ?thesis by (simp add: mirrored_def)
qed

text \<open>The two outcomes of a restart on the tables of a mirrored server.\<close>

definition restored_from :: "settings \<Rightarrow> world \<Rightarrow> bool" where
  "restored_from se w \<longleftrightarrow> (\<exists>a db. start_server se (w_db w) = (start_wireguard se a, db) \<and>
     codes (router a) = codes (the_router w) \<and> seats (router a) = seats (the_router w) \<and>
     (\<forall>p. hget (peers (router a)) p \<noteq> None \<longrightarrow> hget (peer_keys a) p = hget (peer_keys (w_app w)) p) \<and>
     hosts (router a) = fmempty \<and> discoveries (router a) = fmempty \<and> gameplay (router a) = fmempty)"

definition refused_address :: "settings \<Rightarrow> world \<Rightarrow> bool" where
  "refused_address se w \<longleftrightarrow> (\<exists>p rid ip. hget (seats (the_router w)) p = Some (rid, VirtualIp ip) \<and>
     start_server se (w_db w) = (Err (DatabaseFailed (ProtocolAddress (rstr (ipv4_to_string ip @ ''/32'')))), w_db w))"

lemma restart_mirrored:
  assumes "mirrored w" "settings_ok se" "database_up se" "bare_text se \<or> tb_peers (w_db w) = []"
  shows "restored_from se w"
proof -
  obtain state where run: "start_server se (w_db w) =
      try_st (start_database se state (w_db w)) (\<lambda>state db. (start_wireguard se state, db))"
    and state: "router state = router_new default_config" "peer_keys state = fmempty"
    using start_server_unfold [OF assms(2)] by blast
  from start_database_mirrored [OF assms(1,3) state assms(4)] run show ?thesis
    unfolding restored_from_def by fastforce
qed

lemma restart_netmask:
  assumes "mirrored w" "settings_ok se" "database_up se" "netmask_text se" "tb_peers (w_db w) \<noteq> []"
  shows "refused_address se w"
proof -
  obtain state where run: "start_server se (w_db w) =
      try_st (start_database se state (w_db w)) (\<lambda>state db. (start_wireguard se state, db))"
    using start_server_unfold [OF assms(2)] by blast
  have some: "present_peers (w_db w) \<noteq> []"
    using mirrored_rows(2) [OF assms(1)] assms(5) by force
  let ?row = "hd (present_peers (w_db w))"
  have "load_state (se_inet_text se) (se_db_now se) (w_db w) = Err (ProtocolAddress (rstr (ipv4_to_string (pw_virtual_ip ?row) @ ''/32'')))"
    using load_state_netmask [where inet_text = "se_inet_text se", OF mirrored_rows(3) [OF assms(1)] _ some] assms(4)
    by (simp add: netmask_text_def)
  then have "start_server se (w_db w) =
      (Err (DatabaseFailed (ProtocolAddress (rstr (ipv4_to_string (pw_virtual_ip ?row) @ ''/32'')))), w_db w)"
    using run assms(3) by (simp add: start_database_def load_over_def database_up_def)
  moreover have "?row \<in> set (tb_peers (w_db w))"
    using some mirrored_rows(2) [OF assms(1)] hd_in_set by blast
  then have "hget (seats (the_router w)) (pw_peer_id ?row) = Some (pw_room_id ?row, VirtualIp (pw_virtual_ip ?row))"
    using mirroredD(5) [OF assms(1)] by (auto simp: peer_rows_match_def)
  ultimately show ?thesis unfolding refused_address_def by blast
qed

lemma mirrored_no_peers:
  assumes "mirrored w"
  shows "tb_peers (w_db w) = [] \<longleftrightarrow> seats (the_router w) = fmempty"
proof
  assume "tb_peers (w_db w) = []"
  then have "hget (seats (the_router w)) p = None" for p
    using mirroredD(5) [OF assms] unfolding peer_rows_match_def by (metis empty_iff image_empty list.set(1))
  then show "seats (the_router w) = fmempty" by (intro fmap_eqI) simp
next
  assume "seats (the_router w) = fmempty"
  then have "pw_peer_id ` set (tb_peers (w_db w)) = {}"
    using mirroredD(5) [OF assms] unfolding peer_rows_match_def by auto
  then show "tb_peers (w_db w) = []" by simp
qed

text \<open>Requests served one after the other without disturbance, with unused identifiers.\<close>

fun orderly :: "(env \<times> api_request) list \<Rightarrow> world \<Rightarrow> bool" where
  "orderly [] w = True"
| "orderly ((env, req) # rest) w \<longleftrightarrow> settled env \<and> fresh_ids env w \<and> code_checked env req \<and>
     orderly rest (snd (serve env req w))"

lemma served_mirrored: "orderly requests w \<Longrightarrow> mirrored w \<Longrightarrow> mirrored (served requests w)"
  by (induction requests w rule: served.induct) (auto simp: serve_mirrored)

text \<open>C40. What a restart gives back. After a start on an empty database and any history of requests, each served by
  itself and with any of its database statements refused but no reply lost, stop the server and start it
  again on the same database. If address columns are rendered as bare addresses, or if no peer is stored, the
  new server holds the same rooms with the same codes, the same peers in the same rooms under the same addresses
  and with the same keys, and no sessions, and only re-adding the WireGuard peers can still make the start
  fail. If they are rendered with their netmask, as PostgreSQL documents, and a peer is stored, the start
  fails on the address of a peer and leaves the tables alone.\<close>

theorem restart_after_requests:
  assumes "settings_ok se" and "database_up se" and "start_server se empty_database = (Ok a, db)"
    and "orderly requests \<lparr>w_app = a, w_db = db, w_wg = log\<rparr>"
    and "settings_ok se'" and "database_up se'"
    and "w = served requests \<lparr>w_app = a, w_db = db, w_wg = log\<rparr>"
  shows "(bare_text se' \<or> seats (the_router w) = fmempty \<longrightarrow> restored_from se' w) \<and>
    (netmask_text se' \<and> seats (the_router w) \<noteq> fmempty \<longrightarrow> refused_address se' w)"
proof -
  have m: "mirrored w" using served_mirrored [OF assms(4)] start_empty [OF assms(1-3)] assms(7) by blast
  show ?thesis
    using restart_mirrored [OF m assms(5,6)] restart_netmask [OF m assms(5,6)] mirrored_no_peers [OF m] by blast
qed

text \<open>A server started on an empty database, a room created and joined with a valid key, and both renderings of addresses.\<close>

definition demo_token :: rstring where
  "demo_token = replicate 32 65"

definition demo_settings :: "(ipv4 \<Rightarrow> rstring) \<Rightarrow> settings" where
  "demo_settings inet_text = \<lparr>se_token = Some demo_token, se_prefix = None, se_database = Some (Ok ()), se_load_link = LinkUp,
     se_clear_link = LinkUp, se_inet_text = inet_text, se_interface = None,
     se_decode = (\<lambda>_. None), se_wg = (\<lambda>_. Ok ()), se_db_now = 0, se_now = 0\<rparr>"

definition demo_caller :: "instant \<Rightarrow> env" where
  "demo_caller now = (joining_env LinkUp)\<lparr>e_authorization := Some (rstr ''Bearer '' @ demo_token), e_limit_at := now\<rparr>"

definition demo_requests :: "(env \<times> api_request) list" where
  "demo_requests = [(demo_caller 0, PostRoom (Some (RoomCode (rstr ''RMAAAA'')))), (demo_caller 2000000000, PostJoin (rstr ''RMAAAA'') demo_join)]"

definition demo_started :: app_state where
  "demo_started = with_database (with_virtual_ip_prefix (10, 240, 0) (app_new 0 demo_token))"

abbreviation bare :: "ipv4 \<Rightarrow> rstring" where
  "bare ip \<equiv> rstr (ipv4_to_string ip)"

abbreviation masked :: "ipv4 \<Rightarrow> rstring" where
  "masked ip \<equiv> rstr (ipv4_to_string ip @ ''/32'')"

lemma demo_settings_ok: "settings_ok (demo_settings inet_text)" "database_up (demo_settings inet_text)"
  using str_len_ascii [of "replicate 32 65"]
  by (simp_all add: settings_ok_def demo_settings_def read_prefix_def database_up_def demo_token_def)

lemma demo_start: "start_server (demo_settings inet_text) empty_database = (Ok demo_started, empty_database)"
  using str_len_ascii [of "replicate 32 65"]
  by (simp add: start_server_def start_database_def demo_settings_def demo_token_def read_prefix_def load_over_def load_state_def
      empty_database_def execute_def clear_ephemeral_sessions_def restore_persisted_state_def start_wireguard_def demo_started_def)

definition demo_window :: rate_limiter where
  "demo_window = snd (allow 0 demo_token (limiter_new API_REQUESTS_PER_SECOND (from_secs 1)))"

definition demo_created :: world where
  "demo_created = \<lparr>
     w_app = demo_started\<lparr>router := apply_events [CreateRoom (RoomId 77) (RoomCode (rstr ''RMAAAA''))] (router_new default_config),
       api_rate_limiter := demo_window\<rparr>,
     w_db = snd (insert_room 6 (RoomId 77) (RoomCode (rstr ''RMAAAA'')) empty_database), w_wg = []\<rparr>"

lemma demo_windows:
  "limit_request (demo_caller 0) demo_token \<lparr>w_app = demo_started, w_db = empty_database, w_wg = []\<rparr> =
    (Ok (), \<lparr>w_app = demo_started\<lparr>api_rate_limiter := demo_window\<rparr>, w_db = empty_database, w_wg = []\<rparr>)"
  "fst (allow now demo_token demo_window)"
proof -
  have first: "fst (allow 0 demo_token (limiter_new API_REQUESTS_PER_SECOND (from_secs 1)))"
    by simp
  have "api_rate_limiter demo_started = limiter_new API_REQUESTS_PER_SECOND (from_secs 1)"
    by (simp add: demo_started_def with_database_def with_virtual_ip_prefix_def app_new_def)
  moreover have "allow 0 demo_token (limiter_new API_REQUESTS_PER_SECOND (from_secs 1)) = (True, demo_window)"
    using first by (simp add: demo_window_def prod_eq_iff)
  ultimately show "limit_request (demo_caller 0) demo_token \<lparr>w_app = demo_started, w_db = empty_database, w_wg = []\<rparr> =
    (Ok (), \<lparr>w_app = demo_started\<lparr>api_rate_limiter := demo_window\<rparr>, w_db = empty_database, w_wg = []\<rparr>)"
    by (simp add: limit_request_def demo_caller_def on_app_def)
  have "rl_limit demo_window = 120" by (simp add: demo_window_def limiter_new_def API_REQUESTS_PER_SECOND_def)
  moreover have "rw_count (current_entry demo_window now demo_token) \<le> 1"
    using first by (simp add: current_entry_def demo_window_def allow_own) (simp add: current_entry_def limiter_new_def API_REQUESTS_PER_SECOND_def)
  ultimately show "fst (allow now demo_token demo_window)"
    by (simp add: allow_own word_less_nat_alt word_le_nat_alt)
qed

lemma demo_first_subnet:
  assumes "hget (virtual_ips r) (VirtualIp 0x0AF00002) = None"
  shows "allocate_virtual_ip r (10, 240, 0) = Some (VirtualIp 0x0AF00002)"
proof -
  have "ipv4_new 10 240 0 (word_of_nat 2) = 0x0AF00002" by (simp add: ipv4_new_def word_from_be_def be_val_def)
  moreover have "[2..<255] = (2::nat) # [3..<255]" by (simp add: upt_conv_Cons del: upt_rec_numeral)
  ultimately show ?thesis
    using assms by (simp add: allocate_virtual_ip_def is_virtual_ip_available_def del: upt_rec_numeral)
qed


lemma demo_create:
  "snd (serve (demo_caller 0) (PostRoom (Some (RoomCode (rstr ''RMAAAA'')))) \<lparr>w_app = demo_started, w_db = empty_database, w_wg = []\<rparr>) =
    demo_created"
proof -
  have token: "bearer_token demo_started = demo_token"
    by (simp add: demo_started_def with_database_def with_virtual_ip_prefix_def app_new_def)
  have "require_bearer (demo_caller 0) \<lparr>w_app = demo_started, w_db = empty_database, w_wg = []\<rparr> =
      (Ok (), \<lparr>w_app = demo_started\<lparr>api_rate_limiter := demo_window\<rparr>, w_db = empty_database, w_wg = []\<rparr>)"
    using demo_windows(1) by (simp add: require_bearer_def demo_caller_def token)
  then show ?thesis
    by (simp add: create_room_handler_def demo_created_def demo_caller_def reply_def)
      (simp add: join_eval demo_started_def with_database_def with_virtual_ip_prefix_def app_new_def default_config_def room_snapshot_of_def)
qed

lemma demo_joins:
  "hget (seats (the_router (snd (serve (demo_caller 2000000000) (PostJoin (rstr ''RMAAAA'') demo_join) demo_created)))) p =
    (if p = PeerId 77 then Some (RoomId 77, VirtualIp 0x0AF00002) else None)"
proof -
  have token: "bearer_token (w_app demo_created) = demo_token"
    by (simp add: demo_created_def demo_started_def with_database_def with_virtual_ip_prefix_def app_new_def)
  have "api_rate_limiter (w_app demo_created) = demo_window"
    by (simp add: demo_created_def)
  then have "limit_request (demo_caller 2000000000) demo_token demo_created = (Ok (), on_app (api_rate_limiter_update
      (\<lambda>_. snd (allow 2000000000 demo_token demo_window))) demo_created)"
    using demo_windows(2) [of 2000000000] by (simp add: limit_request_def demo_caller_def case_prod_beta)
  then have "require_bearer (demo_caller 2000000000) demo_created = (Ok (), on_app (api_rate_limiter_update
      (\<lambda>_. snd (allow 2000000000 demo_token demo_window))) demo_created)"
    by (simp add: require_bearer_def demo_caller_def token)
  moreover have "validate_public_key (e_decode (demo_caller 2000000000)) key = Ok ()" for key
    by (simp add: validate_public_key_def demo_caller_def joining_env_def)
  moreover have "hget (virtual_ips (the_router demo_created)) (VirtualIp 0x0AF00002) = None"
    by (simp add: demo_created_def demo_started_def router_eval default_config_def)
  note demo_first_subnet [OF this]
  ultimately show ?thesis
    by (simp add: join_room_handler_def demo_room_code demo_join_def reply_def seats_def demo_created_def demo_started_def demo_caller_def
        with_database_def with_virtual_ip_prefix_def app_new_def default_config_def join_eval)
qed


theorem restart_after_requests_witness:
  "let w = served demo_requests \<lparr>w_app = demo_started, w_db = empty_database, w_wg = []\<rparr> in
    (\<exists>a db. start_server (demo_settings bare) (w_db w) = (Ok a, db) \<and>
      hget (seats (router a)) (PeerId 77) = Some (RoomId 77, VirtualIp 0x0AF00002)) \<and>
    start_server (demo_settings masked) (w_db w) = (Err (DatabaseFailed (ProtocolAddress (masked 0x0AF00002))), w_db w)"
proof -
  let ?start = "\<lparr>w_app = demo_started, w_db = empty_database, w_wg = []\<rparr>"
  let ?w = "served demo_requests ?start"
  have settled: "settled (demo_caller now)" for now
    using joining_undisturbed(2) [of LinkUp] by (simp add: demo_caller_def settled_def quiet_def)
  have "well_formed_code (RoomCode (rstr ''RMAAAA''))"
    by (simp add: well_formed_code_def room_alphabet_codes rstr_def CODE_MIN_LEN_def CODE_MAX_LEN_def)
  then have orderly: "orderly demo_requests ?start"
    using demo_create
    by (simp add: demo_requests_def settled fresh_ids_def demo_created_def del: serve.simps)
      (simp add: demo_started_def with_database_def with_virtual_ip_prefix_def app_new_def router_eval)
  have seats: "hget (seats (the_router ?w)) p = (if p = PeerId 77 then Some (RoomId 77, VirtualIp 0x0AF00002) else None)" for p
    using demo_joins [of p] demo_create by (simp add: demo_requests_def del: serve.simps)
  have some: "seats (the_router ?w) \<noteq> fmempty"
  proof
    assume "seats (the_router ?w) = fmempty"
    with seats [of "PeerId 77"] show False by simp
  qed
  note restart = restart_after_requests [OF demo_settings_ok demo_start orderly demo_settings_ok refl]
  have "restored_from (demo_settings bare) ?w"
    using restart [of bare] by (simp add: bare_text_def demo_settings_def)
  then have up: "\<exists>a db. start_server (demo_settings bare) (w_db ?w) = (Ok a, db) \<and>
      hget (seats (router a)) (PeerId 77) = Some (RoomId 77, VirtualIp 0x0AF00002)"
    using seats by (auto simp: restored_from_def start_wireguard_def demo_settings_def)
  have "refused_address (demo_settings masked) ?w"
    using restart [of masked] some by (simp add: netmask_text_def demo_settings_def)
  then show ?thesis
    using up seats by (auto simp: refused_address_def split: if_splits)
qed

end
