(* ===== verification/Api_Blocked.thy ===== *)
theory Api_Blocked
  imports Api_Mirror
begin

section \<open>Addresses that stay taken in the database\<close>

text \<open>
  Expiration takes a peer out of the router but not out of the database. When the lowest free address of the
  router is one that a row still holds, the server keeps choosing it and the insertion keeps failing. This
  theory shows which requests leave that so: all that delete nothing.
\<close>

subsection \<open>Requests that free no address\<close>

text \<open>The lowest free address of the router, if there is one, is one that a row of the database still holds.\<close>

definition blocked :: "world \<Rightarrow> bool" where
  "blocked w \<longleftrightarrow> router_inv (the_router w) \<and> schema_ok (w_db w) \<and> has_database (w_app w) \<and>
     (case allocate_virtual_ip (the_router w) (virtual_ip_prefix (w_app w)) of
        None \<Rightarrow> True | Some ip \<Rightarrow> address ip \<in> pw_virtual_ip ` set (tb_peers (w_db w)))"

lemma blocked_join:
  assumes "blocked w" "settled env" "jr_requested_virtual_ip payload = None"
  shows "\<exists>e w'. join_room_handler env code payload w = (Err e, w') \<and> not_joined env payload w w' \<and> blocked w'"
proof -
  have inv: "router_inv (the_router w)" and schema: "schema_ok (w_db w)" using assms(1) by (simp_all add: blocked_def)
  have "\<not> joined env payload response w w'"
    if ok: "join_room_handler env code payload w = (Ok (201, response), w')" for response w'
  proof
    assume j: "joined env payload response w w'"
    have "schema_ok (w_db w')"
      using safe_join [OF settled_benign [OF assms(2)], of w code payload] ok schema
      by (simp add: safe_from_def world_step_def)
    moreover obtain key where "jr_wireguard_public_key payload = Some key"
      using join_needs_key [OF ok] assms(1) by (auto simp: blocked_def)
    ultimately show False
      using j assms(1,3) by (auto simp: joined_def blocked_def Let_def join_rows_def schema_ok_def split: option.splits)
  qed
  then obtain e w' where fail: "join_room_handler env code payload w = (Err e, w')" "not_joined env payload w w'"
    using join_settled [OF inv assms(2), of code payload] by blast
  moreover have "blocked w'" using fail(2) assms(1) by (auto simp: not_joined_def blocked_def cong: option.case_cong)
  ultimately show ?thesis by blast
qed

lemma available_seats:
  assumes "router_inv r"
  shows "is_virtual_ip_available r ip \<longleftrightarrow> (\<forall>p rid. hget (seats r) p \<noteq> Some (rid, ip))"
proof -
  have "hget (virtual_ips r) ip = Some p \<longleftrightarrow> (\<exists>peer. hget (peers r) p = Some peer \<and> ps_virtual_ip peer = ip)" for p
    using router_invD(3) [OF assms] by (auto simp: ips_agree_def)
  then have "hget (virtual_ips r) ip = Some p \<longleftrightarrow> (\<exists>rid. hget (seats r) p = Some (rid, ip))" for p
    by (auto simp: seats_def)
  then have "hget (virtual_ips r) ip = None \<longleftrightarrow> \<not> (\<exists>p rid. hget (seats r) p = Some (rid, ip))"
    by (metis not_None_eq)
  then show ?thesis by (simp add: is_virtual_ip_available_def)
qed

definition same_addresses :: "world \<Rightarrow> ('a, 'e) result \<times> world \<Rightarrow> bool" where
  "same_addresses w p \<longleftrightarrow> seats (the_router (snd p)) = seats (the_router w) \<and> tb_peers (w_db (snd p)) = tb_peers (w_db w) \<and>
     has_database (w_app (snd p)) = has_database (w_app w) \<and> virtual_ip_prefix (w_app (snd p)) = virtual_ip_prefix (w_app w)"

lemma same_view_addresses: "same_view w p \<Longrightarrow> same_addresses w p"
  by (simp add: same_view_def same_addresses_def same_people_def)

lemma same_addresses_values [simp]: "same_addresses w (res, w)"
  by (simp add: same_addresses_def)

lemma same_addresses_try:
  assumes "same_addresses w p" "\<And>x. same_addresses (snd p) (f x (snd p))"
  shows "same_addresses w (try_st p f)"
proof -
  obtain res v where p: "p = (res, v)" by fastforce
  with assms show ?thesis by (cases res) (auto simp: same_addresses_def)
qed

lemma same_addresses_router:
  "(\<And>r. seats (snd (f r)) = seats r) \<Longrightarrow> same_addresses w (router_op f w)"
  by (auto simp: same_addresses_def router_op_def on_app_def split: prod.split) (metis snd_conv)

lemma same_addresses_recover:
  assumes "same_addresses w p" "\<And>v. same_addresses v (undo v)"
  shows "same_addresses w (recover f undo p)"
proof -
  obtain res v where p: "p = (res, v)" by fastforce
  show ?thesis
  proof (cases res)
    case (Err e)
    have "same_addresses v (discard (undo v))"
      using assms(2) [of v] by (auto simp: same_addresses_def discard_def split: prod.split result.split)
    then have "same_addresses v (try_st (discard (undo v)) (\<lambda>_ w. (Err (f e), w)))"
      by (rule same_addresses_try) simp
    then show ?thesis
      using assms(1) p Err by (simp add: recover_def same_addresses_def)
  qed (use assms(1) p in \<open>simp_all add: recover_def same_addresses_def\<close>)
qed

lemma same_addresses_room_ops:
  "seats (snd (create_room rid code r)) = seats r" "seats (snd (remove_empty_room rid r)) = seats r"
  by (auto simp: create_room_def create_room_with_id_def remove_empty_room_def seats_def split: option.split)

lemma same_addresses_insert_room:
  assumes "settled env"
  shows "same_addresses w (database_call env n (InsertRoomQuery rid code) w)"
  using insert_room_settled [OF assms, of n rid code w] by (auto simp: same_addresses_def)

lemma same_addresses_create:
  assumes "settled env"
  shows "same_addresses w (create_room_handler env payload w)"
  unfolding create_room_handler_def Let_def
  by (rule same_addresses_try same_addresses_router same_addresses_recover same_addresses_room_ops
      same_addresses_insert_room [OF assms] same_view_addresses [OF same_view_prims(4)] conjI impI | simp)+

lemma blocked_same_addresses:
  assumes "same_addresses w p" "world_step w (snd p)" "blocked w"
  shows "blocked (snd p)"
proof -
  have inv: "router_inv (the_router w)" "router_inv (the_router (snd p))" "schema_ok (w_db (snd p))"
    using assms(2,3) router_run.run_keeps by (auto simp: world_step_def blocked_def router_work_def)
  have "is_virtual_ip_available (the_router (snd p)) = is_virtual_ip_available (the_router w)"
    using assms(1) by (intro ext) (simp add: available_seats inv same_addresses_def)
  then have "allocate_virtual_ip (the_router (snd p)) prefix = allocate_virtual_ip (the_router w) prefix" for prefix
    by (simp add: allocate_virtual_ip_def)
  then show ?thesis
    using assms(1,3) inv by (auto simp: blocked_def same_addresses_def split: option.split)
qed

text \<open>A join at an address that is asked for: it is another one, so the lowest free address stays what it is.\<close>

lemma find_less:
  assumes "\<And>x. Q x \<longleftrightarrow> P x \<and> x \<noteq> a"
  shows "find P xs = None \<Longrightarrow> find Q xs = None" and "find P xs = Some x \<Longrightarrow> x \<noteq> a \<Longrightarrow> find Q xs = Some x"
  using assms by (induction xs) (auto split: if_splits)

lemma blocked_join_anywhere:
  assumes "blocked w" "settled env"
  shows "blocked (snd (join_room_handler env code payload w))"
proof -
  have inv: "router_inv (the_router w)" and db: "has_database (w_app w)" using assms(1) by (simp_all add: blocked_def)
  from join_settled [OF inv assms(2), of code payload] show ?thesis
  proof (elim disjE exE conjE)
    fix response w'
    assume h: "join_room_handler env code payload w = (Ok (201, response), w')" and j: "joined env payload response w w'"
    let ?ip = "pe_virtual_ip response"
    obtain key where key: "jr_wireguard_public_key payload = Some key" using join_needs_key [OF h db] by blast
    have step: "world_step w w'"
      using safe_join [OF settled_benign [OF assms(2)], of w code payload] h by (simp add: safe_from_def)
    then have inv': "router_inv (the_router w')" and schema: "schema_ok (w_db w')"
      using assms(1) router_run.run_keeps by (auto simp: world_step_def blocked_def router_work_def)
    have rows: "tb_peers (w_db w') = tb_peers (w_db w) @ join_rows True (e_db_now env) (Some key) (pe_room_id response) (pe_peer_id response) ?ip"
      using j key db by (simp add: joined_def Let_def)
    then have new: "address ?ip \<notin> pw_virtual_ip ` set (tb_peers (w_db w))"
      using schema by (auto simp: join_rows_def schema_ok_def)
    have join: "join_room (pe_room_id response) (pe_peer_id response) ?ip (e_now env) (the_router w) = (Ok (), the_router w')"
      using j unfolding joined_def Let_def by blast
    have free: "is_virtual_ip_available (the_router w') ip \<longleftrightarrow> is_virtual_ip_available (the_router w) ip \<and> ip \<noteq> ?ip" for ip
      unfolding available_seats [OF inv] available_seats [OF inv'] join_tables(2) [OF join]
      using join_tables(3) [OF join] by (auto split: if_splits)
    have kept: "virtual_ip_prefix (w_app w') = virtual_ip_prefix (w_app w)" "has_database (w_app w')"
      using j db by (simp_all add: joined_def Let_def)
    obtain a b c where prefix: "virtual_ip_prefix (w_app w) = (a, b, c)" by (cases "virtual_ip_prefix (w_app w)")
    show ?thesis
    proof (cases "allocate_virtual_ip (the_router w) (a, b, c)")
      case None
      then have "allocate_virtual_ip (the_router w') (a, b, c) = None"
        using find_less(1) [OF free] by (simp add: allocate_virtual_ip_def del: upt_rec_numeral)
      then show ?thesis using h inv' schema kept prefix by (simp add: blocked_def)
    next
      case (Some ip)
      then have held: "address ip \<in> pw_virtual_ip ` set (tb_peers (w_db w))" using assms(1) prefix by (simp add: blocked_def)
      with new have "ip \<noteq> ?ip" by blast
      then have "allocate_virtual_ip (the_router w') (a, b, c) = Some ip"
        using find_less(2) [OF free] Some by (simp add: allocate_virtual_ip_def del: upt_rec_numeral)
      then show ?thesis using h inv' schema kept prefix held rows by (auto simp: blocked_def)
    qed
  next
    fix e w'
    assume "join_room_handler env code payload w = (Err e, w')" "not_joined env payload w w'"
    then show ?thesis using assms(1) by (auto simp: not_joined_def blocked_def cong: option.case_cong)
  qed
qed

subsection \<open>While nothing is deleted\<close>

fun deletes :: "api_request \<Rightarrow> bool" where
  "deletes (DeletePeer _ _) = True"
| "deletes (DeleteRoom _) = True"
| "deletes _ = False"

fun undeleting :: "(env \<times> api_request) list \<Rightarrow> world \<Rightarrow> bool" where
  "undeleting [] w = True"
| "undeleting ((env, req) # rest) w \<longleftrightarrow> settled env \<and> fresh_ids env w \<and> \<not> deletes req \<and>
     undeleting rest (snd (serve env req w))"

lemma serve_blocked:
  assumes "blocked w" "settled env" "fresh_ids env w" "\<not> deletes req"
  shows "blocked (snd (serve env req w))"
proof -
  have step: "world_step w (snd (serve env req w))"
    using serve_safe [OF settled_benign [OF assms(2)] assms(3)] by blast
  note same = blocked_same_addresses [OF same_view_addresses]
  show ?thesis
    using step assms blocked_join_anywhere blocked_same_addresses [OF same_addresses_create [OF assms(2)]]
      same [OF same_view_auth(1)] same [OF same_view_auth(2)] same_view_handlers [OF assms(2), THEN same]
    by (cases req) simp_all
qed

lemma served_blocked: "undeleting requests w \<Longrightarrow> blocked w \<Longrightarrow> blocked (served requests w)"
  by (induction requests w rule: served.induct) (auto simp: serve_blocked)

text \<open>C36. An address that a row of the database still holds blocks a server while nothing is deleted. Expiration takes a
  peer out of the router but not out of the database; when the lowest free address of the router is one that
  a row still holds, then after any history of requests that delete no peer and no room (joins that ask for an
  address, new rooms, resumes, hosts, sessions and accounts included), served without disturbance and
  without a further expiration, every join that leaves the choice of the address to the server fails and
  leaves the router, the tables and the keys as they are.\<close>

theorem stored_address_blocks_joins:
  assumes "run router_step (router_new c) es (the_router w)" and "schema_ok (w_db w)" and "has_database (w_app w)"
    and "allocate_virtual_ip (the_router w) (virtual_ip_prefix (w_app w)) = Some ip"
    and "address ip \<in> pw_virtual_ip ` set (tb_peers (w_db w))"
    and "undeleting requests w" and "settled env" and "jr_requested_virtual_ip payload = None"
  shows "\<exists>e w'. join_room_handler env code payload (served requests w) = (Err e, w') \<and>
    not_joined env payload (served requests w) w'"
proof -
  have "blocked w" using inv_run [OF assms(1)] assms(2-5) by (simp add: blocked_def)
  then have "blocked (served requests w)" by (rule served_blocked [OF assms(6)])
  from blocked_join [OF this assms(7,8)] show ?thesis by blast
qed

text \<open>A peer joins the room of \<open>demo_tables\<close> under the lowest address and is then forgotten by the router.\<close>

definition expired_events :: "router_event list" where
  "expired_events = [CreateRoom (RoomId 1) (RoomCode (rstr ''RMAAAA'')), JoinRoom (RoomId 1) (PeerId 5) (VirtualIp 2) 0,
     Expire 1000, Expire 2000]"

definition expired_world :: world where
  "expired_world = \<lparr>
     w_app = (app_new 0 (rstr ''tok''))\<lparr>router := apply_events expired_events (router_new demo_config),
       has_database := True, virtual_ip_prefix := (0, 0, 0)\<rparr>,
     w_db = snd (insert_peer 2 (RoomId 1) (PeerId 5) (VirtualIp 2) (rstr ''key'')
       (snd (insert_room 1 (RoomId 1) (RoomCode (rstr ''RMAAAA'')) empty_database))),
     w_wg = []\<rparr>"

lemma expired_router: "hget (virtual_ips (the_router expired_world)) (VirtualIp 2) = None"
  unfolding expired_world_def expired_events_def
  apply (simp add: demo_config_def router_eval expire_def hkeys_where_def hash_simps)
  apply (simp add: disconnect_peer_def hkeys_where_def hash_simps Let_def)
  apply (simp add: leave_room_def hkeys_where_def hash_simps Let_def)
  done

lemma expired_run: "run router_step (router_new demo_config) expired_events (the_router expired_world)"
proof -
  have "all_fresh expired_events (router_new demo_config)"
    by (simp add: expired_events_def)
  then show ?thesis by (simp add: expired_world_def run_apply_events)
qed

text \<open>With a valid key and room in the room the join fails at the insertion, and so after another room has been created.\<close>

lemma expired_join:
  "fst (join_room_handler (joining_env LinkUp) (rstr ''RMAAAA'') demo_join expired_world) = Err (Internal (Text ''database write failed''))"
proof -
  have "api_rate_limiter (w_app expired_world) = limiter_new API_REQUESTS_PER_SECOND (from_secs 1)" "bearer_token (w_app expired_world) = rstr ''tok''"
    by (simp_all add: expired_world_def app_new_def)
  then obtain l where "require_bearer (joining_env LinkUp) expired_world = (Ok (), on_app (api_rate_limiter_update (\<lambda>_. l)) expired_world)"
    by (rule demo_admitted)
  moreover note lowest_address [OF expired_router]
  ultimately show ?thesis
    by (simp add: join_room_handler_def demo_room_code demo_join_def join_eval expired_world_def expired_events_def expire_def
        disconnect_peer_def app_new_def fmdrop_fmupd)
qed

theorem stored_address_blocks_joins_witness:
  "fst (join_room_handler (joining_env LinkUp) (rstr ''RMAAAA'') demo_join expired_world) = Err (Internal (Text ''database write failed'')) \<and>
   (\<exists>e w'. join_room_handler (joining_env LinkUp) (rstr ''RMAAAA'') demo_join
      (served [(joining_env LinkUp, PostRoom (Some (RoomCode (rstr ''RMNEWA''))))] expired_world) = (Err e, w'))"
proof
  have schema: "schema_ok (w_db expired_world)"
    by (simp add: expired_world_def schema_inserts schema_empty)
  have held: "address (VirtualIp 2) \<in> pw_virtual_ip ` set (tb_peers (w_db expired_world))"
    by (simp add: expired_world_def insert_peer_def insert_room_def empty_database_def)
  have database: "has_database (w_app expired_world)" and prefix: "virtual_ip_prefix (w_app expired_world) = (0, 0, 0)"
    by (simp_all add: expired_world_def)
  have "hosts (the_router expired_world) = fmempty" "gameplay (the_router expired_world) = fmempty"
    by (simp_all add: expired_world_def expired_events_def demo_config_def router_eval expire_def hkeys_where_def hash_simps
        disconnect_peer_def leave_room_def Let_def)
  then have "undeleting [(joining_env LinkUp, PostRoom (Some (RoomCode (rstr ''RMNEWA''))))] expired_world"
    by (simp add: joining_undisturbed fresh_ids_def)
  from stored_address_blocks_joins [OF expired_run schema database _ held this joining_undisturbed(2) [of LinkUp], of demo_join "rstr ''RMAAAA''"]
  show "\<exists>e w'. join_room_handler (joining_env LinkUp) (rstr ''RMAAAA'') demo_join
      (served [(joining_env LinkUp, PostRoom (Some (RoomCode (rstr ''RMNEWA''))))] expired_world) = (Err e, w')"
    using lowest_address [OF expired_router] by (auto simp: prefix demo_join_def simp del: served.simps)
qed (rule expired_join)

end
