(* ===== verification/Client_Session.thy ===== *)
theory Client_Session
  imports Relay
begin

section \<open>The client session\<close>

text \<open>
  Models the relay side of \<open>crates/client-core/src/lib.rs\<close>: \<open>RelayClient\<close> over any datagram transport and
  \<open>RelaySession\<close> with its envelope numbering, probes, round-trip samples, reconnection with backoff and the
  discovery retry loop. What the transport does is an argument: the outcome of a send per packet, and for
  each wait what was received or that the time ran out, with the clock readings around it.
\<close>

subsection \<open>The relay client\<close>

datatype 'io client_error =
    HttpFailed
  | HttpStatus nat rstring
  | RelayCodec relay_codec_error
  | RelayIo 'io
  | RelayTimeout
  | RelayPayloadTooLarge nat nat
  | InvalidResponse string

text \<open>\<open>None\<close> is a packet the transport took; the packets taken so far are the state of a send.\<close>

type_synonym 'io transport = "byte list \<Rightarrow> 'io option"

definition transmit ::
  "'io transport \<Rightarrow> (byte list, relay_codec_error) result \<Rightarrow> byte list list \<Rightarrow> (unit, 'io client_error) result \<times> byte list list" where
  "transmit io encoded sent =
     try_st (map_err RelayCodec encoded, sent) (\<lambda>packet sent.
       case io packet of Some e \<Rightarrow> (Err (RelayIo e), sent) | None \<Rightarrow> (Ok (), sent @ [packet]))"

definition client_send :: "'io transport \<Rightarrow> relay_message \<Rightarrow> byte list list \<Rightarrow> (unit, 'io client_error) result \<times> byte list list" where
  "client_send io message sent = transmit io (message_encode message) sent"

definition send_envelope ::
  "'io transport \<Rightarrow> relay_message \<Rightarrow> relay_meta \<Rightarrow> byte list list \<Rightarrow> (unit, 'io client_error) result \<times> byte list list" where
  "send_envelope io message meta sent =
     transmit io (envelope_encode \<lparr>env_meta = meta, env_message = message\<rparr>) sent"

datatype 'io reception =
    Datagram "byte list"
  | ReceiveFailed 'io
  | Elapsed

text \<open>A receive under a timeout; the buffer holds \<open>MAX_RELAY_DATAGRAM_SIZE\<close> bytes.\<close>

fun receive_envelope :: "'io reception \<Rightarrow> (relay_envelope, 'io client_error) result" where
  "receive_envelope (Datagram bytes) = map_err RelayCodec (envelope_decode (take MAX_RELAY_DATAGRAM_SIZE bytes))"
| "receive_envelope (ReceiveFailed e) = Err (RelayIo e)"
| "receive_envelope Elapsed = Err RelayTimeout"

definition client_receive :: "'io reception \<Rightarrow> (relay_message, 'io client_error) result" where
  "client_receive reception = and_then (receive_envelope reception) (\<lambda>envelope. Ok (env_message envelope))"

definition exchange_envelope ::
  "'io transport \<Rightarrow> relay_message \<Rightarrow> relay_meta \<Rightarrow> 'io reception \<Rightarrow> byte list list \<Rightarrow>
   (relay_envelope, 'io client_error) result \<times> byte list list" where
  "exchange_envelope io message meta reception sent =
     try_st (send_envelope io message meta sent) (\<lambda>_ sent. (receive_envelope reception, sent))"

definition exchange ::
  "'io transport \<Rightarrow> relay_message \<Rightarrow> 'io reception \<Rightarrow> byte list list \<Rightarrow> (relay_message, 'io client_error) result \<times> byte list list" where
  "exchange io message reception sent =
     try_st (client_send io message sent) (\<lambda>_ sent. (client_receive reception, sent))"

text \<open>
  The wait for the acknowledgement: each round reads the clock, gives up when the timeout is exceeded, and
  waits for one datagram; anything but the acknowledgement is skipped, an error ends the wait. The result is
  the elapsed time at the acknowledgement, or nothing when the events end before the wait does.
\<close>

type_synonym 'io wait = "duration \<times> 'io reception \<times> duration"

fun await_ack :: "duration \<Rightarrow> discovery_request_id \<Rightarrow> 'io wait list \<Rightarrow> (duration, 'io client_error) result option" where
  "await_ack timeout request [] = None"
| "await_ack timeout request ((elapsed, reception, arrived) # waits) =
     (if timeout < elapsed then Some (Err RelayTimeout)
      else case receive_envelope reception of
        Ok envelope \<Rightarrow>
          if env_message envelope = RelayProbeAck request then Some (Ok arrived)
          else await_ack timeout request waits
      | Err e \<Rightarrow> Some (Err e)
      | Panic \<Rightarrow> Some Panic)"

definition probe ::
  "'io transport \<Rightarrow> discovery_request_id \<Rightarrow> duration \<Rightarrow> 'io wait list \<Rightarrow> byte list list \<Rightarrow>
   (unit, 'io client_error) result option \<times> byte list list" where
  "probe io request timeout waits sent =
     (case client_send io (RelayProbe request) sent of
        (Ok _, sent) \<Rightarrow> (map_option (\<lambda>res. and_then res (\<lambda>_. Ok ())) (await_ack timeout request waits), sent)
      | (Err e, sent) \<Rightarrow> (Some (Err e), sent)
      | (Panic, sent) \<Rightarrow> (Some Panic, sent))"

subsection \<open>The session\<close>

datatype connection_state =
    Disconnected
  | Connecting
  | Authenticated
  | RoomJoined
  | Healthy
  | Degraded
  | Reconnecting
  | Resynced

record session_config =
  cf_probe_interval :: duration
  cf_probe_timeout :: duration
  cf_degraded_after_failures :: u32
  cf_reconnect_initial_backoff :: duration
  cf_reconnect_max_backoff :: duration
  cf_discovery_retry_interval :: duration
  cf_discovery_retry_window :: duration
  cf_safe_payload_size :: nat
  cf_path_id :: "byte option"

definition session_config_default :: session_config where
  "session_config_default = \<lparr>
     cf_probe_interval = from_secs 2,
     cf_probe_timeout = from_millis 750,
     cf_degraded_after_failures = 3,
     cf_reconnect_initial_backoff = from_millis 250,
     cf_reconnect_max_backoff = from_secs 8,
     cf_discovery_retry_interval = from_millis 250,
     cf_discovery_retry_window = from_secs 5,
     cf_safe_payload_size = DEFAULT_SAFE_RELAY_PAYLOAD_SIZE,
     cf_path_id = None\<rparr>"

record session_snapshot =
  sn_state :: connection_state
  sn_probe_failures :: u32
  sn_reconnect_attempts :: u32
  sn_connection_epoch :: u64
  sn_last_rtt_ms :: "u64 option"
  sn_rtt_p50_ms :: "u64 option"
  sn_rtt_p95_ms :: "u64 option"

definition snapshot_new :: "u64 \<Rightarrow> session_snapshot" where
  "snapshot_new connection_epoch = \<lparr>sn_state = Disconnected, sn_probe_failures = 0, sn_reconnect_attempts = 0,
     sn_connection_epoch = connection_epoch, sn_last_rtt_ms = None, sn_rtt_p50_ms = None, sn_rtt_p95_ms = None\<rparr>"

text \<open>The client of a session is its transport's path and the packets handed to the transport so far.\<close>

record session =
  ss_path :: "byte option"
  ss_sent :: "byte list list"
  ss_config :: session_config
  ss_snapshot :: session_snapshot
  ss_next_sequence :: u64
  ss_samples :: "u64 list"

definition with_config :: "byte option \<Rightarrow> u64 \<Rightarrow> session_config \<Rightarrow> session" where
  "with_config path connection_epoch c = \<lparr>ss_path = path, ss_sent = [], ss_config = c,
     ss_snapshot = snapshot_new connection_epoch, ss_next_sequence = 0, ss_samples = []\<rparr>"

definition session_new :: "byte option \<Rightarrow> u64 \<Rightarrow> session" where
  "session_new path connection_epoch = with_config path connection_epoch session_config_default"

definition on_snapshot :: "(session_snapshot \<Rightarrow> session_snapshot) \<Rightarrow> session \<Rightarrow> session" where
  "on_snapshot f s = s\<lparr>ss_snapshot := f (ss_snapshot s)\<rparr>"

definition mark_authenticated :: "u64 \<Rightarrow> session \<Rightarrow> session" where
  "mark_authenticated connection_epoch =
     on_snapshot (\<lambda>sn. sn\<lparr>sn_connection_epoch := connection_epoch, sn_state := Authenticated\<rparr>)"

definition mark_room_joined :: "session \<Rightarrow> session" where
  "mark_room_joined = on_snapshot (\<lambda>sn. sn\<lparr>sn_state := RoomJoined\<rparr>)"

definition mark_disconnected :: "session \<Rightarrow> session" where
  "mark_disconnected = on_snapshot (\<lambda>sn. sn\<lparr>sn_state := Disconnected\<rparr>)"

definition record_probe_failure :: "session \<Rightarrow> bool \<times> session" where
  "record_probe_failure s =
     (let failures = saturating_add (sn_probe_failures (ss_snapshot s)) 1;
          s = on_snapshot (\<lambda>sn. sn\<lparr>sn_probe_failures := failures\<rparr>) s
      in if cf_degraded_after_failures (ss_config s) \<le> failures
         then (True, on_snapshot (\<lambda>sn. sn\<lparr>sn_state := Degraded\<rparr>) s) else (False, s))"

text \<open>\<open>Duration::saturating_mul\<close> stops at the largest duration.\<close>

definition DURATION_MAX :: duration where
  "DURATION_MAX = (2 ^ 64 - 1) * 1000000000 + 999999999"

definition reconnect_delay :: "session \<Rightarrow> duration" where
  "reconnect_delay s =
     (let attempt = min (sn_reconnect_attempts (ss_snapshot s)) 5;
          multiplier = push_bit (unat attempt) (1 :: u32)
      in min (min (cf_reconnect_initial_backoff (ss_config s) * unat multiplier) DURATION_MAX)
           (cf_reconnect_max_backoff (ss_config s)))"

definition next_envelope_meta :: "u64 \<Rightarrow> session \<Rightarrow> relay_meta \<times> session" where
  "next_envelope_meta now_ms s =
     (let s = s\<lparr>ss_next_sequence := max (saturating_add (ss_next_sequence s) 1) 1\<rparr>
      in (meta_new now_ms (ss_next_sequence s) (sn_connection_epoch (ss_snapshot s))
            (case cf_path_id (ss_config s) of Some path \<Rightarrow> Some path | None \<Rightarrow> ss_path s), s))"

definition record_probe_success :: "duration \<Rightarrow> session \<Rightarrow> session" where
  "record_probe_success rtt s =
     (let rtt_ms = word_of_nat (min (rtt div 1000000) (2 ^ 64 - 1)) :: u64;
          s = on_snapshot (\<lambda>sn. sn\<lparr>sn_probe_failures := 0, sn_last_rtt_ms := Some rtt_ms\<rparr>) s;
          kept = (if 128 \<le> length (ss_samples s) then tl (ss_samples s) else ss_samples s);
          s = s\<lparr>ss_samples := kept @ [rtt_ms]\<rparr>;
          samples = sort (ss_samples s);
          get = (\<lambda>i. if i < length samples then Some (samples ! i) else None)
      in on_snapshot (\<lambda>sn. sn\<lparr>sn_rtt_p50_ms := get ((length samples - 1) * 50 div 100),
            sn_rtt_p95_ms := get ((length samples - 1) * 95 div 100)\<rparr>) s)"

definition payload_size :: "relay_message \<Rightarrow> nat" where
  "payload_size message = (case message of
     DiscoveryRequest _ _ payload \<Rightarrow> length payload
   | DiscoveryToHost _ _ _ payload \<Rightarrow> length payload
   | DiscoveryResponse _ _ _ payload \<Rightarrow> length payload
   | DiscoveryToClient _ _ _ payload \<Rightarrow> length payload
   | GameplayPacket _ _ payload \<Rightarrow> length payload
   | GameplayToPeer _ _ _ payload \<Rightarrow> length payload
   | RelayProbe _ \<Rightarrow> 0
   | RelayProbeAck _ \<Rightarrow> 0)"

definition ensure_safe_payload :: "session \<Rightarrow> relay_message \<Rightarrow> (unit, 'io client_error) result" where
  "ensure_safe_payload s message =
     (if cf_safe_payload_size (ss_config s) < payload_size message
      then Err (RelayPayloadTooLarge (payload_size message) (cf_safe_payload_size (ss_config s))) else Ok ())"

text \<open>An envelope with the next number, handed to the transport.\<close>

definition send_numbered :: "'io transport \<Rightarrow> relay_message \<Rightarrow> u64 \<Rightarrow> session \<Rightarrow> (unit, 'io client_error) result \<times> session" where
  "send_numbered io message now_ms s =
     (case next_envelope_meta now_ms s of (meta, s) \<Rightarrow>
        case send_envelope io message meta (ss_sent s) of (res, sent) \<Rightarrow> (res, s\<lparr>ss_sent := sent\<rparr>))"

definition send_gameplay :: "'io transport \<Rightarrow> relay_message \<Rightarrow> u64 \<Rightarrow> session \<Rightarrow> (unit, 'io client_error) result \<times> session" where
  "send_gameplay io message now_ms s =
     try_st (ensure_safe_payload s message, s) (\<lambda>_ s. send_numbered io message now_ms s)"

definition probe_once ::
  "'io transport \<Rightarrow> discovery_request_id \<Rightarrow> u64 \<Rightarrow> 'io wait list \<Rightarrow> session \<Rightarrow>
   (duration, 'io client_error) result option \<times> session" where
  "probe_once io request now_ms waits s =
     (let s = (if sn_state (ss_snapshot s) = Disconnected then on_snapshot (\<lambda>sn. sn\<lparr>sn_state := Connecting\<rparr>) s else s) in
      case send_numbered io (RelayProbe request) now_ms s of
        (Ok _, s) \<Rightarrow>
          (case await_ack (cf_probe_timeout (ss_config s)) request waits of
             Some (Ok rtt) \<Rightarrow> (Some (Ok rtt), record_probe_success rtt s)
           | res \<Rightarrow> (res, s))
      | (Err e, s) \<Rightarrow> (Some (Err e), s)
      | (Panic, s) \<Rightarrow> (Some Panic, s))"

subsection \<open>Keeping the path healthy\<close>

text \<open>
  \<open>run_with_reconnect\<close> never returns; a turn of it is a probe, while the path is up, or one attempt of the
  caller's \<open>reconnect\<close> callback while it is not (the flag). The turn's result has the sleep the loop takes in it:
  after a probe, and before an attempt. A turn does not return when the probe's events end before the probe.
\<close>

datatype 'io session_turn =
    ProbeTurn "'io transport" discovery_request_id u64 "'io wait list"
  | ReconnectTurn "session_snapshot \<Rightarrow> (u64, 'io client_error) result"

definition set_state :: "connection_state \<Rightarrow> session \<Rightarrow> session" where
  "set_state st = on_snapshot (\<lambda>sn. sn\<lparr>sn_state := st\<rparr>)"

definition probe_turn ::
  "'io transport \<Rightarrow> discovery_request_id \<Rightarrow> u64 \<Rightarrow> 'io wait list \<Rightarrow> session \<Rightarrow> (duration option \<times> bool \<times> session) option" where
  "probe_turn io request now_ms waits s =
     (case probe_once io request now_ms waits s of
        (Some (Ok _), s) \<Rightarrow>
          Some (Some (cf_probe_interval (ss_config s)), False,
            if sn_state (ss_snapshot s) \<in> {Resynced, RoomJoined} then set_state Healthy s else s)
      | (Some (Err _), s) \<Rightarrow>
          (case record_probe_failure s of (degraded, s) \<Rightarrow>
             Some (if degraded then None else Some (cf_probe_interval (ss_config s)), degraded, s))
      | (_, s) \<Rightarrow> None)"

definition reconnect_turn ::
  "(session_snapshot \<Rightarrow> (u64, 'io client_error) result) \<Rightarrow> session \<Rightarrow> (duration option \<times> bool \<times> session) option" where
  "reconnect_turn reconnect s =
     (let s = set_state Reconnecting s;
          delay = reconnect_delay s;
          s = on_snapshot (\<lambda>sn. sn\<lparr>sn_reconnect_attempts := saturating_add (sn_reconnect_attempts sn) 1\<rparr>) s
      in case reconnect (ss_snapshot s) of
           Ok connection_epoch \<Rightarrow>
             Some (Some delay, False,
               (on_snapshot (\<lambda>sn. sn\<lparr>sn_connection_epoch := connection_epoch, sn_probe_failures := 0,
                  sn_reconnect_attempts := 0, sn_state := Resynced\<rparr>) s)\<lparr>ss_next_sequence := 0\<rparr>)
         | Err _ \<Rightarrow> Some (Some delay, True, s)
         | Panic \<Rightarrow> None)"

fun run_turn :: "'io session_turn \<Rightarrow> bool \<times> session \<Rightarrow> (duration option \<times> bool \<times> session) option" where
  "run_turn (ProbeTurn io request now_ms waits) (False, s) = probe_turn io request now_ms waits s"
| "run_turn (ReconnectTurn reconnect) (True, s) = reconnect_turn reconnect s"
| "run_turn _ _ = None"

subsection \<open>Discovery with retry\<close>

text \<open>
  Each round of the loop brings the clock it reads first, as the time since the start, and the transport of
  its send. \<open>Instant::now() + window\<close> is taken to be in range; the count of sends is a \<open>u32\<close> whose \<open>+= 1\<close> panics
  when it overflows.
\<close>

type_synonym 'io round = "duration \<times> u64 \<times> 'io transport"

fun discovery_loop ::
  "relay_message \<Rightarrow> 'io round list \<Rightarrow> u32 \<Rightarrow> 'io client_error option \<Rightarrow> session \<Rightarrow>
   (u32, 'io client_error) result option \<times> session" where
  "discovery_loop message [] sends last_error s = (None, s)"
| "discovery_loop message ((clock, now_ms, io) # rounds) sends last_error s =
     (if clock < cf_discovery_retry_window (ss_config s) then
        (case ensure_safe_payload s message of
           Ok _ \<Rightarrow>
             (case send_numbered io message now_ms s of
                (Ok _, s) \<Rightarrow> if sends + 1 = 0 then (Some Panic, s) else discovery_loop message rounds (sends + 1) None s
              | (Err e, s) \<Rightarrow> discovery_loop message rounds sends (Some e) s
              | (Panic, s) \<Rightarrow> (Some Panic, s))
         | Err e \<Rightarrow> (Some (Err e), s)
         | Panic \<Rightarrow> (Some Panic, s))
      else (Some (case last_error of Some e \<Rightarrow> Err e | None \<Rightarrow> Ok sends), s))"

definition send_discovery_with_retry ::
  "relay_message \<Rightarrow> 'io round list \<Rightarrow> session \<Rightarrow> (u32, 'io client_error) result option \<times> session" where
  "send_discovery_with_retry message rounds s =
     (case message of
        DiscoveryRequest _ _ _ \<Rightarrow> discovery_loop message rounds 0 None s
      | _ \<Rightarrow> (Some (Err (InvalidResponse ''discovery retry requires a DiscoveryRequest'')), s))"

end
