(* ===== verification/Client_Correct.thy ===== *)
theory Client_Correct
  imports Client_Session
begin

section \<open>What the client session guarantees\<close>

text \<open>
  The moves a session's operations are made of, as a locale of the relations they respect, and its three
  uses: how envelopes are numbered, what a session reports about round trips, and what never changes.
\<close>

subsection \<open>Sends\<close>

lemma transmit_cases:
  assumes "transmit io encoded sent = (res, sent')"
  obtains (sent) packet where "encoded = Ok packet" "io packet = None" "res = Ok ()" "sent' = sent @ [packet]"
  | (io) packet e where "encoded = Ok packet" "io packet = Some e" "res = Err (RelayIo e)" "sent' = sent"
  | (codec) e where "encoded = Err e" "res = Err (RelayCodec e)" "sent' = sent"
  | (panic) "encoded = Panic" "res = Panic" "sent' = sent"
  using assms by (cases encoded) (auto simp: transmit_def split: option.splits)

lemma envelope_encode_not_Panic [simp]: "envelope_encode e \<noteq> Panic"
  by (cases "length (message_payload (env_message e)) \<le> 4096")
    (auto elim!: encoded_envelope [of e] simp: envelope_encode_def encode_packet_eq MAX_CIV6_DATAGRAM_SIZE_def)

lemma envelope_encode_Ok:
  assumes "envelope_encode e = Ok packet"
  shows "envelope_decode packet = Ok e"
proof -
  have "length (message_payload (env_message e)) \<le> 4096"
    using assms by (rule contrapos_pp) (simp add: envelope_encode_def encode_packet_eq MAX_CIV6_DATAGRAM_SIZE_def)
  then show ?thesis by (rule encoded_envelope) (use assms in simp)
qed

text \<open>The number after \<open>q\<close>, and the metadata a session gives to its next envelope.\<close>

definition following :: "u64 \<Rightarrow> u64" where
  "following q = max (saturating_add q 1) 1"

lemma unat_following: "unat (following q) = min (unat q + 1) (2 ^ 64 - 1)"
proof -
  have "unat (following q) = max (unat (saturating_add q 1)) (unat (1 :: u64))"
    unfolding following_def by (auto simp: max_def word_le_nat_alt)
  then show ?thesis by (simp add: unat_saturating_add)
qed

lemma unat_u64_bounds: "unat (q :: u64) < 2 ^ 64" "q \<noteq> - 1 \<longleftrightarrow> unat q < 2 ^ 64 - 1"
proof -
  show less: "unat q < 2 ^ 64" using unsigned_less [of q] by simp
  have "unat (- 1 :: u64) = 2 ^ 64 - 1" by (simp add: unsigned_minus_1_eq_mask mask_eq_exp_minus_1)
  then show "q \<noteq> - 1 \<longleftrightarrow> unat q < 2 ^ 64 - 1"
    using less word_unat_eq_iff [of q "- 1"] by linarith
qed

lemma following_mono: "q \<le> following q"
  using unat_following [of q] unat_u64_bounds(1) [of q] by (simp add: word_le_nat_alt)

lemma following_less: "following q \<noteq> - 1 \<Longrightarrow> q < following q"
  using unat_following [of q] by (simp add: unat_u64_bounds(2) word_less_nat_alt)

definition session_meta :: "u64 \<Rightarrow> session \<Rightarrow> relay_meta" where
  "session_meta now_ms s = \<lparr>meta_sequence = following (ss_next_sequence s),
     meta_connection_epoch = sn_connection_epoch (ss_snapshot s), meta_sent_at_ms = now_ms,
     meta_path_id = (case cf_path_id (ss_config s) of Some path \<Rightarrow> Some path | None \<Rightarrow> ss_path s)\<rparr>"

lemma next_envelope_meta_eq:
  "next_envelope_meta now_ms s = (session_meta now_ms s, s\<lparr>ss_next_sequence := following (ss_next_sequence s)\<rparr>)"
  by (simp add: next_envelope_meta_def session_meta_def following_def meta_new_def Let_def split: option.split)

lemma send_numbered_cases:
  assumes "send_numbered io message now_ms s = (res, s')"
  obtains (sent) packet where "envelope_decode packet = Ok \<lparr>env_meta = session_meta now_ms s, env_message = message\<rparr>"
      "io packet = None" "res = Ok ()"
      "s' = s\<lparr>ss_next_sequence := following (ss_next_sequence s), ss_sent := ss_sent s @ [packet]\<rparr>"
  | (failed) e where "res = Err e" "s' = s\<lparr>ss_next_sequence := following (ss_next_sequence s)\<rparr>"
proof -
  let ?e = "\<lparr>env_meta = session_meta now_ms s, env_message = message\<rparr>"
  let ?s = "s\<lparr>ss_next_sequence := following (ss_next_sequence s)\<rparr>"
  obtain sent' where t: "transmit io (envelope_encode ?e) (ss_sent s) = (res, sent')" "s' = ?s\<lparr>ss_sent := sent'\<rparr>"
    using assms by (auto simp: send_numbered_def send_envelope_def next_envelope_meta_eq split: prod.splits)
  from t(1) show ?thesis
  proof (cases rule: transmit_cases)
    case (sent packet)
    then show ?thesis using that(1) [of packet] t(2) envelope_encode_Ok [of ?e packet] by simp
  qed (use t(2) failed in simp_all)
qed

lemma send_numbered_not_Panic [simp]: "fst (send_numbered io message now_ms s) \<noteq> Panic"
  by (cases "send_numbered io message now_ms s") (auto elim: send_numbered_cases)

subsection \<open>The operations of a session\<close>

text \<open>Everything a caller may do with a session, in any order; a cancelled \<open>run_with_reconnect\<close> is the turns it took.\<close>

datatype 'io session_op =
    MarkAuthenticated u64
  | MarkRoomJoined
  | MarkDisconnected
  | RecordProbeFailure
  | NextEnvelopeMeta u64
  | ProbeOnce "'io transport" discovery_request_id u64 "'io wait list"
  | SendGameplay "'io transport" relay_message u64
  | SendDiscovery relay_message "'io round list"
  | LoopTurn bool "'io session_turn"

fun apply_op :: "'io session_op \<Rightarrow> session \<Rightarrow> session" where
  "apply_op (MarkAuthenticated connection_epoch) s = mark_authenticated connection_epoch s"
| "apply_op MarkRoomJoined s = mark_room_joined s"
| "apply_op MarkDisconnected s = mark_disconnected s"
| "apply_op RecordProbeFailure s = snd (record_probe_failure s)"
| "apply_op (NextEnvelopeMeta now_ms) s = snd (next_envelope_meta now_ms s)"
| "apply_op (ProbeOnce io request now_ms waits) s = snd (probe_once io request now_ms waits s)"
| "apply_op (SendGameplay io message now_ms) s = snd (send_gameplay io message now_ms s)"
| "apply_op (SendDiscovery message rounds) s = snd (send_discovery_with_retry message rounds s)"
| "apply_op (LoopTurn down t) s = (case run_turn t (down, s) of Some (_, _, s') \<Rightarrow> s' | None \<Rightarrow> s)"

inductive session_step :: "session \<Rightarrow> 'io session_op \<Rightarrow> session \<Rightarrow> bool" where
  "session_step s op (apply_op op s)"

inductive_cases session_stepE: "session_step s op s'"
inductive_simps session_step_iff: "session_step s op s'"

lemma on_snapshot_simps [simp]:
  "ss_snapshot (on_snapshot f s) = f (ss_snapshot s)"
  "ss_path (on_snapshot f s) = ss_path s"
  "ss_sent (on_snapshot f s) = ss_sent s"
  "ss_config (on_snapshot f s) = ss_config s"
  "ss_next_sequence (on_snapshot f s) = ss_next_sequence s"
  "ss_samples (on_snapshot f s) = ss_samples s"
  by (simp_all add: on_snapshot_def)

lemma record_probe_failure_eq:
  "record_probe_failure s =
     (let failures = saturating_add (sn_probe_failures (ss_snapshot s)) 1;
          degraded = cf_degraded_after_failures (ss_config s) \<le> failures
      in (degraded, on_snapshot (\<lambda>sn. sn\<lparr>sn_probe_failures := failures,
            sn_state := if degraded then Degraded else sn_state sn\<rparr>) s))"
  by (simp add: record_probe_failure_def on_snapshot_def Let_def)

lemma probe_once_cases:
  assumes "probe_once io request now_ms waits s = (res, s')"
  obtains (acked) s1 rtt where "send_numbered io (RelayProbe request) now_ms
        (set_state (if sn_state (ss_snapshot s) = Disconnected then Connecting else sn_state (ss_snapshot s)) s) = (Ok (), s1)"
      "await_ack (cf_probe_timeout (ss_config s)) request waits = Some (Ok rtt)"
      "res = Some (Ok rtt)" "s' = record_probe_success rtt s1"
  | (failed) sent where "send_numbered io (RelayProbe request) now_ms
        (set_state (if sn_state (ss_snapshot s) = Disconnected then Connecting else sn_state (ss_snapshot s)) s) = (sent, s')"
      "\<forall>rtt. res \<noteq> Some (Ok rtt)"
proof -
  let ?s = "set_state (if sn_state (ss_snapshot s) = Disconnected then Connecting else sn_state (ss_snapshot s)) s"
  obtain sent s1 where t: "send_numbered io (RelayProbe request) now_ms ?s = (sent, s1)" by fastforce
  have start: "(if sn_state (ss_snapshot s) = Disconnected then on_snapshot (\<lambda>sn. sn\<lparr>sn_state := Connecting\<rparr>) s else s) = ?s"
    by (simp add: set_state_def on_snapshot_def)
  have c: "ss_config s1 = ss_config s"
    using t by (cases rule: send_numbered_cases) (auto simp: set_state_def)
  show ?thesis
  proof (cases "sent = Ok () \<and> (\<exists>rtt. await_ack (cf_probe_timeout (ss_config s)) request waits = Some (Ok rtt))")
    case True
    then obtain rtt where r: "sent = Ok ()" "await_ack (cf_probe_timeout (ss_config s)) request waits = Some (Ok rtt)" by blast
    then have "res = Some (Ok rtt)" "s' = record_probe_success rtt s1"
      using assms c unfolding probe_once_def Let_def start by (simp_all add: t)
    then show ?thesis using acked r t by simp
  next
    case False
    then have "s' = s1" "\<forall>rtt. res \<noteq> Some (Ok rtt)"
      using assms c unfolding probe_once_def Let_def start by (auto simp: t split: result.splits option.splits)
    with t show ?thesis using failed by simp
  qed
qed

lemma send_gameplay_cases:
  assumes "send_gameplay io message now_ms s = (res, s')"
  obtains (oversized) "res = Err (RelayPayloadTooLarge (payload_size message) (cf_safe_payload_size (ss_config s)))"
      "cf_safe_payload_size (ss_config s) < payload_size message" "s' = s"
  | (numbered) "payload_size message \<le> cf_safe_payload_size (ss_config s)" "send_numbered io message now_ms s = (res, s')"
proof (cases "cf_safe_payload_size (ss_config s) < payload_size message")
  case True
  with assms show ?thesis by (intro oversized) (auto simp: send_gameplay_def ensure_safe_payload_def)
next
  case False
  with assms show ?thesis by (intro numbered) (simp_all add: send_gameplay_def ensure_safe_payload_def)
qed

lemma probe_turn_cases:
  assumes "probe_turn io request now_ms waits s = Some (sleep, down, s')"
  obtains (up) rtt s1 where "probe_once io request now_ms waits s = (Some (Ok rtt), s1)" "\<not> down"
      "sleep = Some (cf_probe_interval (ss_config s1))"
      "s' = (if sn_state (ss_snapshot s1) \<in> {Resynced, RoomJoined} then set_state Healthy s1 else s1)"
  | (failed) e s1 where "probe_once io request now_ms waits s = (Some (Err e), s1)" "record_probe_failure s1 = (down, s')"
      "sleep = (if down then None else Some (cf_probe_interval (ss_config s')))"
proof -
  obtain res s1 where p: "probe_once io request now_ms waits s = (res, s1)" by fastforce
  consider "res = None" | "res = Some Panic" | (ok) rtt where "res = Some (Ok rtt)" | (err) e where "res = Some (Err e)"
    by (metis option.exhaust result.exhaust)
  then show ?thesis
  proof cases
    case (ok rtt)
    with assms p show ?thesis by (intro up [of rtt s1]) (auto simp: probe_turn_def)
  next
    case (err e)
    obtain d s2 where "record_probe_failure s1 = (d, s2)" by fastforce
    with err assms p show ?thesis by (intro failed [of e s1]) (auto simp: probe_turn_def)
  qed (use assms p in \<open>simp_all add: probe_turn_def\<close>)
qed

lemma reconnect_turn_cases:
  assumes "reconnect_turn reconnect s = Some (sleep, down, s')"
  obtains (resumed) connection_epoch where "\<not> down" "sleep = Some (reconnect_delay s)"
      "s' = s\<lparr>ss_snapshot := (ss_snapshot s)\<lparr>sn_connection_epoch := connection_epoch,
         sn_probe_failures := 0, sn_reconnect_attempts := 0, sn_state := Resynced\<rparr>, ss_next_sequence := 0\<rparr>"
      "reconnect ((ss_snapshot s)\<lparr>sn_state := Reconnecting,
         sn_reconnect_attempts := saturating_add (sn_reconnect_attempts (ss_snapshot s)) 1\<rparr>) = Ok connection_epoch"
  | (refused) "down" "sleep = Some (reconnect_delay s)"
      "s' = s\<lparr>ss_snapshot := (ss_snapshot s)\<lparr>sn_state := Reconnecting,
         sn_reconnect_attempts := saturating_add (sn_reconnect_attempts (ss_snapshot s)) 1\<rparr>\<rparr>"
  using assms
  by (auto simp: reconnect_turn_def Let_def set_state_def on_snapshot_def reconnect_delay_def split: result.splits)

text \<open>The operations that begin a new epoch: the two places where the connection epoch is assigned.\<close>

fun begins_epoch :: "'io session_op \<Rightarrow> bool" where
  "begins_epoch (MarkAuthenticated _) = True"
| "begins_epoch (LoopTurn _ (ReconnectTurn _)) = True"
| "begins_epoch _ = False"

lemma record_probe_success_frame [simp]:
  "ss_next_sequence (record_probe_success rtt s) = ss_next_sequence s"
  "ss_sent (record_probe_success rtt s) = ss_sent s"
  "ss_config (record_probe_success rtt s) = ss_config s"
  "sn_connection_epoch (ss_snapshot (record_probe_success rtt s)) = sn_connection_epoch (ss_snapshot s)"
  "sn_state (ss_snapshot (record_probe_success rtt s)) = sn_state (ss_snapshot s)"
  "sn_reconnect_attempts (ss_snapshot (record_probe_success rtt s)) = sn_reconnect_attempts (ss_snapshot s)"
  "sn_probe_failures (ss_snapshot (record_probe_success rtt s)) = 0"
  by (simp_all add: record_probe_success_def Let_def)

subsection \<open>Relations that every operation respects\<close>

text \<open>
  What all operations do to a session is made of four moves: a label of the snapshot changes, a number is
  used up, a numbered envelope is sent, a sample is recorded. A relation closed under them relates the
  states before and after any operation that begins no epoch; one that ignores epoch and counter, any at all.
\<close>

definition same_report :: "session_snapshot \<Rightarrow> session_snapshot \<Rightarrow> bool" where
  "same_report sn sn' \<longleftrightarrow> sn_last_rtt_ms sn' = sn_last_rtt_ms sn \<and> sn_rtt_p50_ms sn' = sn_rtt_p50_ms sn \<and>
     sn_rtt_p95_ms sn' = sn_rtt_p95_ms sn"

locale session_relation =
  fixes R :: "session \<Rightarrow> session \<Rightarrow> bool"
  assumes related_trans: "R s s' \<Longrightarrow> R s' s'' \<Longrightarrow> R s s''"
    and related_label: "same_report (ss_snapshot s) sn \<Longrightarrow> sn_connection_epoch sn = sn_connection_epoch (ss_snapshot s) \<Longrightarrow>
      R s (s\<lparr>ss_snapshot := sn\<rparr>)"
    and related_counted: "R s (s\<lparr>ss_next_sequence := following (ss_next_sequence s)\<rparr>)"
    and related_sent: "envelope_decode packet = Ok \<lparr>env_meta = session_meta now_ms s, env_message = message\<rparr> \<Longrightarrow>
      R s (s\<lparr>ss_next_sequence := following (ss_next_sequence s), ss_sent := ss_sent s @ [packet]\<rparr>)"
    and related_success: "R s (record_probe_success rtt s)"
begin

lemma related_on_snapshot:
  assumes "same_report (ss_snapshot s) (f (ss_snapshot s))"
    "sn_connection_epoch (f (ss_snapshot s)) = sn_connection_epoch (ss_snapshot s)"
  shows "R s (on_snapshot f s)"
  using related_label [OF assms] by (simp add: on_snapshot_def)

lemma related_refl: "R s s"
  using related_label [of s "ss_snapshot s"] by (simp add: same_report_def)

lemma related_state: "R s (set_state st s)"
  unfolding set_state_def by (rule related_on_snapshot) (simp_all add: same_report_def)

lemma related_failure: "R s (snd (record_probe_failure s))"
  by (auto simp: record_probe_failure_eq Let_def same_report_def intro!: related_on_snapshot)

lemma related_send: "R s (snd (send_numbered io message now_ms s))"
  by (cases "send_numbered io message now_ms s") (auto elim!: send_numbered_cases intro: related_sent related_counted)

lemma related_probe: "R s (snd (probe_once io request now_ms waits s))"
proof -
  obtain res s' where p: "probe_once io request now_ms waits s = (res, s')" by fastforce
  have n: "R s (snd (send_numbered io m now_ms (set_state st s)))" for m st
    by (rule related_trans [OF related_state related_send])
  from p show ?thesis
  proof (cases rule: probe_once_cases)
    case (acked s1 rtt)
    then show ?thesis using related_trans [OF _ related_success] n p by (metis snd_conv)
  next
    case (failed sent)
    then show ?thesis using n p by (metis snd_conv)
  qed
qed

lemma related_probe_turn:
  assumes "probe_turn io request now_ms waits s = Some (sleep, down, s')"
  shows "R s s'"
proof -
  have p: "R s s1" if "probe_once io request now_ms waits s = (res, s1)" for res s1
    using related_probe [of s io request now_ms waits] that by simp
  from assms show ?thesis
  proof (cases rule: probe_turn_cases)
    case (up rtt s1)
    then show ?thesis using related_trans [OF p [OF up(1)] related_state] p by auto
  next
    case (failed e s1)
    then show ?thesis using related_trans [OF p [OF failed(1)] related_failure] by simp
  qed
qed

lemma related_discovery: "R s (snd (discovery_loop message rounds sends last_error s))"
proof (induction message rounds sends last_error s rule: discovery_loop.induct)
  case (1 message sends last_error s)
  then show ?case by (simp add: related_refl)
next
  case (2 message clock now_ms io rounds sends last_error s)
  obtain res s' where t: "send_numbered io message now_ms s = (res, s')" by fastforce
  then have n: "R s s'" using related_send [of s io message now_ms] by simp
  show ?case
    using 2 t related_trans [OF n]
    by (cases res) (auto simp: ensure_safe_payload_def related_refl n)
qed

lemma op_related:
  assumes "\<not> begins_epoch op"
  shows "R s (apply_op op s)"
proof (cases op)
  case (SendGameplay io message now_ms)
  then show ?thesis by (simp add: send_gameplay_def ensure_safe_payload_def related_refl related_send)
next
  case (SendDiscovery message rounds)
  then show ?thesis
    by (simp add: send_discovery_with_retry_def related_refl related_discovery split: relay_message.split)
next
  case (LoopTurn down t)
  then obtain io request now_ms waits where "t = ProbeTurn io request now_ms waits" using assms by (cases t) auto
  then show ?thesis
    using LoopTurn by (cases down) (auto simp: related_refl related_probe_turn split: option.split)
qed (use assms in \<open>auto simp: mark_room_joined_def mark_disconnected_def same_report_def next_envelope_meta_eq
    intro!: related_on_snapshot related_failure related_counted related_probe\<close>)

end

locale session_relation_all = session_relation R for R :: "session \<Rightarrow> session \<Rightarrow> bool" +
  assumes related_new_epoch: "same_report (ss_snapshot s) sn \<Longrightarrow> R s (s\<lparr>ss_snapshot := sn, ss_next_sequence := q\<rparr>)"
begin

lemma any_op_related: "R s (apply_op op s)"
proof (cases "begins_epoch op")
  case True
  have keep: "R s (s\<lparr>ss_snapshot := sn\<rparr>)" if "same_report (ss_snapshot s) sn" for sn
    using related_new_epoch [OF that, of "ss_next_sequence s"] by simp
  show ?thesis
  proof (cases op)
    case (MarkAuthenticated connection_epoch)
    then show ?thesis using keep by (simp add: mark_authenticated_def on_snapshot_def same_report_def)
  next
    case (LoopTurn down t)
    then obtain reconnect where t: "t = ReconnectTurn reconnect" using True by (cases t) auto
    have "R s s'" if "reconnect_turn reconnect s = Some (sleep, d, s')" for sleep d s'
      using that
      by (cases rule: reconnect_turn_cases) (auto simp: same_report_def intro!: related_new_epoch keep)
    then show ?thesis
      using LoopTurn t by (cases down) (auto simp: related_refl split: option.split)
  qed (use True in simp_all)
qed (rule op_related)

end

subsection \<open>Envelope numbers\<close>

definition number_of :: "byte list \<Rightarrow> u64" where
  "number_of packet = (case envelope_decode packet of Ok e \<Rightarrow> meta_sequence (env_meta e) | _ \<Rightarrow> 0)"

definition epoch_of :: "byte list \<Rightarrow> u64" where
  "epoch_of packet = (case envelope_decode packet of Ok e \<Rightarrow> meta_connection_epoch (env_meta e) | _ \<Rightarrow> 0)"

text \<open>From one state to a later one of the same epoch: what was sent in between is numbered upwards.\<close>

definition numbered_upwards :: "u64 \<Rightarrow> byte list list \<Rightarrow> u64 \<Rightarrow> bool" where
  "numbered_upwards first packets last_used \<longleftrightarrow> sorted_wrt (<) (map number_of packets) \<and>
     (\<forall>packet\<in>set packets. first < number_of packet \<and> number_of packet \<le> last_used)"

definition numbering :: "session \<Rightarrow> session \<Rightarrow> bool" where
  "numbering s s' \<longleftrightarrow>
     sn_connection_epoch (ss_snapshot s') = sn_connection_epoch (ss_snapshot s) \<and>
     ss_next_sequence s \<le> ss_next_sequence s' \<and>
     (\<exists>packets. ss_sent s' = ss_sent s @ packets \<and>
        (\<forall>packet\<in>set packets. epoch_of packet = sn_connection_epoch (ss_snapshot s)) \<and>
        (ss_next_sequence s' \<noteq> - 1 \<longrightarrow> numbered_upwards (ss_next_sequence s) packets (ss_next_sequence s')))"

lemma numbering_still:
  assumes "ss_next_sequence s' = ss_next_sequence s" "ss_sent s' = ss_sent s"
    "sn_connection_epoch (ss_snapshot s') = sn_connection_epoch (ss_snapshot s)"
  shows "numbering s s'"
  using assms by (simp add: numbering_def numbered_upwards_def)

lemma numbering_trans:
  assumes "numbering s s'" "numbering s' s''"
  shows "numbering s s''"
proof -
  obtain ps where ps: "ss_sent s' = ss_sent s @ ps" "\<forall>p\<in>set ps. epoch_of p = sn_connection_epoch (ss_snapshot s)"
      "ss_next_sequence s' \<noteq> - 1 \<Longrightarrow> numbered_upwards (ss_next_sequence s) ps (ss_next_sequence s')"
    using assms(1) by (auto simp: numbering_def)
  obtain qs where qs: "ss_sent s'' = ss_sent s' @ qs" "\<forall>p\<in>set qs. epoch_of p = sn_connection_epoch (ss_snapshot s')"
      "ss_next_sequence s'' \<noteq> - 1 \<Longrightarrow> numbered_upwards (ss_next_sequence s') qs (ss_next_sequence s'')"
    using assms(2) by (auto simp: numbering_def)
  have ord: "ss_next_sequence s \<le> ss_next_sequence s'" "ss_next_sequence s' \<le> ss_next_sequence s''"
    and same: "sn_connection_epoch (ss_snapshot s') = sn_connection_epoch (ss_snapshot s)"
      "sn_connection_epoch (ss_snapshot s'') = sn_connection_epoch (ss_snapshot s)"
    using assms by (simp_all add: numbering_def)
  have "numbered_upwards (ss_next_sequence s) (ps @ qs) (ss_next_sequence s'')" if last: "ss_next_sequence s'' \<noteq> - 1"
  proof -
    have "ss_next_sequence s' \<noteq> - 1" using last ord(2) by (metis antisym max_word_max)
    from ps(3) [OF this] qs(3) [OF last] ord show ?thesis
      unfolding numbered_upwards_def sorted_wrt_append map_append by fastforce
  qed
  with ps qs ord same show ?thesis unfolding numbering_def by (intro conjI exI [of _ "ps @ qs"]) auto
qed

interpretation numbers: session_relation numbering
proof unfold_locales
  fix packet now_ms s message
  assume "envelope_decode packet = Ok \<lparr>env_meta = session_meta now_ms s, env_message = message\<rparr>"
  then have "number_of packet = following (ss_next_sequence s)" "epoch_of packet = sn_connection_epoch (ss_snapshot s)"
    by (simp_all add: number_of_def epoch_of_def session_meta_def)
  then show "numbering s (s\<lparr>ss_next_sequence := following (ss_next_sequence s), ss_sent := ss_sent s @ [packet]\<rparr>)"
    using following_less [of "ss_next_sequence s"] following_mono by (auto simp: numbering_def numbered_upwards_def)
next
  show "numbering s (s\<lparr>ss_next_sequence := following (ss_next_sequence s)\<rparr>)" for s
    using following_mono by (simp add: numbering_def numbered_upwards_def)
qed (auto intro: numbering_trans numbering_still)

text \<open>C23. Envelope numbers: over any sequence of a session's operations that begins no new epoch, every packet
  handed to the transport carries the session's connection epoch, and until the counter is exhausted the
  numbers of the packets increase strictly, starting above the last number used before; failed sends
  consume numbers but never repeat one.\<close>

theorem session_numbers_increase:
  assumes "run session_step s ops s'" and "\<forall>op\<in>set ops. \<not> begins_epoch op"
  shows "\<exists>packets. ss_sent s' = ss_sent s @ packets \<and>
    (\<forall>packet\<in>set packets. epoch_of packet = sn_connection_epoch (ss_snapshot s)) \<and>
    (ss_next_sequence s' \<noteq> - 1 \<longrightarrow> sorted_wrt (<) (map number_of packets) \<and>
       (\<forall>packet\<in>set packets. ss_next_sequence s < number_of packet \<and> number_of packet \<le> ss_next_sequence s'))"
proof -
  have "numbering s s'"
    using assms
  proof (induction rule: run.induct)
    case (run_Cons s op s' ops s'')
    then show ?case using numbering_trans [OF numbers.op_related [of op s]] by (auto simp: session_step_iff)
  qed (simp add: numbering_still)
  then show ?thesis by (simp add: numbering_def numbered_upwards_def)
qed

theorem session_numbers_increase_witness:
  "\<exists>s p q. run session_step (session_new None 7) [SendGameplay (\<lambda>_. None) (RelayProbe (DiscoveryRequestId 1)) 0,
       MarkRoomJoined, SendGameplay (\<lambda>_. None :: unit option) (RelayProbe (DiscoveryRequestId 2)) 0] s \<and>
     ss_sent s = [p, q] \<and> epoch_of p = 7 \<and> epoch_of q = 7 \<and> number_of p < number_of q"
proof -
  let ?m = "\<lambda>i. RelayProbe (DiscoveryRequestId i)"
  let ?ops = "[SendGameplay (\<lambda>_. None) (?m 1) 0, MarkRoomJoined, SendGameplay (\<lambda>_. None :: unit option) (?m 2) 0]"
  have live: "\<exists>p. send_gameplay (\<lambda>_. None :: unit option) (?m i) 0 s =
      (Ok (), s\<lparr>ss_next_sequence := following (ss_next_sequence s), ss_sent := ss_sent s @ [p]\<rparr>)" for i s
    by (rule encoded_envelope [of "\<lparr>env_meta = session_meta 0 s, env_message = ?m i\<rparr>"])
      (auto simp: send_gameplay_def ensure_safe_payload_def payload_size_def send_numbered_def send_envelope_def
        next_envelope_meta_eq transmit_def)
  obtain p where p: "snd (send_gameplay (\<lambda>_. None :: unit option) (?m 1) 0 (session_new None 7)) =
      (session_new None 7)\<lparr>ss_next_sequence := following 0, ss_sent := [p]\<rparr>"
    using live [of 1 "session_new None 7"] by (auto simp: session_new_def with_config_def)
  obtain q where q: "snd (send_gameplay (\<lambda>_. None :: unit option) (?m 2) 0 (mark_room_joined
        ((session_new None 7)\<lparr>ss_next_sequence := following 0, ss_sent := [p]\<rparr>))) =
      (mark_room_joined ((session_new None 7)\<lparr>ss_next_sequence := following 0, ss_sent := [p]\<rparr>))
        \<lparr>ss_next_sequence := following (following 0), ss_sent := [p, q]\<rparr>"
    using live [of 2 "mark_room_joined ((session_new None 7)\<lparr>ss_next_sequence := following 0, ss_sent := [p]\<rparr>)"]
    by (auto simp: mark_room_joined_def)
  define s where "s = (mark_room_joined ((session_new None 7)\<lparr>ss_next_sequence := following 0, ss_sent := [p]\<rparr>))
        \<lparr>ss_next_sequence := following (following 0), ss_sent := [p, q]\<rparr>"
  have r: "run session_step (session_new None 7) ?ops s" by (simp add: session_step_iff p q s_def)
  have "ss_next_sequence s \<noteq> - 1" "ss_sent s = [p, q]"
    by (simp_all add: s_def following_def saturating_add_def)
  then show ?thesis
    using session_numbers_increase [OF r] r by (auto simp: session_new_def with_config_def snapshot_new_def)
qed

subsection \<open>Samples\<close>

text \<open>
  What a snapshot reports about round trips: nothing before the first sample, then the last sample and the two
  order statistics of the window of at most 128.
\<close>

definition rank :: "u64 list \<Rightarrow> nat \<Rightarrow> u64" where
  "rank samples percent = sort samples ! ((length samples - 1) * percent div 100)"

definition session_wf :: "session \<Rightarrow> bool" where
  "session_wf s \<longleftrightarrow> length (ss_samples s) \<le> 128 \<and>
     (let samples = ss_samples s; sn = ss_snapshot s in
      if samples = [] then sn_last_rtt_ms sn = None \<and> sn_rtt_p50_ms sn = None \<and> sn_rtt_p95_ms sn = None
      else sn_last_rtt_ms sn = Some (last samples) \<and> sn_rtt_p50_ms sn = Some (rank samples 50) \<and>
           sn_rtt_p95_ms sn = Some (rank samples 95))"

lemma percent_less: "0 < n \<Longrightarrow> p \<le> 100 \<Longrightarrow> (n - 1) * p div 100 < (n :: nat)"
proof -
  assume "0 < n" "p \<le> 100"
  then have "(n - 1) * p div 100 \<le> (n - 1) * 100 div 100" by (intro div_le_mono mult_le_mono) auto
  with \<open>0 < n\<close> show ?thesis by simp
qed

lemma rank_in: "samples \<noteq> [] \<Longrightarrow> p \<le> 100 \<Longrightarrow> rank samples p \<in> set samples"
  using percent_less [of "length samples" p] nth_mem [of _ "sort samples"] by (simp add: rank_def)

lemma rank_mono: "samples \<noteq> [] \<Longrightarrow> p \<le> q \<Longrightarrow> q \<le> 100 \<Longrightarrow> rank samples p \<le> rank samples q"
  using percent_less [of "length samples" q]
  by (auto simp: rank_def intro!: sorted_nth_mono div_le_mono mult_le_mono)

lemma wf_frame:
  assumes "session_wf s" "ss_samples s' = ss_samples s" "sn_last_rtt_ms (ss_snapshot s') = sn_last_rtt_ms (ss_snapshot s)"
    "sn_rtt_p50_ms (ss_snapshot s') = sn_rtt_p50_ms (ss_snapshot s)" "sn_rtt_p95_ms (ss_snapshot s') = sn_rtt_p95_ms (ss_snapshot s)"
  shows "session_wf s'"
  using assms by (simp add: session_wf_def Let_def)

lemma samples_success:
  "ss_samples (record_probe_success rtt s) =
     (if 128 \<le> length (ss_samples s) then tl (ss_samples s) else ss_samples s) @ [word_of_nat (min (rtt div 1000000) (2 ^ 64 - 1))]"
  by (simp add: record_probe_success_def Let_def)

lemma wf_success:
  assumes "session_wf s"
  shows "session_wf (record_probe_success rtt s)"
proof -
  let ?s = "record_probe_success rtt s"
  have "ss_samples ?s \<noteq> []" "length (ss_samples ?s) \<le> 128"
    using assms by (auto simp: samples_success session_wf_def)
  moreover have "sn_last_rtt_ms (ss_snapshot ?s) = Some (last (ss_samples ?s))"
      "sn_rtt_p50_ms (ss_snapshot ?s) = Some (rank (ss_samples ?s) 50)"
      "sn_rtt_p95_ms (ss_snapshot ?s) = Some (rank (ss_samples ?s) 95)"
    using percent_less [of "Suc (length (ss_samples s))"] percent_less [of "length (ss_samples s)"]
    by (auto simp: record_probe_success_def rank_def Let_def)
  ultimately show ?thesis by (simp add: session_wf_def)
qed

interpretation shapes: session_relation_all "\<lambda>s s'. session_wf s \<longrightarrow> session_wf s'"
  by unfold_locales (auto intro: wf_frame wf_success simp: same_report_def)

interpretation config_kept: session_relation_all "\<lambda>s s'. ss_config s' = ss_config s \<and> ss_path s' = ss_path s"
  by unfold_locales (auto simp: record_probe_success_def Let_def)

interpretation shape_run: step_invariant session_step session_wf
  by unfold_locales (auto elim!: session_stepE intro: shapes.any_op_related [THEN mp])

text \<open>C29. The report of a session is well formed after any operations whatever: the window holds at most 128 samples,
  a report is given exactly when there is a sample, the last round trip is the newest sample, and the two
  percentiles are samples of the window with the median not above the 95th percentile.\<close>

theorem session_report_wellformed:
  assumes "run session_step (with_config path connection_epoch c) ops s"
  shows "length (ss_samples s) \<le> 128 \<and>
    (ss_samples s = [] \<longleftrightarrow> sn_last_rtt_ms (ss_snapshot s) = None) \<and>
    (case sn_last_rtt_ms (ss_snapshot s) of
       None \<Rightarrow> sn_rtt_p50_ms (ss_snapshot s) = None \<and> sn_rtt_p95_ms (ss_snapshot s) = None
     | Some rtt \<Rightarrow> rtt = last (ss_samples s) \<and>
         (\<exists>p50 p95. sn_rtt_p50_ms (ss_snapshot s) = Some p50 \<and> sn_rtt_p95_ms (ss_snapshot s) = Some p95 \<and>
            p50 \<le> p95 \<and> {p50, p95} \<subseteq> set (ss_samples s)))"
proof -
  have "session_wf (with_config path connection_epoch c)"
    by (simp add: session_wf_def with_config_def snapshot_new_def)
  from shape_run.run_keeps [OF assms this] show ?thesis
    using rank_mono [of "ss_samples s" 50 95] rank_in [of "ss_samples s" 50] rank_in [of "ss_samples s" 95]
    by (auto simp: session_wf_def Let_def split: if_splits)
qed

theorem session_report_wellformed_witness:
  "\<exists>answer s. run session_step (with_config None 7 session_config_default)
       [ProbeOnce (\<lambda>_. None :: unit option) (DiscoveryRequestId 1) 0 [(0, Datagram answer, 42000000)]] s \<and>
     ss_samples s = [42] \<and> sn_last_rtt_ms (ss_snapshot s) = Some 42 \<and> sn_rtt_p95_ms (ss_snapshot s) = Some 42"
proof -
  let ?s = "with_config None 7 session_config_default" and ?q = "DiscoveryRequestId 1"
  obtain answer where a: "envelope_decode (take MAX_RELAY_DATAGRAM_SIZE answer) =
      Ok \<lparr>env_meta = meta_default, env_message = RelayProbeAck ?q\<rparr>"
    by (rule encoded_envelope [of "\<lparr>env_meta = meta_default, env_message = RelayProbeAck ?q\<rparr>"]) (simp_all, metis take_all)
  let ?waits = "[(0, Datagram answer, 42000000)] :: unit wait list"
  have "\<exists>s1. send_numbered (\<lambda>_. None :: unit option) (RelayProbe ?q) 0 s = (Ok (), s1) \<and> ss_config s1 = ss_config s \<and>
      ss_samples s1 = ss_samples s" for s
    by (rule encoded_envelope [of "\<lparr>env_meta = session_meta 0 s, env_message = RelayProbe ?q\<rparr>"])
      (auto simp: send_numbered_def send_envelope_def next_envelope_meta_eq transmit_def)
  then obtain s1 where s1: "send_numbered (\<lambda>_. None :: unit option) (RelayProbe ?q) 0
      (on_snapshot (\<lambda>sn. sn\<lparr>sn_state := Connecting\<rparr>) ?s) = (Ok (), s1)"
      "ss_config s1 = session_config_default" "ss_samples s1 = []"
    by (fastforce simp: with_config_def)
  define s where "s = record_probe_success 42000000 s1"
  have r: "run session_step ?s [ProbeOnce (\<lambda>_. None :: unit option) ?q 0 ?waits] s"
    using s1 a by (simp add: session_step_iff probe_once_def s_def with_config_def snapshot_new_def Let_def)
  have "ss_samples s = [42]" by (simp add: s_def samples_success s1(3))
  with session_report_wellformed [OF r] r show ?thesis by (auto split: option.splits)
qed

end
