(* ===== verification/Client_Link.thy ===== *)
theory Client_Link
  imports Client_Correct
begin

section \<open>The client's link to the relay\<close>

text \<open>
  The machine that \<open>run_with_reconnect\<close> refines, its backoff and recovery, and the end of the discovery retries.
\<close>

subsection \<open>The link machine\<close>

text \<open>
  What \<open>run_with_reconnect\<close> promises, without packets, clocks or counters of bounded width: the path is up with
  some number of consecutive failures below the threshold, or down with some number of attempts behind it,
  of which only the first five matter.
\<close>

datatype link_state = Up nat | Down nat

datatype link_event = ProbeAnswered | ProbeLost | ResumeAccepted | ResumeRefused

definition link_backoff :: "session_config \<Rightarrow> nat \<Rightarrow> duration" where
  "link_backoff c attempts =
     min (min (cf_reconnect_initial_backoff c * 2 ^ min attempts 5) DURATION_MAX) (cf_reconnect_max_backoff c)"

fun link_turn :: "session_config \<Rightarrow> link_event \<Rightarrow> link_state \<Rightarrow> (duration option \<times> link_state) option" where
  "link_turn c ProbeAnswered (Up failures) = Some (Some (cf_probe_interval c), Up 0)"
| "link_turn c ProbeLost (Up failures) =
     (if unat (cf_degraded_after_failures c) \<le> Suc failures then Some (None, Down 0)
      else Some (Some (cf_probe_interval c), Up (Suc failures)))"
| "link_turn c ResumeAccepted (Down attempts) = Some (Some (link_backoff c attempts), Up 0)"
| "link_turn c ResumeRefused (Down attempts) = Some (Some (link_backoff c attempts), Down (min 5 (Suc attempts)))"
| "link_turn c _ _ = None"

inductive link_step :: "session_config \<Rightarrow> link_state \<Rightarrow> link_event \<times> duration option \<Rightarrow> link_state \<Rightarrow> bool" for c where
  "link_turn c e l = Some (sleep, l') \<Longrightarrow> link_step c l (e, sleep) l'"

inductive_simps link_step_iff: "link_step c l e l'"

definition link_of :: "bool \<times> session \<Rightarrow> link_state" where
  "link_of st = (case st of (down, s) \<Rightarrow>
     if down then Down (min 5 (unat (sn_reconnect_attempts (ss_snapshot s))))
     else Up (unat (sn_probe_failures (ss_snapshot s))))"

text \<open>A turn of the loop on the session, with the sleep it took.\<close>

inductive loop_step :: "bool \<times> session \<Rightarrow> 'io session_turn \<times> duration option \<Rightarrow> bool \<times> session \<Rightarrow> bool" where
  "run_turn t st = Some (sleep, st') \<Longrightarrow> loop_step st (t, sleep) st'"

inductive_simps loop_step_iff: "loop_step st e st'"
inductive_cases loop_stepE: "loop_step st (t, sleep) st'"

text \<open>What holds between the turns.\<close>

definition link_inv :: "session_config \<Rightarrow> bool \<times> session \<Rightarrow> bool" where
  "link_inv c st \<longleftrightarrow> (case st of (down, s) \<Rightarrow> ss_config s = c \<and>
     (if down then sn_state (ss_snapshot s) \<in> {Degraded, Reconnecting} \<and>
        cf_degraded_after_failures c \<le> sn_probe_failures (ss_snapshot s)
      else sn_state (ss_snapshot s) \<notin> {Degraded, Reconnecting} \<and> sn_reconnect_attempts (ss_snapshot s) = 0 \<and>
        (sn_probe_failures (ss_snapshot s) = 0 \<or> sn_probe_failures (ss_snapshot s) < cf_degraded_after_failures c)))"

lemma unat_failure_bump:
  fixes failures threshold :: u32
  assumes "failures = 0 \<or> failures < threshold"
  shows "unat (saturating_add failures 1) = Suc (unat failures)"
proof -
  have "unat threshold < 2 ^ 32" using unsigned_less [of threshold] by simp
  then have "unat failures < 2 ^ 32 - 1" using assms by (auto simp: word_less_nat_alt)
  then show ?thesis by (simp add: unat_saturating_add)
qed

lemma unat_power_u32: "n < 32 \<Longrightarrow> unat ((2 :: u32) ^ n) = 2 ^ n"
proof -
  assume "n < 32"
  then have "(2 :: nat) ^ n < 2 ^ 32" by (intro power_strict_increasing) auto
  then have "unat (word_of_nat (2 ^ n) :: u32) = 2 ^ n" by (subst unat_of_nat) simp
  then show "unat ((2 :: u32) ^ n) = 2 ^ n" by simp
qed

lemma reconnect_delay_eq:
  "reconnect_delay s = link_backoff (ss_config s) (unat (sn_reconnect_attempts (ss_snapshot s)))"
proof -
  let ?attempt = "min (sn_reconnect_attempts (ss_snapshot s)) 5"
  have a: "unat ?attempt = min (unat (sn_reconnect_attempts (ss_snapshot s))) 5"
    by (simp add: min_def word_le_nat_alt)
  have "unat (push_bit (unat ?attempt) (1 :: u32)) = 2 ^ min (unat (sn_reconnect_attempts (ss_snapshot s))) 5"
    unfolding a by (simp add: push_bit_eq_mult unat_power_u32)
  then show ?thesis by (simp add: reconnect_delay_def link_backoff_def Let_def)
qed

fun concerns_probe :: "'io session_turn \<Rightarrow> link_event \<Rightarrow> bool" where
  "concerns_probe (ProbeTurn _ _ _ _) e \<longleftrightarrow> e \<in> {ProbeAnswered, ProbeLost}"
| "concerns_probe (ReconnectTurn _) e \<longleftrightarrow> e \<in> {ResumeAccepted, ResumeRefused}"

definition losing :: "link_event \<Rightarrow> bool" where
  "losing e \<longleftrightarrow> e \<in> {ProbeLost, ResumeRefused}"

text \<open>A turn in which nothing works: the probe is not acknowledged, or the callback refuses whatever it is given.\<close>

fun fruitless :: "session_config \<Rightarrow> 'io session_turn \<Rightarrow> bool" where
  "fruitless c (ProbeTurn io request now_ms waits) \<longleftrightarrow>
     (case await_ack (cf_probe_timeout c) request waits of Some (Ok _) \<Rightarrow> False | _ \<Rightarrow> True)"
| "fruitless c (ReconnectTurn reconnect) \<longleftrightarrow> (\<forall>sn connection_epoch. reconnect sn \<noteq> Ok connection_epoch)"

text \<open>The turn and the event are of the same kind, sleep for the same time, and agree that nothing worked.\<close>

definition same_turn :: "session_config \<Rightarrow> 'io session_turn \<times> duration option \<Rightarrow> link_event \<times> duration option \<Rightarrow> bool" where
  "same_turn c turn event \<longleftrightarrow> concerns_probe (fst turn) (fst event) \<and> snd event = snd turn \<and>
     (fruitless c (fst turn) \<longrightarrow> losing (fst event))"

lemma probe_once_link:
  assumes "probe_once io request now_ms waits s = (res, s1)"
  shows "ss_config s1 = ss_config s"
    "sn_reconnect_attempts (ss_snapshot s1) = sn_reconnect_attempts (ss_snapshot s)"
    "\<exists>rtt. res = Some (Ok rtt) \<Longrightarrow> sn_probe_failures (ss_snapshot s1) = 0"
    "\<nexists>rtt. res = Some (Ok rtt) \<Longrightarrow> sn_probe_failures (ss_snapshot s1) = sn_probe_failures (ss_snapshot s)"
    "sn_state (ss_snapshot s1) =
       (if sn_state (ss_snapshot s) = Disconnected then Connecting else sn_state (ss_snapshot s))"
  using assms
  by (cases rule: probe_once_cases; auto elim!: send_numbered_cases simp: set_state_def)+

lemma up_turn:
  assumes inv: "link_inv c (False, s)" and turn: "probe_turn io request now_ms waits s = Some (sleep, down, s')"
  shows "link_inv c (down, s') \<and> (\<exists>e. concerns_probe (ProbeTurn io request now_ms waits) e \<and>
    link_turn c e (link_of (False, s)) = Some (sleep, link_of (down, s')))"
  using turn
proof (cases rule: probe_turn_cases)
  case (up rtt s1)
  note p = probe_once_link [OF up(1)]
  have st: "sn_state (ss_snapshot s1) \<notin> {Degraded, Reconnecting}" using p(5) inv by (simp add: link_inv_def split: if_splits)
  have s': "sn_probe_failures (ss_snapshot s') = 0" "sn_reconnect_attempts (ss_snapshot s') = 0" "ss_config s' = c"
      "sn_state (ss_snapshot s') \<notin> {Degraded, Reconnecting}"
    using up(1,4) p(1-3) st inv by (simp_all add: link_inv_def set_state_def)
  then have "link_turn c ProbeAnswered (link_of (False, s)) = Some (sleep, link_of (down, s'))"
    using inv up(2,3) p(1) by (simp add: link_of_def link_inv_def)
  moreover have "link_inv c (down, s')" using s' up(2) by (simp add: link_inv_def)
  moreover have "concerns_probe (ProbeTurn io request now_ms waits) ProbeAnswered" by simp
  ultimately show ?thesis by blast
next
  case (failed e s1)
  note p = probe_once_link [OF failed(1)]
  let ?failures = "saturating_add (sn_probe_failures (ss_snapshot s)) 1"
  have st: "sn_state (ss_snapshot s1) \<notin> {Degraded, Reconnecting}" using p(5) inv by (simp add: link_inv_def split: if_splits)
  have bump: "unat ?failures = Suc (unat (sn_probe_failures (ss_snapshot s)))"
    using inv by (intro unat_failure_bump [of _ "cf_degraded_after_failures c"]) (simp add: link_inv_def)
  have s': "sn_probe_failures (ss_snapshot s') = ?failures" "sn_reconnect_attempts (ss_snapshot s') = 0" "ss_config s' = c"
      "sn_state (ss_snapshot s') = (if down then Degraded else sn_state (ss_snapshot s1))"
      "down = (cf_degraded_after_failures c \<le> ?failures)"
    using failed(1,2) p(1,2,4) inv by (auto simp: link_inv_def record_probe_failure_eq Let_def)
  then have "link_turn c ProbeLost (link_of (False, s)) = Some (sleep, link_of (down, s'))"
    using failed(3) bump by (simp add: link_of_def word_le_nat_alt)
  moreover have "link_inv c (down, s')" using s' st by (cases down) (simp_all add: link_inv_def not_le)
  moreover have "concerns_probe (ProbeTurn io request now_ms waits) ProbeLost" by simp
  ultimately show ?thesis by blast
qed

lemma down_turn:
  assumes inv: "link_inv c (True, s)" and turn: "reconnect_turn reconnect s = Some (sleep, down, s')"
  shows "link_inv c (down, s') \<and> (\<exists>e. concerns_probe (ReconnectTurn reconnect) e \<and>
    link_turn c e (link_of (True, s)) = Some (sleep, link_of (down, s')))"
proof -
  have delay: "reconnect_delay s = link_backoff c (min 5 (unat (sn_reconnect_attempts (ss_snapshot s))))"
    using inv by (simp add: reconnect_delay_eq link_backoff_def link_inv_def min.commute)
  from turn show ?thesis
  proof (cases rule: reconnect_turn_cases)
    case (resumed connection_epoch)
    then show ?thesis
      using inv delay by (auto simp: link_inv_def link_of_def intro: exI [of _ ResumeAccepted])
  next
    case refused
    have "min 5 (unat (saturating_add (sn_reconnect_attempts (ss_snapshot s)) 1)) =
        min 5 (Suc (min 5 (unat (sn_reconnect_attempts (ss_snapshot s)))))"
      by (simp add: unat_saturating_add)
    then show ?thesis
      using refused inv delay by (auto simp: link_inv_def link_of_def intro: exI [of _ ResumeRefused])
  qed
qed

lemma fruitless_probe:
  assumes "probe_turn io request now_ms waits s = Some (sleep, down, s')"
    "fruitless (ss_config s) (ProbeTurn io request now_ms waits)" "link_inv c (False, s)"
    "link_turn c e (link_of (False, s)) = Some (sleep, link_of (down, s'))"
    "concerns_probe (ProbeTurn io request now_ms waits) e"
  shows "e = ProbeLost"
  using assms(1)
proof (cases rule: probe_turn_cases)
  case (up rtt s1)
  from up(1) show ?thesis
    by (cases rule: probe_once_cases) (use assms(2) in \<open>auto split: option.splits result.splits\<close>)
next
  case (failed err s1)
  note p = probe_once_link [OF failed(1)]
  have "unat (sn_probe_failures (ss_snapshot s')) = Suc (unat (sn_probe_failures (ss_snapshot s)))"
    using assms(3) failed(2) p(4) unat_failure_bump [of "sn_probe_failures (ss_snapshot s)" "cf_degraded_after_failures c"]
    by (auto simp: link_inv_def record_probe_failure_eq Let_def)
  then show ?thesis
    using assms(4,5) failed(2,3) by (auto simp: link_of_def split: if_splits)
qed

lemma fruitless_reconnect:
  assumes "reconnect_turn reconnect s = Some (sleep, down, s')" "fruitless c (ReconnectTurn reconnect)"
    "link_turn c e (link_of (True, s)) = Some (sleep, link_of (down, s'))"
    "concerns_probe (ReconnectTurn reconnect) e"
  shows "e = ResumeRefused"
proof -
  have down using assms(1,2) by (auto simp: reconnect_turn_def Let_def split: result.splits)
  then show ?thesis using assms(3,4) by (auto simp: link_of_def)
qed

lemma loop_turn_simulated:
  assumes "loop_step st turn st'" "link_inv c st"
  shows "link_inv c st' \<and> (\<exists>e. same_turn c turn e \<and> link_step c (link_of st) e (link_of st'))"
proof -
  obtain down s where st: "st = (down, s)" by (cases st)
  obtain t sleep where turn: "turn = (t, sleep)" "run_turn t (down, s) = Some (sleep, st')"
    using assms(1) st by (auto simp: loop_step_iff)
  obtain down' s' where st': "st' = (down', s')" by (cases st')
  show ?thesis
  proof (cases t)
    case (ProbeTurn io request now_ms waits)
    with turn st st' have probe: "down = False" "probe_turn io request now_ms waits s = Some (sleep, down', s')"
      by (cases down; simp)+
    then obtain e where "link_inv c (down', s')" "concerns_probe t e"
        "link_turn c e (link_of (False, s)) = Some (sleep, link_of (down', s'))"
      using up_turn [OF _ probe(2)] assms(2) by (auto simp: st ProbeTurn)
    moreover from this have "fruitless c t \<longrightarrow> losing e"
      using fruitless_probe [OF probe(2)] assms(2) probe(1) by (auto simp: st ProbeTurn link_inv_def losing_def)
    ultimately show ?thesis using probe(1) by (auto simp: st st' turn(1) same_turn_def link_step_iff)
  next
    case (ReconnectTurn reconnect)
    with turn st st' have resume: "down = True" "reconnect_turn reconnect s = Some (sleep, down', s')"
      by (cases down; simp)+
    then obtain e where "link_inv c (down', s')" "concerns_probe t e"
        "link_turn c e (link_of (True, s)) = Some (sleep, link_of (down', s'))"
      using down_turn [OF _ resume(2)] assms(2) by (auto simp: st ReconnectTurn)
    moreover from this have "fruitless c t \<longrightarrow> losing e"
      using fruitless_reconnect [OF resume(2)] by (auto simp: ReconnectTurn losing_def)
    ultimately show ?thesis using resume(1) by (auto simp: st st' turn(1) same_turn_def link_step_iff)
  qed
qed

interpretation link_run: simulation loop_step "link_inv c" "link_step c" link_of "same_turn c" for c
  by unfold_locales (use loop_turn_simulated in blast)+

text \<open>A session that has not run yet, after whatever labels the caller has put on it.\<close>

definition idle :: "session \<Rightarrow> bool" where
  "idle s \<longleftrightarrow> sn_state (ss_snapshot s) \<notin> {Degraded, Reconnecting} \<and> sn_probe_failures (ss_snapshot s) = 0 \<and>
     sn_reconnect_attempts (ss_snapshot s) = 0"

lemma idle_link: "idle s \<Longrightarrow> link_inv (ss_config s) (False, s) \<and> link_of (False, s) = Up 0"
  by (simp add: idle_def link_inv_def link_of_def)

text \<open>C22. \<open>run_with_reconnect\<close> refines the link machine: every run of the loop from an idle session takes, turn for turn
  and sleep for sleep, the steps of a machine that only counts consecutive lost probes up to the threshold
  and refused attempts up to five; no counter of the session overflows on the way, the configuration never
  changes, and the session is labelled degraded or reconnecting exactly while it is down.\<close>

theorem session_refines_link:
  assumes "idle s" and "run loop_step (False, s) turns (down, s')"
  shows "\<exists>events. list_all2 (same_turn (ss_config s)) turns events \<and>
    run (link_step (ss_config s)) (Up 0) events (link_of (down, s')) \<and>
    ss_config s' = ss_config s \<and>
    (sn_state (ss_snapshot s') \<in> {Degraded, Reconnecting} \<longleftrightarrow> down)"
proof -
  have "link_inv (ss_config s) (False, s)" "link_of (False, s) = Up 0" using idle_link [OF assms(1)] by auto
  with link_run.run_simulated [OF assms(2), of "ss_config s"] link_run.run_keeps [OF assms(2), of "ss_config s"] show ?thesis
    by (auto simp: link_inv_def split: if_splits)
qed

subsection \<open>Degrading and backing off\<close>

text \<open>A run of the machine in which nothing works: the sleeps of the first turns.\<close>

definition losing_sleeps :: "session_config \<Rightarrow> nat \<Rightarrow> nat \<Rightarrow> duration option list" where
  "losing_sleeps c spare n =
     take n (replicate spare (Some (cf_probe_interval c)) @ None # map (\<lambda>i. Some (link_backoff c i)) [0..<n - Suc spare])"

lemma losing_down:
  assumes "run (link_step c) (Down (min 5 a)) events l" "\<forall>e\<in>set events. losing (fst e)"
  shows "map snd events = map (\<lambda>i. Some (link_backoff c (a + i))) [0..<length events] \<and>
    l = Down (min 5 (a + length events))"
  using assms
proof (induction events arbitrary: a)
  case (Cons e events)
  obtain l1 where l1: "link_step c (Down (min 5 a)) e l1" "run (link_step c) l1 events l" using Cons.prems(1) by auto
  then have e: "snd e = Some (link_backoff c (min 5 a))" "l1 = Down (min 5 (Suc (min 5 a)))"
    using Cons.prems(2) by (cases "fst e"; auto simp: link_step_iff losing_def)+
  have "link_backoff c (min 5 a) = link_backoff c a" by (simp add: link_backoff_def min.commute)
  moreover have "min 5 (Suc (min 5 a)) = min 5 (Suc a)" by simp
  ultimately show ?case
    using Cons.IH [of "Suc a"] Cons.prems(2) e l1(2)
    by (simp add: upt_conv_Cons map_Suc_upt [symmetric] del: upt_Suc map_Suc_upt)
qed simp

lemma losing_up:
  assumes "run (link_step c) (Up f) events l" "\<forall>e\<in>set events. losing (fst e)"
    "max 1 (unat (cf_degraded_after_failures c)) = Suc (f + spare)"
  shows "map snd events = losing_sleeps c spare (length events)"
  using assms
proof (induction events arbitrary: f spare)
  case (Cons e events)
  obtain l1 where l1: "link_step c (Up f) e l1" "run (link_step c) l1 events l" using Cons.prems(1) by auto
  have lost: "fst e = ProbeLost" using l1(1) Cons.prems(2) by (cases "fst e"; cases e) (auto simp: link_step_iff losing_def)
  show ?case
  proof (cases spare)
    case 0
    then have "snd e = None" "l1 = Down (min 5 0)"
      using l1(1) lost Cons.prems(3) by (cases e; auto simp: link_step_iff max_def split: if_splits)+
    then show ?thesis
      using losing_down [of c 0 events l] l1(2) Cons.prems(2) 0 by (simp add: losing_sleeps_def)
  next
    case (Suc k)
    then have "snd e = Some (cf_probe_interval c)" "l1 = Up (Suc f)"
      using l1(1) lost Cons.prems(3) by (cases e; auto simp: link_step_iff max_def split: if_splits)+
    then show ?thesis
      using Cons.IH [of "Suc f" k] l1(2) Cons.prems(2,3) Suc by (simp add: losing_sleeps_def)
  qed
qed (simp add: losing_sleeps_def)

text \<open>C27. Degrading and backing off: while no probe is acknowledged and no reconnection succeeds, an idle session takes
  exactly as many probes as the threshold says (one, if it says none), one probe interval apart, goes down
  without a pause, and then retries after 1, 2, 4, 8, 16, 32, 32, ... times the initial backoff, never more
  than the maximal one.\<close>

theorem losing_session_backs_off:
  assumes "idle s" and "run loop_step (False, s) turns st" and "\<forall>turn\<in>set turns. fruitless (ss_config s) (fst turn)"
  shows "map snd turns = losing_sleeps (ss_config s) (unat (cf_degraded_after_failures (ss_config s)) - 1) (length turns)"
proof -
  let ?c = "ss_config s"
  obtain events where e: "list_all2 (same_turn ?c) turns events" "run (link_step ?c) (Up 0) events (link_of st)"
    using link_run.run_simulated [OF assms(2), of ?c] idle_link [OF assms(1)] by auto
  have "map snd events = map snd turns" "\<forall>e\<in>set events. losing (fst e)"
    using e(1) assms(3) by (induction rule: list_all2_induct) (auto simp: same_turn_def)
  then show ?thesis
    using losing_up [OF e(2), of "unat (cf_degraded_after_failures ?c) - 1"] list_all2_lengthD [OF e(1)] by simp
qed

text \<open>A transport that is down, and the first turns of a session on it.\<close>

definition dead_transport :: "unit transport" where
  "dead_transport packet = Some ()"

lemma dead_probe:
  "probe_once dead_transport request now_ms waits s =
     (Some (Err (RelayIo ())), set_state (if sn_state (ss_snapshot s) = Disconnected then Connecting else sn_state (ss_snapshot s))
        (s\<lparr>ss_next_sequence := following (ss_next_sequence s)\<rparr>))"
proof -
  have "send_numbered dead_transport (RelayProbe request) now_ms s' = (Err (RelayIo ()), s'\<lparr>ss_next_sequence := following (ss_next_sequence s')\<rparr>)" for s'
    by (rule encoded_envelope [of "\<lparr>env_meta = session_meta now_ms s', env_message = RelayProbe request\<rparr>"])
      (simp_all add: send_numbered_def send_envelope_def next_envelope_meta_eq transmit_def dead_transport_def)
  then show ?thesis by (auto simp: probe_once_def set_state_def on_snapshot_def Let_def)
qed

definition demo_losing :: "unit session_turn list" where
  "demo_losing = replicate 3 (ProbeTurn dead_transport (DiscoveryRequestId 1) 0 []) @
     replicate 7 (ReconnectTurn (\<lambda>_. Err RelayTimeout))"

lemma demo_losing_run:
  "\<exists>turns st. map fst turns = demo_losing \<and> run loop_step (False, session_new None 1) turns st"
proof -
  have "\<exists>turns st. map fst turns = replicate n (ReconnectTurn (\<lambda>_. Err RelayTimeout) :: unit session_turn) \<and> run loop_step (True, s) turns st"
    for n and s :: session
  proof (induction n arbitrary: s)
    case (Suc n)
    let ?t = "ReconnectTurn (\<lambda>_. Err RelayTimeout) :: unit session_turn"
    have "\<exists>sleep s'. loop_step (True, s) (?t, sleep) (True, s')"
      by (simp add: loop_step_iff reconnect_turn_def Let_def)
    then obtain sleep s' where step: "loop_step (True, s) (?t, sleep) (True, s')" by blast
    obtain turns st where "map fst turns = replicate n ?t" "run loop_step (True, s') turns st" using Suc.IH by blast
    with step show ?case by (intro exI [of _ "(?t, sleep) # turns"] exI [of _ st]) (simp del: loop_step_iff, blast)
  next
    case 0
    have "map fst [] = replicate 0 (ReconnectTurn (\<lambda>_. Err RelayTimeout) :: unit session_turn) \<and> run loop_step (True, s) [] (True, s)" by simp
    then show ?case by blast
  qed
  note down = this
  let ?sleeps = "[Some (from_secs 2), Some (from_secs 2), None]"
  have "\<exists>s. run loop_step (False, session_new None 1) (map (Pair (ProbeTurn dead_transport (DiscoveryRequestId 1) 0 [])) ?sleeps) (True, s)"
    by (simp add: loop_step_iff probe_turn_def dead_probe record_probe_failure_eq Let_def set_state_def
        session_new_def with_config_def session_config_default_def snapshot_new_def saturating_add_def on_snapshot_def word_le_nat_alt ex_bool_eq)
  then obtain s where up: "run loop_step (False, session_new None 1)
      (map (Pair (ProbeTurn dead_transport (DiscoveryRequestId 1) 0 [])) ?sleeps) (True, s)" by blast
  obtain turns st where "map fst turns = replicate 7 (ReconnectTurn (\<lambda>_. Err RelayTimeout) :: unit session_turn)"
      "run loop_step (True, s) turns st"
    using down by blast
  then show ?thesis
    using up by (intro exI [of _ "map (Pair (ProbeTurn dead_transport (DiscoveryRequestId 1) 0 [])) ?sleeps @ turns"] exI [of _ st] conjI)
      (simp add: demo_losing_def numeral_3_eq_3, unfold run_append, blast)
qed

lemma two_copies: "replicate 2 x = [x, x]"
  by (simp add: numeral_2_eq_2)

lemma first_seven: "[0..<7] = [0, 1, 2, 3, 4, 5, 6]"
  by code_simp

theorem losing_session_backs_off_witness:
  "\<exists>turns st. run loop_step (False, session_new None 1) turns st \<and> map fst turns = demo_losing \<and>
     map snd turns = [Some (from_secs 2), Some (from_secs 2), None, Some (from_millis 250), Some (from_millis 500),
       Some (from_secs 1), Some (from_secs 2), Some (from_secs 4), Some (from_secs 8), Some (from_secs 8)]"
proof -
  let ?s = "session_new None 1"
  obtain turns st where r: "map fst turns = demo_losing" "run loop_step (False, ?s) turns st" using demo_losing_run by blast
  have "idle ?s" by (simp add: idle_def session_new_def with_config_def snapshot_new_def)
  moreover have "\<forall>t\<in>set (map fst turns). fruitless (ss_config ?s) t"
    unfolding r(1) demo_losing_def by auto
  moreover have "length turns = 10" using arg_cong [OF r(1), of length] by (simp add: demo_losing_def)
  ultimately have "map snd turns = losing_sleeps session_config_default 2 10"
    using losing_session_backs_off [OF _ r(2)] by (simp add: session_new_def with_config_def session_config_default_def)
  also have "\<dots> = [Some (from_secs 2), Some (from_secs 2), None, Some (from_millis 250), Some (from_millis 500),
       Some (from_secs 1), Some (from_secs 2), Some (from_secs 4), Some (from_secs 8), Some (from_secs 8)]"
    by (simp add: losing_sleeps_def two_copies session_config_default_def link_backoff_def DURATION_MAX_def
        from_secs_def from_millis_def first_seven)
  finally show ?thesis using r by (intro exI [of _ turns] exI [of _ st]) simp
qed

theorem session_refines_link_witness:
  "\<exists>turns down s' events. run loop_step (False, session_new None 1) turns (down, s') \<and> map fst turns = demo_losing \<and>
     run (link_step session_config_default) (Up 0) events (link_of (down, s')) \<and> ss_config s' = session_config_default"
proof -
  let ?s = "session_new None 1"
  obtain turns st where r: "map fst turns = demo_losing" "run loop_step (False, ?s) turns st" using demo_losing_run by blast
  obtain down s' where st: "st = (down, s')" by (cases st)
  have "idle ?s" "ss_config ?s = session_config_default"
    by (simp_all add: idle_def session_new_def with_config_def snapshot_new_def)
  then show ?thesis using session_refines_link [OF _ r(2) [unfolded st]] r st by metis
qed

text \<open>Recovery: a session that is down, however it got there, is healthy again after one accepted reconnection and one
  acknowledged probe; the probe carries number 1 and the new epoch, and both counters are back at zero, so
  that the next loss is counted from the beginning.\<close>

theorem session_recovers:
  assumes "run_turn (ReconnectTurn reconnect) (True, s) = Some (sleep, False, s1)"
    and "envelope_encode \<lparr>env_meta = session_meta now_ms s1, env_message = RelayProbe request\<rparr> = Ok packet"
    and "io packet = None" and "await_ack (cf_probe_timeout (ss_config s)) request waits = Some (Ok rtt)"
  shows "\<exists>connection_epoch s2. run_turn (ProbeTurn io request now_ms waits) (False, s1) =
      Some (Some (cf_probe_interval (ss_config s)), False, s2) \<and>
    reconnect ((ss_snapshot s)\<lparr>sn_state := Reconnecting,
       sn_reconnect_attempts := saturating_add (sn_reconnect_attempts (ss_snapshot s)) 1\<rparr>) = Ok connection_epoch \<and>
    sn_state (ss_snapshot s2) = Healthy \<and> sn_probe_failures (ss_snapshot s2) = 0 \<and>
    sn_reconnect_attempts (ss_snapshot s2) = 0 \<and> sn_connection_epoch (ss_snapshot s2) = connection_epoch \<and>
    ss_sent s2 = ss_sent s @ [packet] \<and>
    envelope_decode packet = Ok \<lparr>env_meta = \<lparr>meta_sequence = 1, meta_connection_epoch = connection_epoch, meta_sent_at_ms = now_ms,
       meta_path_id = (case cf_path_id (ss_config s) of Some path \<Rightarrow> Some path | None \<Rightarrow> ss_path s)\<rparr>,
       env_message = RelayProbe request\<rparr>"
proof -
  have "reconnect_turn reconnect s = Some (sleep, False, s1)" using assms(1) by simp
  then obtain connection_epoch where s1: "s1 = s\<lparr>ss_snapshot := (ss_snapshot s)\<lparr>sn_connection_epoch := connection_epoch,
      sn_probe_failures := 0, sn_reconnect_attempts := 0, sn_state := Resynced\<rparr>, ss_next_sequence := 0\<rparr>"
    and answer: "reconnect ((ss_snapshot s)\<lparr>sn_state := Reconnecting,
       sn_reconnect_attempts := saturating_add (sn_reconnect_attempts (ss_snapshot s)) 1\<rparr>) = Ok connection_epoch"
    by (cases rule: reconnect_turn_cases) auto
  have first: "following 0 = 1" by (simp add: following_def saturating_add_def)
  have "send_numbered io (RelayProbe request) now_ms s1 = (Ok (), s1\<lparr>ss_next_sequence := 1, ss_sent := ss_sent s @ [packet]\<rparr>)"
    using assms(2,3) by (simp add: send_numbered_def send_envelope_def next_envelope_meta_eq transmit_def s1 first)
  then have "probe_once io request now_ms waits s1 =
      (Some (Ok rtt), record_probe_success rtt (s1\<lparr>ss_next_sequence := 1, ss_sent := ss_sent s @ [packet]\<rparr>))"
    using assms(4) by (simp add: probe_once_def s1)
  moreover have "envelope_decode packet = Ok \<lparr>env_meta = session_meta now_ms s1, env_message = RelayProbe request\<rparr>"
    using assms(2) by (rule envelope_encode_Ok)
  ultimately show ?thesis
    by (intro exI [of _ connection_epoch])
      (simp add: probe_turn_def set_state_def s1 session_meta_def first answer split: option.split)
qed

subsection \<open>The end of the discovery retries\<close>

text \<open>The clock readings of the rounds: each at least the retry interval after the one before.\<close>

fun paced :: "duration \<Rightarrow> duration \<Rightarrow> 'io round list \<Rightarrow> bool" where
  "paced interval earliest [] \<longleftrightarrow> True"
| "paced interval earliest ((clock, now_ms, io) # rounds) \<longleftrightarrow>
     earliest \<le> clock \<and> paced interval (clock + interval) rounds"

text \<open>The packets of one discovery request: the request itself each time.\<close>

definition carries :: "relay_message \<Rightarrow> byte list \<Rightarrow> bool" where
  "carries message packet \<longleftrightarrow> (case envelope_decode packet of Ok e \<Rightarrow> env_message e = message | _ \<Rightarrow> False)"

lemma count_sends:
  "(sends :: u32) + 1 = 0 \<Longrightarrow> unat sends + 1 = 2 ^ 32"
  "(sends :: u32) + 1 \<noteq> 0 \<Longrightarrow> unat (sends + 1) = unat sends + 1"
proof -
  assume "sends + 1 = 0"
  then have "sends = - 1" by (simp add: add_eq_0_iff2)
  then show "unat sends + 1 = 2 ^ 32" by (simp add: unsigned_minus_1_eq_mask mask_eq_exp_minus_1)
qed (simp add: unatSuc add.commute)

lemma discovery_loop_result:
  assumes "discovery_loop message rounds sends last_error s = (res, s')"
  obtains packets where "ss_sent s' = ss_sent s @ packets" "\<forall>packet\<in>set packets. carries message packet"
    "length packets \<le> length rounds" "ss_config s' = ss_config s"
    "\<And>k. res = Some (Ok k) \<Longrightarrow> unat k = unat sends + length packets"
    "res = Some Panic \<Longrightarrow> unat sends + length packets = 2 ^ 32"
proof -
  have "\<exists>packets. ss_sent s' = ss_sent s @ packets \<and> (\<forall>packet\<in>set packets. carries message packet) \<and>
      length packets \<le> length rounds \<and> ss_config s' = ss_config s \<and>
      (\<forall>k. res = Some (Ok k) \<longrightarrow> unat k = unat sends + length packets) \<and>
      (res = Some Panic \<longrightarrow> unat sends + length packets = 2 ^ 32)"
    using assms
  proof (induction message rounds sends last_error s arbitrary: res s' rule: discovery_loop.induct)
    case (2 message clock now_ms io rounds sends last_error s)
    obtain sent s1 where t: "send_numbered io message now_ms s = (sent, s1)" by fastforce
    show ?case
    proof (cases "clock < cf_discovery_retry_window (ss_config s) \<and> ensure_safe_payload s message = (Ok () :: (unit, 'a client_error) result)")
      case True
      from t show ?thesis
      proof (cases rule: send_numbered_cases)
        case (sent packet)
        show ?thesis
        proof (cases "sends + 1 = 0")
          case over: True
          then have "res = Some Panic \<and> s' = s1" using True 2(3) t sent by simp
          then show ?thesis
            using sent count_sends(1) [OF over] by (intro exI [of _ "[packet]"]) (auto simp: carries_def)
        next
          case count: False
          then have "discovery_loop message rounds (sends + 1) None s1 = (res, s')"
            using True 2(3) t sent by simp
          from 2(1) [OF _ _ t [symmetric] sent(3) count this] obtain packets where
            "ss_sent s' = ss_sent s1 @ packets" "\<forall>packet\<in>set packets. carries message packet" "length packets \<le> length rounds"
            "ss_config s' = ss_config s1" "\<forall>k. res = Some (Ok k) \<longrightarrow> unat k = unat (sends + 1) + length packets"
            "res = Some Panic \<longrightarrow> unat (sends + 1) + length packets = 2 ^ 32"
            using True by auto
          then show ?thesis
            using sent count_sends(2) [OF count] by (intro exI [of _ "packet # packets"]) (auto simp: carries_def)
        qed
      next
        case (failed e)
        then have "discovery_loop message rounds sends (Some e) s1 = (res, s')"
          using True 2(3) t by simp
        from 2(2) [OF _ _ t [symmetric] failed(1) this] obtain packets where
          "ss_sent s' = ss_sent s1 @ packets" "\<forall>packet\<in>set packets. carries message packet" "length packets \<le> length rounds"
          "ss_config s' = ss_config s1" "\<forall>k. res = Some (Ok k) \<longrightarrow> unat k = unat sends + length packets"
          "res = Some Panic \<longrightarrow> unat sends + length packets = 2 ^ 32"
          using True by auto
        then show ?thesis using failed by auto
      qed
    next
      case False
      then have "s' = s \<and> res \<noteq> Some Panic \<and> (\<forall>k. res = Some (Ok k) \<longrightarrow> k = sends)"
        using 2(3) by (auto simp: ensure_safe_payload_def split: if_splits option.splits)
      then show ?thesis by (intro exI [of _ "[]"]) simp
    qed
  qed simp
  then show ?thesis using that by blast
qed

lemma discovery_loop_ends:
  assumes "paced (cf_discovery_retry_interval (ss_config s)) earliest rounds"
    "cf_discovery_retry_window (ss_config s) \<le> earliest + cf_discovery_retry_interval (ss_config s) * n"
  shows "length (ss_sent (snd (discovery_loop message rounds sends last_error s))) \<le> length (ss_sent s) + n \<and>
    (n < length rounds \<longrightarrow> fst (discovery_loop message rounds sends last_error s) \<noteq> None)"
  using assms
proof (induction message rounds sends last_error s arbitrary: earliest n rule: discovery_loop.induct)
  case (2 message clock now_ms io rounds sends last_error s)
  obtain res s1 where t: "send_numbered io message now_ms s = (res, s1)" by fastforce
  have s1: "ss_config s1 = ss_config s" "length (ss_sent s1) \<le> Suc (length (ss_sent s))"
      "\<And>e. res = Err e \<Longrightarrow> length (ss_sent s1) \<le> length (ss_sent s)" "res \<noteq> Panic"
    using t by (cases rule: send_numbered_cases; auto)+
  show ?case
  proof (cases "clock < cf_discovery_retry_window (ss_config s) \<and> ensure_safe_payload s message = (Ok () :: (unit, 'a client_error) result)")
    case True
    let ?i = "cf_discovery_retry_interval (ss_config s)"
    have early: "earliest \<le> clock" "paced ?i (clock + ?i) rounds" using 2(3) by simp_all
    obtain k where n: "n = Suc k" using True 2(4) early(1) by (cases n) auto
    then have bound: "cf_discovery_retry_window (ss_config s1) \<le> clock + ?i + cf_discovery_retry_interval (ss_config s1) * k"
      "paced (cf_discovery_retry_interval (ss_config s1)) (clock + ?i) rounds"
      using 2(4) early s1(1) by simp_all
    show ?thesis
    proof (cases res)
      case (Ok u)
      show ?thesis
        using 2(1) [OF _ _ t [symmetric] Ok _ bound(2,1)] True t Ok n s1(2) by (cases "sends + 1 = 0") auto
    next
      case (Err e)
      show ?thesis
        using 2(2) [OF _ _ t [symmetric] Err bound(2,1)] True t Err n s1(3) by auto
    qed (use s1(4) in simp)
  qed (auto simp: ensure_safe_payload_def split: if_splits)
qed simp

text \<open>C28. Discovery retries end: with a positive retry interval that the sleeps respect, the loop returns after at most
  one round more than the window holds intervals; until then every packet it sent carries the same request,
  there is at most one per interval, an \<open>Ok\<close> counts them exactly, only the packet that overflows the \<open>u32\<close> count could end it
  in a panic, and a payload above the safe size is refused before anything is sent.\<close>

theorem discovery_retries_end:
  assumes "0 < cf_discovery_retry_interval (ss_config s)"
    and "paced (cf_discovery_retry_interval (ss_config s)) 0 rounds"
    and "n = (cf_discovery_retry_window (ss_config s) + cf_discovery_retry_interval (ss_config s) - 1) div
      cf_discovery_retry_interval (ss_config s)"
    and "n < length rounds" and "message = DiscoveryRequest request port payload"
  shows "\<exists>res s' packets. send_discovery_with_retry message rounds s = (Some res, s') \<and> (res = Panic \<longrightarrow> length packets = 2 ^ 32) \<and>
    ss_sent s' = ss_sent s @ packets \<and> length packets \<le> n \<and> (\<forall>packet\<in>set packets. carries message packet) \<and>
    (\<forall>k. res = Ok k \<longrightarrow> unat k = length packets) \<and>
    (0 < n \<and> fst (hd rounds) < cf_discovery_retry_window (ss_config s) \<and> cf_safe_payload_size (ss_config s) < length payload \<longrightarrow>
       res = Err (RelayPayloadTooLarge (length payload) (cf_safe_payload_size (ss_config s))) \<and> packets = [])"
proof -
  let ?i = "cf_discovery_retry_interval (ss_config s)" and ?w = "cf_discovery_retry_window (ss_config s)"
  have "?w \<le> 0 + ?i * n"
  proof -
    have "?w + ?i - 1 < ?i * Suc n" using assms(1,3) by (metis div_less_iff_less_mult lessI mult.commute)
    then show ?thesis by simp
  qed
  note ends = discovery_loop_ends [OF assms(2) this, of message 0 None]
  obtain out s' where r: "discovery_loop message rounds 0 None s = (out, s')" by fastforce
  from r obtain packets where p: "ss_sent s' = ss_sent s @ packets" "\<forall>packet\<in>set packets. carries message packet"
      "\<And>k. out = Some (Ok k) \<Longrightarrow> unat k = unat (0 :: u32) + length packets"
      "out = Some Panic \<Longrightarrow> unat (0 :: u32) + length packets = 2 ^ 32"
    by (rule discovery_loop_result) blast
  obtain res where out: "out = Some res" using ends r assms(4) by auto
  obtain clock now_ms io rest where rounds: "rounds = (clock, now_ms, io) # rest" using assms(4) by (cases rounds) auto
  have "res = Err (RelayPayloadTooLarge (length payload) (cf_safe_payload_size (ss_config s))) \<and> packets = []"
    if "fst (hd rounds) < ?w" "cf_safe_payload_size (ss_config s) < length payload"
    using that r p(1) out assms(5) rounds by (auto simp: ensure_safe_payload_def payload_size_def)
  then show ?thesis
    using r p out ends assms(5) by (auto simp: send_discovery_with_retry_def)
qed

lemma paced_multiples: "paced i (i * k) (map (\<lambda>j. (i * j, now_ms, io)) [k..<k + m])"
proof (induction m arbitrary: k)
  case (Suc m)
  from Suc [of "Suc k"] show ?case by (simp add: upt_conv_Cons add.commute del: upt_Suc)
qed simp

definition demo_rounds :: "unit round list" where
  "demo_rounds = map (\<lambda>j. (from_millis 250 * j, 0, \<lambda>_. None)) [0..<21]"

theorem discovery_retries_end_witness:
  "\<exists>res s' packets. send_discovery_with_retry (DiscoveryRequest (DiscoveryRequestId 1) (Civ6UdpPort 62900) [1]) demo_rounds
       (session_new None 1) = (Some res, s') \<and> res \<noteq> Panic \<and> ss_sent s' = packets \<and> length packets \<le> 20"
proof -
  have "paced (from_millis 250) 0 demo_rounds"
    using paced_multiples [of "from_millis 250" 0 0 "\<lambda>_. None" 21] by (simp add: demo_rounds_def del: upt_rec_numeral)
  moreover have "length demo_rounds = 21" by (simp add: demo_rounds_def)
  ultimately show ?thesis
    using discovery_retries_end [of "session_new None 1" demo_rounds 20, OF _ _ _ _ refl,
        of "DiscoveryRequestId 1" "Civ6UdpPort 62900" "[1]"]
    by (auto simp: session_new_def with_config_def session_config_default_def from_millis_def from_secs_def)
qed

text \<open>A transport that takes every packet, and the answer to the probe it took.\<close>

definition live_transport :: "unit transport" where
  "live_transport packet = None"

theorem session_recovers_witness:
  "\<exists>s1 s2 waits. run_turn (ReconnectTurn (\<lambda>_. Ok 5) :: unit session_turn) (True, session_new None 1) =
       Some (Some (from_millis 250), False, s1) \<and>
     run_turn (ProbeTurn live_transport (DiscoveryRequestId 1) 0 waits) (False, s1) = Some (Some (from_secs 2), False, s2) \<and>
     sn_state (ss_snapshot s2) = Healthy \<and> sn_connection_epoch (ss_snapshot s2) = 5"
proof -
  let ?s = "session_new None 1" and ?q = "DiscoveryRequestId 1"
  obtain s1 where s1: "run_turn (ReconnectTurn (\<lambda>_. Ok 5) :: unit session_turn) (True, ?s) = Some (Some (from_millis 250), False, s1)"
    by (auto simp: reconnect_turn_def reconnect_delay_eq Let_def session_new_def with_config_def session_config_default_def
        snapshot_new_def set_state_def link_backoff_def DURATION_MAX_def from_millis_def from_secs_def)
  obtain packet where p: "envelope_encode \<lparr>env_meta = session_meta 0 s1, env_message = RelayProbe ?q\<rparr> = Ok packet"
    by (rule encoded_envelope [of "\<lparr>env_meta = session_meta 0 s1, env_message = RelayProbe ?q\<rparr>"]) simp_all
  obtain answer where a: "envelope_decode (take MAX_RELAY_DATAGRAM_SIZE answer) = Ok \<lparr>env_meta = session_meta 0 s1, env_message = RelayProbeAck ?q\<rparr>"
    by (rule encoded_envelope [of "\<lparr>env_meta = session_meta 0 s1, env_message = RelayProbeAck ?q\<rparr>"]) (simp_all, metis take_all)
  let ?waits = "[(0, Datagram answer, 1000000)] :: unit wait list"
  have "await_ack (cf_probe_timeout (ss_config ?s)) ?q ?waits = Some (Ok 1000000)" using a by simp
  from session_recovers [OF s1 p, of live_transport, OF _ this]
  obtain s2 connection_epoch where "run_turn (ProbeTurn live_transport ?q 0 ?waits) (False, s1) =
        Some (Some (cf_probe_interval (ss_config ?s)), False, s2)"
      "sn_state (ss_snapshot s2) = Healthy" "sn_connection_epoch (ss_snapshot s2) = connection_epoch"
      "(Ok 5 :: (u64, unit client_error) result) = Ok connection_epoch"
    by (auto simp: live_transport_def)
  with s1 show ?thesis by (auto simp: session_new_def with_config_def session_config_default_def)
qed

end
