(* ===== verification/Control_Wire.thy ===== *)
theory Control_Wire
  imports Api_Handlers
begin

section \<open>The control API on the wire\<close>

text \<open>
  What travels between \<open>ControlClient\<close> (\<open>crates/client-core/src/lib.rs\<close>) and the routes of
  \<open>server/src/api.rs\<close>: methods, paths and JSON values. The structures are written and read by the derived
  \<open>Serialize\<close> and \<open>Deserialize\<close> as objects with one member per field; a missing member is \<open>None\<close> for an
  optional field and an error otherwise. JSON text, percent-encoding and the HTTP framing are not modelled,
  and the text form of a UUID is a pair of parameters.
\<close>

subsection \<open>JSON values\<close>

datatype json =
    JNull
  | JBool bool
  | JNumber nat
  | JText rstring
  | JObject "(string \<times> json) list"

record uuid_text =
  ut_show :: "uuid \<Rightarrow> rstring"
  ut_read :: "rstring \<Rightarrow> uuid option"

definition member_of :: "string \<Rightarrow> json \<Rightarrow> json option" where
  "member_of name j = (case j of JObject members \<Rightarrow> map_of members name | _ \<Rightarrow> None)"

text \<open>A field that must be there, and an optional one.\<close>

definition field :: "(json \<Rightarrow> 'a option) \<Rightarrow> string \<Rightarrow> json \<Rightarrow> 'a option" where
  "field read name j = Option.bind (member_of name j) read"

definition optional_field :: "(json \<Rightarrow> 'a option) \<Rightarrow> string \<Rightarrow> json \<Rightarrow> 'a option option" where
  "optional_field read name j =
     (case j of
        JObject members \<Rightarrow>
          (case map_of members name of
             None \<Rightarrow> Some None
           | Some JNull \<Rightarrow> Some None
           | Some v \<Rightarrow> map_option Some (read v))
      | _ \<Rightarrow> None)"

definition json_option :: "('a \<Rightarrow> json) \<Rightarrow> 'a option \<Rightarrow> json" where
  "json_option put v = (case v of None \<Rightarrow> JNull | Some x \<Rightarrow> put x)"

definition get_text :: "json \<Rightarrow> rstring option" where
  "get_text j = (case j of JText s \<Rightarrow> Some s | _ \<Rightarrow> None)"

definition get_number :: "json \<Rightarrow> nat option" where
  "get_number j = (case j of JNumber n \<Rightarrow> Some n | _ \<Rightarrow> None)"

definition json_u64 :: "u64 \<Rightarrow> json" where
  "json_u64 w = JNumber (unat w)"

definition get_u64 :: "json \<Rightarrow> u64 option" where
  "get_u64 j = Option.bind (get_number j) (\<lambda>n. if n < 2 ^ 64 then Some (word_of_nat n) else None)"

definition get_bool :: "json \<Rightarrow> bool option" where
  "get_bool j = (case j of JBool b \<Rightarrow> Some b | _ \<Rightarrow> None)"

definition json_code :: "room_code \<Rightarrow> json" where
  "json_code c = JText (code_str c)"

definition get_code :: "json \<Rightarrow> room_code option" where
  "get_code j = Option.bind (get_text j) (\<lambda>s. case parse_code s of Ok c \<Rightarrow> Some c | _ \<Rightarrow> None)"

definition json_vip :: "virtual_ip \<Rightarrow> json" where
  "json_vip ip = JText (rstr (ipv4_to_string (address ip)))"

definition get_vip :: "json \<Rightarrow> virtual_ip option" where
  "get_vip j = Option.bind (get_text j) (\<lambda>s. map_option VirtualIp (parse_ipv4 s))"

definition json_uuid :: "uuid_text \<Rightarrow> ('id \<Rightarrow> uuid) \<Rightarrow> 'id \<Rightarrow> json" where
  "json_uuid u raw x = JText (ut_show u (raw x))"

definition get_uuid :: "uuid_text \<Rightarrow> (uuid \<Rightarrow> 'id) \<Rightarrow> json \<Rightarrow> 'id option" where
  "get_uuid u wrap j = Option.bind (get_text j) (\<lambda>s. map_option wrap (ut_read u s))"

text \<open>What is written is read back, and no value is written as \<open>null\<close>.\<close>

locale json_codec =
  fixes put :: "'a \<Rightarrow> json" and read :: "json \<Rightarrow> 'a option" and valid :: "'a \<Rightarrow> bool"
  assumes read_put: "valid x \<Longrightarrow> read (put x) = Some x"
    and put_not_null: "put x \<noteq> JNull"
begin

lemma field_put: "valid x \<Longrightarrow> map_of members name = Some (put x) \<Longrightarrow> field read name (JObject members) = Some x"
  by (simp add: field_def member_of_def read_put)

lemma optional_put:
  assumes "map_of members name = Some (json_option put v)" "\<forall>x\<in>set_option v. valid x"
  shows "optional_field read name (JObject members) = Some v"
proof (cases v)
  case (Some x)
  then show ?thesis
    using assms put_not_null [of x] read_put [of x] by (cases "put x") (auto simp: optional_field_def json_option_def)
qed (use assms in \<open>simp add: optional_field_def json_option_def\<close>)

end

interpretation text_json: json_codec JText get_text "\<lambda>_. True"
  by unfold_locales (simp_all add: get_text_def)

interpretation number_json: json_codec JNumber get_number "\<lambda>_. True"
  by unfold_locales (simp_all add: get_number_def)

interpretation truth_json: json_codec JBool get_bool "\<lambda>_. True"
  by unfold_locales (simp_all add: get_bool_def)

interpretation u64_json: json_codec json_u64 get_u64 "\<lambda>_. True"
proof unfold_locales
  show "get_u64 (json_u64 w) = Some w" for w
    using unsigned_less [of w] by (simp add: get_u64_def json_u64_def get_number_def)
qed (simp add: json_u64_def)

interpretation code_json: json_codec json_code get_code well_formed_code
  by unfold_locales (simp_all add: json_code_def get_code_def get_text_def parse_well_formed)

interpretation vip_json: json_codec json_vip get_vip "\<lambda>_. True"
  by unfold_locales (simp_all add: json_vip_def get_vip_def get_text_def parse_ipv4_to_string)

interpretation uuid_json: json_codec "json_uuid u raw" "get_uuid u wrap" "\<lambda>x. ut_read u (ut_show u (raw x)) = Some (raw x) \<and> wrap (raw x) = x"
  for u and raw :: "'id \<Rightarrow> uuid" and wrap
  by unfold_locales (simp_all add: json_uuid_def get_uuid_def get_text_def)

subsection \<open>Requests and responses\<close>

definition SLASH :: rchar where "SLASH = 47"

datatype http_method = GET | POST | DELETE

record http_request =
  hq_method :: http_method
  hq_url :: rstring
  hq_authorization :: rstring
  hq_body :: "json option"

record http_response =
  hp_status :: nat
  hp_body :: "json option"

end
