(* ===== verification/Control_Server.thy ===== *)
theory Control_Server
  imports Control_Wire
begin

section \<open>The route table of the server\<close>

text \<open>
  Models \<open>build_router\<close> of \<open>server/src/api.rs\<close> with the request structures the routes extract and the structures they
  answer with: from a method, a path and a JSON body to the handler's request, and from its reply to status
  and JSON. A path parameter matches one non-empty segment; what the web framework answers when no route
  matches or a value cannot be extracted is a parameter, as is the text of an error message.
\<close>

subsection \<open>Routes\<close>

datatype segment = Lit string | Param

datatype route =
    LiveRoute | ReadyRoute | RegisterRoute | LoginRoute | MetricsRoute | RoomsRoute | JoinRoute | ResumeRoute
  | StatusRoute | HostsRoute | HeartbeatRoute | GameplayRoute | DeleteHostRoute | DeletePeerRoute | DeleteRoomRoute

definition build_router :: "(segment list \<times> http_method \<times> route) list" where
  "build_router = [
     ([Lit ''health'', Lit ''live''], GET, LiveRoute),
     ([Lit ''health'', Lit ''ready''], GET, ReadyRoute),
     ([Lit ''v1'', Lit ''auth'', Lit ''register''], POST, RegisterRoute),
     ([Lit ''v1'', Lit ''auth'', Lit ''login''], POST, LoginRoute),
     ([Lit ''v1'', Lit ''test'', Lit ''metrics''], GET, MetricsRoute),
     ([Lit ''v1'', Lit ''rooms''], POST, RoomsRoute),
     ([Lit ''v1'', Lit ''rooms'', Param, Lit ''join''], POST, JoinRoute),
     ([Lit ''v1'', Lit ''rooms'', Param, Lit ''resume''], POST, ResumeRoute),
     ([Lit ''v1'', Lit ''rooms'', Param, Lit ''status''], GET, StatusRoute),
     ([Lit ''v1'', Lit ''rooms'', Param, Lit ''hosts''], POST, HostsRoute),
     ([Lit ''v1'', Lit ''rooms'', Param, Lit ''heartbeat''], POST, HeartbeatRoute),
     ([Lit ''v1'', Lit ''rooms'', Param, Lit ''gameplay-sessions''], POST, GameplayRoute),
     ([Lit ''v1'', Lit ''rooms'', Param, Lit ''hosts'', Param], DELETE, DeleteHostRoute),
     ([Lit ''v1'', Lit ''rooms'', Param, Lit ''peers'', Param], DELETE, DeletePeerRoute),
     ([Lit ''v1'', Lit ''rooms'', Param], DELETE, DeleteRoomRoute)]"

text \<open>The segments of a path after its leading slash.\<close>

primrec split_path :: "rstring \<Rightarrow> rstring list" where
  "split_path [] = [[]]"
| "split_path (c # cs) =
     (if c = SLASH then [] # split_path cs
      else case split_path cs of [] \<Rightarrow> [[c]] | s # rest \<Rightarrow> (c # s) # rest)"

fun match_segments :: "segment list \<Rightarrow> rstring list \<Rightarrow> rstring list option" where
  "match_segments [] [] = Some []"
| "match_segments (Lit s # ps) (x # xs) = (if x = rstr s then match_segments ps xs else None)"
| "match_segments (Param # ps) (x # xs) = (if x = [] then None else map_option ((#) x) (match_segments ps xs))"
| "match_segments _ _ = None"

fun find_route :: "(segment list \<times> http_method \<times> route) list \<Rightarrow> http_method \<Rightarrow> rstring list \<Rightarrow> (route \<times> rstring list) option" where
  "find_route [] m segments = None"
| "find_route ((pattern, m', r) # rows) m segments =
     (case match_segments pattern segments of
        Some params \<Rightarrow> if m' = m then Some (r, params) else find_route rows m segments
      | None \<Rightarrow> find_route rows m segments)"

subsection \<open>What the routes extract\<close>

definition get_auth_request :: "json \<Rightarrow> auth_request option" where
  "get_auth_request j =
     Option.bind (field get_text ''username'' j) (\<lambda>username.
     Option.bind (field get_text ''password'' j) (\<lambda>password.
       Some \<lparr>ar_username = username, ar_password = password\<rparr>))"

definition get_create_request :: "json \<Rightarrow> room_code option option" where
  "get_create_request j = optional_field get_code ''room_code'' j"

definition get_join_request :: "uuid_text \<Rightarrow> json \<Rightarrow> join_request option" where
  "get_join_request u j =
     Option.bind (optional_field (get_uuid u PeerId) ''peer_id'' j) (\<lambda>p.
     Option.bind (optional_field get_text ''wireguard_public_key'' j) (\<lambda>key.
     Option.bind (optional_field get_vip ''requested_virtual_ip'' j) (\<lambda>ip.
       Some \<lparr>jr_peer_id = p, jr_wireguard_public_key = key, jr_requested_virtual_ip = ip\<rparr>)))"

definition get_register_host_request :: "uuid_text \<Rightarrow> json \<Rightarrow> peer_id option" where
  "get_register_host_request u j = field (get_uuid u PeerId) ''peer_id'' j"

definition get_heartbeat_request :: "uuid_text \<Rightarrow> json \<Rightarrow> heartbeat_request option" where
  "get_heartbeat_request u j =
     Option.bind (field (get_uuid u PeerId) ''peer_id'' j) (\<lambda>p.
     Option.bind (field (get_uuid u HostSessionId) ''host_session_id'' j) (\<lambda>h.
       Some \<lparr>hr_peer_id = p, hr_host_session_id = h\<rparr>))"

definition get_gameplay_request :: "uuid_text \<Rightarrow> json \<Rightarrow> gameplay_request option" where
  "get_gameplay_request u j =
     Option.bind (field (get_uuid u PeerId) ''client_peer_id'' j) (\<lambda>p.
     Option.bind (field (get_uuid u HostSessionId) ''host_session_id'' j) (\<lambda>h.
       Some \<lparr>gr_client_peer_id = p, gr_host_session_id = h\<rparr>))"

definition one_param :: "rstring list \<Rightarrow> (rstring \<Rightarrow> 'a option) \<Rightarrow> 'a option" where
  "one_param params f = (case params of [x] \<Rightarrow> f x | _ \<Rightarrow> None)"

definition two_params :: "rstring list \<Rightarrow> (rstring \<Rightarrow> rstring \<Rightarrow> 'a option) \<Rightarrow> 'a option" where
  "two_params params f = (case params of [x, y] \<Rightarrow> f x y | _ \<Rightarrow> None)"

text \<open>The extractors in each handler's signature: path parameters, and a JSON body where there is one.\<close>

definition extract_request :: "uuid_text \<Rightarrow> auth_env \<Rightarrow> route \<Rightarrow> rstring list \<Rightarrow> json option \<Rightarrow> api_request option" where
  "extract_request u ae r params body =
     (case r of
        LiveRoute \<Rightarrow> Some GetLive
      | ReadyRoute \<Rightarrow> Some GetReady
      | RegisterRoute \<Rightarrow> map_option (PostRegister ae) (Option.bind body get_auth_request)
      | LoginRoute \<Rightarrow> map_option (PostLogin ae) (Option.bind body get_auth_request)
      | MetricsRoute \<Rightarrow> Some GetMetrics
      | RoomsRoute \<Rightarrow> map_option PostRoom (Option.bind body get_create_request)
      | JoinRoute \<Rightarrow> one_param params (\<lambda>code. map_option (PostJoin code) (Option.bind body (get_join_request u)))
      | ResumeRoute \<Rightarrow> one_param params (\<lambda>code. map_option (PostResume code) (Option.bind body (get_join_request u)))
      | StatusRoute \<Rightarrow> one_param params (\<lambda>code. Some (GetStatus code))
      | HostsRoute \<Rightarrow> one_param params (\<lambda>code. map_option (PostHost code) (Option.bind body (get_register_host_request u)))
      | HeartbeatRoute \<Rightarrow>
          one_param params (\<lambda>code. map_option (PostHeartbeat code) (Option.bind body (get_heartbeat_request u)))
      | GameplayRoute \<Rightarrow>
          one_param params (\<lambda>code. map_option (PostGameplay code) (Option.bind body (get_gameplay_request u)))
      | DeleteHostRoute \<Rightarrow>
          two_params params (\<lambda>code h. map_option (\<lambda>x. DeleteHost code (HostSessionId x)) (ut_read u h))
      | DeletePeerRoute \<Rightarrow> two_params params (\<lambda>code p. map_option (\<lambda>x. DeletePeer code (PeerId x)) (ut_read u p))
      | DeleteRoomRoute \<Rightarrow> one_param params (\<lambda>code. Some (DeleteRoom code)))"

definition route_request :: "uuid_text \<Rightarrow> auth_env \<Rightarrow> http_method \<Rightarrow> rstring \<Rightarrow> json option \<Rightarrow> api_request option" where
  "route_request u ae m path body =
     (case path of
        [] \<Rightarrow> None
      | c # rest \<Rightarrow>
          if c = SLASH
          then Option.bind (find_route build_router m (split_path rest)) (\<lambda>(r, params). extract_request u ae r params body)
          else None)"

subsection \<open>What the routes answer\<close>

definition json_health :: "health_response \<Rightarrow> json" where
  "json_health r = JObject [(''status'', JText (rstr (health_status r))),
     (''database_configured'', JBool (health_database_configured r))]"

definition json_auth :: "auth_response \<Rightarrow> json" where
  "json_auth r = JObject [(''username'', JText (as_username r)), (''access_token'', JText (as_access_token r)),
     (''expires_in_seconds'', JNumber (as_expires_in_seconds r))]"

definition json_room :: "uuid_text \<Rightarrow> room_response \<Rightarrow> json" where
  "json_room u r = JObject [(''room_id'', json_uuid u room_uuid (ro_room_id r)), (''room_code'', json_code (ro_room_code r)),
     (''member_count'', JNumber (ro_member_count r)), (''host_count'', JNumber (ro_host_count r))]"

definition json_peer :: "uuid_text \<Rightarrow> peer_response \<Rightarrow> json" where
  "json_peer u r = JObject [(''room_id'', json_uuid u room_uuid (pe_room_id r)), (''peer_id'', json_uuid u peer_uuid (pe_peer_id r)),
     (''virtual_ip'', json_vip (pe_virtual_ip r)), (''connection_epoch'', json_u64 (pe_connection_epoch r))]"

definition json_host :: "uuid_text \<Rightarrow> host_response \<Rightarrow> json" where
  "json_host u r = JObject [(''room_id'', json_uuid u room_uuid (ho_room_id r)),
     (''host_session_id'', json_uuid u host_uuid (ho_host_session_id r)), (''peer_id'', json_uuid u peer_uuid (ho_peer_id r)),
     (''virtual_ip'', json_vip (ho_virtual_ip r)), (''expires_in_seconds'', JNumber (ho_expires_in_seconds r))]"

definition json_gameplay :: "uuid_text \<Rightarrow> gameplay_response \<Rightarrow> json" where
  "json_gameplay u r = JObject [(''gameplay_session_id'', json_uuid u gameplay_uuid (ga_session_id r)),
     (''room_id'', json_uuid u room_uuid (ga_room_id r)), (''client_peer_id'', json_uuid u peer_uuid (ga_client_peer_id r)),
     (''host_peer_id'', json_uuid u peer_uuid (ga_host_peer_id r)), (''client_virtual_ip'', json_vip (ga_client_virtual_ip r)),
     (''host_virtual_ip'', json_vip (ga_host_virtual_ip r))]"

definition json_metrics :: "relay_metrics_snapshot \<Rightarrow> json" where
  "json_metrics m = JObject [
     (''sent_packets'', json_u64 (snap_sent_packets m)),
     (''received_packets'', json_u64 (snap_received_packets m)),
     (''dropped_packets'', json_u64 (snap_dropped_packets m)),
     (''duplicated_packets'', json_u64 (snap_duplicated_packets m)),
     (''reordered_packets'', json_u64 (snap_reordered_packets m)),
     (''sequence_duplicates'', json_u64 (snap_sequence_duplicates m)),
     (''rate_limited_packets'', json_u64 (snap_rate_limited_packets m)),
     (''oversized_packets'', json_u64 (snap_oversized_packets m)),
     (''probe_successes'', json_u64 (snap_probe_successes m)),
     (''probe_failures'', json_u64 (snap_probe_failures m)),
     (''last_probe_at_ms'', json_u64 (snap_last_probe_at_ms m)),
     (''bytes_in'', json_u64 (snap_bytes_in m)),
     (''bytes_out'', json_u64 (snap_bytes_out m)),
     (''active_peers'', JNumber (snap_active_peers m)),
     (''suspended_peers'', JNumber (snap_suspended_peers m)),
     (''active_rooms'', JNumber (snap_active_rooms m)),
     (''active_hosts'', JNumber (snap_active_hosts m)),
     (''active_gameplay_sessions'', JNumber (snap_active_gameplay_sessions m)),
     (''authentication_failures'', json_u64 (snap_authentication_failures m))]"

definition json_error :: "(api_message \<Rightarrow> rstring) \<Rightarrow> error_response \<Rightarrow> json" where
  "json_error render e = JObject [(''error'', JText (rstr (err_error e))), (''message'', JText (render (err_message e)))]"

fun json_body :: "uuid_text \<Rightarrow> (api_message \<Rightarrow> rstring) \<Rightarrow> api_body \<Rightarrow> json option" where
  "json_body u render (HealthBody r) = Some (json_health r)"
| "json_body u render (AuthBody r) = Some (json_auth r)"
| "json_body u render (MetricsBody m) = Some (json_metrics m)"
| "json_body u render (RoomBody r) = Some (json_room u r)"
| "json_body u render (PeerBody r) = Some (json_peer u r)"
| "json_body u render (HostBody r) = Some (json_host u r)"
| "json_body u render (GameplayBody r) = Some (json_gameplay u r)"
| "json_body u render EmptyBody = None"
| "json_body u render (ErrorBody e) = Some (json_error render e)"

text \<open>
  One request at the server's base URL, from its bytes' meaning to the reply; \<open>None\<close> is no reply, when the
  handler panics or the URL is not the server's.
\<close>

record http_env =
  he_uuid :: uuid_text
  he_base :: rstring
  he_auth :: auth_env
  he_render :: "api_message \<Rightarrow> rstring"
  he_reject :: "http_request \<Rightarrow> http_response"

definition http_serve :: "http_env \<Rightarrow> env \<Rightarrow> http_request \<Rightarrow> world \<Rightarrow> http_response option \<times> world" where
  "http_serve he env q w =
     (case strip_prefix (he_base he) (hq_url q) of
        None \<Rightarrow> (None, w)
      | Some path \<Rightarrow>
          (case route_request (he_uuid he) (he_auth he) (hq_method q) path (hq_body q) of
             None \<Rightarrow> (Some (he_reject he q), w)
           | Some api \<Rightarrow>
               (case serve (env\<lparr>e_authorization := Some (hq_authorization q)\<rparr>) api w of
                  (answer, w) \<Rightarrow>
                    (map_option (\<lambda>(status, body). \<lparr>hp_status = status, hp_body = json_body (he_uuid he) (he_render he) body\<rparr>)
                       answer, w))))"

end
