(* ===== verification/Client_Control.thy ===== *)
theory Client_Control
  imports Control_Wire Client_Session
begin

section \<open>The control client\<close>

text \<open>
  Models \<open>ClientConfig\<close> and \<open>ControlClient\<close> of \<open>crates/client-core/src/lib.rs\<close>: one definition per method, from its
  arguments to the result, over \<open>reqwest\<close> as an argument that maps a request to the response or to nothing,
  when the request failed; and the structures the responses are read into.
\<close>

subsection \<open>Configuration\<close>

record client_config =
  cc_control_url :: rstring
  cc_bearer_token :: rstring
  cc_relay_server :: socket_addr
  cc_relay_port :: u16

definition CLIENT_RELAY_PORT :: u16 where "CLIENT_RELAY_PORT = 32000"

text \<open>The \<open>while ends_with('/')\<close> loop, on the reversed string.\<close>

primrec pop_slashes :: "rstring \<Rightarrow> rstring" where
  "pop_slashes [] = []"
| "pop_slashes (c # cs) = (if c = SLASH then pop_slashes cs else c # cs)"

definition normalize_control_url :: "client_config \<Rightarrow> client_config" where
  "normalize_control_url c = c\<lparr>cc_control_url := rev (pop_slashes (rev (cc_control_url c)))\<rparr>"

definition relay_addr :: "client_config \<Rightarrow> socket_addr" where
  "relay_addr c = SocketAddr (sa_ip (cc_relay_server c)) (cc_relay_port c)"

subsection \<open>Requests\<close>

type_synonym http = "http_request \<Rightarrow> http_response option"

text \<open>\<open>ControlClient::new\<close> keeps the normalized configuration.\<close>

definition control_new :: "client_config \<Rightarrow> client_config" where
  "control_new c = normalize_control_url c"

definition build_request :: "client_config \<Rightarrow> http_method \<Rightarrow> rstring \<Rightarrow> json option \<Rightarrow> http_request" where
  "build_request c m path body = \<lparr>hq_method = m, hq_url = cc_control_url c @ path,
     hq_authorization = rstr ''Bearer '' @ cc_bearer_token c, hq_body = body\<rparr>"

definition is_success :: "nat \<Rightarrow> bool" where
  "is_success status \<longleftrightarrow> 200 \<le> status \<and> status < 300"

definition failure_of :: "http_response \<Rightarrow> 'io client_error" where
  "failure_of p = HttpStatus (hp_status p)
     (case Option.bind (hp_body p) (field get_text ''message'') of
        Some message \<Rightarrow> message
      | None \<Rightarrow> rstr ''control request failed'')"

text \<open>\<open>request\<close> and \<open>control_request_empty\<close>.\<close>

definition control_request :: "http \<Rightarrow> client_config \<Rightarrow> (json \<Rightarrow> 'a option) \<Rightarrow> http_method \<Rightarrow> rstring \<Rightarrow> json \<Rightarrow> ('a, 'io client_error) result" where
  "control_request http c read m path body =
     (case http (build_request c m path (Some body)) of
        None \<Rightarrow> Err HttpFailed
      | Some p \<Rightarrow>
          if \<not> is_success (hp_status p) then Err (failure_of p)
          else ok_or HttpFailed (Option.bind (hp_body p) read))"

definition control_request_empty :: "http \<Rightarrow> client_config \<Rightarrow> http_method \<Rightarrow> rstring \<Rightarrow> (unit, 'io client_error) result" where
  "control_request_empty http c m path =
     (case http (build_request c m path None) of
        None \<Rightarrow> Err HttpFailed
      | Some p \<Rightarrow> if \<not> is_success (hp_status p) then Err (failure_of p) else Ok ())"

subsection \<open>Responses\<close>

record client_health =
  cl_status :: rstring
  cl_database_configured :: bool

definition get_health :: "json \<Rightarrow> client_health option" where
  "get_health j =
     Option.bind (field get_text ''status'' j) (\<lambda>status.
     Option.bind (field get_bool ''database_configured'' j) (\<lambda>configured.
       Some \<lparr>cl_status = status, cl_database_configured = configured\<rparr>))"

record client_auth =
  cl_username :: rstring
  cl_access_token :: rstring
  cl_expires_in_seconds :: nat

definition get_auth :: "json \<Rightarrow> client_auth option" where
  "get_auth j =
     Option.bind (field get_text ''username'' j) (\<lambda>username.
     Option.bind (field get_text ''access_token'' j) (\<lambda>token.
     Option.bind (field get_number ''expires_in_seconds'' j) (\<lambda>expires.
       Some \<lparr>cl_username = username, cl_access_token = token, cl_expires_in_seconds = expires\<rparr>)))"

record client_room =
  cl_room_id :: room_id
  cl_room_code :: room_code
  cl_member_count :: nat
  cl_host_count :: nat

definition get_room :: "uuid_text \<Rightarrow> json \<Rightarrow> client_room option" where
  "get_room u j =
     Option.bind (field (get_uuid u RoomId) ''room_id'' j) (\<lambda>room_id.
     Option.bind (field get_code ''room_code'' j) (\<lambda>code.
     Option.bind (field get_number ''member_count'' j) (\<lambda>members.
     Option.bind (field get_number ''host_count'' j) (\<lambda>hosts.
       Some \<lparr>cl_room_id = room_id, cl_room_code = code, cl_member_count = members, cl_host_count = hosts\<rparr>))))"

record client_peer =
  cl_peer_room_id :: room_id
  cl_peer_id :: peer_id
  cl_virtual_ip :: virtual_ip
  cl_connection_epoch :: u64

definition get_peer :: "uuid_text \<Rightarrow> json \<Rightarrow> client_peer option" where
  "get_peer u j =
     Option.bind (field (get_uuid u RoomId) ''room_id'' j) (\<lambda>room_id.
     Option.bind (field (get_uuid u PeerId) ''peer_id'' j) (\<lambda>p.
     Option.bind (field get_vip ''virtual_ip'' j) (\<lambda>ip.
     Option.bind (field get_u64 ''connection_epoch'' j) (\<lambda>connection_epoch.
       Some \<lparr>cl_peer_room_id = room_id, cl_peer_id = p, cl_virtual_ip = ip, cl_connection_epoch = connection_epoch\<rparr>))))"

record client_host =
  cl_host_room_id :: room_id
  cl_host_session_id :: host_session_id
  cl_host_peer_id :: peer_id
  cl_host_virtual_ip :: virtual_ip
  cl_host_expires_in_seconds :: nat

definition get_host :: "uuid_text \<Rightarrow> json \<Rightarrow> client_host option" where
  "get_host u j =
     Option.bind (field (get_uuid u RoomId) ''room_id'' j) (\<lambda>room_id.
     Option.bind (field (get_uuid u HostSessionId) ''host_session_id'' j) (\<lambda>h.
     Option.bind (field (get_uuid u PeerId) ''peer_id'' j) (\<lambda>p.
     Option.bind (field get_vip ''virtual_ip'' j) (\<lambda>ip.
     Option.bind (field get_number ''expires_in_seconds'' j) (\<lambda>expires.
       Some \<lparr>cl_host_room_id = room_id, cl_host_session_id = h, cl_host_peer_id = p, cl_host_virtual_ip = ip,
             cl_host_expires_in_seconds = expires\<rparr>)))))"

record client_gameplay =
  cl_gameplay_session_id :: gameplay_session_id
  cl_gameplay_room_id :: room_id
  cl_gameplay_client_peer_id :: peer_id
  cl_gameplay_host_peer_id :: peer_id
  cl_gameplay_client_virtual_ip :: virtual_ip
  cl_gameplay_host_virtual_ip :: virtual_ip

definition get_gameplay :: "uuid_text \<Rightarrow> json \<Rightarrow> client_gameplay option" where
  "get_gameplay u j =
     Option.bind (field (get_uuid u GameplaySessionId) ''gameplay_session_id'' j) (\<lambda>g.
     Option.bind (field (get_uuid u RoomId) ''room_id'' j) (\<lambda>room_id.
     Option.bind (field (get_uuid u PeerId) ''client_peer_id'' j) (\<lambda>client.
     Option.bind (field (get_uuid u PeerId) ''host_peer_id'' j) (\<lambda>host.
     Option.bind (field get_vip ''client_virtual_ip'' j) (\<lambda>client_ip.
     Option.bind (field get_vip ''host_virtual_ip'' j) (\<lambda>host_ip.
       Some \<lparr>cl_gameplay_session_id = g, cl_gameplay_room_id = room_id, cl_gameplay_client_peer_id = client,
             cl_gameplay_host_peer_id = host, cl_gameplay_client_virtual_ip = client_ip,
             cl_gameplay_host_virtual_ip = host_ip\<rparr>))))))"

text \<open>The client's \<open>RelayMetricsResponse\<close> declares the fields of the server's snapshot, so one record stands for both.\<close>

definition get_metrics :: "json \<Rightarrow> relay_metrics_snapshot option" where
  "get_metrics j =
     Option.bind (field get_u64 ''sent_packets'' j) (\<lambda>v0.
     Option.bind (field get_u64 ''received_packets'' j) (\<lambda>v1.
     Option.bind (field get_u64 ''dropped_packets'' j) (\<lambda>v2.
     Option.bind (field get_u64 ''duplicated_packets'' j) (\<lambda>v3.
     Option.bind (field get_u64 ''reordered_packets'' j) (\<lambda>v4.
     Option.bind (field get_u64 ''sequence_duplicates'' j) (\<lambda>v5.
     Option.bind (field get_u64 ''rate_limited_packets'' j) (\<lambda>v6.
     Option.bind (field get_u64 ''oversized_packets'' j) (\<lambda>v7.
     Option.bind (field get_u64 ''probe_successes'' j) (\<lambda>v8.
     Option.bind (field get_u64 ''probe_failures'' j) (\<lambda>v9.
     Option.bind (field get_u64 ''last_probe_at_ms'' j) (\<lambda>v10.
     Option.bind (field get_u64 ''bytes_in'' j) (\<lambda>v11.
     Option.bind (field get_u64 ''bytes_out'' j) (\<lambda>v12.
     Option.bind (field get_number ''active_peers'' j) (\<lambda>v13.
     Option.bind (field get_number ''suspended_peers'' j) (\<lambda>v14.
     Option.bind (field get_number ''active_rooms'' j) (\<lambda>v15.
     Option.bind (field get_number ''active_hosts'' j) (\<lambda>v16.
     Option.bind (field get_number ''active_gameplay_sessions'' j) (\<lambda>v17.
     Option.bind (field get_u64 ''authentication_failures'' j) (\<lambda>v18.
       Some \<lparr>snap_sent_packets = v0, snap_received_packets = v1, snap_dropped_packets = v2,
         snap_duplicated_packets = v3, snap_reordered_packets = v4, snap_sequence_duplicates = v5,
         snap_rate_limited_packets = v6, snap_oversized_packets = v7, snap_probe_successes = v8,
         snap_probe_failures = v9, snap_last_probe_at_ms = v10, snap_bytes_in = v11,
         snap_bytes_out = v12, snap_active_peers = v13, snap_suspended_peers = v14,
         snap_active_rooms = v15, snap_active_hosts = v16, snap_active_gameplay_sessions = v17,
         snap_authentication_failures = v18\<rparr>)))))))))))))))))))"

subsection \<open>The methods\<close>

definition room_path :: "room_code \<Rightarrow> rstring \<Rightarrow> rstring" where
  "room_path code rest = rstr ''/v1/rooms/'' @ code_str code @ rest"

definition control_health_live :: "http \<Rightarrow> client_config \<Rightarrow> (client_health, 'io client_error) result" where
  "control_health_live http c = control_request http c get_health GET (rstr ''/health/live'') JNull"

definition control_register_user ::
  "http \<Rightarrow> client_config \<Rightarrow> rstring \<Rightarrow> rstring \<Rightarrow> (client_auth, 'io client_error) result" where
  "control_register_user http c username password =
     control_request http c get_auth POST (rstr ''/v1/auth/register'')
       (JObject [(''username'', JText username), (''password'', JText password)])"

definition control_login_user ::
  "http \<Rightarrow> client_config \<Rightarrow> rstring \<Rightarrow> rstring \<Rightarrow> (client_auth, 'io client_error) result" where
  "control_login_user http c username password =
     control_request http c get_auth POST (rstr ''/v1/auth/login'')
       (JObject [(''username'', JText username), (''password'', JText password)])"

definition control_create_room ::
  "uuid_text \<Rightarrow> http \<Rightarrow> client_config \<Rightarrow> room_code option \<Rightarrow> (client_room, 'io client_error) result" where
  "control_create_room u http c code =
     control_request http c (get_room u) POST (rstr ''/v1/rooms'') (JObject [(''room_code'', json_option json_code code)])"

definition control_join_room_with_virtual_ip ::
  "uuid_text \<Rightarrow> http \<Rightarrow> client_config \<Rightarrow> room_code \<Rightarrow> peer_id option \<Rightarrow> rstring option \<Rightarrow> virtual_ip option \<Rightarrow>
   (client_peer, 'io client_error) result" where
  "control_join_room_with_virtual_ip u http c code p key ip =
     control_request http c (get_peer u) POST (room_path code (rstr ''/join''))
       (JObject [(''peer_id'', json_option (json_uuid u peer_uuid) p), (''wireguard_public_key'', json_option JText key),
          (''requested_virtual_ip'', json_option json_vip ip)])"

definition control_join_room ::
  "uuid_text \<Rightarrow> http \<Rightarrow> client_config \<Rightarrow> room_code \<Rightarrow> peer_id option \<Rightarrow> rstring option \<Rightarrow> (client_peer, 'io client_error) result"
where
  "control_join_room u http c code p key = control_join_room_with_virtual_ip u http c code p key None"

definition control_resume_room ::
  "uuid_text \<Rightarrow> http \<Rightarrow> client_config \<Rightarrow> room_code \<Rightarrow> peer_id \<Rightarrow> (client_peer, 'io client_error) result" where
  "control_resume_room u http c code p =
     control_request http c (get_peer u) POST (room_path code (rstr ''/resume'')) (JObject [(''peer_id'', json_uuid u peer_uuid p)])"

definition control_register_host ::
  "uuid_text \<Rightarrow> http \<Rightarrow> client_config \<Rightarrow> room_code \<Rightarrow> peer_id \<Rightarrow> (client_host, 'io client_error) result" where
  "control_register_host u http c code p =
     control_request http c (get_host u) POST (room_path code (rstr ''/hosts'')) (JObject [(''peer_id'', json_uuid u peer_uuid p)])"

definition control_heartbeat_host ::
  "uuid_text \<Rightarrow> http \<Rightarrow> client_config \<Rightarrow> room_code \<Rightarrow> peer_id \<Rightarrow> host_session_id \<Rightarrow> (client_host, 'io client_error) result"
where
  "control_heartbeat_host u http c code p h =
     control_request http c (get_host u) POST (room_path code (rstr ''/heartbeat''))
       (JObject [(''peer_id'', json_uuid u peer_uuid p), (''host_session_id'', json_uuid u host_uuid h)])"

definition control_create_gameplay_session ::
  "uuid_text \<Rightarrow> http \<Rightarrow> client_config \<Rightarrow> room_code \<Rightarrow> peer_id \<Rightarrow> host_session_id \<Rightarrow> (client_gameplay, 'io client_error) result"
where
  "control_create_gameplay_session u http c code p h =
     control_request http c (get_gameplay u) POST (room_path code (rstr ''/gameplay-sessions''))
       (JObject [(''client_peer_id'', json_uuid u peer_uuid p), (''host_session_id'', json_uuid u host_uuid h)])"

definition control_room_status ::
  "uuid_text \<Rightarrow> http \<Rightarrow> client_config \<Rightarrow> room_code \<Rightarrow> (client_room, 'io client_error) result" where
  "control_room_status u http c code = control_request http c (get_room u) GET (room_path code (rstr ''/status'')) JNull"

definition control_relay_metrics :: "http \<Rightarrow> client_config \<Rightarrow> (relay_metrics_snapshot, 'io client_error) result" where
  "control_relay_metrics http c = control_request http c get_metrics GET (rstr ''/v1/test/metrics'') JNull"

definition control_delete_host ::
  "uuid_text \<Rightarrow> http \<Rightarrow> client_config \<Rightarrow> room_code \<Rightarrow> host_session_id \<Rightarrow> (unit, 'io client_error) result" where
  "control_delete_host u http c code h =
     control_request_empty http c DELETE (room_path code (rstr ''/hosts/'' @ ut_show u (host_uuid h)))"

definition control_delete_peer ::
  "uuid_text \<Rightarrow> http \<Rightarrow> client_config \<Rightarrow> room_code \<Rightarrow> peer_id \<Rightarrow> (unit, 'io client_error) result" where
  "control_delete_peer u http c code p =
     control_request_empty http c DELETE (room_path code (rstr ''/peers/'' @ ut_show u (peer_uuid p)))"

definition control_delete_room :: "http \<Rightarrow> client_config \<Rightarrow> room_code \<Rightarrow> (unit, 'io client_error) result" where
  "control_delete_room http c code = control_request_empty http c DELETE (room_path code [])"

end
