(* ===== verification/Control_Interop.thy ===== *)
theory Control_Interop
  imports Control_Server Client_Control Api_Rooms
begin

section \<open>The control client and the server agree\<close>

text \<open>
  Every method of \<open>ControlClient\<close> reaches the handler it is meant for with its arguments intact, and reads back what
  the handler answered: paths and route patterns, member names and types of the two crates' structures fit.
\<close>

subsection \<open>Paths\<close>

lemma split_path_plain: "SLASH \<notin> set s \<Longrightarrow> split_path s = [s]"
  by (induction s) auto

lemma split_path_segment: "SLASH \<notin> set s \<Longrightarrow> split_path (s @ SLASH # rest) = s # split_path rest"
  by (induction s) auto

text \<open>A path built from literal segments and parameters.\<close>

fun render_path :: "rstring list \<Rightarrow> rstring" where
  "render_path [] = []"
| "render_path (s # rest) = SLASH # s @ render_path rest"

lemma split_render:
  assumes "\<forall>s\<in>set (s # rest). SLASH \<notin> set s"
  shows "split_path (s @ render_path rest) = s # rest"
  using assms
proof (induction rest arbitrary: s)
  case (Cons t rest)
  then show ?case by (simp add: split_path_segment)
qed (simp add: split_path_plain)

lemma rstr_inject [simp]: "rstr s = rstr t \<longleftrightarrow> s = t"
  by (simp add: rstr_def inj_map_eq_map inj_of_char)

lemma slash_rstr: "SLASH \<in> set (rstr s) \<longleftrightarrow> CHR ''/'' \<in> set s"
proof -
  have slash: "SLASH = of_char CHR ''/''" by (simp add: SLASH_def)
  show ?thesis unfolding slash rstr_def by (auto simp del: of_char_Char)
qed

lemma code_plain:
  assumes "well_formed_code code"
  shows "SLASH \<notin> set (code_str code)" "code_str code \<noteq> []"
proof -
  have "SLASH \<notin> set room_alphabet" by (simp add: room_alphabet_def slash_rstr)
  then show "SLASH \<notin> set (code_str code)" "code_str code \<noteq> []"
    using assms by (auto simp: well_formed_code_def CODE_MIN_LEN_def)
qed

text \<open>What is relied on of a UUID's text: it is read back, and it is a path segment.\<close>

definition uuid_text_ok :: "uuid_text \<Rightarrow> bool" where
  "uuid_text_ok u \<longleftrightarrow> (\<forall>x. ut_read u (ut_show u x) = Some x \<and> SLASH \<notin> set (ut_show u x) \<and> ut_show u x \<noteq> [])"

lemma route_render:
  assumes "\<forall>s\<in>set (s # rest). SLASH \<notin> set s"
  shows "route_request u ae m (render_path (s # rest)) body =
    Option.bind (find_route build_router m (s # rest)) (\<lambda>(r, params). extract_request u ae r params body)"
  using split_render [OF assms] by (simp add: route_request_def)

lemma fixed_paths:
  "rstr ''/health/live'' = render_path [rstr ''health'', rstr ''live'']"
  "rstr ''/v1/auth/register'' = render_path [rstr ''v1'', rstr ''auth'', rstr ''register'']"
  "rstr ''/v1/auth/login'' = render_path [rstr ''v1'', rstr ''auth'', rstr ''login'']"
  "rstr ''/v1/test/metrics'' = render_path [rstr ''v1'', rstr ''test'', rstr ''metrics'']"
  "rstr ''/v1/rooms'' = render_path [rstr ''v1'', rstr ''rooms'']"
  by (simp_all add: rstr_def SLASH_def)

lemma room_paths:
  "room_path code [] = render_path [rstr ''v1'', rstr ''rooms'', code_str code]"
  "room_path code (rstr ''/join'') = render_path [rstr ''v1'', rstr ''rooms'', code_str code, rstr ''join'']"
  "room_path code (rstr ''/resume'') = render_path [rstr ''v1'', rstr ''rooms'', code_str code, rstr ''resume'']"
  "room_path code (rstr ''/status'') = render_path [rstr ''v1'', rstr ''rooms'', code_str code, rstr ''status'']"
  "room_path code (rstr ''/hosts'') = render_path [rstr ''v1'', rstr ''rooms'', code_str code, rstr ''hosts'']"
  "room_path code (rstr ''/heartbeat'') = render_path [rstr ''v1'', rstr ''rooms'', code_str code, rstr ''heartbeat'']"
  "room_path code (rstr ''/gameplay-sessions'') = render_path [rstr ''v1'', rstr ''rooms'', code_str code, rstr ''gameplay-sessions'']"
  "room_path code (rstr ''/hosts/'' @ x) = render_path [rstr ''v1'', rstr ''rooms'', code_str code, rstr ''hosts'', x]"
  "room_path code (rstr ''/peers/'' @ x) = render_path [rstr ''v1'', rstr ''rooms'', code_str code, rstr ''peers'', x]"
  by (simp_all add: rstr_def SLASH_def room_path_def)

lemmas route_eval = route_render slash_rstr build_router_def one_param_def two_params_def extract_request_def

lemma fixed_routes:
  "route_request u ae GET (rstr ''/health/live'') body = Some GetLive"
  "route_request u ae POST (rstr ''/v1/auth/register'') body = map_option (PostRegister ae) (Option.bind body get_auth_request)"
  "route_request u ae POST (rstr ''/v1/auth/login'') body = map_option (PostLogin ae) (Option.bind body get_auth_request)"
  "route_request u ae GET (rstr ''/v1/test/metrics'') body = Some GetMetrics"
  "route_request u ae POST (rstr ''/v1/rooms'') body = map_option PostRoom (Option.bind body get_create_request)"
  unfolding fixed_paths by (simp_all add: route_eval del: render_path.simps)

lemma room_routes:
  assumes "well_formed_code code"
  shows "route_request u ae DELETE (room_path code []) body = Some (DeleteRoom (code_str code))"
    "route_request u ae POST (room_path code (rstr ''/join'')) body =
       map_option (PostJoin (code_str code)) (Option.bind body (get_join_request u))"
    "route_request u ae POST (room_path code (rstr ''/resume'')) body =
       map_option (PostResume (code_str code)) (Option.bind body (get_join_request u))"
    "route_request u ae GET (room_path code (rstr ''/status'')) body = Some (GetStatus (code_str code))"
    "route_request u ae POST (room_path code (rstr ''/hosts'')) body =
       map_option (PostHost (code_str code)) (Option.bind body (get_register_host_request u))"
    "route_request u ae POST (room_path code (rstr ''/heartbeat'')) body =
       map_option (PostHeartbeat (code_str code)) (Option.bind body (get_heartbeat_request u))"
    "route_request u ae POST (room_path code (rstr ''/gameplay-sessions'')) body =
       map_option (PostGameplay (code_str code)) (Option.bind body (get_gameplay_request u))"
  unfolding room_paths using code_plain [OF assms] by (simp_all add: route_eval del: render_path.simps)

lemma delete_routes:
  assumes "well_formed_code code" "uuid_text_ok u"
  shows "route_request u ae DELETE (room_path code (rstr ''/hosts/'' @ ut_show u x)) body =
      Some (DeleteHost (code_str code) (HostSessionId x))"
    "route_request u ae DELETE (room_path code (rstr ''/peers/'' @ ut_show u x)) body = Some (DeletePeer (code_str code) (PeerId x))"
  unfolding room_paths using code_plain [OF assms(1)] assms(2) by (simp_all add: route_eval uuid_text_ok_def del: render_path.simps)

subsection \<open>Values\<close>

lemma uuid_back [simp]:
  assumes "uuid_text_ok u"
  shows "get_uuid u RoomId (json_uuid u room_uuid rid) = Some rid" "get_uuid u PeerId (json_uuid u peer_uuid p) = Some p"
    "get_uuid u HostSessionId (json_uuid u host_uuid h) = Some h"
    "get_uuid u GameplaySessionId (json_uuid u gameplay_uuid g) = Some g"
  using assms by (auto intro!: uuid_json.read_put simp: uuid_text_ok_def)

lemmas field_eval = field_def member_of_def text_json.read_put number_json.read_put truth_json.read_put u64_json.read_put
  code_json.read_put vip_json.read_put

lemma requests_back:
  "get_auth_request (JObject [(''username'', JText username), (''password'', JText password)]) =
     Some \<lparr>ar_username = username, ar_password = password\<rparr>"
  "\<forall>c\<in>set_option code. well_formed_code c \<Longrightarrow> get_create_request (JObject [(''room_code'', json_option json_code code)]) = Some code"
  by (simp add: get_auth_request_def field_eval) (auto simp: get_create_request_def intro!: code_json.optional_put)

lemma id_requests_back:
  assumes u: "uuid_text_ok u"
  shows "get_join_request u (JObject [(''peer_id'', json_option (json_uuid u peer_uuid) p), (''wireguard_public_key'', json_option JText key),
      (''requested_virtual_ip'', json_option json_vip ip)]) =
      Some \<lparr>jr_peer_id = p, jr_wireguard_public_key = key, jr_requested_virtual_ip = ip\<rparr>" (is "?join")
    and "get_join_request u (JObject [(''peer_id'', json_uuid u peer_uuid q)]) =
      Some \<lparr>jr_peer_id = Some q, jr_wireguard_public_key = None, jr_requested_virtual_ip = None\<rparr>" (is "?resume")
    and "get_register_host_request u (JObject [(''peer_id'', json_uuid u peer_uuid q)]) = Some q"
    and "get_heartbeat_request u (JObject [(''peer_id'', json_uuid u peer_uuid q), (''host_session_id'', json_uuid u host_uuid h)]) =
      Some \<lparr>hr_peer_id = q, hr_host_session_id = h\<rparr>"
    and "get_gameplay_request u (JObject [(''client_peer_id'', json_uuid u peer_uuid q), (''host_session_id'', json_uuid u host_uuid h)]) =
      Some \<lparr>gr_client_peer_id = q, gr_host_session_id = h\<rparr>"
proof -
  show ?join
    using u uuid_json.optional_put [of _ "''peer_id''" u peer_uuid p PeerId] text_json.optional_put [of _ "''wireguard_public_key''" key]
      vip_json.optional_put [of _ "''requested_virtual_ip''" ip]
    by (simp add: get_join_request_def uuid_text_ok_def)
  have "optional_field (get_uuid u PeerId) ''peer_id'' (JObject [(''peer_id'', json_option (json_uuid u peer_uuid) (Some q))]) = Some (Some q)"
    using u by (intro uuid_json.optional_put) (auto simp: uuid_text_ok_def)
  then show ?resume by (simp add: get_join_request_def json_option_def) (simp add: optional_field_def)
qed (simp_all add: get_register_host_request_def get_heartbeat_request_def get_gameplay_request_def field_eval u)

text \<open>What the client makes of the server's structures.\<close>

definition view_health :: "health_response \<Rightarrow> client_health" where
  "view_health r = \<lparr>cl_status = rstr (health_status r), cl_database_configured = health_database_configured r\<rparr>"

definition view_auth :: "auth_response \<Rightarrow> client_auth" where
  "view_auth r = \<lparr>cl_username = as_username r, cl_access_token = as_access_token r, cl_expires_in_seconds = as_expires_in_seconds r\<rparr>"

definition view_room :: "room_response \<Rightarrow> client_room" where
  "view_room r = \<lparr>cl_room_id = ro_room_id r, cl_room_code = ro_room_code r, cl_member_count = ro_member_count r,
     cl_host_count = ro_host_count r\<rparr>"

definition view_peer :: "peer_response \<Rightarrow> client_peer" where
  "view_peer r = \<lparr>cl_peer_room_id = pe_room_id r, cl_peer_id = pe_peer_id r, cl_virtual_ip = pe_virtual_ip r,
     cl_connection_epoch = pe_connection_epoch r\<rparr>"

definition view_host :: "host_response \<Rightarrow> client_host" where
  "view_host r = \<lparr>cl_host_room_id = ho_room_id r, cl_host_session_id = ho_host_session_id r, cl_host_peer_id = ho_peer_id r,
     cl_host_virtual_ip = ho_virtual_ip r, cl_host_expires_in_seconds = ho_expires_in_seconds r\<rparr>"

definition view_gameplay :: "gameplay_response \<Rightarrow> client_gameplay" where
  "view_gameplay r = \<lparr>cl_gameplay_session_id = ga_session_id r, cl_gameplay_room_id = ga_room_id r,
     cl_gameplay_client_peer_id = ga_client_peer_id r, cl_gameplay_host_peer_id = ga_host_peer_id r,
     cl_gameplay_client_virtual_ip = ga_client_virtual_ip r, cl_gameplay_host_virtual_ip = ga_host_virtual_ip r\<rparr>"

lemma responses_back:
  "get_health (json_health h) = Some (view_health h)"
  "get_auth (json_auth a) = Some (view_auth a)"
  "get_metrics (json_metrics m) = Some m"
  "uuid_text_ok u \<Longrightarrow> well_formed_code (ro_room_code r) \<Longrightarrow> get_room u (json_room u r) = Some (view_room r)"
  "uuid_text_ok u \<Longrightarrow> get_peer u (json_peer u p) = Some (view_peer p)"
  "uuid_text_ok u \<Longrightarrow> get_host u (json_host u ho) = Some (view_host ho)"
  "uuid_text_ok u \<Longrightarrow> get_gameplay u (json_gameplay u g) = Some (view_gameplay g)"
  by (simp_all add: get_health_def json_health_def view_health_def get_auth_def json_auth_def view_auth_def
      get_metrics_def json_metrics_def get_room_def json_room_def view_room_def get_peer_def json_peer_def view_peer_def
      get_host_def json_host_def view_host_def get_gameplay_def json_gameplay_def view_gameplay_def field_eval)

subsection \<open>Calls\<close>

text \<open>A handler's outcome as the caller of the client sees it.\<close>

fun seen :: "(api_message \<Rightarrow> rstring) \<Rightarrow> ('a \<Rightarrow> 'b) \<Rightarrow> ('a, api_error) result \<Rightarrow> ('b, 'io client_error) result" where
  "seen render view (Ok x) = Ok (view x)"
| "seen render view (Err e) = Err (HttpStatus (fst (status_and_code e)) (render (error_message e)))"
| "seen render view Panic = Err HttpFailed"

definition server_http :: "http_env \<Rightarrow> env \<Rightarrow> world \<Rightarrow> http" where
  "server_http he env w = (\<lambda>q. fst (http_serve he env q w))"

definition authorized :: "client_config \<Rightarrow> env \<Rightarrow> env" where
  "authorized c env = env\<lparr>e_authorization := Some (rstr ''Bearer '' @ cc_bearer_token c)\<rparr>"

lemma error_answer:
  "\<not> is_success (fst (status_and_code e))"
  "failure_of \<lparr>hp_status = s, hp_body = Some (json_error render \<lparr>err_error = x, err_message = m\<rparr>)\<rparr> = HttpStatus s (render m)"
  by (cases e) (simp_all add: is_success_def failure_of_def json_error_def field_eval)

lemma serve_answer:
  assumes "route_request (he_uuid he) (he_auth he) m path body = Some api" "he_base he = cc_control_url c"
  shows "server_http he env w (build_request c m path body) =
    map_option (\<lambda>(status, body). \<lparr>hp_status = status, hp_body = json_body (he_uuid he) (he_render he) body\<rparr>)
      (fst (serve (authorized c env) api w))"
  using assms by (simp add: server_http_def http_serve_def build_request_def authorized_def split: prod.split)

lemma request_seen:
  assumes "route_request (he_uuid he) (he_auth he) m path (Some body) = Some api" "he_base he = cc_control_url c"
    and "serve (authorized c env) api w = reply f h"
    and "\<And>x. fst h = Ok x \<Longrightarrow> is_success (fst (f x)) \<and> Option.bind (json_body (he_uuid he) (he_render he) (snd (f x))) read = Some (view x)"
  shows "control_request (server_http he env w) c read m path body = seen (he_render he) view (fst h)"
proof (cases h)
  case (Pair res w')
  show ?thesis
  proof (cases res)
    case (Ok x)
    obtain status b where "f x = (status, b)" by fastforce
    then show ?thesis
      using assms(3) assms(4) [of x] Pair Ok serve_answer [OF assms(1,2)]
      by (simp add: control_request_def reply_def)
  next
    case (Err e)
    obtain status error where "status_and_code e = (status, error)" by fastforce
    then show ?thesis
      using assms(3) Pair Err serve_answer [OF assms(1,2)] error_answer(1) [of e]
      by (simp add: control_request_def reply_def into_response_def error_answer(2))
  next
    case Panic
    then show ?thesis using assms(3) Pair serve_answer [OF assms(1,2)] by (simp add: control_request_def reply_def)
  qed
qed

lemma request_empty_seen:
  assumes "route_request (he_uuid he) (he_auth he) m path None = Some api" "he_base he = cc_control_url c"
    and "serve (authorized c env) api w = reply f h" "\<And>x. fst h = Ok x \<Longrightarrow> is_success (fst (f x))"
  shows "control_request_empty (server_http he env w) c m path = seen (he_render he) (\<lambda>_. ()) (fst h)"
proof (cases h)
  case (Pair res w')
  show ?thesis
  proof (cases res)
    case (Ok x)
    obtain status b where "f x = (status, b)" by fastforce
    then show ?thesis
      using assms(3) assms(4) [of x] Pair Ok serve_answer [OF assms(1,2)]
      by (simp add: control_request_empty_def reply_def)
  next
    case (Err e)
    obtain status error where "status_and_code e = (status, error)" by fastforce
    then show ?thesis
      using assms(3) Pair Err serve_answer [OF assms(1,2)] error_answer(1) [of e]
      by (simp add: control_request_empty_def reply_def into_response_def error_answer(2))
  next
    case Panic
    then show ?thesis using assms(3) Pair serve_answer [OF assms(1,2)] by (simp add: control_request_empty_def reply_def)
  qed
qed

text \<open>The status of every success.\<close>

definition yields :: "('a \<Rightarrow> bool) \<Rightarrow> ('a, 'e) result \<times> 's \<Rightarrow> bool" where
  "yields P m \<longleftrightarrow> (\<forall>x. fst m = Ok x \<longrightarrow> P x)"

lemma yields_try: "(\<And>x s. yields P (f x s)) \<Longrightarrow> yields P (try_st m f)"
  by (cases m; cases "fst m") (auto simp: yields_def)

lemma yields_bind: "(\<And>x s. m = (Ok x, s) \<Longrightarrow> yields P (f x s)) \<Longrightarrow> yields P (try_st m f)"
  by (cases m; cases "fst m") (auto simp: yields_def)

lemma yields_base: "P x \<Longrightarrow> yields P (Ok x, s)" "yields P (Err e, s)"
  by (simp_all add: yields_def)

lemmas yields_rules = yields_try yields_base

lemma handler_status:
  "yields (\<lambda>x. fst x = 201) (register_user env ae auth w)"
  "yields (\<lambda>x. fst x = 200) (login_user env ae auth w)"
  "yields (\<lambda>x. fst x = 201) (create_room_handler env code w)"
  "yields (\<lambda>x. fst x = 201) (join_room_handler env path join w)"
  "yields (\<lambda>x. fst x = 201) (register_host_handler env path p w)"
  "yields (\<lambda>x. fst x = 201) (create_gameplay_handler env path g w)"
  "yields (\<lambda>x. x = 204) (delete_host_handler env path h w)"
  "yields (\<lambda>x. x = 204) (delete_peer_handler env path p w)"
  "yields (\<lambda>x. x = 204) (delete_room_handler env path w)"
  unfolding register_user_def login_user_def create_room_handler_def join_room_handler_def register_host_handler_def
    create_gameplay_handler_def delete_host_handler_def delete_peer_handler_def delete_room_handler_def Let_def
  by (auto intro!: yields_rules split: prod.split)

text \<open>The rooms the handlers report have codes the parser accepts.\<close>

lemma created_room_code:
  "yields (\<lambda>x. ro_room_code (snd x) = (case code of Some c \<Rightarrow> c | None \<Rightarrow> e_random_code env)) (create_room_handler env code w)"
proof -
  have created: "rs_code room = c" if "create_room rid c r = (Ok rid', r')" "hget (rooms r') rid' = Some room" for rid c rid' r r' room
    using that by (auto simp: create_room_def create_room_with_id_def Let_def split: if_splits)
  show ?thesis
    unfolding create_room_handler_def Let_def
    by ((rule yields_bind)+)
      (auto simp: yields_def router_op_def room_snapshot_of_def room_response_of_def result_simps on_app_def
        split: prod.splits dest!: created)
qed

lemma status_room_code:
  assumes "router_inv (the_router w)" "well_formed_code code"
  shows "yields (\<lambda>x. ro_room_code x = code) (room_status env (code_str code) w)"
proof -
  have c: "rs_code room = code" if "room_id_for_code (the_router w) code = Some rid" "hget (rooms (the_router w)) rid = Some room" for rid room
    using that router_invD(1) [OF assms(1)] by (auto simp: codes_agree_def room_id_for_code_def)
  have same: "the_router v = the_router w" if "require_bearer env w = (res, v)" for res v
    using bearer_router [of env w] that by simp
  show ?thesis
    unfolding room_status_def
    by ((rule yields_bind)+)
      (auto simp: yields_def path_code_def parse_room_code_def parse_well_formed [OF assms(2)] room_of_code_def
        room_snapshot_of_def room_response_of_def result_simps split: prod.splits dest!: same c)
qed

lemma wf_of_yields:
  assumes "yields (\<lambda>x. f x = c) m" "fst m = Ok x" "well_formed_code c"
  shows "well_formed_code (f x)"
  using assms by (simp add: yields_def)

lemmas status_of = handler_status [unfolded yields_def, rule_format]

text \<open>C21. The two ends of the control API fit: for a server at the client's base URL, every method of the client reaches
  exactly the handler it is written for, with the path code, the identifiers and every optional argument intact
  and its bearer token in the header, and returns what that handler answered: the response field by field, its
  error as status and message, and a request failure when the handler gave no answer. What is relied on of the
  UUID text is that it is read back and is a path segment.\<close>

theorem client_reaches_handlers:
  assumes "he_base he = cc_control_url c" and "uuid_text_ok (he_uuid he)" and "well_formed_code code"
    and "well_formed_code (e_random_code env)" and "\<forall>c\<in>set_option new_code. well_formed_code c"
    and "run router_step (router_new cfg) es (the_router w)"
  shows "let u = he_uuid he; http = server_http he env w; env' = authorized c env; path = code_str code in
    control_health_live http c = (Ok (view_health (health_live w)) :: (client_health, 'io client_error) result) \<and>
    control_register_user http c name pass = (seen (he_render he) (view_auth \<circ> snd) (fst (register_user env' (he_auth he) \<lparr>ar_username = name, ar_password = pass\<rparr> w))
      :: (client_auth, 'io client_error) result) \<and>
    control_login_user http c name pass = (seen (he_render he) (view_auth \<circ> snd) (fst (login_user env' (he_auth he) \<lparr>ar_username = name, ar_password = pass\<rparr> w))
      :: (client_auth, 'io client_error) result) \<and>
    control_create_room u http c new_code = (seen (he_render he) (view_room \<circ> snd) (fst (create_room_handler env' new_code w))
      :: (client_room, 'io client_error) result) \<and>
    control_join_room_with_virtual_ip u http c code p key ip = (seen (he_render he) (view_peer \<circ> snd) (fst (join_room_handler env' path
        \<lparr>jr_peer_id = p, jr_wireguard_public_key = key, jr_requested_virtual_ip = ip\<rparr> w)) :: (client_peer, 'io client_error) result) \<and>
    control_resume_room u http c code q = (seen (he_render he) view_peer (fst (resume_room env' path
        \<lparr>jr_peer_id = Some q, jr_wireguard_public_key = None, jr_requested_virtual_ip = None\<rparr> w)) :: (client_peer, 'io client_error) result) \<and>
    control_register_host u http c code q = (seen (he_render he) (view_host \<circ> snd) (fst (register_host_handler env' path q w))
      :: (client_host, 'io client_error) result) \<and>
    control_heartbeat_host u http c code q h = (seen (he_render he) view_host (fst (heartbeat_host_handler env' path
        \<lparr>hr_peer_id = q, hr_host_session_id = h\<rparr> w)) :: (client_host, 'io client_error) result) \<and>
    control_create_gameplay_session u http c code q h = (seen (he_render he) (view_gameplay \<circ> snd) (fst (create_gameplay_handler env' path
        \<lparr>gr_client_peer_id = q, gr_host_session_id = h\<rparr> w)) :: (client_gameplay, 'io client_error) result) \<and>
    control_room_status u http c code = (seen (he_render he) view_room (fst (room_status env' path w)) :: (client_room, 'io client_error) result) \<and>
    control_relay_metrics http c = (seen (he_render he) id (fst (test_metrics env' w)) :: (relay_metrics_snapshot, 'io client_error) result) \<and>
    control_delete_host u http c code h = (seen (he_render he) (\<lambda>_. ()) (fst (delete_host_handler env' path h w)) :: (unit, 'io client_error) result) \<and>
    control_delete_peer u http c code q = (seen (he_render he) (\<lambda>_. ()) (fst (delete_peer_handler env' path q w)) :: (unit, 'io client_error) result) \<and>
    control_delete_room http c code = (seen (he_render he) (\<lambda>_. ()) (fst (delete_room_handler env' path w)) :: (unit, 'io client_error) result)"
proof -
  note routes = fixed_routes room_routes [OF assms(3)] delete_routes [OF assms(3,2)]
  note reads = responses_back requests_back id_requests_back [OF assms(2)] and u = assms(2)
  have new: "well_formed_code (case new_code of Some c \<Rightarrow> c | None \<Rightarrow> e_random_code (authorized c env))"
    using assms(4,5) by (cases new_code) (simp_all add: authorized_def)
  note rooms = wf_of_yields [OF created_room_code _ new] wf_of_yields [OF status_room_code [OF inv_run [OF assms(6)] assms(3)] _ assms(3)]
  show ?thesis
    unfolding Let_def
  proof (intro conjI)
    show "control_health_live (server_http he env w) c = (Ok (view_health (health_live w)) :: (client_health, 'io client_error) result)"
      using serve_answer [of he GET _ "Some JNull" GetLive, OF fixed_routes(1) assms(1)]
      by (simp add: control_health_live_def control_request_def is_success_def reads)
  qed (unfold control_register_user_def control_login_user_def control_create_room_def control_join_room_with_virtual_ip_def
      control_resume_room_def control_register_host_def control_heartbeat_host_def control_create_gameplay_session_def
      control_room_status_def control_relay_metrics_def control_delete_host_def control_delete_peer_def control_delete_room_def,
      (rule request_seen [OF _ assms(1)] request_empty_seen [OF _ assms(1)],
       simp add: routes reads assms(5), simp,
       auto simp: status_of(1-6) is_success_def reads u rooms dest: status_of(7-9))+)
qed

text \<open>A text of sixteen letters, one for each byte of a UUID, and the demo client of the demo server.\<close>

definition letters_text :: uuid_text where
  "letters_text = \<lparr>ut_show = \<lambda>x. map (\<lambda>b. unat b + 256) (uuid_bytes x),
     ut_read = \<lambda>s. Some (uuid_from_bytes (map (\<lambda>c. word_of_nat (c - 256)) s))\<rparr>"

lemma letters_text_ok: "uuid_text_ok letters_text"
proof -
  have "length (uuid_bytes x) = 16" for x by (simp add: uuid_bytes_def)
  then have "uuid_bytes x \<noteq> []" for x by (metis list.size(3) zero_neq_numeral)
  moreover have "uuid_from_bytes (uuid_bytes x) = x" for x
    by (simp add: uuid_from_bytes_def uuid_bytes_def word_from_to_be)
  ultimately show ?thesis
    by (auto simp: uuid_text_ok_def letters_text_def SLASH_def o_def)
qed

definition demo_http :: http_env where
  "demo_http = \<lparr>he_uuid = letters_text, he_base = rstr ''http://c'', he_auth = demo_auth,
     he_render = (\<lambda>m. case m of Text s \<Rightarrow> rstr s | _ \<Rightarrow> []), he_reject = (\<lambda>_. \<lparr>hp_status = 404, hp_body = None\<rparr>)\<rparr>"

definition demo_client :: client_config where
  "demo_client = control_new \<lparr>cc_control_url = rstr ''http://c//'', cc_bearer_token = rstr ''tok'',
     cc_relay_server = SocketAddr (IpV4 1) 0, cc_relay_port = CLIENT_RELAY_PORT\<rparr>"

lemma demo_base: "he_base demo_http = cc_control_url demo_client" "cc_bearer_token demo_client = rstr ''tok''"
    "he_uuid demo_http = letters_text"
  by (simp_all add: demo_http_def demo_client_def control_new_def normalize_control_url_def rstr_def SLASH_def)

definition demo_code :: room_code where
  "demo_code = RoomCode (rstr ''ABCDEF'')"

lemma demo_code_ok: "well_formed_code demo_code"
  by (simp add: well_formed_code_def demo_code_def CODE_MIN_LEN_def CODE_MAX_LEN_def room_alphabet_def rstr_def)

theorem client_reaches_handlers_witness:
  "control_health_live (server_http demo_http demo_env demo_world) demo_client =
     (Ok \<lparr>cl_status = rstr ''ok'', cl_database_configured = False\<rparr> :: (client_health, unit client_error) result) \<and>
   control_relay_metrics (server_http demo_http demo_env demo_world) demo_client =
     (seen (he_render demo_http) id (fst (test_metrics (authorized demo_client demo_env) demo_world))
       :: (relay_metrics_snapshot, unit client_error) result)"
proof -
  have "well_formed_code (e_random_code demo_env)" by (simp add: demo_env_def random_code_well_formed)
  note fit = client_reaches_handlers [OF demo_base(1) _ demo_code_ok this, of None, OF _ _ demo_world_run,
    unfolded Let_def demo_base(3), OF letters_text_ok, where ?'io = unit]
  have "view_health (health_live demo_world) = \<lparr>cl_status = rstr ''ok'', cl_database_configured = False\<rparr>"
    by (simp add: view_health_def health_live_def demo_world_def app_new_def)
  then show ?thesis using fit by simp
qed

end
