(* ===== verification/Client_Server.thy ===== *)
theory Client_Server
  imports Client_Link Control_Interop
begin

section \<open>Client and server together\<close>

text \<open>
  The session of \<open>crates/client-core\<close> against the control API and the relay of \<open>server\<close>: a probe of a known peer is
  answered and the answer ends the probe, a session that is down recovers through the control API, and what
  the restarted numbering does to the server's duplicate detection.
\<close>

subsection \<open>A probe and its answer\<close>

text \<open>A peer the relay will answer: known at the address, not suspended, and not over its rate.\<close>

definition reachable_at :: "app_state \<Rightarrow> relay_clocks \<Rightarrow> ipv4 \<Rightarrow> peer_id \<Rightarrow> u64 \<Rightarrow> bool" where
  "reachable_at a clk ip p connection_epoch \<longleftrightarrow>
     (case hget (peers (router a)) p of
        None \<Rightarrow> False
      | Some peer \<Rightarrow> ps_virtual_ip peer = VirtualIp ip \<and> ps_disconnected_at peer = None \<and>
          ps_connection_epoch peer = connection_epoch) \<and>
     fst (allow (clk_limiter clk) (rstr (ipv4_to_string ip)) (udp_rate_limiter a))"

lemma probe_handled:
  assumes inv: "router_inv (router a)" and peer: "reachable_at a clk ip p connection_epoch"
    and packet: "envelope_decode packet = Ok \<lparr>env_meta = meta, env_message = RelayProbe request\<rparr>"
    and epoch: "meta_connection_epoch meta = 0 \<or> meta_connection_epoch meta = connection_epoch"
  shows "fst (handle_datagram clk port (SocketAddr (IpV4 ip) source_port) packet a) =
    Ok [\<lparr>out_destination = SocketAddr (IpV4 ip) source_port, out_message = RelayProbeAck request, out_meta = meta\<rparr>]"
proof -
  obtain peer where p: "hget (peers (router a)) p = Some peer" "ps_virtual_ip peer = VirtualIp ip"
      "ps_disconnected_at peer = None" "ps_connection_epoch peer = connection_epoch"
    using assms(2) by (auto simp: reachable_at_def split: option.splits)
  obtain l where l: "allow (clk_limiter clk) (rstr (ipv4_to_string ip)) (udp_rate_limiter a) = (True, l)"
    using assms(2) by (cases "allow (clk_limiter clk) (rstr (ipv4_to_string ip)) (udp_rate_limiter a)") (auto simp: reachable_at_def)
  have "hget (virtual_ips (router a)) (VirtualIp ip) = Some p"
    using router_invD(3) [OF inv] p(1,2) by (auto simp: ips_agree_def)
  then show ?thesis
    using p epoch
    by (auto simp: handle_datagram_def packet l Let_def peer_for_virtual_ip_def peer_connection_epoch_def handle_message_def
        on_router_def mark_peer_seen_def)
qed

lemma session_meta_state [simp]: "session_meta now_ms (set_state st s) = session_meta now_ms s"
  by (simp add: session_meta_def set_state_def on_snapshot_def split: option.split)

lemma set_state_frame:
  "ss_next_sequence (set_state st s) = ss_next_sequence s" "ss_sent (set_state st s) = ss_sent s"
  "ss_config (set_state st s) = ss_config s"
  by (simp_all add: set_state_def)

lemma send_taken:
  assumes "envelope_encode \<lparr>env_meta = session_meta now_ms s, env_message = message\<rparr> = Ok packet" "io packet = None"
  shows "send_numbered io message now_ms s =
    (Ok (), s\<lparr>ss_next_sequence := following (ss_next_sequence s), ss_sent := ss_sent s @ [packet]\<rparr>)"
  using assms by (simp add: send_numbered_def send_envelope_def next_envelope_meta_eq transmit_def)

lemma probe_acked:
  assumes "send_numbered io (RelayProbe request) now_ms
      (set_state (if sn_state (ss_snapshot s) = Disconnected then Connecting else sn_state (ss_snapshot s)) s) = (Ok (), s1)"
    and "ss_config s1 = ss_config s" "await_ack (cf_probe_timeout (ss_config s)) request waits = Some (Ok rtt)"
  shows "probe_once io request now_ms waits s = (Some (Ok rtt), record_probe_success rtt s1)"
proof -
  have "(if sn_state (ss_snapshot s) = Disconnected then on_snapshot (\<lambda>sn. sn\<lparr>sn_state := Connecting\<rparr>) s else s) =
      set_state (if sn_state (ss_snapshot s) = Disconnected then Connecting else sn_state (ss_snapshot s)) s"
    by (simp add: set_state_def on_snapshot_def)
  then show ?thesis unfolding probe_once_def Let_def by (simp only: assms prod.case result.case option.case)
qed

lemma probe_answered:
  assumes "router_inv (router a)"
    and "reachable_at a clk ip p (sn_connection_epoch (ss_snapshot s))"
    and "io = (\<lambda>_. None :: 'io option)" and "elapsed \<le> cf_probe_timeout (ss_config s)"
  shows "\<exists>packet answer bytes s'. fst (handle_datagram clk port (SocketAddr (IpV4 ip) source_port) packet a) =
      (Ok [answer] :: (outbound_datagram list, 'e relay_error) result) \<and>
    out_destination answer = SocketAddr (IpV4 ip) source_port \<and>
    envelope_encode \<lparr>env_meta = out_meta answer, env_message = out_message answer\<rparr> = Ok bytes \<and>
    probe_once io request now_ms [(elapsed, Datagram bytes, arrived)] s = (Some (Ok arrived), s') \<and>
    ss_sent s' = ss_sent s @ [packet] \<and> sn_probe_failures (ss_snapshot s') = 0 \<and>
    sn_state (ss_snapshot s') = (if sn_state (ss_snapshot s) = Disconnected then Connecting else sn_state (ss_snapshot s)) \<and>
    sn_connection_epoch (ss_snapshot s') = sn_connection_epoch (ss_snapshot s) \<and> ss_config s' = ss_config s"
proof -
  let ?st = "if sn_state (ss_snapshot s) = Disconnected then Connecting else sn_state (ss_snapshot s)"
  let ?meta = "session_meta now_ms s"
  obtain packet where enc: "envelope_encode \<lparr>env_meta = ?meta, env_message = RelayProbe request\<rparr> = Ok packet"
      "envelope_decode packet = Ok \<lparr>env_meta = ?meta, env_message = RelayProbe request\<rparr>"
    by (rule encoded_envelope [of "\<lparr>env_meta = ?meta, env_message = RelayProbe request\<rparr>"]) simp_all
  obtain bytes where answer: "envelope_encode \<lparr>env_meta = ?meta, env_message = RelayProbeAck request\<rparr> = Ok bytes"
      "length bytes \<le> MAX_RELAY_DATAGRAM_SIZE"
      "envelope_decode bytes = Ok \<lparr>env_meta = ?meta, env_message = RelayProbeAck request\<rparr>"
    by (rule encoded_envelope [of "\<lparr>env_meta = ?meta, env_message = RelayProbeAck request\<rparr>"]) simp_all
  have "meta_connection_epoch ?meta = sn_connection_epoch (ss_snapshot s)" by (simp add: session_meta_def)
  then have served: "fst (handle_datagram clk port (SocketAddr (IpV4 ip) source_port) packet a) =
      (Ok [\<lparr>out_destination = SocketAddr (IpV4 ip) source_port, out_message = RelayProbeAck request, out_meta = ?meta\<rparr>]
        :: (outbound_datagram list, 'e relay_error) result)"
    using probe_handled [OF assms(1) assms(2) enc(2)] by simp
  have ack: "await_ack (cf_probe_timeout (ss_config s)) request [(elapsed, Datagram bytes, arrived)] = Some (Ok arrived)"
    using answer assms(4) by simp
  have "send_numbered io (RelayProbe request) now_ms (set_state ?st s) =
      (Ok (), (set_state ?st s)\<lparr>ss_next_sequence := following (ss_next_sequence s), ss_sent := ss_sent s @ [packet]\<rparr>)"
    using send_taken [of now_ms "set_state ?st s" _ packet io] enc(1) assms(3) by (simp add: set_state_frame)
  from probe_acked [OF this _ ack]
  have "probe_once io request now_ms [(elapsed, Datagram bytes, arrived)] s = (Some (Ok arrived), record_probe_success arrived
      ((set_state ?st s)\<lparr>ss_next_sequence := following (ss_next_sequence s), ss_sent := ss_sent s @ [packet]\<rparr>))"
    by (simp add: set_state_frame)
  then show ?thesis using served answer(1) by (intro exI conjI) (assumption | simp add: set_state_def)+
qed

text \<open>C25. A probe is answered and the answer ends it: when the relay knows the session's address and epoch, handling the very
  packet the session hands to its transport yields one datagram, back to the address it came from, and a client
  that receives the encoding of that datagram within the timeout completes the probe with the time it took.\<close>

theorem probe_round_trip:
  assumes "run router_step (router_new cfg) es (router a)"
    and "reachable_at a clk ip p (sn_connection_epoch (ss_snapshot s))"
    and "io = (\<lambda>_. None :: 'io option)" and "elapsed \<le> cf_probe_timeout (ss_config s)"
  shows "\<exists>packet answer bytes s'. fst (handle_datagram clk port (SocketAddr (IpV4 ip) source_port) packet a) =
      (Ok [answer] :: (outbound_datagram list, 'e relay_error) result) \<and>
    out_destination answer = SocketAddr (IpV4 ip) source_port \<and>
    envelope_encode \<lparr>env_meta = out_meta answer, env_message = out_message answer\<rparr> = Ok bytes \<and>
    probe_once io request now_ms [(elapsed, Datagram bytes, arrived)] s = (Some (Ok arrived), s') \<and>
    ss_sent s' = ss_sent s @ [packet] \<and> sn_probe_failures (ss_snapshot s') = 0"
  using probe_answered [OF inv_run [OF assms(1)] assms(2,3,4), of port source_port request now_ms arrived, where 'e = 'e]
  by blast

lemma demo_reachable: "reachable_at demo_app demo_clocks 1 (PeerId 1) 1"
proof -
  have "fst (allow 5 key (udp_rate_limiter demo_app))" for key
    by (simp add: allow_def demo_app_def app_new_def limiter_new_def from_secs_def UDP_PACKETS_PER_SECOND_def duration_since_def)
  then show ?thesis by (simp add: reachable_at_def demo_peer_tables demo_clocks_def) (simp add: demo_app_def demo_peer_tables)
qed

theorem probe_round_trip_witness:
  "\<exists>packet answer bytes s'. fst (handle_datagram demo_clocks 32000 (SocketAddr (IpV4 1) 5000) packet demo_app) =
      (Ok [answer] :: (outbound_datagram list, unit relay_error) result) \<and>
    probe_once (\<lambda>_. None :: unit option) (DiscoveryRequestId 1) 0 [(0, Datagram bytes, 20000000)] (session_new None 1) =
      (Some (Ok 20000000), s') \<and> ss_sent s' = [packet]"
proof -
  have "run router_step (router_new demo_config) demo_play_events (router demo_app)"
    using demo_play_run by (simp add: demo_app_def)
  from probe_round_trip [OF this, of demo_clocks 1 "PeerId 1" "session_new None 1" "\<lambda>_. None :: unit option" 0 32000 5000
      "DiscoveryRequestId 1" 0 20000000, where 'e = unit] demo_reachable
  show ?thesis by (simp add: session_new_def with_config_def snapshot_new_def del: await_ack.simps) blast
qed

subsection \<open>Recovery through the control API\<close>

lemma resumed_peer:
  assumes "resume_room env code payload w = (Ok r, w')" "router_inv (the_router w)"
  obtains p peer where "jr_peer_id payload = Some p" "hget (peers (the_router w')) p = Some peer"
    "ps_virtual_ip peer = pe_virtual_ip r" "ps_disconnected_at peer = None" "ps_connection_epoch peer = pe_connection_epoch r"
    "router_inv (the_router w')"
proof -
  obtain v where v: "require_bearer env w = (Ok (), v)" using assms(1) by (auto simp: resume_room_def try_st_Ok_iff)
  then have inv: "router_inv (the_router v)" using bearer_router [of env w] assms(2) by simp
  obtain p room_id snapshot where p: "jr_peer_id payload = Some p" "router_op (resume_peer room_id p (e_now env)) v = (Ok snapshot, w')"
      "r = \<lparr>pe_room_id = psnap_room_id snapshot, pe_peer_id = psnap_peer_id snapshot,
         pe_virtual_ip = psnap_virtual_ip snapshot, pe_connection_epoch = psnap_connection_epoch snapshot\<rparr>"
    using assms(1) v by (auto simp: resume_room_def try_st_Ok_iff)
  have op: "resume_peer room_id p (e_now env) (the_router v) = (Ok snapshot, the_router w')"
    using p(2) by (auto simp: router_op_def on_app_def split: prod.splits)
  have "\<exists>peer. hget (peers r') p = Some peer \<and> ps_virtual_ip peer = psnap_virtual_ip snapshot \<and>
      ps_disconnected_at peer = None \<and> ps_connection_epoch peer = psnap_connection_epoch snapshot"
    if "resume_peer room_id p (e_now env) r = (Ok snapshot, r')" for r r'
    using that by (auto simp: resume_peer_def snapshot_of_peer_def Let_def split: option.splits if_splits)
  then obtain peer where "hget (peers (the_router w')) p = Some peer" "ps_virtual_ip peer = psnap_virtual_ip snapshot"
      "ps_disconnected_at peer = None" "ps_connection_epoch peer = psnap_connection_epoch snapshot"
    using op by blast
  moreover have "router_inv (the_router w')" using inv_resume_peer [OF inv, of room_id p "e_now env"] op by simp
  ultimately show ?thesis using that p(1,3) by simp
qed

text \<open>The reconnection through the control client: the session it leaves, and what the server then knows of the peer.\<close>

lemma reconnected_through_server:
  assumes "run router_step (router_new cfg) es (the_router w)"
    and "he_base he = cc_control_url c" and "uuid_text_ok (he_uuid he)" and "well_formed_code code"
    and "resume_room (authorized c env) (code_str code)
      \<lparr>jr_peer_id = Some p, jr_wireguard_public_key = None, jr_requested_virtual_ip = None\<rparr> w = (Ok r, w')"
    and "reconnect = (\<lambda>_. and_then (control_resume_room (he_uuid he) (server_http he env w) c code p)
      (\<lambda>peer. Ok (cl_connection_epoch peer) :: (u64, 'io client_error) result))"
  obtains peer where
    "run_turn (ReconnectTurn reconnect) (True, s) = Some (Some (reconnect_delay s), False,
       s\<lparr>ss_snapshot := (ss_snapshot s)\<lparr>sn_connection_epoch := pe_connection_epoch r,
         sn_probe_failures := 0, sn_reconnect_attempts := 0, sn_state := Resynced\<rparr>, ss_next_sequence := 0\<rparr>)"
    "hget (peers (the_router w')) p = Some peer" "ps_virtual_ip peer = pe_virtual_ip r"
    "ps_disconnected_at peer = None" "ps_connection_epoch peer = pe_connection_epoch r" "router_inv (the_router w')"
proof -
  have inv: "router_inv (the_router w)" by (rule inv_run [OF assms(1)])
  have answer: "serve (authorized c env) (PostResume (code_str code)
      \<lparr>jr_peer_id = Some p, jr_wireguard_public_key = None, jr_requested_virtual_ip = None\<rparr>) w =
      reply (\<lambda>b. (200, PeerBody b)) (Ok r, w')"
    by (simp only: serve.simps assms(5))
  have "control_resume_room (he_uuid he) (server_http he env w) c code p = (Ok (view_peer r) :: (client_peer, 'io client_error) result)"
    unfolding control_resume_room_def
    by (subst request_seen [OF _ assms(2) answer, where view = view_peer])
      (simp_all add: room_routes [OF assms(4)] id_requests_back [OF assms(3)] responses_back assms(3) is_success_def)
  then have "run_turn (ReconnectTurn reconnect) (True, s) = Some (Some (reconnect_delay s), False,
       s\<lparr>ss_snapshot := (ss_snapshot s)\<lparr>sn_connection_epoch := pe_connection_epoch r,
         sn_probe_failures := 0, sn_reconnect_attempts := 0, sn_state := Resynced\<rparr>, ss_next_sequence := 0\<rparr>)"
    by (simp add: assms(6) view_peer_def reconnect_turn_def reconnect_delay_def set_state_def on_snapshot_def Let_def)
  moreover obtain peer where "hget (peers (the_router w')) p = Some peer" "ps_virtual_ip peer = pe_virtual_ip r"
      "ps_disconnected_at peer = None" "ps_connection_epoch peer = pe_connection_epoch r" "router_inv (the_router w')"
    using assms(5) inv by (rule resumed_peer) simp
  ultimately show ?thesis by (rule that)
qed

text \<open>C24. A session that is down recovers through the server: when the server's resume handler accepts the peer, the reconnect
  callback that calls it through the control client ends the backoff with the epoch the server now holds, and the
  probe that follows is answered by the relay at the peer's address and makes the session healthy, carrying that
  epoch as number 1 of the new count.\<close>

theorem client_recovers_through_server:
  assumes "run router_step (router_new cfg) es (the_router w)"
    and "he_base he = cc_control_url c" and "uuid_text_ok (he_uuid he)" and "well_formed_code code"
    and "resume_room (authorized c env) (code_str code)
      \<lparr>jr_peer_id = Some p, jr_wireguard_public_key = None, jr_requested_virtual_ip = None\<rparr> w = (Ok r, w')"
    and "fst (allow (clk_limiter clk) (rstr (ipv4_to_string (address (pe_virtual_ip r)))) (udp_rate_limiter (w_app w')))"
    and "reconnect = (\<lambda>_. and_then (control_resume_room (he_uuid he) (server_http he env w) c code p)
      (\<lambda>peer. Ok (cl_connection_epoch peer) :: (u64, 'io client_error) result))"
    and "io = (\<lambda>_. None :: 'io option)" and "elapsed \<le> cf_probe_timeout (ss_config s)"
  shows "\<exists>s1 packet answer bytes s2.
    run_turn (ReconnectTurn reconnect) (True, s) = Some (Some (reconnect_delay s), False, s1) \<and>
    fst (handle_datagram clk port (SocketAddr (IpV4 (address (pe_virtual_ip r))) source_port) packet (w_app w')) =
      (Ok [answer] :: (outbound_datagram list, 'e relay_error) result) \<and>
    envelope_encode \<lparr>env_meta = out_meta answer, env_message = out_message answer\<rparr> = Ok bytes \<and>
    run_turn (ProbeTurn io request now_ms [(elapsed, Datagram bytes, arrived)]) (False, s1) =
      Some (Some (cf_probe_interval (ss_config s)), False, s2) \<and>
    sn_state (ss_snapshot s2) = Healthy \<and> sn_connection_epoch (ss_snapshot s2) = pe_connection_epoch r \<and>
    ss_sent s2 = ss_sent s @ [packet]"
proof -
  let ?s1 = "s\<lparr>ss_snapshot := (ss_snapshot s)\<lparr>sn_connection_epoch := pe_connection_epoch r,
      sn_probe_failures := 0, sn_reconnect_attempts := 0, sn_state := Resynced\<rparr>, ss_next_sequence := 0\<rparr>"
  obtain peer where turn: "run_turn (ReconnectTurn reconnect) (True, s) = Some (Some (reconnect_delay s), False, ?s1)"
    and peer: "hget (peers (the_router w')) p = Some peer" "ps_virtual_ip peer = pe_virtual_ip r"
      "ps_disconnected_at peer = None" "ps_connection_epoch peer = pe_connection_epoch r" and inv': "router_inv (the_router w')"
    by (rule reconnected_through_server [OF assms(1-5) assms(7)])
  have "reachable_at (w_app w') clk (address (pe_virtual_ip r)) p (sn_connection_epoch (ss_snapshot ?s1))"
    using peer assms(6) by (simp add: reachable_at_def)
  from probe_answered [OF inv' this assms(8), of elapsed port source_port request now_ms arrived, where 'e = 'e] assms(9)
  obtain packet answer bytes s2 where p: "fst (handle_datagram clk port (SocketAddr (IpV4 (address (pe_virtual_ip r))) source_port) packet (w_app w')) =
        (Ok [answer] :: (outbound_datagram list, 'e relay_error) result)"
      "envelope_encode \<lparr>env_meta = out_meta answer, env_message = out_message answer\<rparr> = Ok bytes"
      "probe_once io request now_ms [(elapsed, Datagram bytes, arrived)] ?s1 = (Some (Ok arrived), s2)"
      "ss_sent s2 = ss_sent s @ [packet]" "sn_state (ss_snapshot s2) = Resynced"
      "sn_connection_epoch (ss_snapshot s2) = pe_connection_epoch r" "ss_config s2 = ss_config s"
    by auto
  have "run_turn (ProbeTurn io request now_ms [(elapsed, Datagram bytes, arrived)]) (False, ?s1) =
      Some (Some (cf_probe_interval (ss_config s)), False, set_state Healthy s2)"
    by (simp add: probe_turn_def p(3,5,7))
  with turn p show ?thesis by (intro exI conjI) (assumption | simp add: set_state_def)+
qed

text \<open>A room with one peer, whose client is down.\<close>

definition demo_resume_events :: "router_event list" where
  "demo_resume_events = [CreateRoom (RoomId 1) demo_code, JoinRoom (RoomId 1) (PeerId 1) (VirtualIp 1) 0]"

definition demo_resume_world :: world where
  "demo_resume_world = demo_world\<lparr>w_app := (w_app demo_world)\<lparr>router := apply_events demo_resume_events (router_new demo_config)\<rparr>\<rparr>"

lemma demo_resume_run: "run router_step (router_new demo_config) demo_resume_events (the_router demo_resume_world)"
proof -
  have "run router_step (router_new demo_config) demo_resume_events (apply_events demo_resume_events (router_new demo_config))"
    by (rule run_apply_events) (simp add: demo_resume_events_def demo_config_def router_eval)
  then show ?thesis by (simp add: demo_resume_world_def)
qed

lemma demo_resumed:
  "\<exists>w'. resume_room (authorized demo_client demo_env) (code_str demo_code)
      \<lparr>jr_peer_id = Some (PeerId 1), jr_wireguard_public_key = None, jr_requested_virtual_ip = None\<rparr> demo_resume_world =
     (Ok \<lparr>pe_room_id = RoomId 1, pe_peer_id = PeerId 1, pe_virtual_ip = VirtualIp 1, pe_connection_epoch = 1\<rparr>, w') \<and>
   udp_rate_limiter (w_app w') = limiter_new UDP_PACKETS_PER_SECOND (from_secs 1)"
proof -
  let ?env = "authorized demo_client demo_env"
  have "api_rate_limiter (w_app demo_resume_world) = limiter_new API_REQUESTS_PER_SECOND (from_secs 1)"
    by (simp add: demo_resume_world_def demo_world_def app_new_def)
  then obtain l where "limit_request ?env (rstr ''tok'') demo_resume_world = (Ok (), on_app (api_rate_limiter_update (\<lambda>_. l)) demo_resume_world)"
    by (rule limit_request_fresh)
  then have "require_bearer ?env demo_resume_world = (Ok (), on_app (api_rate_limiter_update (\<lambda>_. l)) demo_resume_world)"
    by (simp add: require_bearer_def authorized_def demo_base(2) demo_resume_world_def demo_world_def app_new_def)
  then show ?thesis
    by (simp add: resume_room_def path_code_def parse_room_code_def parse_well_formed [OF demo_code_ok] room_of_code_def
        room_id_for_code_def router_op_def authorized_def)
      (simp add: demo_resume_world_def demo_world_def app_new_def on_app_def demo_resume_events_def demo_config_def router_eval demo_env_def)
qed

theorem client_recovers_through_server_witness:
  "\<exists>(w' :: world) reconnect s1 packet answer bytes s2.
    run_turn (ReconnectTurn reconnect :: unit session_turn) (True, session_new None 7) = Some (Some (from_millis 250), False, s1) \<and>
    fst (handle_datagram demo_clocks 32000 (SocketAddr (IpV4 1) 5000) packet (w_app w')) =
      (Ok [answer] :: (outbound_datagram list, unit relay_error) result) \<and>
    run_turn (ProbeTurn (\<lambda>_. None) (DiscoveryRequestId 1) 0 [(0, Datagram bytes, 20000000)] :: unit session_turn) (False, s1) =
      Some (Some (from_secs 2), False, s2) \<and>
    sn_state (ss_snapshot s2) = Healthy \<and> sn_connection_epoch (ss_snapshot s2) = 1 \<and> ss_sent s2 = [packet]"
proof -
  let ?r = "\<lparr>pe_room_id = RoomId 1, pe_peer_id = PeerId 1, pe_virtual_ip = VirtualIp 1, pe_connection_epoch = 1\<rparr>"
  let ?reconnect = "\<lambda>_. and_then (control_resume_room letters_text (server_http demo_http demo_env demo_resume_world) demo_client
      demo_code (PeerId 1)) (\<lambda>peer. Ok (cl_connection_epoch peer) :: (u64, unit client_error) result)"
  obtain w' where w': "resume_room (authorized demo_client demo_env) (code_str demo_code)
      \<lparr>jr_peer_id = Some (PeerId 1), jr_wireguard_public_key = None, jr_requested_virtual_ip = None\<rparr> demo_resume_world = (Ok ?r, w')"
      "udp_rate_limiter (w_app w') = limiter_new UDP_PACKETS_PER_SECOND (from_secs 1)"
    using demo_resumed by blast
  have "fst (allow (clk_limiter demo_clocks) key (udp_rate_limiter (w_app w')))" for key
    by (simp add: w'(2) allow_def demo_clocks_def limiter_new_def from_secs_def UDP_PACKETS_PER_SECOND_def duration_since_def)
  note recovered = client_recovers_through_server [OF demo_resume_run demo_base(1) _ demo_code_ok w'(1) this refl refl,
      where elapsed = 0 and s = "session_new None 7" and port = 32000 and source_port = 5000 and request = "DiscoveryRequestId 1"
        and now_ms = 0 and arrived = 20000000 and 'e = unit and 'io = unit, unfolded demo_base(3), OF letters_text_ok le0]
  have "reconnect_delay (session_new None 7) = from_millis 250" "cf_probe_interval (ss_config (session_new None 7)) = from_secs 2"
      "ss_sent (session_new None 7) = []"
    by (simp_all add: reconnect_delay_eq session_new_def with_config_def session_config_default_def snapshot_new_def link_backoff_def
        DURATION_MAX_def from_millis_def from_secs_def)
  from recovered [unfolded this append_Nil peer_response.select_convs virtual_ip.sel] show ?thesis by blast
qed

subsection \<open>Restarted numbers\<close>

lemma unat_iterated:
  assumes "unat q + n < 2 ^ 64"
  shows "unat ((following ^^ n) q) = unat q + n"
  using assms by (induction n) (simp_all add: unat_following)

lemma numbered_after:
  assumes "run session_step s (map NextEnvelopeMeta clocks) s'"
  shows "ss_next_sequence s' = (following ^^ length clocks) (ss_next_sequence s)"
  using assms
proof (induction clocks arbitrary: s)
  case (Cons t clocks)
  then show ?case by (auto simp: session_step_iff next_envelope_meta_eq funpow_swap1)
qed simp

lemma numbered_keeps_epoch:
  assumes "run session_step s (map NextEnvelopeMeta clocks) s'"
  shows "sn_connection_epoch (ss_snapshot s') = sn_connection_epoch (ss_snapshot s)"
  using assms
proof (induction clocks arbitrary: s)
  case (Cons t clocks)
  from Cons.IH [of "snd (next_envelope_meta t s)"] Cons.prems show ?case
    by (simp add: session_step_iff next_envelope_meta_eq)
qed simp

text \<open>A resume request leaves the sequence tracker alone.\<close>

lemma resume_keeps_tracker:
  assumes "resume_room env code payload w = (Ok r, w')"
  shows "metrics (w_app w') = metrics (w_app w)"
proof -
  have "metrics (w_app v) = metrics (w_app w)" if "require_bearer env w = (Ok (), v)" for v
    using that by (auto simp: require_bearer_def refuse_def limit_request_def on_app_def Let_def split: option.splits if_splits prod.splits)
  moreover have "metrics (w_app v') = metrics (w_app v)" if "router_op f v = (res, v')"
    for f :: "room_router \<Rightarrow> (peer_snapshot, router_error) result \<times> room_router" and res v v'
    using that by (auto simp: router_op_def on_app_def split: prod.splits)
  ultimately show ?thesis using assms by (fastforce simp: resume_room_def try_st_Ok_iff)
qed

text \<open>Numbers below the highest one leave it in the tracker.\<close>

lemma lower_numbers_forgotten:
  assumes "hget (last_seen m) p = Some highest_seen" and "\<forall>(q, number)\<in>set ps. q = p \<and> number < highest_seen"
  shows "hget (last_seen (record_all ps m)) p = Some highest_seen"
  using assms by (induction ps m rule: record_all.induct) (auto simp: record_sequence_def)

lemma fresh_number_collides:
  assumes "router_inv (router a)" "hget (peers (router a)) p = Some peer" "ps_virtual_ip peer = VirtualIp ip"
    "ps_disconnected_at peer = None" "ps_connection_epoch peer = meta_connection_epoch meta"
    and "fst (allow (clk_limiter clk) (rstr (ipv4_to_string ip)) (udp_rate_limiter a))"
    and "hget (last_seen (metrics a)) p = Some (meta_sequence meta)" "meta_sequence meta \<noteq> 0"
    and "envelope_encode \<lparr>env_meta = meta, env_message = message\<rparr> = Ok packet" "\<forall>i. message \<noteq> RelayProbe i"
  shows "fst (handle_datagram clk port (SocketAddr (IpV4 ip) source_port) packet a) =
    (Err (DuplicateSequence (meta_sequence meta)) :: (outbound_datagram list, 'e relay_error) result)"
proof -
  have "length (message_payload message) \<le> MAX_CIV6_DATAGRAM_SIZE"
    using assms(9) by (auto simp: envelope_encode_def encode_packet_eq split: if_splits)
  then have decoded: "envelope_decode packet = Ok \<lparr>env_meta = meta, env_message = message\<rparr>"
    using encoded_envelope [of "\<lparr>env_meta = meta, env_message = message\<rparr>"] assms(9)
    by (auto simp: MAX_CIV6_DATAGRAM_SIZE_def)
  obtain l where l: "allow (clk_limiter clk) (rstr (ipv4_to_string ip)) (udp_rate_limiter a) = (True, l)"
    using assms(6) by (cases "allow (clk_limiter clk) (rstr (ipv4_to_string ip)) (udp_rate_limiter a)") auto
  have "hget (virtual_ips (router a)) (VirtualIp ip) = Some p"
    using router_invD(3) [OF assms(1)] assms(2,3) by (auto simp: ips_agree_def)
  moreover have "handle_message clk port source p \<lparr>env_meta = meta, env_message = message\<rparr> b =
      (forward_message clk port p meta message b :: (outbound_datagram list, 'e relay_error) result \<times> app_state)" for source b
    using assms(10) by (cases message) (simp_all add: handle_message_def)
  ultimately show ?thesis
    using assms(2,4,5,7,8)
    by (simp add: handle_datagram_def decoded l Let_def peer_for_virtual_ip_def peer_connection_epoch_def
        forward_message_def on_router_def mark_peer_seen_def record_sequence_def)
qed

text \<open>C26. Restarted numbering meets the server's memory. The server has seen numbers up to \<open>highest_seen\<close> from the peer; its
  client reconnects through the resume handler, which does not touch the tracker, and counts from 1 again in the
  epoch the server now holds. When the server has taken the packets numbered before it, the next packet of the
  client is classified as reordered while its number is below the old highest, and the packet with just
  that number is refused as a duplicate although it was never sent before.\<close>

theorem resumed_stream_collides:
  assumes "run router_step (router_new cfg) es (the_router w)"
    and "he_base he = cc_control_url c" and "uuid_text_ok (he_uuid he)" and "well_formed_code code"
    and "resume_room (authorized c env) (code_str code)
      \<lparr>jr_peer_id = Some p, jr_wireguard_public_key = None, jr_requested_virtual_ip = None\<rparr> w = (Ok r, w')"
    and "reconnect = (\<lambda>_. and_then (control_resume_room (he_uuid he) (server_http he env w) c code p)
      (\<lambda>peer. Ok (cl_connection_epoch peer) :: (u64, 'io client_error) result))"
    and "fst (allow (clk_limiter clk) (rstr (ipv4_to_string (address (pe_virtual_ip r)))) (udp_rate_limiter (w_app w')))"
    and "hget (last_seen (metrics (w_app w))) p = Some highest_seen" and "length clocks < unat highest_seen"
  shows "\<exists>s1. run_turn (ReconnectTurn reconnect) (True, s) = Some (Some (reconnect_delay s), False, s1) \<and>
    (\<forall>s2. run session_step s1 (map NextEnvelopeMeta clocks) s2 \<longrightarrow>
      (let n = length clocks + 1; meta = fst (next_envelope_meta now_ms s2);
           a = (w_app w')\<lparr>metrics := record_all (map (\<lambda>i. (p, word_of_nat i)) [1..<n]) (metrics (w_app w'))\<rparr> in
       unat (meta_sequence meta) = n \<and> meta_connection_epoch meta = pe_connection_epoch r \<and>
       (n < unat highest_seen \<longrightarrow> fst (record_sequence p (meta_sequence meta) (metrics a)) = SeqReordered) \<and>
       (n = unat highest_seen \<longrightarrow> (\<forall>message packet. (\<forall>i. message \<noteq> RelayProbe i) \<and>
          envelope_encode \<lparr>env_meta = meta, env_message = message\<rparr> = Ok packet \<longrightarrow>
          fst (handle_datagram clk port (SocketAddr (IpV4 (address (pe_virtual_ip r))) source_port) packet a) =
            (Err (DuplicateSequence highest_seen) :: (outbound_datagram list, 'e relay_error) result)))))"
proof -
  let ?s1 = "s\<lparr>ss_snapshot := (ss_snapshot s)\<lparr>sn_connection_epoch := pe_connection_epoch r,
      sn_probe_failures := 0, sn_reconnect_attempts := 0, sn_state := Resynced\<rparr>, ss_next_sequence := 0\<rparr>"
  let ?n = "length clocks + 1"
  let ?m = "record_all (map (\<lambda>i. (p, word_of_nat i)) [1..<?n]) (metrics (w_app w'))"
  obtain peer where turn: "run_turn (ReconnectTurn reconnect) (True, s) = Some (Some (reconnect_delay s), False, ?s1)"
    and peer: "hget (peers (the_router w')) p = Some peer" "ps_virtual_ip peer = pe_virtual_ip r"
      "ps_disconnected_at peer = None" "ps_connection_epoch peer = pe_connection_epoch r" and inv: "router_inv (the_router w')"
    by (rule reconnected_through_server [OF assms(1-6)])
  have small: "unat highest_seen < 2 ^ 64" by (rule unat_u64_bounds(1))
  have "unat (word_of_nat i :: u64) = i" if "i < ?n" for i
    using that assms(9) small by (simp add: unat_of_nat)
  then have tracked: "hget (last_seen ?m) p = Some highest_seen"
    using assms(8,9) resume_keeps_tracker [OF assms(5)] by (intro lower_numbers_forgotten) (auto simp: word_less_nat_alt)
  show ?thesis
  proof (intro exI conjI allI impI, rule turn)
    fix s2
    assume steps: "run session_step ?s1 (map NextEnvelopeMeta clocks) s2"
    have epoch: "sn_connection_epoch (ss_snapshot s2) = pe_connection_epoch r"
      using numbered_keeps_epoch [OF steps] by simp
    have fields: "meta_sequence (session_meta now_ms s2) = following (ss_next_sequence s2)"
        "meta_connection_epoch (session_meta now_ms s2) = sn_connection_epoch (ss_snapshot s2)"
      by (simp_all add: session_meta_def)
    have updated: "metrics ((w_app w')\<lparr>metrics := ?m\<rparr>) = ?m" by simp
    have n: "unat (following (ss_next_sequence s2)) = ?n"
      using unat_iterated [of 0 "Suc (length clocks)"] assms(9) small numbered_after [OF steps] by simp
    have nonzero: "following (ss_next_sequence s2) \<noteq> 0" using n by auto
    have reordered: "fst (record_sequence p (following (ss_next_sequence s2)) ?m) = SeqReordered" if "?n < unat highest_seen"
    proof -
      have "following (ss_next_sequence s2) < highest_seen" using that n by (simp add: word_less_nat_alt)
      then show ?thesis using tracked nonzero by (simp add: record_sequence_def)
    qed
    have duplicate: "fst (handle_datagram clk port (SocketAddr (IpV4 (address (pe_virtual_ip r))) source_port) packet
          ((w_app w')\<lparr>metrics := ?m\<rparr>)) = (Err (DuplicateSequence highest_seen) :: (outbound_datagram list, 'e relay_error) result)"
      if "?n = unat highest_seen" "\<forall>i. message \<noteq> RelayProbe i"
        "envelope_encode \<lparr>env_meta = session_meta now_ms s2, env_message = message\<rparr> = Ok packet" for message packet
    proof -
      have seq: "following (ss_next_sequence s2) = highest_seen" using that(1) n by (simp add: word_unat_eq_iff)
      have "pe_virtual_ip r = VirtualIp (address (pe_virtual_ip r))" by simp
      from fresh_number_collides [of "(w_app w')\<lparr>metrics := ?m\<rparr>" p peer _ "session_meta now_ms s2" clk message packet,
          where 'e = 'e] seq this
      show ?thesis using inv peer assms(7) tracked that(2,3) epoch nonzero by (simp add: session_meta_def)
    qed
    show "let n = ?n; meta = fst (next_envelope_meta now_ms s2);
           a = (w_app w')\<lparr>metrics := record_all (map (\<lambda>i. (p, word_of_nat i)) [1..<n]) (metrics (w_app w'))\<rparr> in
       unat (meta_sequence meta) = n \<and> meta_connection_epoch meta = pe_connection_epoch r \<and>
       (n < unat highest_seen \<longrightarrow> fst (record_sequence p (meta_sequence meta) (metrics a)) = SeqReordered) \<and>
       (n = unat highest_seen \<longrightarrow> (\<forall>message packet. (\<forall>i. message \<noteq> RelayProbe i) \<and>
          envelope_encode \<lparr>env_meta = meta, env_message = message\<rparr> = Ok packet \<longrightarrow>
          fst (handle_datagram clk port (SocketAddr (IpV4 (address (pe_virtual_ip r))) source_port) packet a) =
            (Err (DuplicateSequence highest_seen) :: (outbound_datagram list, 'e relay_error) result)))"
      unfolding Let_def next_envelope_meta_eq fst_conv fields updated using n reordered duplicate epoch by blast
  qed
qed

text \<open>The room with one peer again, of which the server has seen number 3.\<close>

definition demo_counted_world :: world where
  "demo_counted_world = on_app (metrics_update (\<lambda>_. snd (record_sequence (PeerId 1) 3 (metrics_default 0)))) demo_resume_world"

lemma demo_counted:
  "run router_step (router_new demo_config) demo_resume_events (the_router demo_counted_world)"
  "hget (last_seen (metrics (w_app demo_counted_world))) (PeerId 1) = Some 3"
  "\<exists>w'. resume_room (authorized demo_client demo_env) (code_str demo_code)
      \<lparr>jr_peer_id = Some (PeerId 1), jr_wireguard_public_key = None, jr_requested_virtual_ip = None\<rparr> demo_counted_world =
     (Ok \<lparr>pe_room_id = RoomId 1, pe_peer_id = PeerId 1, pe_virtual_ip = VirtualIp 1, pe_connection_epoch = 1\<rparr>, w') \<and>
   udp_rate_limiter (w_app w') = limiter_new UDP_PACKETS_PER_SECOND (from_secs 1)"
proof -
  show "run router_step (router_new demo_config) demo_resume_events (the_router demo_counted_world)"
    using demo_resume_run by (simp add: demo_counted_world_def on_app_def)
  show "hget (last_seen (metrics (w_app demo_counted_world))) (PeerId 1) = Some 3"
    by (simp add: demo_counted_world_def on_app_def record_sequence_def metrics_default_def)
  let ?env = "authorized demo_client demo_env"
  have "api_rate_limiter (w_app demo_counted_world) = limiter_new API_REQUESTS_PER_SECOND (from_secs 1)"
    by (simp add: demo_counted_world_def on_app_def demo_resume_world_def demo_world_def app_new_def)
  then obtain l where "limit_request ?env (rstr ''tok'') demo_counted_world = (Ok (), on_app (api_rate_limiter_update (\<lambda>_. l)) demo_counted_world)"
    by (rule limit_request_fresh)
  then have "require_bearer ?env demo_counted_world = (Ok (), on_app (api_rate_limiter_update (\<lambda>_. l)) demo_counted_world)"
    by (simp add: require_bearer_def authorized_def demo_base(2) demo_counted_world_def on_app_def demo_resume_world_def
        demo_world_def app_new_def)
  then show "\<exists>w'. resume_room ?env (code_str demo_code)
      \<lparr>jr_peer_id = Some (PeerId 1), jr_wireguard_public_key = None, jr_requested_virtual_ip = None\<rparr> demo_counted_world =
     (Ok \<lparr>pe_room_id = RoomId 1, pe_peer_id = PeerId 1, pe_virtual_ip = VirtualIp 1, pe_connection_epoch = 1\<rparr>, w') \<and>
   udp_rate_limiter (w_app w') = limiter_new UDP_PACKETS_PER_SECOND (from_secs 1)"
    by (simp add: resume_room_def path_code_def parse_room_code_def parse_well_formed [OF demo_code_ok] room_of_code_def
        room_id_for_code_def router_op_def authorized_def)
      (simp add: demo_counted_world_def demo_resume_world_def demo_world_def app_new_def on_app_def demo_resume_events_def
        demo_config_def router_eval demo_env_def)
qed

theorem resumed_stream_collides_witness:
  "\<exists>(w' :: world) reconnect s1 s2 packet. run_turn (ReconnectTurn reconnect :: unit session_turn) (True, session_new None 7) =
       Some (Some (from_millis 250), False, s1) \<and>
     run session_step s1 (map NextEnvelopeMeta [0, 0] :: unit session_op list) s2 \<and>
     envelope_encode \<lparr>env_meta = fst (next_envelope_meta 0 s2),
       env_message = GameplayPacket (GameplaySessionId 9) (Civ6UdpPort 62056) [1]\<rparr> = Ok packet \<and>
     fst (handle_datagram demo_clocks 32000 (SocketAddr (IpV4 1) 5000) packet
         ((w_app w')\<lparr>metrics := record_all (map (\<lambda>i. (PeerId 1, word_of_nat i)) [1..<3]) (metrics (w_app w'))\<rparr>)) =
       (Err (DuplicateSequence 3) :: (outbound_datagram list, unit relay_error) result)"
proof -
  let ?r = "\<lparr>pe_room_id = RoomId 1, pe_peer_id = PeerId 1, pe_virtual_ip = VirtualIp 1, pe_connection_epoch = 1\<rparr>"
  let ?reconnect = "\<lambda>_. and_then (control_resume_room letters_text (server_http demo_http demo_env demo_counted_world) demo_client
      demo_code (PeerId 1)) (\<lambda>peer. Ok (cl_connection_epoch peer) :: (u64, unit client_error) result)"
  obtain w' where w': "resume_room (authorized demo_client demo_env) (code_str demo_code)
      \<lparr>jr_peer_id = Some (PeerId 1), jr_wireguard_public_key = None, jr_requested_virtual_ip = None\<rparr> demo_counted_world = (Ok ?r, w')"
      "udp_rate_limiter (w_app w') = limiter_new UDP_PACKETS_PER_SECOND (from_secs 1)"
    using demo_counted(3) by blast
  have allowed: "fst (allow (clk_limiter demo_clocks) (rstr (ipv4_to_string (address (pe_virtual_ip ?r)))) (udp_rate_limiter (w_app w')))"
    by (simp add: w'(2) allow_def demo_clocks_def limiter_new_def from_secs_def UDP_PACKETS_PER_SECOND_def duration_since_def)
  have reconnect: "?reconnect = (\<lambda>_. and_then (control_resume_room (he_uuid demo_http) (server_http demo_http demo_env demo_counted_world)
      demo_client demo_code (PeerId 1)) (\<lambda>peer. Ok (cl_connection_epoch peer) :: (u64, unit client_error) result))"
    by (simp add: demo_base(3))
  have uuid: "uuid_text_ok (he_uuid demo_http)" by (simp add: demo_base(3) letters_text_ok)
  have few: "length [0 :: u64, 0] < unat (3 :: u64)" by simp
  from resumed_stream_collides [OF demo_counted(1) demo_base(1) uuid demo_code_ok w'(1) reconnect allowed demo_counted(2) few,
      where s = "session_new None 7" and now_ms = 0 and port = 32000 and source_port = 5000 and 'e = unit]
  obtain s1 where s1: "run_turn (ReconnectTurn ?reconnect) (True, session_new None 7) =
      Some (Some (reconnect_delay (session_new None 7)), False, s1)"
    and all: "\<forall>s2. run session_step s1 (map NextEnvelopeMeta [0, 0] :: unit session_op list) s2 \<longrightarrow>
      (let n = length [0 :: u64, 0] + 1; meta = fst (next_envelope_meta 0 s2);
           a = (w_app w')\<lparr>metrics := record_all (map (\<lambda>i. (PeerId 1, word_of_nat i)) [1..<n]) (metrics (w_app w'))\<rparr> in
       unat (meta_sequence meta) = n \<and> meta_connection_epoch meta = pe_connection_epoch ?r \<and>
       (n < unat (3 :: u64) \<longrightarrow> fst (record_sequence (PeerId 1) (meta_sequence meta) (metrics a)) = SeqReordered) \<and>
       (n = unat (3 :: u64) \<longrightarrow> (\<forall>message packet. (\<forall>i. message \<noteq> RelayProbe i) \<and>
          envelope_encode \<lparr>env_meta = meta, env_message = message\<rparr> = Ok packet \<longrightarrow>
          fst (handle_datagram demo_clocks 32000 (SocketAddr (IpV4 (address (pe_virtual_ip ?r))) 5000) packet a) =
            (Err (DuplicateSequence 3) :: (outbound_datagram list, unit relay_error) result))))"
    by blast
  have three: "length [0 :: u64, 0] + 1 = 3" by simp
  obtain s2 where s2: "run session_step s1 (map NextEnvelopeMeta [0, 0] :: unit session_op list) s2"
    by (auto simp: session_step_iff)
  obtain packet where packet: "envelope_encode \<lparr>env_meta = fst (next_envelope_meta 0 s2),
       env_message = GameplayPacket (GameplaySessionId 9) (Civ6UdpPort 62056) [1]\<rparr> = Ok packet"
    by (rule encoded_envelope [of "\<lparr>env_meta = fst (next_envelope_meta 0 s2),
       env_message = GameplayPacket (GameplaySessionId 9) (Civ6UdpPort 62056) [1]\<rparr>"]) simp_all
  have delay: "reconnect_delay (session_new None 7) = from_millis 250"
    by (simp add: reconnect_delay_eq session_new_def with_config_def session_config_default_def snapshot_new_def link_backoff_def
        DURATION_MAX_def from_millis_def from_secs_def)
  have "fst (handle_datagram demo_clocks 32000 (SocketAddr (IpV4 1) 5000) packet
       ((w_app w')\<lparr>metrics := record_all (map (\<lambda>i. (PeerId 1, word_of_nat i)) [1..<3]) (metrics (w_app w'))\<rparr>)) =
     (Err (DuplicateSequence 3) :: (outbound_datagram list, unit relay_error) result)"
    using all [rule_format, OF s2, unfolded three Let_def] packet
    by (auto simp del: upt_rec_numeral)
  with s1 [unfolded delay] s2 packet show ?thesis by blast
qed

end
