(* ===== verification/WireGuard_Run.thy ===== *)
theory WireGuard_Run
  imports Api
begin

section \<open>Running the WireGuard command\<close>

text \<open>
  Models \<open>WireGuardManager::run\<close> of \<open>server/src/wireguard.rs\<close>, with \<open>String::from_utf8\<close> of the standard library,
  which decides whether the error output of a failed command can be reported. The process itself is an argument:
  the outcome of a command is \<open>None\<close> when it could not be started, else its success and its error output.
  \<open>run_command\<close> is what \<open>add_peer\<close> and \<open>remove_peer\<close> take as \<open>wg\<close>.
\<close>

subsection \<open>UTF-8\<close>

definition continuation :: "nat \<Rightarrow> bool" where
  "continuation b \<longleftrightarrow> 128 \<le> b \<and> b < 192"

definition digit :: "nat \<Rightarrow> nat \<Rightarrow> nat" where
  "digit a d = a * 64 + d"

fun next_char :: "nat list \<Rightarrow> (rchar \<times> nat list) option" where
  "next_char [] = None"
| "next_char (a # bs) =
     (if a < 0x80 then Some (a, bs)
      else if 0xC2 \<le> a \<and> a < 0xE0 then
        (case bs of b # bs \<Rightarrow>
           if continuation b then Some (digit (a - 0xC0) (b - 128), bs) else None
         | _ \<Rightarrow> None)
      else if 0xE0 \<le> a \<and> a < 0xF0 then
        (case bs of b # c # bs \<Rightarrow>
           if continuation b \<and> continuation c \<and> (a = 0xE0 \<longrightarrow> 0xA0 \<le> b) \<and> (a = 0xED \<longrightarrow> b < 0xA0)
           then Some (digit (digit (a - 0xE0) (b - 128)) (c - 128), bs) else None
         | _ \<Rightarrow> None)
      else if 0xF0 \<le> a \<and> a < 0xF5 then
        (case bs of b # c # d # bs \<Rightarrow>
           if continuation b \<and> continuation c \<and> continuation d \<and> (a = 0xF0 \<longrightarrow> 0x90 \<le> b) \<and> (a = 0xF4 \<longrightarrow> b < 0x90)
           then Some (digit (digit (digit (a - 0xF0) (b - 128)) (c - 128)) (d - 128), bs) else None
         | _ \<Rightarrow> None)
      else None)"

lemma next_char_shorter: "next_char bs = Some (c, rest) \<Longrightarrow> length rest < length bs"
  by (cases bs) (auto split: if_splits list.splits)

function utf8_chars :: "nat list \<Rightarrow> rstring option" where
  "utf8_chars bs =
     (if bs = [] then Some []
      else case next_char bs of
        None \<Rightarrow> None
      | Some (c, rest) \<Rightarrow> map_option (Cons c) (utf8_chars rest))"
  by auto
termination by (relation "measure length") (auto dest: next_char_shorter)

declare utf8_chars.simps [simp del]

definition from_utf8 :: "byte list \<Rightarrow> rstring option" where
  "from_utf8 bytes = utf8_chars (map unat bytes)"

text \<open>The encoding of a scalar value, as in a string of the program.\<close>

definition is_scalar :: "rchar \<Rightarrow> bool" where
  "is_scalar c \<longleftrightarrow> c < 0xD800 \<or> 0xE000 \<le> c \<and> c < 0x110000"

definition utf8_bytes :: "rchar \<Rightarrow> nat list" where
  "utf8_bytes c =
     (if c < 0x80 then [c]
      else if c < 0x800 then [0xC0 + c div 64, 128 + c mod 64]
      else if c < 0x10000 then [0xE0 + c div 64 div 64, 128 + c div 64 mod 64, 128 + c mod 64]
      else [0xF0 + c div 64 div 64 div 64, 128 + c div 64 div 64 mod 64, 128 + c div 64 mod 64, 128 + c mod 64])"

definition into_bytes :: "rstring \<Rightarrow> byte list" where
  "into_bytes s = map word_of_nat (concat (map utf8_bytes s))"

lemma length_utf8_bytes [simp]: "length (utf8_bytes c) = utf8_len c"
  by (simp add: utf8_bytes_def utf8_len_def)

text \<open>A scalar value by its digits to the base 64, and the bytes of each shape.\<close>

lemma digit_exists: "\<exists>a d. n = digit a d \<and> d < (64 :: nat)"
  by (intro exI [of _ "n div 64"] exI [of _ "n mod 64"]) (simp add: digit_def)

lemma digits: "d < (64 :: nat) \<Longrightarrow> (digit a d) div 64 = a \<and> (digit a d) mod 64 = d"
  by (simp add: digit_def)

lemma utf8_bytes_ascii: "a < 0x80 \<Longrightarrow> utf8_bytes a = [a]"
  by (simp add: utf8_bytes_def)

lemma utf8_bytes_digits:
  assumes "b < 64" "c < 64" "d < 64"
  shows "2 \<le> a \<Longrightarrow> a < 32 \<Longrightarrow> utf8_bytes (digit a d) = [0xC0 + a, 128 + d]"
    and "a < 16 \<Longrightarrow> a = 0 \<longrightarrow> 32 \<le> b \<Longrightarrow> utf8_bytes (digit (digit a b) d) = [0xE0 + a, 128 + b, 128 + d]"
    and "a < 5 \<Longrightarrow> a = 0 \<longrightarrow> 16 \<le> b \<Longrightarrow>
      utf8_bytes (digit (digit (digit a b) c) d) = [0xF0 + a, 128 + b, 128 + c, 128 + d]"
proof -
  show "utf8_bytes (digit a d) = [0xC0 + a, 128 + d]" if "2 \<le> a" "a < 32"
  proof -
    have "\<not> digit a d < 0x80" "digit a d < 0x800" using that assms unfolding digit_def by linarith+
    then show ?thesis by (simp only: utf8_bytes_def digits [OF assms(3)] if_True if_False)
  qed
  show "utf8_bytes (digit (digit a b) d) = [0xE0 + a, 128 + b, 128 + d]" if "a < 16" "a = 0 \<longrightarrow> 32 \<le> b"
  proof -
    have "\<not> digit (digit a b) d < 0x80" "\<not> digit (digit a b) d < 0x800" "digit (digit a b) d < 0x10000"
      using that assms unfolding digit_def by (cases "a = 0"; simp)+
    then show ?thesis by (simp only: utf8_bytes_def digits [OF assms(1)] digits [OF assms(3)] if_True if_False)
  qed
  show "utf8_bytes (digit (digit (digit a b) c) d) = [0xF0 + a, 128 + b, 128 + c, 128 + d]" if "a < 5" "a = 0 \<longrightarrow> 16 \<le> b"
  proof -
    have "\<not> digit (digit (digit a b) c) d < 0x80" "\<not> digit (digit (digit a b) c) d < 0x800"
      "\<not> digit (digit (digit a b) c) d < 0x10000"
      using that assms unfolding digit_def by (cases "a = 0"; simp)+
    then show ?thesis
      by (simp only: utf8_bytes_def digits [OF assms(1)] digits [OF assms(2)] digits [OF assms(3)] if_False)
  qed
qed

lemma is_scalar_digits:
  assumes "b < 64" "c < 64" "d < 64"
  shows "a < 32 \<Longrightarrow> is_scalar (digit a d)"
    and "a < 16 \<Longrightarrow> a = 13 \<longrightarrow> b < 32 \<Longrightarrow> is_scalar (digit (digit a b) d)"
    and "a < 5 \<Longrightarrow> a = 0 \<longrightarrow> 16 \<le> b \<Longrightarrow> a = 4 \<longrightarrow> b < 16 \<Longrightarrow> is_scalar (digit (digit (digit a b) c) d)"
proof -
  show "is_scalar (digit a d)" if "a < 32"
    using that assms by (simp add: is_scalar_def digit_def)
  show "is_scalar (digit (digit a b) d)" if "a < 16" "a = 13 \<longrightarrow> b < 32"
  proof -
    consider "a < 13" | "a = 13" | "14 \<le> a" by linarith
    then show ?thesis
      by cases (use that assms in \<open>simp_all add: is_scalar_def digit_def\<close>)
  qed
  show "is_scalar (digit (digit (digit a b) c) d)" if "a < 5" "a = 0 \<longrightarrow> 16 \<le> b" "a = 4 \<longrightarrow> b < 16"
  proof -
    consider "a = 0" | "1 \<le> a" "a < 4" | "a = 4" using \<open>a < 5\<close> by linarith
    then show ?thesis
      by cases (use that assms in \<open>simp_all add: is_scalar_def digit_def\<close>)
  qed
qed

lemma scalar_cases:
  assumes "is_scalar n"
  obtains "n < 0x80"
  | a d where "n = digit a d" "2 \<le> a" "a < 32" "d < 64"
  | a b d where "n = digit (digit a b) d" "a < 16" "a = 0 \<longrightarrow> 32 \<le> b" "a = 13 \<longrightarrow> b < 32" "b < 64" "d < 64"
  | a b c d where "n = digit (digit (digit a b) c) d" "a < 5" "a = 0 \<longrightarrow> 16 \<le> b" "a = 4 \<longrightarrow> b < 16"
      "b < 64" "c < 64" "d < 64"
proof -
  obtain x d y c a b where n: "n = digit x d" "d < 64" "x = digit y c" "c < 64" "y = digit a b" "b < 64"
    using digit_exists by metis
  consider "n < 0x80" | "0x80 \<le> n" "n < 0x800" | "0x800 \<le> n" "n < 0x10000" | "0x10000 \<le> n" "n < 0x110000"
    using assms unfolding is_scalar_def by linarith
  then show thesis
  proof cases
    case 1
    then show thesis by (rule that(1))
  next
    case 2
    then have "2 \<le> x" "x < 32" using n unfolding digit_def by linarith+
    then show thesis using n by (intro that(2))
  next
    case 3
    then have "y < 16" "y = 0 \<longrightarrow> 32 \<le> c" "y = 13 \<longrightarrow> c < 32"
      using n assms unfolding is_scalar_def digit_def by linarith+
    then show thesis using n by (intro that(3) [of y c d]) simp_all
  next
    case 4
    then have "a < 5" "a = 0 \<longrightarrow> 16 \<le> b" "a = 4 \<longrightarrow> b < 16" using n unfolding digit_def by linarith+
    then show thesis using n by (intro that(4) [of a b c d]) simp_all
  qed
qed

lemma utf8_bytes_below: "is_scalar c \<Longrightarrow> b \<in> set (utf8_bytes c) \<Longrightarrow> b < 256"
  by (erule scalar_cases) (auto simp: utf8_bytes_ascii utf8_bytes_digits)

lemma next_char_utf8_bytes: "is_scalar c \<Longrightarrow> next_char (utf8_bytes c @ bs) = Some (c, bs)"
  by (erule scalar_cases) (simp_all add: utf8_bytes_ascii utf8_bytes_digits continuation_def)

lemma continuation_obtain:
  assumes "continuation b"
  obtains d where "b = 128 + d" "d < 64"
  using assms that [of "b - 128"] unfolding continuation_def by linarith

lemma utf8_bytes_next_char:
  assumes "next_char bs = Some (n, rest)"
  shows "is_scalar n \<and> bs = utf8_bytes n @ rest"
proof -
  obtain a as where bs: "bs = a # as"
    using assms by (cases bs) auto
  with assms consider "a < 0x80" | "0xC2 \<le> a" "a < 0xE0" | "0xE0 \<le> a" "a < 0xF0" | "0xF0 \<le> a" "a < 0xF5"
    by (auto split: if_splits)
  then show ?thesis
  proof cases
    case 1
    then show ?thesis using assms by (simp add: bs utf8_bytes_ascii is_scalar_def)
  next
    case 2
    with assms obtain b where b: "as = b # rest" "continuation b" "n = digit (a - 0xC0) (b - 128)"
      by (auto simp: bs split: list.splits if_splits)
    obtain d where "b = 128 + d" "d < 64" using b(2) by (rule continuation_obtain)
    moreover obtain k where "a = 0xC0 + k" using 2 le_Suc_ex [of "0xC0" a] by auto
    ultimately show ?thesis using 2 by (simp add: bs b(1) b(3) utf8_bytes_digits is_scalar_digits)
  next
    case 3
    with assms obtain b c where b: "as = b # c # rest" "continuation b" "continuation c" "n = digit (digit (a - 0xE0) (b - 128)) (c - 128)"
      "a = 0xE0 \<longrightarrow> 0xA0 \<le> b" "a = 0xED \<longrightarrow> b < 0xA0"
      by (auto simp: bs split: list.splits if_splits)
    obtain d e where "b = 128 + d" "d < 64" "c = 128 + e" "e < 64" using b(2,3) by (auto elim!: continuation_obtain)
    moreover obtain k where "a = 0xE0 + k" using 3 le_Suc_ex by blast
    ultimately show ?thesis using 3 b(5,6) by (auto simp: bs b(1) b(4) utf8_bytes_digits is_scalar_digits)
  next
    case 4
    with assms obtain b c d where b: "as = b # c # d # rest" "continuation b" "continuation c" "continuation d"
      "n = digit (digit (digit (a - 0xF0) (b - 128)) (c - 128)) (d - 128)" "a = 0xF0 \<longrightarrow> 0x90 \<le> b" "a = 0xF4 \<longrightarrow> b < 0x90"
      by (auto simp: bs split: list.splits if_splits)
    obtain e f g where "b = 128 + e" "e < 64" "c = 128 + f" "f < 64" "d = 128 + g" "g < 64"
      using b(2-4) by (auto elim!: continuation_obtain)
    moreover obtain k where "a = 0xF0 + k" using 4 le_Suc_ex by blast
    ultimately show ?thesis using 4 b(6,7) by (auto simp: bs b(1) b(5) utf8_bytes_digits is_scalar_digits)
  qed
qed

lemma utf8_chars_concat: "list_all is_scalar s \<Longrightarrow> utf8_chars (concat (map utf8_bytes s)) = Some s"
proof (induction s)
  case (Cons c s)
  moreover have "utf8_bytes c \<noteq> []"
    by (simp add: utf8_bytes_def)
  ultimately show ?case
    by (subst utf8_chars.simps) (simp add: next_char_utf8_bytes)
qed (simp add: utf8_chars.simps)

lemma from_utf8_into_bytes:
  assumes "list_all is_scalar s"
  shows "from_utf8 (into_bytes s) = Some s" and "length (into_bytes s) = str_len s"
proof -
  have "map (unat \<circ> (word_of_nat :: nat \<Rightarrow> byte)) (concat (map utf8_bytes s)) = concat (map utf8_bytes s)"
    using assms by (intro map_idI) (auto simp: list_all_iff unat_of_nat intro!: mod_less utf8_bytes_below)
  then show "from_utf8 (into_bytes s) = Some s"
    using utf8_chars_concat [OF assms] by (simp add: from_utf8_def into_bytes_def)
  show "length (into_bytes s) = str_len s"
    by (simp add: into_bytes_def str_len_def length_concat comp_def)
qed

lemma utf8_chars_Some: "utf8_chars bs = Some s \<Longrightarrow> list_all is_scalar s \<and> bs = concat (map utf8_bytes s)"
proof (induction bs arbitrary: s rule: utf8_chars.induct)
  case (1 bs)
  from 1(2) show ?case
    by (subst (asm) utf8_chars.simps)
      (auto split: if_splits option.splits dest: utf8_bytes_next_char dest!: 1(1))
qed

text \<open>Decoding accepts exactly the encodings of strings.\<close>

lemma from_utf8_Some_iff: "from_utf8 bytes = Some s \<longleftrightarrow> list_all is_scalar s \<and> bytes = into_bytes s"
proof
  assume "from_utf8 bytes = Some s"
  then have "list_all is_scalar s" "map unat bytes = concat (map utf8_bytes s)"
    using utf8_chars_Some unfolding from_utf8_def by blast+
  then have "map (word_of_nat \<circ> unat) bytes = into_bytes s"
    by (simp add: into_bytes_def flip: map_map)
  then show "list_all is_scalar s \<and> bytes = into_bytes s"
    using \<open>list_all is_scalar s\<close> by (simp add: comp_def)
qed (simp add: from_utf8_into_bytes)

subsection \<open>The command\<close>

record command_output =
  co_success :: bool
  co_stderr :: "byte list"

definition run_command :: "(rstring list \<Rightarrow> command_output option) \<Rightarrow> rstring list \<Rightarrow> (unit, wireguard_error) result" where
  "run_command command args =
     and_then (ok_or WgIo (command args)) (\<lambda>output.
       if co_success output then Ok ()
       else and_then (ok_or InvalidOutput (from_utf8 (co_stderr output))) (\<lambda>stderr. Err (CommandFailed (trim stderr))))"

lemma run_command_not_Panic [simp]: "run_command command args \<noteq> Panic"
  by (simp add: run_command_def ok_or_def split: option.splits)

lemma run_command_Ok_iff: "run_command command args = Ok () \<longleftrightarrow> (\<exists>output. command args = Some output \<and> co_success output)"
  by (auto simp: run_command_def ok_or_def split: option.splits)

text \<open>A failed command is reported with the text it printed, whatever the text.\<close>

lemma run_command_failed:
  assumes "list_all is_scalar s"
  shows "run_command (\<lambda>_. Some \<lparr>co_success = False, co_stderr = into_bytes s\<rparr>) args = Err (CommandFailed (trim s))"
  by (simp add: run_command_def from_utf8_into_bytes [OF assms])

text \<open>A key that is not one never reaches the command line.\<close>

lemma peer_commands_check_key:
  assumes "\<forall>bytes. decode public_key = Some bytes \<longrightarrow> length bytes \<noteq> 32"
  shows "add_peer decode wg m public_key ip = Err InvalidPublicKey"
    and "remove_peer decode wg m public_key = Err InvalidPublicKey"
  using assms by (auto simp: add_peer_def remove_peer_def validate_public_key_def ok_or_def split: option.splits)

lemma add_peer_Ok_iff:
  "add_peer decode (run_command command) m public_key ip = Ok () \<longleftrightarrow>
     (\<exists>bytes output. decode public_key = Some bytes \<and> length bytes = 32 \<and>
       command (add_peer_args m public_key ip) = Some output \<and> co_success output)"
  by (auto simp: add_peer_def validate_public_key_def ok_or_def run_command_Ok_iff split: option.splits)

end
