(* ===== verification/Testing.thy ===== *)
theory Testing
  imports Router_Lifecycle Codec_Correct
begin

section \<open>Running the unit tests of the source\<close>

text \<open>
  The unit tests in the \<open>#[cfg(test)]\<close> modules of the source, run on the model. A test is a definition with the name of
  the test function, statement by statement: \<open>unwrapped\<close> is \<open>unwrap()\<close>, which fails the test on anything but
  \<open>Ok\<close>, an \<open>assert!\<close> is a conjunct, and the identifiers and clock readings a test draws are distinct numbers.
  The lemma that the definition holds is the test passing; it checks the model against what the authors of the
  program expect of the code. This theory holds what all test modules share.
\<close>

definition unwrapped :: "('a, 'e) result \<times> 's \<Rightarrow> ('a \<Rightarrow> 's \<Rightarrow> bool) \<Rightarrow> bool" where
  "unwrapped p k = (case p of (Ok x, s) \<Rightarrow> k x s | _ \<Rightarrow> False)"

definition with_value :: "('a, 'e) result \<Rightarrow> ('a \<Rightarrow> bool) \<Rightarrow> bool" where
  "with_value res k = (case res of Ok x \<Rightarrow> k x | _ \<Rightarrow> False)"

text \<open>\<open>assert_eq!\<close> on the result of an operation, which goes on with the state it left.\<close>

definition returns :: "('a, 'e) result \<times> 's \<Rightarrow> ('a, 'e) result \<Rightarrow> ('s \<Rightarrow> bool) \<Rightarrow> bool" where
  "returns p expected k = (fst p = expected \<and> k (snd p))"

lemma unwrapped_Ok [simp]: "unwrapped (Ok x, s) k = k x s"
  by (simp add: unwrapped_def)

lemma with_value_Ok [simp]: "with_value (Ok x) k = k x"
  by (simp add: with_value_def)

lemma returns_pair [simp]: "returns (res, s) expected k = (res = expected \<and> k s)"
  by (simp add: returns_def)

text \<open>What comes after a call is not touched before the call has been evaluated.\<close>

lemma unwrapped_cong: "p = q \<Longrightarrow> unwrapped p k = unwrapped q k"
  and with_value_cong: "res = res' \<Longrightarrow> with_value res k' = with_value res' k'"
  and returns_cong: "p' = q' \<Longrightarrow> returns p' expected k'' = returns q' expected k''"
  and try_st_cong: "p'' = q'' \<Longrightarrow> try_st p'' f = try_st q'' f"
  by simp_all

lemmas test_cong = unwrapped_cong with_value_cong returns_cong try_st_cong

text \<open>A room code and an address from their text, as the tests' helpers \<open>code\<close> and \<open>ip\<close> give them.\<close>

definition test_code :: "string \<Rightarrow> room_code" where
  "test_code value = (case parse_code (rstr value) of Ok c \<Rightarrow> c | _ \<Rightarrow> RoomCode [])"

definition test_ip :: "byte \<Rightarrow> byte \<Rightarrow> byte \<Rightarrow> byte \<Rightarrow> virtual_ip" where
  "test_ip a b c d = VirtualIp (ipv4_new a b c d)"

lemma rstr_eq_iff [simp]: "rstr s = rstr t \<longleftrightarrow> s = t"
  by (auto simp: rstr_def inj_on_def intro!: inj_map_eq_map [THEN iffD1])

lemma ipv4_new_eq_iff: "ipv4_new a b c d = ipv4_new a' b' c' d' \<longleftrightarrow> a = a' \<and> b = b' \<and> c = c' \<and> d = d'"
  by (auto dest: arg_cong [of _ _ octets])

lemma address_test_ip [simp]: "address (test_ip a b c d) = ipv4_new a b c d"
  by (simp add: test_ip_def)

lemma test_ip_eq_iff [simp]: "test_ip a b c d = test_ip a' b' c' d' \<longleftrightarrow> a = a' \<and> b = b' \<and> c = c' \<and> d = d'"
  by (simp add: test_ip_def ipv4_new_eq_iff)

text \<open>What a client sends without metadata arrives as it was sent.\<close>

lemma message_encode_obtain:
  assumes "length (message_payload m) \<le> 4096"
  obtains packet where "message_encode m = Ok packet" "message_decode packet = Ok m"
    "envelope_decode packet = Ok \<lparr>env_meta = meta_default, env_message = m\<rparr>"
proof -
  obtain packet where "message_encode m = Ok packet"
    using assms by (simp add: message_encode_def encode_packet_eq MAX_CIV6_DATAGRAM_SIZE_def)
  then show ?thesis using that legacy_roundtrip by blast
qed

lemmas test_eval = router_eval default_config_def Let_def from_secs_def from_millis_def
  route_discovery_response_def live_targets_def is_discovery_port_def DISCOVERY_PORT_START_def DISCOVERY_PORT_END_def
  GAMEPLAY_PORT_def sorted_list_of_fset_insert List.map_filter_simps word_le_nat_alt hash_simps
  expire_def host_count_def room_code_of_def room_snapshot_of_def validate_payload_def router_stats_of_def room_for_peer_def hkeys_where_def
  remove_host_def disconnect_peer_def remove_gameplay_session_def DEFAULT_SAFE_RELAY_PAYLOAD_SIZE_def
  MAX_CIV6_DATAGRAM_SIZE_def fmdrop_fmupd peer_connection_epoch_def saturating_add_def max_def finsert_fminus_if id_order_defs

end
