(* ===== verification/Router_Tests.thy ===== *)
theory Router_Tests
  imports Testing
begin

section \<open>The tests of the router\<close>

text \<open>The test module of \<open>crates/router/src/lib.rs\<close>; the rooms and peers of \<open>setup_router\<close> are those it returns.\<close>

definition setup_router :: "(room_router \<Rightarrow> bool) \<Rightarrow> bool" where
  "setup_router test =
     (let r = router_new default_config in
     unwrapped (create_room (RoomId 1) (test_code ''RMAAAA'') r) (\<lambda>room_a r.
     unwrapped (create_room (RoomId 2) (test_code ''RMBBBB'') r) (\<lambda>room_b r.
     unwrapped (join_room room_a (PeerId 1) (test_ip 10 240 0 2) 1 r) (\<lambda>_ r.
     unwrapped (join_room room_a (PeerId 2) (test_ip 10 240 0 3) 2 r) (\<lambda>_ r.
     unwrapped (join_room room_b (PeerId 3) (test_ip 10 240 0 4) 3 r) (\<lambda>_ r. test r))))))"

lemma test_codes [simp]:
  "test_code ''RMAAAA'' = RoomCode (rstr ''RMAAAA'')" "test_code ''RMBBBB'' = RoomCode (rstr ''RMBBBB'')"
  "test_code ''RMCCCC'' = RoomCode (rstr ''RMCCCC'')" "test_code ''RMDDDD'' = RoomCode (rstr ''RMDDDD'')"
  "test_code ''RMGAME'' = RoomCode (rstr ''RMGAME'')" "test_code ''RMLMTA'' = RoomCode (rstr ''RMLMTA'')"
  "test_code ''RMLMTB'' = RoomCode (rstr ''RMLMTB'')" "test_code ''RMRESM'' = RoomCode (rstr ''RMRESM'')"
  by code_simp+

definition discovery_fanout_is_room_scoped_and_keeps_host_identity :: bool where
  "discovery_fanout_is_room_scoped_and_keeps_host_identity = setup_router (\<lambda>r.
     let room_a = RoomId 1; room_b = RoomId 2; peer_a1 = PeerId 1; peer_a2 = PeerId 2; peer_b1 = PeerId 3;
         now = 4; request = DiscoveryRequestId 1 in
     unwrapped (register_host room_a peer_a1 now (HostSessionId 1) r) (\<lambda>host_a r.
     unwrapped (register_host room_b peer_b1 now (HostSessionId 2) r) (\<lambda>host_b r.
     unwrapped (begin_discovery room_a peer_a2 request (Civ6UdpPort 62900) now r) (\<lambda>targets r.
       length targets = 1 \<and> target_host_session_id (targets ! 0) = host_a \<and>
       route_discovery_response r request host_a now = Ok peer_a2 \<and>
       route_discovery_response r request host_b now = Err (HostNotInRoom host_b room_a)))))"

lemma discovery_fanout_is_room_scoped_and_keeps_host_identity_passes:
  "discovery_fanout_is_room_scoped_and_keeps_host_identity"
  by (simp add: discovery_fanout_is_room_scoped_and_keeps_host_identity_def setup_router_def test_eval cong: test_cong)

definition multiple_members_can_host_and_selected_gameplay_is_bidirectional :: bool where
  "multiple_members_can_host_and_selected_gameplay_is_bidirectional = setup_router (\<lambda>r.
     let room_a = RoomId 1; peer_a1 = PeerId 1; peer_a2 = PeerId 2; now = 4; request = DiscoveryRequestId 1;
         unrelated = PeerId 4 in
     unwrapped (register_host room_a peer_a1 now (HostSessionId 1) r) (\<lambda>host_a1 r.
     unwrapped (register_host room_a peer_a2 now (HostSessionId 2) r) (\<lambda>host_a2 r.
       host_count r room_a = Ok 2 \<and>
     unwrapped (begin_discovery room_a peer_a1 request (Civ6UdpPort 62901) now r) (\<lambda>targets r.
       length targets = 2 \<and>
       list_ex (\<lambda>target. target_host_session_id target = host_a1) targets \<and>
       list_ex (\<lambda>target. target_host_session_id target = host_a2) targets \<and>
     unwrapped (select_host room_a peer_a1 host_a2 now (GameplaySessionId 1) r) (\<lambda>gameplay_id r.
     unwrapped (route_gameplay_datagram gameplay_id peer_a1 now r) (\<lambda>to_host r.
       route_destination_peer_id to_host = peer_a2 \<and>
       route_destination_virtual_ip to_host = test_ip 10 240 0 3 \<and>
     unwrapped (route_gameplay_datagram gameplay_id peer_a2 now r) (\<lambda>to_client r.
       route_destination_peer_id to_client = peer_a1 \<and>
       route_destination_virtual_ip to_client = test_ip 10 240 0 2 \<and>
       route_room_id to_client = room_a \<and>
     returns (route_gameplay_datagram gameplay_id unrelated now r) (Err (UnauthorizedGameplayPeer unrelated gameplay_id))
       (\<lambda>r. GAMEPLAY_PORT = 62056))))))))"

lemma multiple_members_can_host_and_selected_gameplay_is_bidirectional_passes:
  "multiple_members_can_host_and_selected_gameplay_is_bidirectional"
  by (simp add: multiple_members_can_host_and_selected_gameplay_is_bidirectional_def setup_router_def test_eval cong: test_cong)

definition expired_hosts_and_sessions_are_removed_without_touching_other_rooms :: bool where
  "expired_hosts_and_sessions_are_removed_without_touching_other_rooms =
     (let r = router_new (default_config\<lparr>host_ttl := from_secs 10, discovery_ttl := from_secs 15,
                gameplay_idle_ttl := from_secs 20\<rparr>);
          peer_a = PeerId 1; peer_b = PeerId 2; start = 3; request = DiscoveryRequestId 1 in
     unwrapped (create_room (RoomId 1) (test_code ''RMCCCC'') r) (\<lambda>room_a r.
     unwrapped (create_room (RoomId 2) (test_code ''RMDDDD'') r) (\<lambda>room_b r.
     unwrapped (join_room room_a peer_a (test_ip 10 240 0 5) 1 r) (\<lambda>_ r.
     unwrapped (join_room room_b peer_b (test_ip 10 240 0 6) 2 r) (\<lambda>_ r.
     unwrapped (register_host room_a peer_a start (HostSessionId 1) r) (\<lambda>host_a r.
     unwrapped (register_host room_b peer_b (start + from_secs 5) (HostSessionId 2) r) (\<lambda>_ r.
     unwrapped (begin_discovery room_a peer_a request (Civ6UdpPort 62902) start r) (\<lambda>_ r.
     unwrapped (expire (start + from_secs 11) r) (\<lambda>report r.
       expired_hosts report = 1 \<and> expired_discoveries report = 0 \<and>
       host_count r room_a = Ok 0 \<and> host_count r room_b = Ok 1 \<and>
       route_discovery_response r request host_a (start + from_secs 11) = Err (HostNotFound host_a) \<and>
     unwrapped (expire (start + from_secs 16) r) (\<lambda>discovery_expiry r.
       expired_discoveries discovery_expiry = 1))))))))))"

lemma expired_hosts_and_sessions_are_removed_without_touching_other_rooms_passes:
  "expired_hosts_and_sessions_are_removed_without_touching_other_rooms"
  by (simp add: expired_hosts_and_sessions_are_removed_without_touching_other_rooms_def test_eval cong: test_cong)

definition gameplay_sessions_expire_on_idle_without_expiring_the_host :: bool where
  "gameplay_sessions_expire_on_idle_without_expiring_the_host =
     (let r = router_new (default_config\<lparr>host_ttl := from_secs 60, discovery_ttl := from_secs 5,
                gameplay_idle_ttl := from_secs 20, peer_ttl := from_secs 60\<rparr>);
          client = PeerId 1; host = PeerId 2; start = 3 in
     unwrapped (create_room (RoomId 1) (test_code ''RMGAME'') r) (\<lambda>room r.
     unwrapped (join_room room client (test_ip 10 240 0 8) 1 r) (\<lambda>_ r.
     unwrapped (join_room room host (test_ip 10 240 0 9) 2 r) (\<lambda>_ r.
     unwrapped (register_host room host start (HostSessionId 1) r) (\<lambda>host_session r.
     unwrapped (select_host room client host_session start (GameplaySessionId 1) r) (\<lambda>gameplay r.
     unwrapped (route_gameplay_datagram gameplay client (start + from_secs 10) r) (\<lambda>_ r.
     unwrapped (expire (start + from_secs 31) r) (\<lambda>report r.
       expired_hosts report = 0 \<and> expired_gameplay_sessions report = 1 \<and> host_count r room = Ok 1 \<and>
     returns (route_gameplay_datagram gameplay client (start + from_secs 31) r) (Err (GameplayNotFound gameplay))
       (\<lambda>r. True)))))))))"

lemma gameplay_sessions_expire_on_idle_without_expiring_the_host_passes:
  "gameplay_sessions_expire_on_idle_without_expiring_the_host"
  by (simp add: gameplay_sessions_expire_on_idle_without_expiring_the_host_def test_eval cong: test_cong)

definition a_peer_cannot_join_two_rooms_or_reuse_a_virtual_ip :: bool where
  "a_peer_cannot_join_two_rooms_or_reuse_a_virtual_ip = setup_router (\<lambda>r.
     let room_a = RoomId 1; room_b = RoomId 2; peer_a1 = PeerId 1; new_peer = PeerId 4 in
     returns (join_room room_b peer_a1 (test_ip 10 240 0 7) 4 r) (Err (PeerAlreadyInRoom peer_a1)) (\<lambda>r.
     returns (join_room room_b new_peer (test_ip 10 240 0 2) 5 r) (Err (VirtualIpInUse (test_ip 10 240 0 2))) (\<lambda>r.
     with_value (room_code_of r room_a) (\<lambda>code. code = test_code ''RMAAAA''))))"

lemma a_peer_cannot_join_two_rooms_or_reuse_a_virtual_ip_passes:
  "a_peer_cannot_join_two_rooms_or_reuse_a_virtual_ip"
  by (simp add: a_peer_cannot_join_two_rooms_or_reuse_a_virtual_ip_def setup_router_def test_eval cong: test_cong)

definition dispatch_layer_rejects_unknown_peers_and_oversized_datagrams :: bool where
  "dispatch_layer_rejects_unknown_peers_and_oversized_datagrams = setup_router (\<lambda>r.
     let room_a = RoomId 1; peer_a1 = PeerId 1; peer_a2 = PeerId 2; now = 4; unknown = PeerId 4 in
     unwrapped (register_host room_a peer_a1 now (HostSessionId 1) r) (\<lambda>_ r.
     returns (dispatch (IngressDiscovery unknown (DiscoveryRequestId 1) (Civ6UdpPort 62900) [1] now) r)
       (Err (PeerNotFound unknown)) (\<lambda>r.
     returns (dispatch (IngressDiscovery peer_a2 (DiscoveryRequestId 2) (Civ6UdpPort 62900)
         (replicate (MAX_CIV6_DATAGRAM_SIZE + 1) 0) now) r)
       (Err (DatagramTooLarge (MAX_CIV6_DATAGRAM_SIZE + 1))) (\<lambda>r. True))))"

lemma dispatch_layer_rejects_unknown_peers_and_oversized_datagrams_passes:
  "dispatch_layer_rejects_unknown_peers_and_oversized_datagrams"
  by (simp add: dispatch_layer_rejects_unknown_peers_and_oversized_datagrams_def setup_router_def test_eval cong: test_cong)

definition room_peer_host_and_gameplay_limits_reject_excess_load_without_leaking_state :: bool where
  "room_peer_host_and_gameplay_limits_reject_excess_load_without_leaking_state =
     (let r = router_new (default_config\<lparr>max_rooms := 1, max_peers_per_room := 2, max_total_peers := 2,
                max_hosts_per_room := 1, max_gameplay_sessions := 1\<rparr>);
          client = PeerId 1; host = PeerId 2; excess_peer = PeerId 3; now = 4 in
     unwrapped (create_room (RoomId 1) (test_code ''RMLMTA'') r) (\<lambda>room r.
     returns (create_room (RoomId 2) (test_code ''RMLMTB'') r) (Err RoomLimitReached) (\<lambda>r.
     unwrapped (join_room room client (test_ip 10 240 0 20) 1 r) (\<lambda>_ r.
     unwrapped (join_room room host (test_ip 10 240 0 21) 2 r) (\<lambda>_ r.
     returns (join_room room excess_peer (test_ip 10 240 0 22) 3 r) (Err (RoomPeerLimitReached room)) (\<lambda>r.
       active_peers (router_stats_of r) = 2 \<and>
     unwrapped (register_host room host now (HostSessionId 1) r) (\<lambda>host_session r.
     returns (register_host room client now (HostSessionId 2) r) (Err (HostLimitReached room)) (\<lambda>r.
       active_hosts (router_stats_of r) = 1 \<and>
     unwrapped (select_host room client host_session now (GameplaySessionId 1) r) (\<lambda>gameplay r.
     returns (select_host room client host_session now (GameplaySessionId 2) r) (Err GameplayLimitReached) (\<lambda>r.
       active_gameplay_sessions (router_stats_of r) = 1 \<and>
     returns (remove_gameplay_session gameplay r) (Ok ()) (\<lambda>r.
       active_gameplay_sessions (router_stats_of r) = 0)))))))))))"

lemma room_peer_host_and_gameplay_limits_reject_excess_load_without_leaking_state_passes:
  "room_peer_host_and_gameplay_limits_reject_excess_load_without_leaking_state"
  by (simp add: room_peer_host_and_gameplay_limits_reject_excess_load_without_leaking_state_def test_eval cong: test_cong)

definition discovery_retry_reuses_cached_request_without_creating_a_second_entry :: bool where
  "discovery_retry_reuses_cached_request_without_creating_a_second_entry = setup_router (\<lambda>r.
     let room_a = RoomId 1; peer_a1 = PeerId 1; now = 4; request = DiscoveryRequestId 1 in
     unwrapped (register_host room_a peer_a1 now (HostSessionId 1) r) (\<lambda>_ r.
     unwrapped (begin_discovery room_a peer_a1 request (Civ6UdpPort 62900) now r) (\<lambda>first r.
     unwrapped (begin_discovery room_a peer_a1 request (Civ6UdpPort 62900) (now + from_millis 250) r) (\<lambda>retry r.
       retry = first \<and>
     returns (begin_discovery room_a peer_a1 request (Civ6UdpPort 62901) now r) (Err (DiscoveryRequestConflict request))
       (\<lambda>r. True)))))"

lemma discovery_retry_reuses_cached_request_without_creating_a_second_entry_passes:
  "discovery_retry_reuses_cached_request_without_creating_a_second_entry"
  by (simp add: discovery_retry_reuses_cached_request_without_creating_a_second_entry_def setup_router_def test_eval cong: test_cong)

definition peer_resume_keeps_identity_and_rotates_connection_epoch :: bool where
  "peer_resume_keeps_identity_and_rotates_connection_epoch =
     (let r = router_new (default_config\<lparr>peer_ttl := from_secs 15, peer_grace_ttl := from_secs 45\<rparr>);
          peer = PeerId 1; ip = test_ip 10 240 0 20; joined = 2 in
     unwrapped (create_room (RoomId 1) (test_code ''RMRESM'') r) (\<lambda>room r.
     unwrapped (join_room room peer ip 1 r) (\<lambda>_ r.
     unwrapped (mark_peer_seen peer joined r) (\<lambda>_ r.
     unwrapped (expire (joined + from_secs 16) r) (\<lambda>_ r.
     returns (mark_peer_seen peer (joined + from_secs 17) r) (Err (PeerDisconnected peer)) (\<lambda>r.
     unwrapped (resume_peer room peer (joined + from_secs 17) r) (\<lambda>resumed r.
       psnap_peer_id resumed = peer \<and> psnap_virtual_ip resumed = ip \<and> psnap_connection_epoch resumed = 2 \<and>
       room_for_peer r peer = Some room)))))))"

lemma peer_resume_keeps_identity_and_rotates_connection_epoch_passes:
  "peer_resume_keeps_identity_and_rotates_connection_epoch"
  by (simp add: peer_resume_keeps_identity_and_rotates_connection_epoch_def test_eval cong: test_cong)

end
