(* ===== verification/Protocol_Tests.thy ===== *)
theory Protocol_Tests
  imports Testing App_State
begin

section \<open>The tests of the protocol, the metrics and WireGuard\<close>

text \<open>
  The test modules of \<open>crates/protocol/src/lib.rs\<close>, \<open>crates/protocol/src/relay.rs\<close>, \<open>server/src/metrics.rs\<close> and
  \<open>server/src/wireguard.rs\<close>. What a test draws at random is a parameter of it, and it passes for every value.
\<close>

subsection \<open>Ports and room codes\<close>

definition discovery_range_is_inclusive :: bool where
  "discovery_range_is_inclusive \<longleftrightarrow>
     is_discovery_port DISCOVERY_PORT_START \<and> is_discovery_port DISCOVERY_PORT_END \<and>
     \<not> is_discovery_port (DISCOVERY_PORT_START - 1) \<and> \<not> is_discovery_port (DISCOVERY_PORT_END + 1)"

lemma discovery_range_is_inclusive_passes: "discovery_range_is_inclusive"
  by code_simp

definition room_codes_are_normalized_and_reject_ambiguous_characters :: "uuid \<Rightarrow> bool" where
  "room_codes_are_normalized_and_reject_ambiguous_characters u \<longleftrightarrow>
     with_value (parse_code (rstr ''ab2345'')) (\<lambda>code. code_str code = rstr ''AB2345'') \<and>
     list_all (\<lambda>character. character \<in> set (rstr ''ABCDEFGHJKLMNPQRSTUVWXYZ23456789'')) (code_str (random_code u)) \<and>
     parse_code (rstr ''abcde'') = Err (InvalidLength CODE_MIN_LEN CODE_MAX_LEN) \<and>
     parse_code (rstr ''ABC1EF'') = Err (InvalidCharacter (of_char (CHR ''1''))) \<and>
     parse_code (rstr ''ABC0EF'') = Err (InvalidCharacter (of_char (CHR ''0'')))"

lemma room_codes_are_normalized_and_reject_ambiguous_characters_passes:
  "room_codes_are_normalized_and_reject_ambiguous_characters u"
proof -
  have "set (code_str (random_code u)) \<subseteq> set room_alphabet"
    using random_code_well_formed [of u] by (simp add: well_formed_code_def)
  moreover have "parse_code (rstr ''ab2345'') = Ok (RoomCode (rstr ''AB2345''))"
      "parse_code (rstr ''abcde'') = Err (InvalidLength CODE_MIN_LEN CODE_MAX_LEN)"
      "parse_code (rstr ''ABC1EF'') = Err (InvalidCharacter (of_char (CHR ''1'')))"
      "parse_code (rstr ''ABC0EF'') = Err (InvalidCharacter (of_char (CHR ''0'')))"
    by code_simp+
  ultimately show ?thesis
    by (auto simp: room_codes_are_normalized_and_reject_ambiguous_characters_def list_all_iff room_alphabet_def)
qed

definition only_civ6_ports_are_accepted :: bool where
  "only_civ6_ports_are_accepted \<longleftrightarrow>
     with_value (validate_port (Civ6UdpPort DISCOVERY_PORT_START)) (\<lambda>_. True) \<and>
     with_value (validate_port (Civ6UdpPort GAMEPLAY_PORT)) (\<lambda>_. True) \<and>
     validate_port (Civ6UdpPort 12345) = Err (InvalidCiv6Port 12345)"

lemma only_civ6_ports_are_accepted_passes: "only_civ6_ports_are_accepted"
  by code_simp

subsection \<open>The codec\<close>

fun is_invalid_packet :: "('a, relay_codec_error) result \<Rightarrow> bool" where
  "is_invalid_packet (Err (InvalidPacket _)) \<longleftrightarrow> True"
| "is_invalid_packet _ \<longleftrightarrow> False"

definition rejects_wrong_magic_and_round_trips_empty_payload :: "uuid \<Rightarrow> bool" where
  "rejects_wrong_magic_and_round_trips_empty_payload u \<longleftrightarrow>
     (let message = GameplayPacket (GameplaySessionId u) (Civ6UdpPort 62056) [] in
      with_value (message_encode message) (\<lambda>packet.
        message_decode packet = Ok message \<and>
        is_invalid_packet (message_decode (packet[0 := 88]))))"

lemma rejects_wrong_magic_and_round_trips_empty_payload_passes: "rejects_wrong_magic_and_round_trips_empty_payload u"
proof -
  let ?m = "GameplayPacket (GameplaySessionId u) (Civ6UdpPort 62056) []"
  obtain packet where p: "message_encode ?m = Ok packet" "message_decode packet = Ok ?m"
    by (rule message_encode_obtain [of ?m]) auto
  then have "is_invalid_packet (message_decode (packet[0 := 88]))"
    by (auto simp: message_encode_def encode_packet_eq frame_def MAGIC_def message_decode_def envelope_decode_def
        decode_packet_eq split: if_splits)
  then show ?thesis
    by (simp add: rejects_wrong_magic_and_round_trips_empty_payload_def Let_def p)
qed

definition v2_envelope_round_trips_metadata_and_legacy_decode_still_works :: "uuid \<Rightarrow> bool" where
  "v2_envelope_round_trips_metadata_and_legacy_decode_still_works u \<longleftrightarrow>
     (let message = GameplayPacket (GameplaySessionId u) (Civ6UdpPort 62056) [198, 108, 98];
          meta = \<lparr>meta_sequence = 42, meta_connection_epoch = 7, meta_sent_at_ms = 1234, meta_path_id = Some 1\<rparr> in
      with_value (envelope_encode \<lparr>env_meta = meta, env_message = message\<rparr>) (\<lambda>packet.
        envelope_decode packet = Ok \<lparr>env_meta = meta, env_message = message\<rparr> \<and>
        message_decode packet = Ok message) \<and>
      with_value (message_encode message) (\<lambda>legacy.
        envelope_decode legacy = Ok \<lparr>env_meta = meta_default, env_message = message\<rparr>))"

lemma v2_envelope_round_trips_metadata_and_legacy_decode_still_works_passes:
  "v2_envelope_round_trips_metadata_and_legacy_decode_still_works u"
proof -
  let ?m = "GameplayPacket (GameplaySessionId u) (Civ6UdpPort 62056) [198, 108, 98]"
  let ?e = "\<lparr>env_meta = \<lparr>meta_sequence = 42, meta_connection_epoch = 7, meta_sent_at_ms = 1234, meta_path_id = Some 1\<rparr>,
    env_message = ?m\<rparr>"
  obtain packet where "envelope_encode ?e = Ok packet" "envelope_decode packet = Ok ?e"
    by (rule encoded_envelope [of ?e]) auto
  moreover obtain legacy where "message_encode ?m = Ok legacy"
      "envelope_decode legacy = Ok \<lparr>env_meta = meta_default, env_message = ?m\<rparr>"
    by (rule message_encode_obtain [of ?m]) auto
  ultimately show ?thesis
    by (simp add: v2_envelope_round_trips_metadata_and_legacy_decode_still_works_def Let_def message_decode_def)
qed

definition transport_path_ids_reserve_wireguard_and_quic_without_aliasing_them :: bool where
  "transport_path_ids_reserve_wireguard_and_quic_without_aliasing_them \<longleftrightarrow>
     path_to_id WireGuardUdp = WIREGUARD_UDP_PATH_ID \<and> path_to_id QuicDatagram = QUIC_DATAGRAM_PATH_ID \<and>
     path_to_id WireGuardUdp \<noteq> path_to_id QuicDatagram \<and>
     path_from_id QUIC_DATAGRAM_PATH_ID = Some QuicDatagram"

lemma transport_path_ids_reserve_wireguard_and_quic_without_aliasing_them_passes:
  "transport_path_ids_reserve_wireguard_and_quic_without_aliasing_them"
  by code_simp

subsection \<open>Metrics\<close>

text \<open>The clock readings of the calls, and the fingerprint function, are parameters; \<open>to_le_bytes\<close> of a \<open>usize\<close>.\<close>

definition duplicate_fingerprint_cache_has_a_hard_bound :: "(byte list \<Rightarrow> u64) \<Rightarrow> (nat \<Rightarrow> instant) \<Rightarrow> bool" where
  "duplicate_fingerprint_cache_has_a_hard_bound fingerprint clock \<longleftrightarrow>
     (let metrics = fold (\<lambda>packet_id. record_received fingerprint (clock packet_id)
            (rev (word_to_be 8 (word_of_nat packet_id :: u64))))
          [0..<MAX_SEEN_PACKETS + 1024] (metrics_default (clock 0)) in
      hlen (sc_entries (seen_packets metrics)) \<le> MAX_SEEN_PACKETS)"

lemma record_received_all_bounded:
  "caches_bounded m \<Longrightarrow> caches_bounded (fold (\<lambda>x. record_received fp (clock x) (f x)) xs m)"
proof (induction xs arbitrary: m)
  case (Cons x xs)
  then show ?case using apply_metric_bounded [of m fp "Received (f x) (clock x)"] by simp
qed simp

lemma duplicate_fingerprint_cache_has_a_hard_bound_passes: "duplicate_fingerprint_cache_has_a_hard_bound fp clock"
proof -
  let ?packet = "\<lambda>packet_id. rev (word_to_be 8 (word_of_nat packet_id :: u64))"
  have "caches_bounded (fold (\<lambda>i. record_received fp (clock i) (?packet i)) [0..<MAX_SEEN_PACKETS + 1024]
      (metrics_default (clock 0)))"
    by (rule record_received_all_bounded) (rule caches_bounded_default)
  then show ?thesis
    unfolding duplicate_fingerprint_cache_has_a_hard_bound_def Let_def caches_bounded_def by blast
qed

definition sequence_tracker_distinguishes_duplicate_and_reordered_packets :: "peer_id \<Rightarrow> router_stats \<Rightarrow> bool" where
  "sequence_tracker_distinguishes_duplicate_and_reordered_packets peer stats \<longleftrightarrow>
     (let metrics = metrics_default 0;
          metrics = snd (record_sequence peer 2 metrics);
          metrics = snd (record_sequence peer 2 metrics);
          metrics = snd (record_sequence peer 1 metrics);
          snapshot = metrics_snapshot stats metrics in
      snap_sequence_duplicates snapshot = 1 \<and> snap_reordered_packets snapshot = 1)"

lemma sequence_tracker_distinguishes_duplicate_and_reordered_packets_passes:
  "sequence_tracker_distinguishes_duplicate_and_reordered_packets peer stats"
  by (simp add: sequence_tracker_distinguishes_duplicate_and_reordered_packets_def Let_def record_sequence_def
      metrics_default_def metrics_snapshot_def hash_simps MAX_SEQUENCE_TRACKERS_def)

subsection \<open>WireGuard arguments\<close>

text \<open>Base64 is a parameter that decodes what it encoded and refuses what is not base64.\<close>

definition validates_wireguard_public_key_length :: "(byte list \<Rightarrow> rstring) \<Rightarrow> (rstring \<Rightarrow> byte list option) \<Rightarrow> bool" where
  "validates_wireguard_public_key_length encode decode \<longleftrightarrow>
     with_value (validate_public_key decode (encode (replicate 32 0))) (\<lambda>_. True) \<and>
     \<not> with_value (validate_public_key decode (rstr ''not-a-key'')) (\<lambda>_. True)"

lemma validates_wireguard_public_key_length_passes:
  assumes "\<And>bytes. decode (encode bytes) = Some bytes" and "decode (rstr ''not-a-key'') = None"
  shows "validates_wireguard_public_key_length encode decode"
  by (simp add: validates_wireguard_public_key_length_def validate_public_key_def assms with_value_def)

definition builds_argument_vectors_without_shell_interpolation :: "(byte list \<Rightarrow> rstring) \<Rightarrow> bool" where
  "builds_argument_vectors_without_shell_interpolation encode \<longleftrightarrow>
     (let manager = WireGuardManager (rstr ''wg0'');
          key = encode (replicate 32 1);
          args = add_peer_args manager key (test_ip 10 240 0 2) in
      args ! 0 = rstr ''set'' \<and> args ! 1 = rstr ''wg0'' \<and> args ! 2 = rstr ''peer'' \<and> args ! 3 = key \<and>
      args ! 4 = rstr ''allowed-ips'' \<and> args ! 5 = rstr ''10.240.0.2/32'' \<and>
      args ! 6 = rstr ''persistent-keepalive'' \<and> args ! 7 = rstr ''25'' \<and>
      virtual_ip_cidr (test_ip 10 240 0 2) = rstr ''10.240.0.2/32'')"

lemma builds_argument_vectors_without_shell_interpolation_passes:
  "builds_argument_vectors_without_shell_interpolation encode"
proof -
  have "dec_str 10 = ''10''" "dec_str 240 = ''240''" "dec_str 0 = ''0''" "dec_str 2 = ''2''" "dec_str 25 = ''25''"
    by code_simp+
  then show ?thesis
    by (simp add: builds_argument_vectors_without_shell_interpolation_def Let_def add_peer_args_def virtual_ip_cidr_def
        test_ip_def ipv4_to_string_def PERSISTENT_KEEPALIVE_SECONDS_def)
qed

end
