(* ===== verification/Relay_Tests.thy ===== *)
theory Relay_Tests
  imports Testing Server_Start Client_Session
begin

section \<open>The tests of the UDP relay\<close>

text \<open>
  The test module of \<open>server/src/relay.rs\<close>. A packet is what the codec makes of a message, and the tests with live
  sockets pass every packet through the turn of the server loop and every answer through the decoder of the
  client.
\<close>

subsection \<open>Packets by their message\<close>

definition sent_bytes :: "relay_message \<Rightarrow> byte list" where
  "sent_bytes m = frame LEGACY_RELAY_PROTOCOL_VERSION (message_kind m) (message_fields m @ message_payload m)"

lemma message_encode_sent [simp]: "length (message_payload m) \<le> 4096 \<Longrightarrow> message_encode m = Ok (sent_bytes m)"
  by (simp add: message_encode_def encode_packet_eq MAX_CIV6_DATAGRAM_SIZE_def sent_bytes_def meta_part_def)

lemma decode_sent_bytes [simp]:
  "length (message_payload m) \<le> 4096 \<Longrightarrow> envelope_decode (sent_bytes m) = Ok \<lparr>env_meta = meta_default, env_message = m\<rparr>"
  using message_encode_obtain [of m] by force

definition enveloped_bytes :: "relay_envelope \<Rightarrow> byte list" where
  "enveloped_bytes e = frame RELAY_PROTOCOL_VERSION (message_kind (env_message e))
     (write_meta [] (env_meta e) @ message_fields (env_message e) @ message_payload (env_message e))"

lemma envelope_encode_bytes [simp]:
  "length (message_payload (env_message e)) \<le> 4096 \<Longrightarrow> envelope_encode e = Ok (enveloped_bytes e)"
  by (simp add: envelope_encode_def encode_packet_eq MAX_CIV6_DATAGRAM_SIZE_def enveloped_bytes_def meta_part_def)

lemma decode_enveloped_bytes [simp]:
  "length (message_payload (env_message e)) \<le> 4096 \<Longrightarrow> envelope_decode (enveloped_bytes e) = Ok e"
  using encoded_envelope [of e] by force

lemma decimal_octets [simp]: "dec_str 10 = ''10''" "dec_str 240 = ''240''" "dec_str 0 = ''0''" "dec_str 2 = ''2''"
  "dec_str 3 = ''3''" "dec_str 127 = ''127''" "dec_str (Suc 0) = ''1''"
  by code_simp+

lemmas relay_eval = test_eval app_new_def limiter_new_def allow_def handle_datagram_def handle_message_def forward_message_def
  ingress_of_def action_to_datagrams_def on_router_def relay_destination_def host_snapshot_of_def peer_for_virtual_ip_def
  peer_virtual_ip_def ipv4_to_string_def record_sequence_def record_probe_def metrics_default_def meta_default_def
  UDP_PACKETS_PER_SECOND_def API_REQUESTS_PER_SECOND_def test_ip_def ipv4_new_eq_iff duration_since_def

subsection \<open>Helpers of the tests\<close>

text \<open>An operation on \<open>state.router\<close> under its lock, unwrapped.\<close>

definition in_router :: "(room_router \<Rightarrow> ('a, router_error) result \<times> room_router) \<Rightarrow> app_state \<Rightarrow> ('a \<Rightarrow> app_state \<Rightarrow> bool) \<Rightarrow> bool"
where "in_router f a k = unwrapped (f (router a)) (\<lambda>x r. k x (a\<lparr>router := r\<rparr>))"

definition setup_state :: "(app_state \<Rightarrow> bool) \<Rightarrow> bool" where
  "setup_state test =
     (let state = app_new 0 (rstr ''test-bearer-token'') in
      in_router (create_room (RoomId 1) (test_code ''RELAY2'')) state (\<lambda>room_id state.
      in_router (join_room room_id (PeerId 1) (test_ip 10 240 0 2) 1) state (\<lambda>_ state.
      in_router (join_room room_id (PeerId 2) (test_ip 10 240 0 3) 2) state (\<lambda>_ state.
      in_router (register_host room_id (PeerId 2) 3 (HostSessionId 1)) state (\<lambda>_ state. test state)))))"

lemma relay_codes [simp]:
  "test_code ''RELAY2'' = RoomCode (rstr ''RELAY2'')" "test_code ''LAVA42'' = RoomCode (rstr ''LAVA42'')"
  by code_simp+

definition at_time :: "instant \<Rightarrow> relay_clocks" where
  "at_time t = \<lparr>clk_limiter = t, clk_now = t, clk_unix_ms = 1\<rparr>"

definition source_at :: "byte \<Rightarrow> byte \<Rightarrow> byte \<Rightarrow> byte \<Rightarrow> socket_addr" where
  "source_at a b c d = SocketAddr (IpV4 (ipv4_new a b c d)) DEFAULT_RELAY_PORT"

text \<open>\<open>handle_datagram(source, &message.encode().unwrap()).await.unwrap()\<close>.\<close>

definition handles ::
  "instant \<Rightarrow> socket_addr \<Rightarrow> relay_message \<Rightarrow> app_state \<Rightarrow> (outbound_datagram list \<Rightarrow> app_state \<Rightarrow> bool) \<Rightarrow> bool" where
  "handles t source message state k =
     with_value (message_encode message) (\<lambda>packet.
     unwrapped (handle_datagram (at_time t) DEFAULT_RELAY_PORT source packet state
       :: (outbound_datagram list, unit relay_error) result \<times> app_state) k)"

lemmas setup_eval = relay_eval setup_state_def in_router_def handles_def at_time_def source_at_def

subsection \<open>The tests\<close>

definition discovery_keeps_host_identity_in_both_directions :: bool where
  "discovery_keeps_host_identity_in_both_directions = setup_state (\<lambda>state.
     let request = DiscoveryRequestId 1; h = HostSessionId 1 in
     handles 4 (source_at 10 240 0 2) (DiscoveryRequest request (Civ6UdpPort 62900) [9, 8, 7]) state (\<lambda>outbound state.
       length outbound = 1 \<and>
       sa_ip (out_destination (outbound ! 0)) = IpV4 (ipv4_new 10 240 0 3) \<and>
       out_message (outbound ! 0) = DiscoveryToHost request (test_ip 10 240 0 2) (Civ6UdpPort 62900) [9, 8, 7] \<and>
     handles 5 (source_at 10 240 0 3) (DiscoveryResponse request h (Civ6UdpPort 62900) [1, 2, 3, 4]) state (\<lambda>outbound state.
       length outbound = 1 \<and>
       sa_ip (out_destination (outbound ! 0)) = IpV4 (ipv4_new 10 240 0 2) \<and>
       out_message (outbound ! 0) = DiscoveryToClient request (test_ip 10 240 0 3) (Civ6UdpPort 62900) [1, 2, 3, 4])))"

lemma discovery_keeps_host_identity_in_both_directions_passes: "discovery_keeps_host_identity_in_both_directions"
  by (simp add: discovery_keeps_host_identity_in_both_directions_def setup_eval cong: test_cong)

definition relay_probe_returns_an_ack_to_the_registered_peer :: bool where
  "relay_probe_returns_an_ack_to_the_registered_peer = setup_state (\<lambda>state.
     let request = DiscoveryRequestId 1; source = source_at 10 240 0 2 in
     handles 4 source (RelayProbe request) state (\<lambda>outbound state.
       length outbound = 1 \<and> out_destination (outbound ! 0) = source \<and>
       out_message (outbound ! 0) = RelayProbeAck request))"

lemma relay_probe_returns_an_ack_to_the_registered_peer_passes: "relay_probe_returns_an_ack_to_the_registered_peer"
  by (simp add: relay_probe_returns_an_ack_to_the_registered_peer_def setup_eval cong: test_cong)

definition envelope_round_trips_and_rejects_trailing_bytes :: "uuid \<Rightarrow> bool" where
  "envelope_round_trips_and_rejects_trailing_bytes u \<longleftrightarrow>
     (let message = GameplayPacket (GameplaySessionId u) (Civ6UdpPort 62056) [1, 2, 3] in
      with_value (message_encode message) (\<lambda>packet.
        message_decode packet = Ok message \<and>
        (case message_decode (packet @ [4]) of Err (InvalidPacket _) \<Rightarrow> True | _ \<Rightarrow> False)))"

lemma trailing_byte_refused: "decode_packet p = Ok e \<Longrightarrow> \<exists>what. decode_packet (p @ [b]) = Err (InvalidPacket what)"
  by (auto simp: decode_packet_eq nth_append Let_def size_defs split: if_splits)

lemma envelope_round_trips_and_rejects_trailing_bytes_passes: "envelope_round_trips_and_rejects_trailing_bytes u"
proof -
  let ?m = "GameplayPacket (GameplaySessionId u) (Civ6UdpPort 62056) [1, 2, 3]"
  have dec: "decode_packet (sent_bytes ?m) = Ok \<lparr>env_meta = meta_default, env_message = ?m\<rparr>"
    using decode_sent_bytes [of ?m] by (simp add: envelope_decode_def)
  obtain what where "decode_packet (sent_bytes ?m @ [4]) = Err (InvalidPacket what)"
    using trailing_byte_refused [OF dec] by blast
  with dec show ?thesis
    by (simp add: envelope_round_trips_and_rejects_trailing_bytes_def message_decode_def envelope_decode_def)
qed

definition udp_rate_limit_is_applied_before_relay_dispatch :: bool where
  "udp_rate_limit_is_applied_before_relay_dispatch = setup_state (\<lambda>state.
     let state = state\<lparr>udp_rate_limiter := limiter_new 2 (from_secs 60)\<rparr>; source = source_at 10 240 0 2 in
     handles 4 source (RelayProbe (DiscoveryRequestId 1)) state (\<lambda>_ state.
     handles 5 source (RelayProbe (DiscoveryRequestId 2)) state (\<lambda>_ state.
     with_value (message_encode (RelayProbe (DiscoveryRequestId 3))) (\<lambda>packet.
       fst (handle_datagram (at_time 6) DEFAULT_RELAY_PORT source packet state) =
         (Err PacketRateLimited :: (outbound_datagram list, unit relay_error) result)))))"

lemma udp_rate_limit_is_applied_before_relay_dispatch_passes: "udp_rate_limit_is_applied_before_relay_dispatch"
  by (simp add: udp_rate_limit_is_applied_before_relay_dispatch_def setup_eval cong: test_cong)

definition gameplay_is_bidirectional_and_rejects_spoofed_host_responses :: bool where
  "gameplay_is_bidirectional_and_rejects_spoofed_host_responses = setup_state (\<lambda>state.
     let room_id = RoomId 1; client_peer = PeerId 1; host_peer = PeerId 2; h = HostSessionId 1 in
     in_router (select_host room_id client_peer h 4 (GameplaySessionId 1)) state (\<lambda>g state.
     handles 5 (source_at 10 240 0 2) (GameplayPacket g (Civ6UdpPort 62056) [5, 6]) state (\<lambda>outbound state.
       sa_ip (out_destination (outbound ! 0)) = IpV4 (ipv4_new 10 240 0 3) \<and>
       out_message (outbound ! 0) = GameplayToPeer g (test_ip 10 240 0 2) (Civ6UdpPort 62056) [5, 6] \<and>
     with_value (message_encode (DiscoveryResponse (DiscoveryRequestId 1) h (Civ6UdpPort 62900) [1])) (\<lambda>packet.
       fst (handle_datagram (at_time 6) DEFAULT_RELAY_PORT (source_at 10 240 0 2) packet state) =
         (Err (SourcePeerMismatch h client_peer) :: (outbound_datagram list, unit relay_error) result) \<and>
       client_peer \<noteq> host_peer))))"

lemma gameplay_is_bidirectional_and_rejects_spoofed_host_responses_passes:
  "gameplay_is_bidirectional_and_rejects_spoofed_host_responses"
  by (simp add: gameplay_is_bidirectional_and_rejects_spoofed_host_responses_def setup_eval cong: test_cong)

definition relay_rejects_packets_from_an_old_connection_epoch :: bool where
  "relay_rejects_packets_from_an_old_connection_epoch = setup_state (\<lambda>state.
     let room_id = RoomId 1; client_peer = PeerId 1; joined = 4 in
     in_router (mark_peer_seen client_peer joined) state (\<lambda>_ state.
     with_value (peer_connection_epoch (router state) client_peer) (\<lambda>old_epoch.
     in_router (expire (joined + from_secs 16)) state (\<lambda>_ state.
     in_router (resume_peer room_id client_peer (joined + from_secs 17)) state (\<lambda>resumed state.
       psnap_connection_epoch resumed = old_epoch + 1 \<and>
     with_value (envelope_encode
         \<lparr>env_meta = \<lparr>meta_sequence = 1, meta_connection_epoch = old_epoch, meta_sent_at_ms = 1, meta_path_id = Some 1\<rparr>,
          env_message = DiscoveryRequest (DiscoveryRequestId 1) (Civ6UdpPort 62900) [1]\<rparr>) (\<lambda>packet.
       (case fst (handle_datagram (at_time (joined + from_secs 18)) DEFAULT_RELAY_PORT (source_at 10 240 0 2) packet state
           :: (outbound_datagram list, unit relay_error) result \<times> app_state) of
          Err (StaleConnectionEpoch _ _) \<Rightarrow> True | _ \<Rightarrow> False)))))))"

lemma relay_rejects_packets_from_an_old_connection_epoch_passes: "relay_rejects_packets_from_an_old_connection_epoch"
  by (simp add: relay_rejects_packets_from_an_old_connection_epoch_def setup_eval cong: test_cong)

subsection \<open>Live sockets\<close>

text \<open>
  A packet at the server's socket: the turn of the loop goes well, and what it sent are the datagrams of the
  handler, encoded, with the address each is sent to. The packet's fingerprint does not matter here.
\<close>

definition server_sends ::
  "instant \<Rightarrow> socket_addr \<Rightarrow> byte list \<Rightarrow> app_state \<Rightarrow> ((socket_addr \<times> byte list) list \<Rightarrow> app_state \<Rightarrow> bool) \<Rightarrow> bool" where
  "server_sends t source packet state k =
     unwrapped (handle_datagram (at_time t) DEFAULT_RELAY_PORT source packet
         (state\<lparr>metrics := record_received (\<lambda>_. 0) t packet (metrics state)\<rparr>)
       :: (outbound_datagram list, unit relay_error) result \<times> app_state) (\<lambda>outbound _.
     unwrapped (loop_turn (\<lambda>_. 0) DEFAULT_RELAY_PORT
         (Packet t (at_time t) source packet (\<lambda>_ _. None :: unit option)) state) (\<lambda>_ state.
       k (concat (map (\<lambda>d. case envelope_encode \<lparr>env_meta = out_meta d, env_message = out_message d\<rparr> of
           Ok bytes \<Rightarrow> [(out_destination d, bytes)] | _ \<Rightarrow> []) outbound)) state))"

text \<open>\<open>client.send(&message).await.unwrap()\<close>, from the address the client is bound to.\<close>

definition live_send ::
  "instant \<Rightarrow> socket_addr \<Rightarrow> relay_message \<Rightarrow> app_state \<Rightarrow> ((socket_addr \<times> byte list) list \<Rightarrow> app_state \<Rightarrow> bool) \<Rightarrow> bool" where
  "live_send t source message state k =
     unwrapped (client_send (\<lambda>_. None :: unit option) message []) (\<lambda>_ sent. server_sends t source (hd sent) state k)"

text \<open>\<open>client.receive().await.unwrap()\<close>: the datagram addressed to the client, decoded.\<close>

definition live_receive :: "socket_addr \<Rightarrow> (socket_addr \<times> byte list) list \<Rightarrow> relay_message \<Rightarrow> bool" where
  "live_receive bound answers expected =
     (case map_of answers bound of
        None \<Rightarrow> False
      | Some bytes \<Rightarrow> client_receive (Datagram bytes) = (Ok expected :: (relay_message, unit client_error) result))"

lemma receive_enveloped [simp]:
  assumes "length (message_payload (env_message e)) \<le> 4096"
  shows "receive_envelope (Datagram (enveloped_bytes e)) = Ok e"
proof -
  obtain p where "envelope_encode e = Ok p" "length p \<le> MAX_RELAY_DATAGRAM_SIZE" "envelope_decode p = Ok e"
    using assms by (rule encoded_envelope)
  with assms show ?thesis by simp
qed

lemma take_enveloped [simp]:
  assumes "length (message_payload (env_message e)) \<le> 4096"
  shows "take MAX_RELAY_DATAGRAM_SIZE (enveloped_bytes e) = enveloped_bytes e"
proof -
  obtain p where "envelope_encode e = Ok p" "length p \<le> MAX_RELAY_DATAGRAM_SIZE"
    using assms by (rule encoded_envelope)
  with assms show ?thesis by simp
qed

lemmas live_eval = setup_eval server_sends_def live_send_def live_receive_def record_received_def record_sent_def
  note_fingerprint_def SEEN_PACKET_CLEANUP_INTERVAL_def SEEN_PACKET_TTL_def MAX_SEEN_PACKETS_def MAX_SEQUENCE_TRACKERS_def
  client_send_def transmit_def client_receive_def

definition client_core_probe_exchanges_with_the_live_server_socket :: bool where
  "client_core_probe_exchanges_with_the_live_server_socket =
     (let state = app_new 0 (rstr ''test-bearer-token''); bound = source_at 127 0 0 1; request = DiscoveryRequestId 1 in
      in_router (create_room (RoomId 1) (test_code ''RELAY2'')) state (\<lambda>room_id state.
      in_router (join_room room_id (PeerId 1) (test_ip 127 0 0 1) 1) state (\<lambda>_ state.
      live_send 2 bound (RelayProbe request) state (\<lambda>answers state.
        (case map_of answers bound of
           None \<Rightarrow> False
         | Some bytes \<Rightarrow>
             fst (probe (\<lambda>_. None :: unit option) request (from_secs 1) [(0, Datagram bytes, 1)] []) = Some (Ok ()))))))"

lemma client_core_probe_exchanges_with_the_live_server_socket_passes:
  "client_core_probe_exchanges_with_the_live_server_socket"
  by (simp add: client_core_probe_exchanges_with_the_live_server_socket_def live_eval probe_def cong: test_cong)

definition two_live_client_sockets_exchange_discovery_and_gameplay :: bool where
  "two_live_client_sockets_exchange_discovery_and_gameplay =
     (let state = app_new 0 (rstr ''test-bearer-token''); client = source_at 127 0 0 2; host = source_at 127 0 0 3;
          client_peer = PeerId 1; host_peer = PeerId 2; h = HostSessionId 1; request = DiscoveryRequestId 1 in
      in_router (create_room (RoomId 1) (test_code ''LAVA42'')) state (\<lambda>room_id state.
      in_router (join_room room_id client_peer (test_ip 127 0 0 2) 1) state (\<lambda>_ state.
      in_router (join_room room_id host_peer (test_ip 127 0 0 3) 2) state (\<lambda>_ state.
      in_router (register_host room_id host_peer 3 h) state (\<lambda>_ state.
      in_router (select_host room_id client_peer h 4 (GameplaySessionId 1)) state (\<lambda>g state.
      live_send 5 client (DiscoveryRequest request (Civ6UdpPort 62900) [1, 2, 3]) state (\<lambda>answers state.
        live_receive host answers (DiscoveryToHost request (test_ip 127 0 0 2) (Civ6UdpPort 62900) [1, 2, 3]) \<and>
      live_send 6 host (DiscoveryResponse request h (Civ6UdpPort 62900) [4, 5, 6]) state (\<lambda>answers state.
        live_receive client answers (DiscoveryToClient request (test_ip 127 0 0 3) (Civ6UdpPort 62900) [4, 5, 6]) \<and>
      live_send 7 client (GameplayPacket g (Civ6UdpPort 62056) [7, 8]) state (\<lambda>answers state.
        live_receive host answers (GameplayToPeer g (test_ip 127 0 0 2) (Civ6UdpPort 62056) [7, 8]) \<and>
      live_send 8 host (GameplayPacket g (Civ6UdpPort 62056) [9, 10]) state (\<lambda>answers state.
        live_receive client answers (GameplayToPeer g (test_ip 127 0 0 3) (Civ6UdpPort 62056) [9, 10]) \<and>
        client_peer \<noteq> host_peer))))))))))"

lemma two_live_client_sockets_exchange_discovery_and_gameplay_passes:
  "two_live_client_sockets_exchange_discovery_and_gameplay"
  by (simp add: two_live_client_sockets_exchange_discovery_and_gameplay_def live_eval cong: test_cong)

end
