(* ===== verification/Client_Tests.thy ===== *)
theory Client_Tests
  imports Relay_Tests Client_Control
begin

section \<open>The tests of the client core\<close>

text \<open>
  The test module of \<open>crates/client-core/src/lib.rs\<close>. A server task that answers over a socket becomes the answer
  computed from the packet the client sent; the tests' simulated network is modelled as it is written.
\<close>

subsection \<open>Exchange, numbering and probes\<close>

definition relay_client_exchanges_a_versioned_message_over_udp :: "uuid \<Rightarrow> bool" where
  "relay_client_exchanges_a_versioned_message_over_udp u \<longleftrightarrow>
     (let expected = GameplayPacket (GameplaySessionId u) (Civ6UdpPort 62056) [1, 2, 3] in
      with_value (message_encode expected) (\<lambda>echoed.
        fst (exchange (\<lambda>_. None :: unit option) expected (Datagram echoed) []) = Ok expected))"

lemma receive_sent [simp]:
  assumes "length (message_payload m) \<le> 4096"
  shows "receive_envelope (Datagram (sent_bytes m)) = Ok \<lparr>env_meta = meta_default, env_message = m\<rparr>"
proof -
  have "length (sent_bytes m) \<le> MAX_RELAY_DATAGRAM_SIZE"
    using assms length_message_fields [of m] by (simp add: sent_bytes_def size_defs)
  with assms show ?thesis by simp
qed

lemma relay_client_exchanges_a_versioned_message_over_udp_passes: "relay_client_exchanges_a_versioned_message_over_udp u"
  by (simp add: relay_client_exchanges_a_versioned_message_over_udp_def Let_def exchange_def client_send_def transmit_def
      client_receive_def del: receive_envelope.simps)

text \<open>The packet a probe sends, before anything has come back; and the test server's answer to it.\<close>

definition probe_packet_of :: "discovery_request_id \<Rightarrow> session \<Rightarrow> byte list" where
  "probe_packet_of request s = last (ss_sent (snd (probe_once (\<lambda>_. None :: unit option) request 1 [] s)))"

definition acknowledges :: "byte list \<Rightarrow> (relay_meta \<Rightarrow> byte list \<Rightarrow> bool) \<Rightarrow> bool" where
  "acknowledges packet k =
     with_value (envelope_decode packet) (\<lambda>envelope.
     (case env_message envelope of
        RelayProbe request \<Rightarrow>
          with_value (envelope_encode \<lparr>env_meta = env_meta envelope, env_message = RelayProbeAck request\<rparr>) (k (env_meta envelope))
      | _ \<Rightarrow> False))"

lemmas session_eval = relay_eval session_new_def with_config_def session_config_default_def snapshot_new_def on_snapshot_def
  mark_authenticated_def mark_room_joined_def mark_disconnected_def probe_once_def send_numbered_def next_envelope_meta_def
  meta_new_def send_envelope_def transmit_def record_probe_success_def record_probe_failure_def reconnect_delay_def
  DURATION_MAX_def WIREGUARD_UDP_PATH_ID_def QUIC_DATAGRAM_PATH_ID_def probe_packet_of_def acknowledges_def

definition relay_session_sequences_probes_and_records_rtt :: bool where
  "relay_session_sequences_probes_and_records_rtt =
     (let session = mark_room_joined (mark_authenticated 7 (session_new (Some WIREGUARD_UDP_PATH_ID) 7));
          request = DiscoveryRequestId 1 in
      acknowledges (probe_packet_of request session) (\<lambda>meta ack.
        meta_sequence meta = 1 \<and> meta_connection_epoch meta = 7 \<and>
        (case probe_once (\<lambda>_. None :: unit option) request 1 [(0, Datagram ack, from_millis 3)] session of
           (Some (Ok _), session) \<Rightarrow>
             sn_state (ss_snapshot session) = RoomJoined \<and> sn_last_rtt_ms (ss_snapshot session) \<noteq> None \<and>
             meta_sequence (fst (next_envelope_meta 2 session)) = 2
         | _ \<Rightarrow> False)))"

lemma relay_session_sequences_probes_and_records_rtt_passes: "relay_session_sequences_probes_and_records_rtt"
  by (simp add: relay_session_sequences_probes_and_records_rtt_def session_eval cong: test_cong)

subsection \<open>Backoff and path labels\<close>

text \<open>\<open>TestTransport\<close> reports the path of the trait's default.\<close>

definition relay_session_backoff_matches_the_reconnect_contract :: bool where
  "relay_session_backoff_matches_the_reconnect_contract =
     (let session = session_new (Some WIREGUARD_UDP_PATH_ID) 1;
          after_4 = on_snapshot (\<lambda>sn. sn\<lparr>sn_reconnect_attempts := 4\<rparr>) session;
          after_8 = on_snapshot (\<lambda>sn. sn\<lparr>sn_reconnect_attempts := 8\<rparr>) after_4 in
      reconnect_delay session = from_millis 250 \<and> reconnect_delay after_4 = from_secs 4 \<and>
      reconnect_delay after_8 = from_secs 8)"

lemma relay_session_backoff_matches_the_reconnect_contract_passes: "relay_session_backoff_matches_the_reconnect_contract"
  by (simp add: relay_session_backoff_matches_the_reconnect_contract_def session_eval min_def)

definition relay_session_can_label_a_quic_fallback_without_changing_the_envelope :: bool where
  "relay_session_can_label_a_quic_fallback_without_changing_the_envelope =
     (let session = with_config (Some WIREGUARD_UDP_PATH_ID) 1
            (session_config_default\<lparr>cf_path_id := Some QUIC_DATAGRAM_PATH_ID\<rparr>);
          meta = fst (next_envelope_meta 1 session) in
      meta_path_id meta = Some QUIC_DATAGRAM_PATH_ID \<and>
      (case meta_path_id meta of None \<Rightarrow> False | Some path \<Rightarrow> path_from_id path = Some QuicDatagram))"

lemma relay_session_can_label_a_quic_fallback_without_changing_the_envelope_passes:
  "relay_session_can_label_a_quic_fallback_without_changing_the_envelope"
  by (simp add: relay_session_can_label_a_quic_fallback_without_changing_the_envelope_def session_eval path_from_id_def)

subsection \<open>The simulated network\<close>

record fault_state =
  drop_remaining :: nat
  fs_offline :: bool
  fs_delay :: duration
  fs_sent_packets :: nat
  fs_received_packets :: "byte list list"

datatype simulated_error = InvalidData | ConnectionReset

definition simulated_send :: "fault_state \<Rightarrow> byte list \<Rightarrow> (unit, simulated_error) result \<times> fault_state" where
  "simulated_send c packet =
     (case envelope_decode packet of
        Ok envelope \<Rightarrow>
          let c = c\<lparr>fs_sent_packets := fs_sent_packets c + 1\<rparr>;
              should_drop = 0 < drop_remaining c;
              c = (if should_drop then c\<lparr>drop_remaining := drop_remaining c - 1\<rparr> else c)
          in if fs_offline c then (Err ConnectionReset, c)
             else if should_drop then (Ok (), c)
             else (case env_message envelope of
                 RelayProbe request \<Rightarrow>
                   (case envelope_encode \<lparr>env_meta = env_meta envelope, env_message = RelayProbeAck request\<rparr> of
                      Ok ack \<Rightarrow> (Ok (), c\<lparr>fs_received_packets := fs_received_packets c @ [ack]\<rparr>)
                    | Err _ \<Rightarrow> (Err InvalidData, c)
                    | Panic \<Rightarrow> (Panic, c))
               | _ \<Rightarrow> (Ok (), c))
      | Err _ \<Rightarrow> (Err InvalidData, c)
      | Panic \<Rightarrow> (Panic, c))"

text \<open>
  A receive takes the first packet that has come in, once the delay of the send is over; with none it waits until the
  probe times out.
\<close>

definition simulated_receive :: "fault_state \<Rightarrow> simulated_error wait \<times> fault_state" where
  "simulated_receive c =
     (case fs_received_packets c of
        [] \<Rightarrow> ((0, Elapsed, 0), c)
      | packet # packets \<Rightarrow> ((fs_delay c, Datagram packet, fs_delay c), c\<lparr>fs_received_packets := packets\<rparr>))"

definition simulated_probe ::
  "discovery_request_id \<Rightarrow> fault_state \<times> session \<Rightarrow>
   ((duration, simulated_error client_error) result option \<Rightarrow> fault_state \<times> session \<Rightarrow> bool) \<Rightarrow> bool" where
  "simulated_probe request st k =
     (case st of (c, s) \<Rightarrow>
      case simulated_send c (probe_packet_of request s) of (sent, c) \<Rightarrow>
      let io = (\<lambda>_. case sent of Err e \<Rightarrow> Some e | _ \<Rightarrow> None) in
      case (case sent of Ok _ \<Rightarrow> (case simulated_receive c of (w, c) \<Rightarrow> ([w], c)) | _ \<Rightarrow> ([], c)) of (waits, c) \<Rightarrow>
      case probe_once io request 1 waits s of (res, s) \<Rightarrow> k res (c, s))"

definition fails :: "('a, 'e) result option \<Rightarrow> bool" where
  "fails res = (case res of Some (Err _) \<Rightarrow> True | _ \<Rightarrow> False)"

definition failing_probe :: "discovery_request_id \<Rightarrow> fault_state \<times> session \<Rightarrow> (fault_state \<times> session \<Rightarrow> bool) \<Rightarrow> bool" where
  "failing_probe request st k =
     simulated_probe request st (\<lambda>res (c, s). fails res \<and> k (c, snd (record_probe_failure s)))"

definition simulated_loss_delay_and_disconnect_recover_without_gameplay_replay :: bool where
  "simulated_loss_delay_and_disconnect_recover_without_gameplay_replay =
     (let controller = \<lparr>drop_remaining = 0, fs_offline = False, fs_delay = from_millis 2, fs_sent_packets = 0,
            fs_received_packets = []\<rparr>;
          config = session_config_default\<lparr>cf_probe_timeout := from_millis 12\<rparr>;
          session = mark_room_joined (mark_authenticated 1 (with_config (Some WIREGUARD_UDP_PATH_ID) 1 config)) in
      failing_probe (DiscoveryRequestId 1) (controller\<lparr>drop_remaining := 3\<rparr>, session) (\<lambda>st.
      failing_probe (DiscoveryRequestId 2) st (\<lambda>st.
      failing_probe (DiscoveryRequestId 3) st (\<lambda>(controller, session).
        sn_state (ss_snapshot session) = Degraded \<and> sn_probe_failures (ss_snapshot session) = 3 \<and>
      simulated_probe (DiscoveryRequestId 4) (controller\<lparr>fs_offline := True\<rparr>, session) (\<lambda>res (controller, session).
        fails res \<and>
      simulated_probe (DiscoveryRequestId 5) (controller\<lparr>fs_offline := False\<rparr>, session) (\<lambda>res (controller, session).
        (case res of Some (Ok rtt) \<Rightarrow> from_millis 2 \<le> rtt | _ \<Rightarrow> False) \<and>
        sn_probe_failures (ss_snapshot session) = 0 \<and>
        fs_sent_packets controller = 5))))))"

text \<open>What one simulated probe comes to: lost, cut off, or answered after the delay.\<close>

lemma probe_packet_of_joined:
  assumes "sn_state (ss_snapshot s) \<noteq> Disconnected"
  obtains meta where "probe_packet_of request s = enveloped_bytes \<lparr>env_meta = meta, env_message = RelayProbe request\<rparr>"
proof (cases "next_envelope_meta 1 s")
  case (Pair meta s')
  with assms show ?thesis
    by (intro that [of meta])
      (simp add: probe_packet_of_def probe_once_def send_numbered_def send_envelope_def transmit_def)
qed

lemma probe_sent_session:
  assumes "sn_state (ss_snapshot s) \<noteq> Disconnected"
  obtains s' where "ss_snapshot s' = ss_snapshot s" "ss_config s' = ss_config s"
    "send_numbered (\<lambda>_. None :: 'io option) (RelayProbe request) 1 s = (Ok (), s')"
proof -
  let ?s = "snd (send_numbered (\<lambda>_. None :: unit option) (RelayProbe request) 1 s)"
  show ?thesis
    by (rule that [of ?s])
      (simp_all add: send_numbered_def send_envelope_def transmit_def next_envelope_meta_def Let_def)
qed

lemma simulated_probe_lost:
  assumes s: "sn_state (ss_snapshot s) \<noteq> Disconnected"
    and c: "drop_remaining c = Suc n" "\<not> fs_offline c" "fs_received_packets c = []"
    and k: "\<And>s'. ss_snapshot s' = ss_snapshot s \<Longrightarrow> ss_config s' = ss_config s \<Longrightarrow>
      k (Some (Err RelayTimeout)) (c\<lparr>fs_sent_packets := fs_sent_packets c + 1, drop_remaining := n\<rparr>, s')"
  shows "simulated_probe request (c, s) k"
proof -
  obtain meta where p: "probe_packet_of request s = enveloped_bytes \<lparr>env_meta = meta, env_message = RelayProbe request\<rparr>"
    using probe_packet_of_joined [OF s] by blast
  obtain s' where s': "ss_snapshot s' = ss_snapshot s" "ss_config s' = ss_config s"
      "send_numbered (\<lambda>_. None :: simulated_error option) (RelayProbe request) 1 s = (Ok (), s')"
    using probe_sent_session [OF s, where 'io = simulated_error] by blast
  have "simulated_probe request (c, s) k =
      k (Some (Err RelayTimeout)) (c\<lparr>fs_sent_packets := fs_sent_packets c + 1, drop_remaining := n\<rparr>, s')"
    using s c by (simp add: simulated_probe_def simulated_send_def simulated_receive_def p probe_once_def s' Let_def)
  with k [OF s'(1,2)] show ?thesis by simp
qed

lemma simulated_probe_offline:
  assumes s: "sn_state (ss_snapshot s) \<noteq> Disconnected" and c: "drop_remaining c = 0" "fs_offline c"
    and k: "\<And>s'. ss_snapshot s' = ss_snapshot s \<Longrightarrow> ss_config s' = ss_config s \<Longrightarrow>
      k (Some (Err (RelayIo ConnectionReset))) (c\<lparr>fs_sent_packets := fs_sent_packets c + 1\<rparr>, s')"
  shows "simulated_probe request (c, s) k"
proof -
  obtain meta where p: "probe_packet_of request s = enveloped_bytes \<lparr>env_meta = meta, env_message = RelayProbe request\<rparr>"
    using probe_packet_of_joined [OF s] by blast
  let ?s' = "snd (next_envelope_meta 1 s)"
  have "simulated_probe request (c, s) k =
      k (Some (Err (RelayIo ConnectionReset))) (c\<lparr>fs_sent_packets := fs_sent_packets c + 1\<rparr>, ?s')"
    using s c by (simp add: simulated_probe_def simulated_send_def p probe_once_def send_numbered_def send_envelope_def
        transmit_def next_envelope_meta_def Let_def)
  with k [of ?s'] show ?thesis by (simp add: next_envelope_meta_def Let_def)
qed

lemma simulated_probe_answered:
  assumes s: "sn_state (ss_snapshot s) \<noteq> Disconnected"
    and c: "drop_remaining c = 0" "\<not> fs_offline c" "fs_received_packets c = []"
    and delay: "fs_delay c \<le> cf_probe_timeout (ss_config s)"
    and k: "\<And>s'. sn_probe_failures (ss_snapshot s') = 0 \<Longrightarrow>
      k (Some (Ok (fs_delay c))) (c\<lparr>fs_sent_packets := fs_sent_packets c + 1, fs_received_packets := []\<rparr>, s')"
  shows "simulated_probe request (c, s) k"
proof -
  obtain meta where p: "probe_packet_of request s = enveloped_bytes \<lparr>env_meta = meta, env_message = RelayProbe request\<rparr>"
    using probe_packet_of_joined [OF s] by blast
  obtain s' where s': "ss_snapshot s' = ss_snapshot s" "ss_config s' = ss_config s"
      "send_numbered (\<lambda>_. None :: simulated_error option) (RelayProbe request) 1 s = (Ok (), s')"
    using probe_sent_session [OF s, where 'io = simulated_error] by blast
  have "simulated_probe request (c, s) k =
      k (Some (Ok (fs_delay c))) (c\<lparr>fs_sent_packets := fs_sent_packets c + 1, fs_received_packets := []\<rparr>, record_probe_success (fs_delay c) s')"
    using s c delay
    by (simp add: simulated_probe_def simulated_send_def simulated_receive_def p probe_once_def s' Let_def)
  with k [of "record_probe_success (fs_delay c) s'"] show ?thesis
    by (simp add: record_probe_success_def on_snapshot_def Let_def)
qed

lemma failing_probe_lost:
  assumes "sn_state (ss_snapshot s) \<noteq> Disconnected" "drop_remaining c = Suc n" "\<not> fs_offline c" "fs_received_packets c = []"
    and "\<And>s'. ss_config s' = ss_config s \<Longrightarrow> ss_snapshot s' = ss_snapshot (snd (record_probe_failure s)) \<Longrightarrow>
      k (c\<lparr>fs_sent_packets := fs_sent_packets c + 1, drop_remaining := n\<rparr>, s')"
  shows "failing_probe request (c, s) k"
  unfolding failing_probe_def
proof (rule simulated_probe_lost [OF assms(1-4)])
  fix s1 :: session
  assume "ss_snapshot s1 = ss_snapshot s" "ss_config s1 = ss_config s"
  then have "k (c\<lparr>fs_sent_packets := fs_sent_packets c + 1, drop_remaining := n\<rparr>, snd (record_probe_failure s1))"
    by (intro assms(5)) (simp_all add: record_probe_failure_def on_snapshot_def Let_def)
  then show "case (c\<lparr>fs_sent_packets := fs_sent_packets c + 1, drop_remaining := n\<rparr>, s1) of
      (c, s) \<Rightarrow> fails (Some (Err RelayTimeout)) \<and> k (c, snd (record_probe_failure s))"
    by (simp add: fails_def)
qed

text \<open>The five probes of the test, from the last one back.\<close>

lemma simulated_loss_delay_and_disconnect_recover_without_gameplay_replay_passes:
  "simulated_loss_delay_and_disconnect_recover_without_gameplay_replay"
proof -
  let ?config = "session_config_default\<lparr>cf_probe_timeout := from_millis 12\<rparr>"
  obtain k5 :: "(nat, simulated_error client_error) result option \<Rightarrow> fault_state \<times> session \<Rightarrow> bool" where k5_def: "k5 = (\<lambda>res (controller, session). (case res of Some (Ok rtt) \<Rightarrow> from_millis 2 \<le> rtt | _ \<Rightarrow> False) \<and>
      sn_probe_failures (ss_snapshot session) = 0 \<and> fs_sent_packets controller = 5)"
    by blast
  obtain k4 :: "(nat, simulated_error client_error) result option \<Rightarrow> fault_state \<times> session \<Rightarrow> bool" where k4_def: "k4 = (\<lambda>res (controller, session). fails res \<and>
      simulated_probe (DiscoveryRequestId 5) (controller\<lparr>fs_offline := False\<rparr>, session) k5)"
    by blast
  obtain k3 where k3_def: "k3 = (\<lambda>(controller, session). sn_state (ss_snapshot session) = Degraded \<and> sn_probe_failures (ss_snapshot session) = 3 \<and>
      simulated_probe (DiscoveryRequestId 4) (controller\<lparr>fs_offline := True\<rparr>, session) k4)"
    by blast
  obtain k2 where k2_def: "k2 = (\<lambda>st. failing_probe (DiscoveryRequestId 3) st k3)"
    by blast
  obtain k1 where k1_def: "k1 = (\<lambda>st. failing_probe (DiscoveryRequestId 2) st k2)"
    by blast
  let ?online = "\<lambda>drops n c. drop_remaining c = drops \<and> \<not> fs_offline c \<and> fs_delay c = from_millis 2 \<and>
      fs_sent_packets c = n \<and> fs_received_packets c = []"
  let ?session = "\<lambda>state failures s. ss_config s = ?config \<and> sn_state (ss_snapshot s) = state \<and>
      sn_probe_failures (ss_snapshot s) = failures"
  have probe5: "simulated_probe (DiscoveryRequestId 5) (c, s) k5" if "?online 0 4 c" "?session Degraded 3 s" for c s
    by (rule simulated_probe_answered) (use that in \<open>auto simp: k5_def from_millis_def\<close>)
  have probe4: "simulated_probe (DiscoveryRequestId 4) (c\<lparr>fs_offline := True\<rparr>, s) k4"
    if "?online 0 3 c" "?session Degraded 3 s" for c s
    by (rule simulated_probe_offline) (use that in \<open>auto simp: k4_def fails_def intro!: probe5\<close>)
  note failure_simps = record_probe_failure_def on_snapshot_def snapshot_new_def session_config_default_def
    saturating_add_def word_le_nat_alt Let_def
  have probe3: "failing_probe (DiscoveryRequestId 3) (c, s) k3" if "?online 1 2 c" "?session RoomJoined 2 s" for c s
    by (rule failing_probe_lost [where n = 0]) (use that probe4 in \<open>auto simp: k3_def failure_simps\<close>)
  have probe2: "failing_probe (DiscoveryRequestId 2) (c, s) k2" if "?online 2 1 c" "?session RoomJoined 1 s" for c s
    by (rule failing_probe_lost [where n = 1]) (use that in \<open>auto simp: k2_def failure_simps intro!: probe3\<close>)
  have probe1: "failing_probe (DiscoveryRequestId 1) (c, s) k1" if "?online 3 0 c" "?session RoomJoined 0 s" for c s
    by (rule failing_probe_lost [where n = 2]) (use that in \<open>auto simp: k1_def failure_simps intro!: probe2\<close>)
  show ?thesis
    unfolding simulated_loss_delay_and_disconnect_recover_without_gameplay_replay_def Let_def
    by (rule probe1 [unfolded k1_def k2_def k3_def k4_def k5_def])
      (simp_all add: mark_room_joined_def mark_authenticated_def with_config_def on_snapshot_def snapshot_new_def)
qed

subsection \<open>Configuration\<close>

definition config_normalization_removes_trailing_slashes :: bool where
  "config_normalization_removes_trailing_slashes =
     (let config = normalize_control_url \<lparr>cc_control_url = rstr ''https://example.test///'', cc_bearer_token = rstr ''token'',
            cc_relay_server = source_at 127 0 0 1, cc_relay_port = CLIENT_RELAY_PORT\<rparr> in
      cc_control_url config = rstr ''https://example.test'')"

lemma config_normalization_removes_trailing_slashes_passes: "config_normalization_removes_trailing_slashes"
  by (simp add: config_normalization_removes_trailing_slashes_def normalize_control_url_def rstr_def SLASH_def Let_def)

definition relay_port_overrides_the_port_in_the_server_setting :: bool where
  "relay_port_overrides_the_port_in_the_server_setting =
     (let config = \<lparr>cc_control_url = rstr ''http://127.0.0.1:8080'', cc_bearer_token = rstr ''token'',
            cc_relay_server = SocketAddr (IpV4 (ipv4_new 10 240 0 1)) 9999, cc_relay_port = 32001\<rparr> in
      relay_addr config = SocketAddr (IpV4 (ipv4_new 10 240 0 1)) 32001)"

lemma relay_port_overrides_the_port_in_the_server_setting_passes: "relay_port_overrides_the_port_in_the_server_setting"
  by (simp add: relay_port_overrides_the_port_in_the_server_setting_def relay_addr_def)

end
