(* ===== verification/Api_Tests.thy ===== *)
theory Api_Tests
  imports Testing Control_Interop
begin

section \<open>The tests of the control API\<close>

text \<open>
  The test module of \<open>server/src/api.rs\<close>. A request is routed by the route table from its method, path and JSON
  body and served in the world the requests before it have left; a path under \<open>/v1/rooms/\<close> is written with
  \<open>room_path\<close>, which puts the code and the rest behind that prefix. Fresh identifiers are numbered by request.
\<close>

subsection \<open>Requests\<close>

definition test_account :: auth_env where
  "test_account = \<lparr>ae_lowercase = map (\<lambda>c. if 65 \<le> c \<and> c \<le> 90 then c + 32 else c), ae_salt = Some (rstr ''salt''),
     ae_hash = (\<lambda>password salt. Some (rstr ''hash:'' @ password)), ae_parses = (\<lambda>_. True),
     ae_verify = (\<lambda>password h. h = rstr ''hash:'' @ password), ae_token = rstr ''session-token'', ae_now = 0\<rparr>"

definition test_request :: "nat \<Rightarrow> rstring option \<Rightarrow> env" where
  "test_request n authorization = \<lparr>e_authorization = authorization, e_limit_at = n, e_session_at = n, e_now = n, e_db_now = n,
     e_room_id = RoomId (word_of_nat n), e_random_code = random_code 0, e_peer_id = PeerId (word_of_nat n),
     e_host_id = HostSessionId (word_of_nat n), e_gameplay_id = GameplaySessionId (word_of_nat n),
     e_decode = (\<lambda>_. None), e_wg = (\<lambda>_. Ok ()), e_link = (\<lambda>_. LinkUp), e_other = (\<lambda>_ w. w)\<rparr>"

definition test_world :: "rstring \<Rightarrow> world" where
  "test_world token = \<lparr>w_app = app_new 0 token, w_db = empty_database, w_wg = []\<rparr>"

text \<open>\<open>app.oneshot(request).await.unwrap()\<close> with the assertion on the status; \<open>k\<close> is the rest of the test.\<close>

definition oneshot ::
  "env \<Rightarrow> http_method \<Rightarrow> rstring \<Rightarrow> json \<Rightarrow> world \<Rightarrow> nat \<Rightarrow> (api_body \<Rightarrow> world \<Rightarrow> bool) \<Rightarrow> bool" where
  "oneshot env m uri body w expected k =
     (case route_request letters_text test_account m uri (Some body) of
        None \<Rightarrow> False
      | Some request \<Rightarrow>
          (case serve env request w of
             (Some (status, b), w) \<Rightarrow> status = expected \<and> k b w
           | (None, w) \<Rightarrow> False))"

lemma oneshot_cong: "w = w' \<Longrightarrow> oneshot env m uri body w expected k = oneshot env m uri body w' expected k"
  by simp

lemma oneshot_routed:
  "route_request letters_text test_account m uri (Some body) = Some request \<Longrightarrow>
   oneshot env m uri body w expected k =
     (case serve env request w of (Some (status, b), w) \<Rightarrow> status = expected \<and> k b w | (None, w) \<Rightarrow> False)"
  by (simp add: oneshot_def)

definition authorized_request ::
  "nat \<Rightarrow> http_method \<Rightarrow> rstring \<Rightarrow> json \<Rightarrow> world \<Rightarrow> nat \<Rightarrow> (api_body \<Rightarrow> world \<Rightarrow> bool) \<Rightarrow> bool" where
  "authorized_request n = oneshot (test_request n (Some (rstr ''Bearer test-token'')))"

definition peer_body :: "api_body \<Rightarrow> (peer_response \<Rightarrow> bool) \<Rightarrow> bool" where
  "peer_body b k = (case b of PeerBody p \<Rightarrow> k p | _ \<Rightarrow> False)"

definition room_json :: "string \<Rightarrow> json" where
  "room_json code = JObject [(''room_code'', JText (rstr code))]"

definition no_json :: json where "no_json = JObject []"

lemma test_room_codes [simp]:
  "parse_code (rstr ''RMAAAA'') = Ok (RoomCode (rstr ''RMAAAA''))" "parse_code (rstr ''RMBBBB'') = Ok (RoomCode (rstr ''RMBBBB''))"
  "parse_code (rstr ''RMAUTH'') = Ok (RoomCode (rstr ''RMAUTH''))" "parse_code (rstr ''RMDELE'') = Ok (RoomCode (rstr ''RMDELE''))"
  "parse_code (rstr ''RMRECY'') = Ok (RoomCode (rstr ''RMRECY''))" "parse_code (rstr ''RMKEYS'') = Ok (RoomCode (rstr ''RMKEYS''))"
  by code_simp+

lemma test_code_parses:
  assumes h: "parse_code (rstr s) = Ok c"
  shows "test_code s = c \<and> well_formed_code c"
proof
  from h show "test_code s = c" by (simp add: test_code_def)
  show "well_formed_code c" using h parse_code_Ok_iff by blast
qed

lemma test_bearer [simp]: "strip_prefix (rstr ''Bearer '') (rstr ''Bearer test-token'') = Some (rstr ''test-token'')"
  by code_simp

lemma strip_own_prefix [simp]: "strip_prefix p (p @ s) = Some s"
  by (simp add: strip_prefix_def)

lemma ready_route: "route_request u ae GET (rstr ''/health/ready'') body = Some GetReady"
proof -
  have "rstr ''/health/ready'' = render_path [rstr ''health'', rstr ''ready'']"
    by (simp add: rstr_def SLASH_def)
  then show ?thesis by (simp add: route_eval del: render_path.simps)
qed

lemma room_json_read [simp]: "parse_code (rstr s) = Ok c \<Longrightarrow> get_create_request (room_json s) = Some (Some c)"
  by (simp add: get_create_request_def room_json_def optional_field_def get_code_def get_text_def)

lemma no_json_read [simp]:
  "get_join_request u no_json = Some \<lparr>jr_peer_id = None, jr_wireguard_public_key = None, jr_requested_virtual_ip = None\<rparr>"
  by (simp add: get_join_request_def no_json_def optional_field_def)

lemma test_paths:
  assumes "parse_code (rstr s) = Ok c"
  shows "route_request u ae DELETE (room_path (test_code s) []) body = Some (DeleteRoom (code_str c))"
    "route_request u ae POST (room_path (test_code s) (rstr ''/join'')) body =
       map_option (PostJoin (code_str c)) (Option.bind body (get_join_request u))"
    "route_request u ae POST (room_path (test_code s) (rstr ''/resume'')) body =
       map_option (PostResume (code_str c)) (Option.bind body (get_join_request u))"
    "route_request u ae GET (room_path (test_code s) (rstr ''/status'')) body = Some (GetStatus (code_str c))"
    "route_request u ae POST (room_path (test_code s) (rstr ''/hosts'')) body =
       map_option (PostHost (code_str c)) (Option.bind body (get_register_host_request u))"
    "route_request u ae POST (room_path (test_code s) (rstr ''/gameplay-sessions'')) body =
       map_option (PostGameplay (code_str c)) (Option.bind body (get_gameplay_request u))"
    "route_request letters_text ae DELETE (room_path (test_code s) (rstr ''/peers/'' @ ut_show letters_text x)) body =
       Some (DeletePeer (code_str c) (PeerId x))"
  using test_code_parses [OF assms] by (simp_all add: room_routes delete_routes letters_text_ok)

lemmas route_reads = oneshot_routed fixed_routes ready_route test_paths requests_back id_requests_back [OF letters_text_ok]

lemma first_addresses:
  "is_virtual_ip_available r (test_ip a b c 2) \<Longrightarrow> allocate_virtual_ip r (a, b, c) = Some (test_ip a b c 2)"
  "\<not> is_virtual_ip_available r (test_ip a b c 2) \<Longrightarrow> is_virtual_ip_available r (test_ip a b c 3) \<Longrightarrow>
   allocate_virtual_ip r (a, b, c) = Some (test_ip a b c 3)"
proof -
  have split: "[2..<255] = 2 # 3 # [4..<255]"
    by (simp add: upt_rec [of 2] upt_rec [of 3] del: upt_rec_numeral)
  show "is_virtual_ip_available r (test_ip a b c 2) \<Longrightarrow> allocate_virtual_ip r (a, b, c) = Some (test_ip a b c 2)"
    "\<not> is_virtual_ip_available r (test_ip a b c 2) \<Longrightarrow> is_virtual_ip_available r (test_ip a b c 3) \<Longrightarrow>
     allocate_virtual_ip r (a, b, c) = Some (test_ip a b c 3)"
    by (simp_all add: allocate_virtual_ip_def split test_ip_def del: upt_rec_numeral)
qed

lemmas api_eval = test_eval app_new_def limiter_new_def allow_def metrics_default_def duration_since_def
  API_REQUESTS_PER_SECOND_def UDP_PACKETS_PER_SECOND_def test_world_def test_request_def authorized_request_def
  reply_def into_response_def require_bearer_def require_admin_bearer_def limit_request_def refuse_def on_app_def
  router_op_def path_code_def room_of_code_def parse_room_code_def create_room_handler_def room_status_def
  delete_room_handler_def choose_address_def first_addresses join_section_def join_external_def join_room_handler_def resume_room_def
  register_host_handler_def create_gameplay_handler_def peer_section_def delete_external_def restore_external_def
  delete_peer_handler_def recover_def discard_def room_response_of_def host_response_of_def gameplay_response_of_def
  room_id_for_code_def is_virtual_ip_available_def peer_virtual_ip_def host_snapshot_of_def gameplay_snapshot_of_def
  leave_room_def record_authentication_failure_def test_metrics_def peer_body_def

subsection \<open>The tests\<close>

definition mutable_endpoints_require_bearer_token :: bool where
  "mutable_endpoints_require_bearer_token =
     oneshot (test_request 1 None) POST (rstr ''/v1/rooms'') (room_json ''RMAAAA'') (test_world (rstr ''test-token'')) 401 (\<lambda>_ _. True)"

lemma mutable_endpoints_require_bearer_token_passes: "mutable_endpoints_require_bearer_token"
  by (simp add: mutable_endpoints_require_bearer_token_def route_reads api_eval cong: test_cong oneshot_cong)

definition room_delete_requires_an_empty_room :: bool where
  "room_delete_requires_an_empty_room =
     (let app = test_world (rstr ''test-token''); room = room_path (test_code ''RMDELE'') in
      authorized_request 1 POST (rstr ''/v1/rooms'') (room_json ''RMDELE'') app 201 (\<lambda>_ app.
      authorized_request 2 POST (room (rstr ''/join'')) no_json app 201 (\<lambda>body app. peer_body body (\<lambda>peer.
      authorized_request 3 DELETE (room []) no_json app 409 (\<lambda>_ app.
      authorized_request 4 DELETE (room (rstr ''/peers/'' @ ut_show letters_text (peer_uuid (pe_peer_id peer)))) no_json app 204 (\<lambda>_ app.
      authorized_request 5 DELETE (room []) no_json app 204 (\<lambda>_ app.
      authorized_request 6 GET (room (rstr ''/status'')) no_json app 404 (\<lambda>_ _. True))))))))"

lemma room_delete_requires_an_empty_room_passes: "room_delete_requires_an_empty_room"
  by (simp add: room_delete_requires_an_empty_room_def route_reads api_eval cong: test_cong oneshot_cong)

definition in_memory_mode_is_ready_without_postgres :: bool where
  "in_memory_mode_is_ready_without_postgres =
     oneshot (test_request 1 None) GET (rstr ''/health/ready'') no_json (test_world (rstr ''test-token'')) 200 (\<lambda>body _.
       case body of
         HealthBody health \<Rightarrow> health_status health = ''ready_in_memory'' \<and> \<not> health_database_configured health
       | _ \<Rightarrow> False)"

lemma in_memory_mode_is_ready_without_postgres_passes: "in_memory_mode_is_ready_without_postgres"
  by (simp add: in_memory_mode_is_ready_without_postgres_def route_reads api_eval health_ready_def cong: test_cong oneshot_cong)

definition duplicate_room_codes_are_rejected_by_control_api :: bool where
  "duplicate_room_codes_are_rejected_by_control_api =
     authorized_request 1 POST (rstr ''/v1/rooms'') (room_json ''RMAAAA'') (test_world (rstr ''test-token'')) 201 (\<lambda>_ app.
     authorized_request 2 POST (rstr ''/v1/rooms'') (room_json ''RMAAAA'') app 409 (\<lambda>_ _. True))"

lemma duplicate_room_codes_are_rejected_by_control_api_passes: "duplicate_room_codes_are_rejected_by_control_api"
  by (simp add: duplicate_room_codes_are_rejected_by_control_api_def route_reads api_eval cong: test_cong oneshot_cong)

definition metrics_endpoint_requires_bearer_and_reports_auth_failures :: bool where
  "metrics_endpoint_requires_bearer_and_reports_auth_failures =
     oneshot (test_request 1 None) GET (rstr ''/v1/test/metrics'') no_json (test_world (rstr ''test-token'')) 401 (\<lambda>_ app.
     authorized_request 2 GET (rstr ''/v1/test/metrics'') no_json app 200 (\<lambda>body _.
       case body of
         MetricsBody m \<Rightarrow> 1 \<le> snap_authentication_failures m \<and> snap_active_rooms m = 0
       | _ \<Rightarrow> False))"

lemma test_admin_bearer [simp]: "rstr ''Bearer '' @ rstr ''test-token'' = rstr ''Bearer test-token''"
  by (simp add: rstr_def)

lemma metrics_endpoint_requires_bearer_and_reports_auth_failures_passes:
  "metrics_endpoint_requires_bearer_and_reports_auth_failures"
  by (simp add: metrics_endpoint_requires_bearer_and_reports_auth_failures_def route_reads api_eval metrics_snapshot_def
      cong: test_cong oneshot_cong)

definition registered_user_can_create_and_join_a_room_with_requested_wireguard_ip :: bool where
  "registered_user_can_create_and_join_a_room_with_requested_wireguard_ip =
     (let app = test_world (rstr ''test-token''); app = app\<lparr>w_app := with_virtual_ip_prefix (10, 10, 0) (w_app app)\<rparr>;
          alice = JObject [(''username'', JText (rstr ''Alice'')), (''password'', JText (rstr ''secret12''))];
          asking = JObject [(''requested_virtual_ip'', json_vip (test_ip 10 10 0 11))] in
      oneshot (test_request 1 None) POST (rstr ''/v1/auth/register'') alice app 201 (\<lambda>body app.
      case body of
        AuthBody auth \<Rightarrow>
          let as_alice = (\<lambda>n. oneshot (test_request n (Some (rstr ''Bearer '' @ as_access_token auth)))) in
          as_alice 2 POST (rstr ''/v1/rooms'') (room_json ''RMAUTH'') app 201 (\<lambda>_ app.
          as_alice 3 POST (room_path (test_code ''RMAUTH'') (rstr ''/join'')) asking app 201 (\<lambda>body _.
          peer_body body (\<lambda>peer. address (pe_virtual_ip peer) = ipv4_new 10 10 0 11)))
      | _ \<Rightarrow> False))"

lemma asking_read [simp]:
  "get_join_request u (JObject [(''requested_virtual_ip'', json_vip ip)]) =
     Some \<lparr>jr_peer_id = None, jr_wireguard_public_key = None, jr_requested_virtual_ip = Some ip\<rparr>"
  using vip_json.optional_put [of "[(''requested_virtual_ip'', json_vip ip)]" "''requested_virtual_ip''" "Some ip"]
  by (simp add: get_join_request_def json_option_def) (simp add: optional_field_def)

lemma test_account_simps [simp]: "ae_salt test_account = Some (rstr ''salt'')" "ae_token test_account = rstr ''session-token''"
    "ae_hash test_account password salt = Some (rstr ''hash:'' @ password)" "ae_now test_account = 0"
  by (simp_all add: test_account_def)

lemma alice [simp]: "validate_username test_account (rstr ''Alice'') = Ok (rstr ''alice'')"
    "validate_password (rstr ''secret12'') = Ok ()"
  by (simp_all add: validate_username_def validate_password_def test_account_def trim_def rstr_def is_whitespace_def is_control_def)

lemma registered_user_can_create_and_join_a_room_with_requested_wireguard_ip_passes:
  "registered_user_can_create_and_join_a_room_with_requested_wireguard_ip"
  by (simp add: registered_user_can_create_and_join_a_room_with_requested_wireguard_ip_def route_reads api_eval
      register_user_def hash_password_def create_client_session_def with_virtual_ip_prefix_def
      CLIENT_SESSION_TTL_def outside_subnet_def word_less_nat_alt cong: test_cong oneshot_cong)

text \<open>Two rooms, as two of the tests begin.\<close>

definition two_rooms :: "(world \<Rightarrow> bool) \<Rightarrow> bool" where
  "two_rooms test =
     authorized_request 1 POST (rstr ''/v1/rooms'') (room_json ''RMAAAA'') (test_world (rstr ''test-token'')) 201 (\<lambda>_ app.
     authorized_request 2 POST (rstr ''/v1/rooms'') (room_json ''RMBBBB'') app 201 (\<lambda>_ app. test app))"

definition host_json :: "peer_id \<Rightarrow> json" where
  "host_json p = JObject [(''peer_id'', json_uuid letters_text peer_uuid p)]"

definition gameplay_json :: "peer_id \<Rightarrow> host_session_id \<Rightarrow> json" where
  "gameplay_json p h = JObject [(''client_peer_id'', json_uuid letters_text peer_uuid p),
     (''host_session_id'', json_uuid letters_text host_uuid h)]"

definition host_body :: "api_body \<Rightarrow> (host_response \<Rightarrow> bool) \<Rightarrow> bool" where
  "host_body b k = (case b of HostBody h \<Rightarrow> k h | _ \<Rightarrow> False)"

definition room_body :: "api_body \<Rightarrow> (room_response \<Rightarrow> bool) \<Rightarrow> bool" where
  "room_body b k = (case b of RoomBody r \<Rightarrow> k r | _ \<Rightarrow> False)"

lemmas flow_eval = api_eval two_rooms_def host_json_def gameplay_json_def host_body_def room_body_def

definition cross_room_gameplay_selection_is_forbidden_by_control_api :: bool where
  "cross_room_gameplay_selection_is_forbidden_by_control_api = two_rooms (\<lambda>app.
     authorized_request 3 POST (room_path (test_code ''RMAAAA'') (rstr ''/join'')) no_json app 201 (\<lambda>body app. peer_body body (\<lambda>client_peer.
     authorized_request 4 POST (room_path (test_code ''RMBBBB'') (rstr ''/join'')) no_json app 201 (\<lambda>body app. peer_body body (\<lambda>host_peer.
     authorized_request 5 POST (room_path (test_code ''RMBBBB'') (rstr ''/hosts'')) (host_json (pe_peer_id host_peer)) app 201
       (\<lambda>body app. host_body body (\<lambda>host.
     authorized_request 6 POST (room_path (test_code ''RMAAAA'') (rstr ''/gameplay-sessions''))
       (gameplay_json (pe_peer_id client_peer) (ho_host_session_id host)) app 403 (\<lambda>_ _. True))))))))"

lemma cross_room_gameplay_selection_is_forbidden_by_control_api_passes:
  "cross_room_gameplay_selection_is_forbidden_by_control_api"
  by (simp add: cross_room_gameplay_selection_is_forbidden_by_control_api_def route_reads flow_eval cong: test_cong oneshot_cong)

definition cross_room_peer_delete_is_forbidden_and_preserves_peer :: bool where
  "cross_room_peer_delete_is_forbidden_and_preserves_peer = two_rooms (\<lambda>app.
     authorized_request 3 POST (room_path (test_code ''RMAAAA'') (rstr ''/join'')) no_json app 201 (\<lambda>body app. peer_body body (\<lambda>peer.
     authorized_request 4 DELETE (room_path (test_code ''RMBBBB'') (rstr ''/peers/'' @ ut_show letters_text (peer_uuid (pe_peer_id peer))))
       no_json app 403 (\<lambda>_ app.
     authorized_request 5 GET (room_path (test_code ''RMAAAA'') (rstr ''/status'')) no_json app 200 (\<lambda>body _.
       room_body body (\<lambda>room. ro_member_count room = 1))))))"

lemma cross_room_peer_delete_is_forbidden_and_preserves_peer_passes: "cross_room_peer_delete_is_forbidden_and_preserves_peer"
  by (simp add: cross_room_peer_delete_is_forbidden_and_preserves_peer_def route_reads flow_eval cong: test_cong oneshot_cong)

definition room_join_host_and_gameplay_flow_uses_router_state :: bool where
  "room_join_host_and_gameplay_flow_uses_router_state =
     (let room = room_path (test_code ''RMAAAA'') in
      authorized_request 1 POST (rstr ''/v1/rooms'') (room_json ''RMAAAA'') (test_world (rstr ''test-token'')) 201 (\<lambda>_ app.
      authorized_request 2 POST (room (rstr ''/join'')) no_json app 201 (\<lambda>body app. peer_body body (\<lambda>peer.
      authorized_request 3 POST (room (rstr ''/hosts'')) (host_json (pe_peer_id peer)) app 201 (\<lambda>body app. host_body body (\<lambda>host.
      authorized_request 4 POST (room (rstr ''/gameplay-sessions'')) (gameplay_json (pe_peer_id peer) (ho_host_session_id host)) app 201
        (\<lambda>_ app.
      authorized_request 5 GET (room (rstr ''/status'')) no_json app 200 (\<lambda>body _. room_body body (\<lambda>status.
        with_value (parse_code (rstr ''RMAAAA'')) (\<lambda>code. ro_room_code status = code) \<and> ro_member_count status = 1 \<and> ro_host_count status = 1)))))))))"

lemma room_join_host_and_gameplay_flow_uses_router_state_passes: "room_join_host_and_gameplay_flow_uses_router_state"
  by (simp add: room_join_host_and_gameplay_flow_uses_router_state_def route_reads flow_eval cong: test_cong oneshot_cong)

definition resume_endpoint_keeps_peer_identity_and_rotates_epoch :: bool where
  "resume_endpoint_keeps_peer_identity_and_rotates_epoch =
     (let room = room_path (test_code ''RMRECY'') in
      authorized_request 1 POST (rstr ''/v1/rooms'') (room_json ''RMRECY'') (test_world (rstr ''test-token'')) 201 (\<lambda>_ app.
      authorized_request 2 POST (room (rstr ''/join'')) no_json app 201 (\<lambda>body app. peer_body body (\<lambda>peer.
      unwrapped (router_op (expire (3 + from_secs 16)) app) (\<lambda>_ app.
      authorized_request 4 POST (room (rstr ''/resume'')) (host_json (pe_peer_id peer)) app 200 (\<lambda>body _. peer_body body (\<lambda>resumed.
        pe_peer_id resumed = pe_peer_id peer \<and> pe_virtual_ip resumed = pe_virtual_ip peer \<and>
        pe_connection_epoch resumed = pe_connection_epoch peer + 1)))))))"

lemma resume_endpoint_keeps_peer_identity_and_rotates_epoch_passes: "resume_endpoint_keeps_peer_identity_and_rotates_epoch"
  by (simp add: resume_endpoint_keeps_peer_identity_and_rotates_epoch_def route_reads flow_eval cong: test_cong oneshot_cong)

definition missing_wireguard_key_does_not_partially_join_peer :: bool where
  "missing_wireguard_key_does_not_partially_join_peer =
     (let app = test_world (rstr ''test-token'');
          app = app\<lparr>w_app := with_wireguard (WireGuardManager (rstr ''wg0'')) (w_app app)\<rparr> in
      authorized_request 1 POST (rstr ''/v1/rooms'') (room_json ''RMKEYS'') app 201 (\<lambda>_ app.
      authorized_request 2 POST (room_path (test_code ''RMKEYS'') (rstr ''/join'')) no_json app 400 (\<lambda>_ app.
      (case room_id_for_code (the_router app) (RoomCode (rstr ''RMKEYS'')) of
         None \<Rightarrow> False
       | Some room_id \<Rightarrow> with_value (room_snapshot_of (the_router app) room_id) (\<lambda>s. rsnap_member_count s = 0)))))"

lemma missing_wireguard_key_does_not_partially_join_peer_passes: "missing_wireguard_key_does_not_partially_join_peer"
  by (simp add: missing_wireguard_key_does_not_partially_join_peer_def route_reads flow_eval with_wireguard_def
      cong: test_cong oneshot_cong)

subsection \<open>The rate limit\<close>

primrec metrics_requests :: "nat list \<Rightarrow> world \<Rightarrow> bool" where
  "metrics_requests [] app = True"
| "metrics_requests (n # ns) app =
     authorized_request n GET (rstr ''/v1/test/metrics'') no_json app (if n < 120 then 200 else 429) (\<lambda>_ app. metrics_requests ns app)"

definition control_api_rate_limit_returns_429_after_the_window_budget :: bool where
  "control_api_rate_limit_returns_429_after_the_window_budget = metrics_requests [0..<121] (test_world (rstr ''test-token''))"

text \<open>The world after \<open>n\<close> requests differs in the entry of the token only.\<close>

definition used_budget :: "nat \<Rightarrow> world" where
  "used_budget n = on_app (api_rate_limiter_update (\<lambda>_. (limiter_new API_REQUESTS_PER_SECOND (from_secs 1))\<lparr>rl_entries :=
     (if n = 0 then fmempty else hinsert (rstr ''Bearer test-token'') \<lparr>rw_started_at = 0, rw_count = word_of_nat n\<rparr> fmempty)\<rparr>))
     (test_world (rstr ''test-token''))"

lemma budget_spent: "n < 120 \<Longrightarrow> \<not> (120 :: u64) \<le> word_of_nat n" "n < 120 \<Longrightarrow> word_of_nat n < (120 :: u64)"
  by (simp_all add: word_le_nat_alt word_less_nat_alt unat_of_nat)

lemma metrics_request_within_budget:
  assumes "n \<le> 120"
  shows "\<exists>b. serve (test_request n (Some (rstr ''Bearer test-token''))) GetMetrics (used_budget n) =
    (Some (if n < 120 then 200 else 429, b), used_budget (if n < 120 then Suc n else n))"
proof (cases "n < 120")
  case True
  then show ?thesis
    using budget_spent [OF True] by (cases "n = 0") (auto simp: used_budget_def api_eval add.commute)
next
  case False
  then have "n = 120"
    using assms by simp
  then show ?thesis
    by (auto simp: used_budget_def api_eval)
qed

lemma metrics_requests_within_budget: "n \<le> 120 \<Longrightarrow> metrics_requests [n..<121] (used_budget n)"
proof (induction "120 - n" arbitrary: n)
  case 0
  then have "n = 120" by simp
  then show ?case
    using metrics_request_within_budget [of 120]
    by (auto simp: upt_rec [of 120] authorized_request_def oneshot_routed fixed_routes simp del: upt_rec_numeral)
next
  case (Suc k)
  then have "n < 120" "metrics_requests [Suc n..<121] (used_budget (Suc n))" by simp_all
  moreover have "[n..<121] = n # [Suc n..<121]"
    using \<open>n < 120\<close> by (simp add: upt_conv_Cons)
  ultimately show ?case
    using metrics_request_within_budget [of n] by (auto simp: authorized_request_def oneshot_routed fixed_routes)
qed

lemma control_api_rate_limit_returns_429_after_the_window_budget_passes:
  "control_api_rate_limit_returns_429_after_the_window_budget"
proof -
  have "used_budget 0 = test_world (rstr ''test-token'')"
    by (simp add: used_budget_def test_world_def on_app_def app_new_def limiter_new_def)
  then show ?thesis
    using metrics_requests_within_budget [of 0] by (simp add: control_api_rate_limit_returns_429_after_the_window_budget_def
        del: upt_rec_numeral upt_conv_Cons)
qed

end
