(* ===== verification/Spec2Isabelle.thy ===== *)
theory Spec2Isabelle
  imports Codec_Correct Router_Lifecycle Router_Spec Rate_Limiter Metrics App_State Relay Database Server_Start
    Api_Blocked Client_Link Client_Server WireGuard_Run Router_Tests Protocol_Tests Client_Tests Api_Tests
begin

section \<open>The LAN bridge: a model and its correctness\<close>

text \<open>
  The program bridges the LAN multiplayer of Civilization VI over the internet. Peers join a \<^emph>\<open>room\<close>
  through an HTTP control API and get a virtual address in a WireGuard subnet. A peer may register as a
  \<^emph>\<open>host\<close>; discovery datagrams are fanned out to the live hosts of the room and their responses routed
  back, and a selected host opens a \<^emph>\<open>gameplay session\<close> whose datagrams are routed between its two ends.
  Datagrams travel in an envelope over UDP; the server knows a peer by the virtual address it sends from.

  \<^bold>\<open>Parts and their theories.\<close>

  \<^item> \<open>Prelude\<close>: Rust's \<open>Result\<close> with a value for a panic, hash maps and sets as finite maps and sets,
    instants and durations in nanoseconds, and the locales of runs: \<open>step_invariant\<close> (an invariant of
    reachable states) and \<open>simulation\<close> (a run of one machine seen as a run of another).
  \<^item> \<open>crates/protocol/src/lib.rs\<close> is \<open>Protocol\<close>: identifiers, ports, room codes.
    \<open>crates/protocol/src/relay.rs\<close> is \<open>Relay_Codec\<close>, whose indexing and slicing panic out of range as Rust's do;
    \<open>Codec_Correct\<close> has the round trips, over the locale of a wire field and its interpretations, and that no
    packet makes the decoder panic.
  \<^item> \<open>crates/router/src/lib.rs\<close> is \<open>Router\<close> (state, rooms, peers) and \<open>Router_Sessions\<close> (hosts, discovery,
    gameplay, expiry, \<open>dispatch\<close>). \<open>Router_Inv\<close>, \<open>Router_Preserve\<close> and \<open>Router_Steps\<close> hold the invariant of its
    eight tables and its preservation, \<open>Router_Safety\<close> the absence of panics and the isolation of rooms,
    \<open>Router_Routing\<close> the exact routing decisions, \<open>Router_Lifecycle\<close> joining, resuming and expiry, and
    \<open>Router_Spec\<close> the refinement of a specification without indexes.
  \<^item> \<open>server/src/state.rs\<close> is \<open>App_State\<close> and \<open>Rate_Limiter\<close>; \<open>server/src/wireguard.rs\<close> is in
    \<open>App_State\<close> (keys, argument vectors) and \<open>WireGuard_Run\<close> (the outcome of a command, UTF-8 decoding);
    \<open>server/src/metrics.rs\<close> is \<open>Metrics\<close>; \<open>server/src/db.rs\<close> with its migration is \<open>Database\<close>.
  \<^item> \<open>server/src/relay.rs\<close> is \<open>Relay\<close>: \<open>handle_datagram\<close> from bytes to datagrams, and the loop of the server.
  \<^item> \<open>server/src/api.rs\<close> is \<open>Api\<close> (errors, bearer checks, accounts), \<open>Api_Handlers\<close> (every handler) and
    \<open>Control_Server\<close> (the route table, what routes extract and answer as JSON). \<open>Api_Safety\<close> lifts the router's and the
    schema's invariants to every interleaving of requests, \<open>Api_Auth\<close> is about admission and accounts,
    \<open>Api_Rooms\<close> and \<open>Api_Mirror\<close> about the agreement of router, database, WireGuard and keys, and \<open>Api_Blocked\<close>
    about addresses the database holds longer than the router. They speak of requests that are \<open>undisturbed\<close> (no
    other request runs while one waits; every call may fail) or \<open>settled\<close> (besides, no reply of the database is lost: a
    statement that fails has done nothing). A lost reply is the one failure that joining and deleting do not
    undo, and their theorems say what it leaves behind.
  \<^item> \<open>server/src/main.rs\<close> is \<open>Server_Start\<close>, with the restart of a server on its own database. How PostgreSQL renders an
    address as text is a field of the settings; the restart is stated for bare addresses and for those with a
    netmask, with which it fails once a peer is stored.
  \<^item> \<open>crates/client-core/src/lib.rs\<close> is \<open>Client_Session\<close> (\<open>RelayClient\<close>, \<open>RelaySession\<close>) and \<open>Client_Control\<close>
    (\<open>ClientConfig\<close>, \<open>ControlClient\<close>). \<open>Client_Correct\<close> has what every operation of a session keeps, over the
    locale of a relation between sessions; \<open>Client_Link\<close> the refinement of a link machine by
    \<open>run_with_reconnect\<close>, its backoff, and the end of the discovery retries. \<open>Control_Wire\<close> is the data both ends of
    the control API exchange, \<open>Control_Interop\<close> that they fit, and \<open>Client_Server\<close> runs a client session against
    the relay and the API.

  \<^bold>\<open>The unit tests of the source.\<close> The model is checked against what the authors of the program test. \<open>Testing\<close>
  says how a test is written; \<open>Protocol_Tests\<close>, \<open>Router_Tests\<close>, \<open>Relay_Tests\<close>, \<open>Client_Tests\<close> and \<open>Api_Tests\<close>
  hold the test modules, each test a definition with the name of the test function and each lemma \<open>\<dots>_passes\<close> its
  passing on the model. Tests over live sockets become a run of client and server definitions with the packets
  handed over between them; requests to the API go through the route table and the JSON of their bodies. Two tests have no
  counterpart: the one that compares the server's codec with the client's, which are one function here, and the one that
  drives the client against a live HTTP server, whose ground \<open>client_reaches_handlers\<close> covers for every request.

  \<^bold>\<open>How state corresponds.\<close> A struct is a record with the source's fields, an enum a datatype with its variants,
  an integer a word of its width or, where it is a \<open>usize\<close> that only counts what is in memory, a natural number.
  An operation that takes \<open>&mut self\<close> returns its \<open>Result\<close> with the new state, on error paths too. A lock that
  is held for a whole method makes it one step; a handler that gives the router's lock up while it waits for
  the database or for \<open>wg\<close> is split there, and what other requests do meanwhile is an argument (\<open>e_other\<close>).
  Fresh identifiers, clock readings, hashes and the outcome of every external call are arguments too.

  \<^bold>\<open>Loops, bounds and fuel.\<close> No definition needs fuel. The loops over tables recurse over their lists. The loops
  that wait for the world (the server's \<open>run\<close>, \<open>probe_once\<close>, \<open>run_with_reconnect\<close>, \<open>send_discovery_with_retry\<close>)
  recurse over the events the world supplies, and have no value while these have not ended the loop; that
  they do end is proved where the code promises it: \<open>Client_Link\<close> bounds the discovery rounds by the window
  and the interval, and in \<open>Client_Server\<close> the answers of the modelled server end the waits for a probe and a resume.
  \<open>Instant::now() + ttl\<close> is taken not to overflow, as in a process that runs for less than centuries; the \<open>u32\<close> count
  of discovery sends panics when it overflows.

  \<^bold>\<open>What is not modelled.\<close>

  \<^item> Poisoned mutexes: they need a panic in a critical section, and the sections have none.
  \<^item> The order in which a hash map is iterated, which Rust leaves open: the model takes ascending keys, and the
    theorems about such lists say what is in them and how often.
  \<^item> Argon2, base64, the digits of a UUID, JSON text, percent-encoding, HTTP framing and what the web framework answers
    when no route or extractor matches: parameters of the definitions that use them.
  \<^item> Sockets, the connection pool, running migrations, starting the \<open>wg\<close> process, reading the environment, logging: input and
    output, present as outcomes. \<open>UdpDatagramTransport\<close> is one transport of the session, which is modelled
    over any; its socket calls and \<open>TestSessionManifest\<close>, a file of the test driver, are left out.
  \<^item> The end-to-end test driver, the desktop interface in TypeScript, the first relay in Python, and the deployment
    scripts are not part of the Rust program's logic.
\<close>

end
